(* ===== verification/Prelude.thy ===== *)
theory Prelude
  imports Main "HOL-Library.List_Lexorder" "HOL-Library.Char_ord"
    "HOL-Library.Product_Lexorder"
begin

text \<open>
  Shared ground of the development: Go results as sums, the parts of Go's
  \<^verbatim>\<open>strings\<close> and \<^verbatim>\<open>time\<close> packages the modelled code uses, SQL tables as lists of
  rows, and the transaction monad in which every repository method and every
  service that opens a \<^verbatim>\<open>pgx.Tx\<close> is written.

  A transaction runs against an \<open>environment\<close>: the wall clock, the failures of
  database calls, the cancellation of the request context and the changes other
  sessions commit meanwhile are functions of the number of calls made so far, so a
  theorem that holds for every environment holds for every failure pattern and
  every interleaving with other sessions at the points where a session can wait.
\<close>

named_theorems go_defs \<open>definitions of Go helper functions\<close>
named_theorems guar_rules \<open>structural rules for two-state guarantees\<close>

subsection \<open>Results\<close>

definition rbind :: "'e + 'a \<Rightarrow> ('a \<Rightarrow> 'e + 'b) \<Rightarrow> 'e + 'b" where
  "rbind r k = (case r of Inl e \<Rightarrow> Inl e | Inr x \<Rightarrow> k x)"

lemma rbind_simps [simp]: "rbind (Inl e) k = Inl e" "rbind (Inr x) k = k x"
  by (simp_all add: rbind_def)

lemma rbind_Inr_iff: "rbind r k = Inr y \<longleftrightarrow> (\<exists>x. r = Inr x \<and> k x = Inr y)"
  by (cases r) auto

lemma rbind_Inl_iff:
  "rbind r k = Inl e \<longleftrightarrow> r = Inl e \<or> (\<exists>x. r = Inr x \<and> k x = Inl e)"
  by (cases r) auto

definition is_ok :: "'e + 'a \<Rightarrow> bool" where
  "is_ok r = (case r of Inl _ \<Rightarrow> False | Inr _ \<Rightarrow> True)"

lemma is_ok_simps [simp]: "is_ok (Inr x)" "\<not> is_ok (Inl e)"
  by (simp_all add: is_ok_def)

lemma is_ok_iff: "is_ok r \<longleftrightarrow> (\<exists>x. r = Inr x)"
  by (cases r) auto

subsection \<open>Strings\<close>

text \<open>
  A Go string is a byte string: Isabelle's \<open>string\<close>, whose characters are bytes.
  \<open>strings.TrimSpace\<close> removes leading and trailing runes of Unicode's White\_Space
  property; \<open>white_space\<close> lists their UTF-8 encodings.
\<close>

definition white_space :: "string list" where
  "white_space =
     map (\<lambda>n. [char_of n]) [9, 10, 11, 12, 13, 32 :: nat]
     @ map (map char_of) [[194, 133], [194, 160 :: nat]]
     @ map (map char_of) ([225, 154, 128 :: nat] # map (\<lambda>n. [226, 128, n])
         ([128..<139] @ [168, 169, 175]) @ [[226, 129, 159], [227, 128, 128]])"

fun strip_prefix :: "string \<Rightarrow> string \<Rightarrow> string option" where
  "strip_prefix [] s = Some s"
| "strip_prefix (p # ps) [] = None"
| "strip_prefix (p # ps) (c # s) = (if p = c then strip_prefix ps s else None)"

fun drop_first_match :: "string list \<Rightarrow> string \<Rightarrow> string option" where
  "drop_first_match [] s = None"
| "drop_first_match (p # ps) s =
     (case strip_prefix p s of None \<Rightarrow> drop_first_match ps s | Some s' \<Rightarrow> Some s')"

lemma strip_prefix_Some: "strip_prefix p s = Some s' \<Longrightarrow> s = p @ s'"
  by (induction p s rule: strip_prefix.induct) (auto split: if_splits)

lemma strip_prefix_append [simp]: "strip_prefix p (p @ s) = Some s"
  by (induction p) auto

lemma drop_first_match_Some:
  "drop_first_match ps s = Some s' \<Longrightarrow> \<exists>p \<in> set ps. s = p @ s'"
  by (induction ps s rule: drop_first_match.induct)
     (auto split: option.splits dest: strip_prefix_Some)

lemma white_space_not_empty: "[] \<notin> set white_space"
  by (auto simp: white_space_def)

text \<open>
  The trimming loop, over fuel that bounds the number of runes left to remove; every
  removed rune has at least one byte, so the length of the string is enough.
\<close>

primrec trim_left_fuel :: "nat \<Rightarrow> string list \<Rightarrow> string \<Rightarrow> string" where
  "trim_left_fuel 0 ps s = s"
| "trim_left_fuel (Suc n) ps s =
     (case drop_first_match ps s of None \<Rightarrow> s | Some s' \<Rightarrow> trim_left_fuel n ps s')"

definition trim_left :: "string list \<Rightarrow> string \<Rightarrow> string" where
  "trim_left ps s = trim_left_fuel (length s) ps s"

definition trim_space :: "string \<Rightarrow> string" where
  "trim_space s = rev (trim_left (map rev white_space) (rev (trim_left white_space s)))"

lemma trim_left_fuel_done:
  assumes "[] \<notin> set ps" and "length s \<le> n"
  shows "drop_first_match ps (trim_left_fuel n ps s) = None"
  using assms(2)
proof (induction n arbitrary: s)
  case 0
  then have "s = []" by simp
  have "strip_prefix p [] = None" if "p \<noteq> []" for p
    using that by (cases p) auto
  then have "drop_first_match ps [] = None"
    using assms(1) by (induction ps) auto
  with \<open>s = []\<close> show ?case by simp
next
  case (Suc n)
  show ?case
  proof (cases "drop_first_match ps s")
    case None
    then show ?thesis by simp
  next
    case (Some s')
    then obtain p where "p \<in> set ps" and "s = p @ s'"
      by (blast dest: drop_first_match_Some)
    with assms(1) Suc.prems have "length s' \<le> n" by (cases p) auto
    with Some Suc.IH show ?thesis by simp
  qed
qed

lemma trim_left_fuel_suffix: "\<exists>p. s = p @ trim_left_fuel n ps s"
proof (induction n arbitrary: s)
  case (Suc n)
  show ?case
  proof (cases "drop_first_match ps s")
    case (Some s')
    then obtain q where "s = q @ s'" by (blast dest: drop_first_match_Some)
    moreover obtain p where "s' = p @ trim_left_fuel n ps s'" using Suc.IH by blast
    ultimately have "s = (q @ p) @ trim_left_fuel n ps s'" by simp
    with Some show ?thesis by (metis option.simps(5) trim_left_fuel.simps(2))
  qed simp
qed simp

lemma trim_left_id: "drop_first_match ps s = None \<Longrightarrow> trim_left ps s = s"
  by (cases s) (auto simp: trim_left_def)

lemma trim_space_Nil [simp]: "trim_space [] = []"
  by (simp add: trim_space_def trim_left_def)

lemma trim_space_length: "length (trim_space s) \<le> length s"
proof -
  have len: "length (trim_left ps t) \<le> length t" for ps t
    unfolding trim_left_def
    by (metis length_append le_add2 trim_left_fuel_suffix)
  show ?thesis
    unfolding trim_space_def using len order_trans by (metis length_rev)
qed

text \<open>Text between printable ASCII characters has nothing to trim.\<close>

definition graphic :: "char \<Rightarrow> bool" where
  "graphic c \<longleftrightarrow> 33 \<le> (of_char c :: nat) \<and> (of_char c :: nat) \<le> 126"

lemma drop_first_match_other:
  "(\<forall>p \<in> set ps. p \<noteq> [] \<and> hd p \<noteq> c) \<Longrightarrow> drop_first_match ps (c # s) = None"
proof (induction ps)
  case (Cons p ps)
  then show ?case by (cases p) auto
qed simp

lemma white_space_heads:
  "p \<in> set white_space \<Longrightarrow> p \<noteq> [] \<and> \<not> graphic (hd p) \<and> \<not> graphic (last p)"
  by (auto simp: white_space_def graphic_def)

lemma trim_space_graphic:
  assumes "s \<noteq> []" and "graphic (hd s)" and "graphic (last s)"
  shows "trim_space s = s"
proof -
  have "drop_first_match white_space s = None"
    using assms(1,2) white_space_heads by (cases s) (auto intro!: drop_first_match_other)
  then have 1: "trim_left white_space s = s" by (rule trim_left_id)
  have "drop_first_match (map rev white_space) (rev s) = None"
    using assms(1,3) white_space_heads white_space_not_empty
    by (cases s rule: rev_cases) (auto intro!: drop_first_match_other simp: hd_rev)
  then have 2: "trim_left (map rev white_space) (rev s) = rev s" by (rule trim_left_id)
  show ?thesis by (simp add: trim_space_def 1 2)
qed

definition is_digit :: "char \<Rightarrow> bool" where
  "is_digit c = (CHR ''0'' \<le> c \<and> c \<le> CHR ''9'')"

definition is_lower :: "char \<Rightarrow> bool" where
  "is_lower c = (CHR ''a'' \<le> c \<and> c \<le> CHR ''z'')"

definition is_upper :: "char \<Rightarrow> bool" where
  "is_upper c = (CHR ''A'' \<le> c \<and> c \<le> CHR ''Z'')"

definition is_lower_hex :: "char \<Rightarrow> bool" where
  "is_lower_hex c = (is_digit c \<or> CHR ''a'' \<le> c \<and> c \<le> CHR ''f'')"

declare is_digit_def [go_defs] is_lower_def [go_defs] is_upper_def [go_defs]
  is_lower_hex_def [go_defs]

text \<open>\<open>strconv.FormatInt(n, 10)\<close>: the decimal representation.\<close>

fun format_nat :: "nat \<Rightarrow> string" where
  "format_nat n =
     (if n < 10 then [char_of (48 + n)] else format_nat (n div 10) @ [char_of (48 + n mod 10)])"

declare format_nat.simps [simp del]

definition format_int :: "int \<Rightarrow> string" where
  "format_int i = (if i < 0 then CHR ''-'' # format_nat (nat (- i)) else format_nat (nat i))"

lemma format_nat_nonempty: "format_nat n \<noteq> []"
  by (subst format_nat.simps) simp

subsection \<open>Time\<close>

text \<open>
  A \<^verbatim>\<open>time.Time\<close> is an instant: nanoseconds since Go's zero time. \<open>UTC()\<close> keeps the
  instant, \<open>IsZero\<close> compares with the zero time, \<open>Truncate\<close> rounds down to a multiple
  since the zero time. A \<^verbatim>\<open>time.Duration\<close> is a number of nanoseconds.
\<close>

type_synonym time = int
type_synonym duration = int

abbreviation microsecond :: duration where "microsecond \<equiv> 1000"
abbreviation second :: duration where "second \<equiv> 1000000000"
abbreviation minute :: duration where "minute \<equiv> 60000000000"
abbreviation hour :: duration where "hour \<equiv> 3600000000000"

definition is_zero :: "time \<Rightarrow> bool" where
  "is_zero t = (t = 0)"

definition truncate_us :: "time \<Rightarrow> time" where
  "truncate_us t = t - t mod microsecond"

lemma truncate_us_idem [simp]: "truncate_us (truncate_us t) = truncate_us t"
  by (simp add: truncate_us_def minus_mod_eq_mult_div)

lemma truncate_us_le: "truncate_us t \<le> t"
  by (simp add: truncate_us_def)

lemma truncate_us_mono: "s \<le> t \<Longrightarrow> truncate_us s \<le> truncate_us t"
  by (simp add: truncate_us_def minus_mod_eq_mult_div zdiv_mono1)

subsection \<open>SQL tables\<close>

text \<open>
  A table is the list of its rows. \<open>UPDATE .. SET f WHERE p\<close> rewrites the rows that
  satisfy \<open>p\<close>; \<open>RETURNING\<close> and \<open>SELECT\<close> read the rows in table order.
\<close>

definition sql_update :: "('r \<Rightarrow> bool) \<Rightarrow> ('r \<Rightarrow> 'r) \<Rightarrow> 'r list \<Rightarrow> 'r list" where
  "sql_update p f t = map (\<lambda>r. if p r then f r else r) t"

definition sql_returning :: "('r \<Rightarrow> bool) \<Rightarrow> ('r \<Rightarrow> 'r) \<Rightarrow> 'r list \<Rightarrow> 'r list" where
  "sql_returning p f t = map f (filter p t)"

definition query_row :: "('r \<Rightarrow> bool) \<Rightarrow> 'r list \<Rightarrow> 'r option" where
  "query_row p t = List.find p t"

definition sql_exists :: "('r \<Rightarrow> bool) \<Rightarrow> 'r list \<Rightarrow> bool" where
  "sql_exists p t = list_ex p t"

text \<open>\<open>ORDER BY \<dots> LIMIT 1\<close>.\<close>

definition first_by :: "('r \<Rightarrow> 'k :: linorder) \<Rightarrow> 'r list \<Rightarrow> 'r option" where
  "first_by k t = (case sort_key k t of [] \<Rightarrow> None | r # _ \<Rightarrow> Some r)"

lemma first_by_Some:
  assumes "first_by k t = Some r"
  shows "r \<in> set t \<and> (\<forall>x \<in> set t. k r \<le> k x)"
proof -
  obtain rs where rs: "sort_key k t = r # rs"
    using assms by (auto simp: first_by_def split: list.splits)
  then have "set t = set (r # rs)" by (metis set_sort)
  moreover have "sorted (map k (r # rs))" by (metis rs sorted_sort_key)
  ultimately show ?thesis by auto
qed

lemma first_by_None: "first_by k t = None \<longleftrightarrow> t = []"
  by (auto simp: first_by_def split: list.splits) (metis set_empty set_sort empty_set)+

lemma set_sql_update: "set (sql_update p f t) = (\<lambda>r. if p r then f r else r) ` set t"
  by (simp add: sql_update_def)

lemma length_sql_update [simp]: "length (sql_update p f t) = length t"
  by (simp add: sql_update_def)

lemma map_sql_update: "(\<And>r. k (f r) = k r) \<Longrightarrow> map k (sql_update p f t) = map k t"
  by (simp add: sql_update_def)

lemma sql_update_none: "\<forall>r \<in> set t. \<not> p r \<Longrightarrow> sql_update p f t = t"
  by (simp add: sql_update_def map_idI)

lemma query_row_Some: "query_row p t = Some r \<Longrightarrow> r \<in> set t \<and> p r"
  by (auto simp: query_row_def find_Some_iff)

lemma query_row_None: "query_row p t = None \<longleftrightarrow> (\<forall>r \<in> set t. \<not> p r)"
  by (auto simp: query_row_def find_None_iff)

lemma sql_exists_iff: "sql_exists p t \<longleftrightarrow> (\<exists>r \<in> set t. p r)"
  by (simp add: sql_exists_def list_ex_iff)

lemma query_row_unique:
  assumes "distinct (map k t)" and "r \<in> set t" and "k r = x"
  shows "query_row (\<lambda>r. k r = x) t = Some r"
  using assms by (induction t) (auto simp: query_row_def image_iff)

text \<open>
  A table that only grows and whose rows only change by \<open>S\<close>: every row is still at its place.
  \<open>row_step\<close> is the interface of such a relation between the versions of a row.
\<close>

definition grown_by :: "('r \<Rightarrow> 'r \<Rightarrow> bool) \<Rightarrow> 'r list \<Rightarrow> 'r list \<Rightarrow> bool" where
  "grown_by S t t' \<longleftrightarrow> list_all2 S t (take (length t) t')"

lemma grown_by_length: "grown_by S t t' \<Longrightarrow> length t \<le> length t'"
  by (auto simp: grown_by_def dest: list_all2_lengthD)

lemma grown_by_nth:
  "grown_by S t t' \<longleftrightarrow> length t \<le> length t' \<and> (\<forall>i < length t. S (t ! i) (t' ! i))"
  by (auto simp: grown_by_def list_all2_conv_all_nth)

locale row_step =
  fixes S :: "'r \<Rightarrow> 'r \<Rightarrow> bool"
  assumes S_refl: "S r r"
    and S_trans: "S a b \<Longrightarrow> S b c \<Longrightarrow> S a c"
begin

lemma grown_refl: "grown_by S t t"
  by (simp add: grown_by_nth S_refl)

lemma grown_trans: "grown_by S t u \<Longrightarrow> grown_by S u v \<Longrightarrow> grown_by S t v"
  unfolding grown_by_nth by (meson S_trans less_le_trans order_trans)

lemma grown_append: "grown_by S t (t @ ts)"
  by (simp add: grown_by_nth nth_append S_refl)

lemma grown_update: "(\<And>r. r \<in> set t \<Longrightarrow> p r \<Longrightarrow> S r (f r)) \<Longrightarrow> grown_by S t (sql_update p f t)"
  by (simp add: grown_by_nth sql_update_def S_refl)

end

end
