(* ===== verification/ProviderIdentity.thy ===== *)
theory ProviderIdentity
  imports Prelude
begin

text \<open>
  \<^verbatim>\<open>internal/provideridentity/policy.go\<close>, the one boundary every provider identifier
  passes before it is stored, compared or digested, and the regular expressions of
  canonical UUIDs. Go's Unicode tables beyond ASCII are a parameter, \<open>unicode_tables\<close>;
  on ASCII they are written out.
\<close>

record unicode_tables =
  rune_print :: "nat \<Rightarrow> bool"
  rune_space :: "nat \<Rightarrow> bool"
  rune_letter :: "nat \<Rightarrow> bool"
  rune_lower :: "nat \<Rightarrow> nat"

definition IsPrint :: "unicode_tables \<Rightarrow> nat \<Rightarrow> bool" where
  "IsPrint U r = (if r < 128 then 32 \<le> r \<and> r \<le> 126 else rune_print U r)"

definition IsSpace :: "unicode_tables \<Rightarrow> nat \<Rightarrow> bool" where
  "IsSpace U r = (if r < 128 then 9 \<le> r \<and> r \<le> 13 \<or> r = 32 else rune_space U r)"

definition IsLetter :: "unicode_tables \<Rightarrow> nat \<Rightarrow> bool" where
  "IsLetter U r = (if r < 128 then 65 \<le> r \<and> r \<le> 90 \<or> 97 \<le> r \<and> r \<le> 122 else rune_letter U r)"

definition ToLower :: "unicode_tables \<Rightarrow> nat \<Rightarrow> nat" where
  "ToLower U r = (if r < 128 then (if 65 \<le> r \<and> r \<le> 90 then r + 32 else r) else rune_lower U r)"

subsection \<open>UTF-8\<close>

definition cont_byte :: "nat \<Rightarrow> bool" where
  "cont_byte b \<longleftrightarrow> 128 \<le> b \<and> b < 192"

text \<open>\<open>utf8.ValidString\<close> together with the runes a \<open>range\<close> loop visits: no overlong
  encodings, no surrogates, nothing above U+10FFFF.\<close>

fun utf8_decode :: "nat list \<Rightarrow> nat list option" where
  "utf8_decode [] = Some []"
| "utf8_decode (a # bs) =
    (if a < 128 then map_option ((#) a) (utf8_decode bs)
     else if 194 \<le> a \<and> a < 224 then
       (case bs of
          b # bs' \<Rightarrow> if cont_byte b
            then map_option ((#) ((a - 192) * 64 + (b - 128))) (utf8_decode bs') else None
        | _ \<Rightarrow> None)
     else if 224 \<le> a \<and> a < 240 then
       (case bs of
          b # c # bs' \<Rightarrow>
            if cont_byte b \<and> cont_byte c \<and> (a = 224 \<longrightarrow> 160 \<le> b) \<and> (a = 237 \<longrightarrow> b < 160)
            then map_option ((#) (((a - 224) * 64 + (b - 128)) * 64 + (c - 128))) (utf8_decode bs')
            else None
        | _ \<Rightarrow> None)
     else if 240 \<le> a \<and> a < 245 then
       (case bs of
          b # c # e # bs' \<Rightarrow>
            if cont_byte b \<and> cont_byte c \<and> cont_byte e \<and> (a = 240 \<longrightarrow> 144 \<le> b) \<and> (a = 244 \<longrightarrow> b < 144)
            then map_option ((#) ((((a - 240) * 64 + (b - 128)) * 64 + (c - 128)) * 64 + (e - 128)))
                   (utf8_decode bs')
            else None
        | _ \<Rightarrow> None)
     else None)"

definition runes :: "string \<Rightarrow> nat list option" where
  "runes s = utf8_decode (map of_char s)"

subsection \<open>Canonical UUIDs\<close>

text \<open>A regular expression that is a fixed sequence of character classes.\<close>

definition matches :: "(nat \<Rightarrow> bool) list \<Rightarrow> nat list \<Rightarrow> bool" where
  "matches p s = list_all2 (\<lambda>f c. f c) p s"

definition hex_class :: "nat \<Rightarrow> bool" where
  "hex_class c \<longleftrightarrow> 48 \<le> c \<and> c \<le> 57 \<or> 97 \<le> c \<and> c \<le> 102"

definition dash_class :: "nat \<Rightarrow> bool" where
  "dash_class c \<longleftrightarrow> c = 45"

definition uuid_pattern :: "(nat \<Rightarrow> bool) list" where
  "uuid_pattern =
     replicate 8 hex_class @ [dash_class] @ replicate 4 hex_class @ [dash_class]
     @ [\<lambda>c. 49 \<le> c \<and> c \<le> 53] @ replicate 3 hex_class @ [dash_class]
     @ [\<lambda>c. c \<in> {56, 57, 97, 98}] @ replicate 3 hex_class @ [dash_class]
     @ replicate 12 hex_class"

definition is_canonical_uuid :: "string \<Rightarrow> bool" where
  "is_canonical_uuid s = matches uuid_pattern (map of_char s)"

lemma matches_length: "matches p s \<Longrightarrow> length s = length p"
  by (simp add: matches_def list_all2_lengthD)

lemma length_uuid_pattern [simp]: "length uuid_pattern = 36"
  by (simp add: uuid_pattern_def)

lemma canonical_uuid_length: "is_canonical_uuid s \<Longrightarrow> length s = 36"
  using matches_length by (fastforce simp: is_canonical_uuid_def)

subsection \<open>The policy\<close>

definition MaxBytes :: nat where "MaxBytes = 191"

definition forbiddenPrefixes :: "string list" where
  "forbiddenPrefixes =
    [''acct'', ''account'', ''api'', ''authorization'', ''bank'',
     ''bearer'', ''card'', ''cvc'', ''cvv'', ''iban'', ''key'',
     ''pan'', ''password'', ''payload'', ''pk'', ''raw'', ''secret'',
     ''sk'', ''token'', ''xnd'', ''provider'', ''ref'']"

fun contains_sub :: "string \<Rightarrow> string \<Rightarrow> bool" where
  "contains_sub p [] = (p = [])"
| "contains_sub p (c # s) = (strip_prefix p (c # s) \<noteq> None \<or> contains_sub p s)"

definition separator :: "nat \<Rightarrow> bool" where
  "separator r \<longleftrightarrow> r \<in> {45, 95, 58}"

definition Valid :: "unicode_tables \<Rightarrow> string \<Rightarrow> bool \<Rightarrow> bool" where
  "Valid U value required =
    (if value = [] then \<not> required
     else case runes value of
       None \<Rightarrow> False
     | Some rs \<Rightarrow>
       if length value > MaxBytes \<or> value \<noteq> trim_space value \<or> contains_sub ''://'' value then False
       else if \<exists>r \<in> set rs. \<not> IsPrint U r \<or> IsSpace U r then False
       else if is_canonical_uuid value then True
       else
         let before = takeWhile (\<lambda>c. \<not> separator (of_char c)) value;
             prefix = map (ToLower U) (takeWhile (\<lambda>r. \<not> separator r) rs);
             suffix = tl (dropWhile (\<lambda>r. \<not> separator r) rs)
         in if before = value \<or> length before < 2 then False
            else if \<exists>r \<in> set prefix. r < 97 \<or> 122 < r then False
            else if map char_of prefix \<in> set forbiddenPrefixes then False
            else if matches uuid_pattern (map (ToLower U) suffix) then True
            else \<exists>r \<in> set suffix. IsLetter U r)"

definition ValidProviderIdentity :: "unicode_tables \<Rightarrow> string \<Rightarrow> bool \<Rightarrow> bool" where
  "ValidProviderIdentity U value required = Valid U value required"

definition validOptionalProviderIdentity :: "unicode_tables \<Rightarrow> string option \<Rightarrow> bool" where
  "validOptionalProviderIdentity U v =
     (case v of None \<Rightarrow> True | Some s \<Rightarrow> ValidProviderIdentity U s True)"

lemma Valid_empty [simp]: "Valid U [] required = (\<not> required)"
  by (simp add: Valid_def)

lemma Valid_weaken: "Valid U v True \<Longrightarrow> Valid U v r"
  by (simp add: Valid_def split: if_splits)

lemma Valid_bounded: "Valid U v True \<Longrightarrow> v \<noteq> [] \<and> length v \<le> MaxBytes \<and> trim_space v = v"
  by (auto simp: Valid_def split: if_splits option.splits)

text \<open>A canonical UUID passes the provider identity policy.\<close>

lemma utf8_decode_ascii: "list_all (\<lambda>a. a < 128) bs \<Longrightarrow> utf8_decode bs = Some bs"
  by (induction bs) simp_all

lemma uuid_bytes:
  assumes "matches uuid_pattern bs" and "b \<in> set bs"
  shows "48 \<le> b \<and> b \<le> 57 \<or> 97 \<le> b \<and> b \<le> 102 \<or> b = 45"
proof -
  obtain f where "f \<in> set uuid_pattern" "f b"
    using assms by (auto simp: matches_def list_all2_conv_all_nth in_set_conv_nth)
  then show ?thesis
    by (auto simp: uuid_pattern_def hex_class_def dash_class_def)
qed

lemma contains_sub_set: "contains_sub p s \<Longrightarrow> set p \<subseteq> set s"
proof (induction p s rule: contains_sub.induct)
  case (2 p c s)
  then show ?case
  proof (cases "contains_sub p s")
    case False
    with 2 obtain t where "c # s = p @ t" by (auto dest!: strip_prefix_Some)
    then show ?thesis by (metis Un_upper1 set_append)
  qed auto
qed auto

lemma of_char_member: "c \<in> set v \<Longrightarrow> (of_char c :: nat) \<in> set (map of_char v)"
  by simp

lemma canonical_uuid_Valid: 
  assumes "is_canonical_uuid v"
  shows "Valid U v required"
proof -
  have m: "matches uuid_pattern (map of_char v)" using assms by (simp add: is_canonical_uuid_def)
  have b: "48 \<le> (of_char c :: nat) \<and> (of_char c :: nat) \<le> 57 \<or> 97 \<le> (of_char c :: nat)
      \<and> (of_char c :: nat) \<le> 102 \<or> (of_char c :: nat) = 45" if "c \<in> set v" for c
    using uuid_bytes [OF m of_char_member [OF that]] .
  have len: "length v = 36" using canonical_uuid_length [OF assms] .
  then have ne: "v \<noteq> []" by auto
  have "trim_space v = v"
    by (intro trim_space_graphic) (use ne b [of "hd v"] b [of "last v"] in \<open>auto simp: graphic_def\<close>)
  moreover have "runes v = Some (map of_char v)"
    unfolding runes_def by (rule utf8_decode_ascii) (use b in \<open>fastforce simp: list_all_iff\<close>)
  moreover have "\<not> contains_sub ''://'' v"
    using contains_sub_set [of "''://''" v] b [of "CHR '':''"] by auto
  moreover have "\<not> (\<exists>r \<in> set (map of_char v). \<not> IsPrint U r \<or> IsSpace U r)"
    using b by (fastforce simp: IsPrint_def IsSpace_def)
  ultimately show ?thesis
    using assms len ne by (simp add: Valid_def MaxBytes_def)
qed

end
