(* ===== verification/Tx.thy ===== *)
theory Tx
  imports ProviderIdentity
begin

text \<open>
  Database transactions as a state-and-error monad. A computation takes the world and
  returns an error or a value together with the world it leaves behind.

  \<^item> \<open>db_call\<close> is one statement sent to PostgreSQL: it fails when the environment says
    so, and otherwise runs on the current tables. It is given the transaction's start
    time, PostgreSQL's \<^verbatim>\<open>transaction_timestamp()\<close> and \<^verbatim>\<open>now()\<close>.
  \<^item> \<open>in_tx\<close> is \<^verbatim>\<open>Begin\<close>, the body, and \<^verbatim>\<open>Commit\<close>, with the deferred \<^verbatim>\<open>Rollback\<close> on
    every error path. A failed commit is a rolled back transaction.
  \<^item> \<open>lock_wait\<close> is a statement that can block (an advisory lock): while it waits,
    other sessions commit. The same happens before a transaction begins.

  The environment also holds what the language and the database leave to tables outside the
  repository: Unicode classes, \<open>strings.ToUpper\<close> beyond ASCII, PostgreSQL's \<^verbatim>\<open>UPPER\<close>.
\<close>

record 'd world =
  db :: 'd
  base :: 'd
  steps :: nat
  tx_now :: time

record 'd environment =
  clock :: "nat \<Rightarrow> time"
  db_fault :: "nat \<Rightarrow> bool"
  interfere :: "nat \<Rightarrow> 'd \<Rightarrow> 'd"
  ctx_done :: "nat \<Rightarrow> bool"
  new_uuid :: "nat \<Rightarrow> string"
  uuid_parse :: "string \<Rightarrow> string option"
  go_unicode :: unicode_tables
  upper_case :: "string \<Rightarrow> string"
  sql_upper :: "string \<Rightarrow> string"

type_synonym ('e, 'd, 'a) tx = "'d world \<Rightarrow> ('e + 'a) \<times> 'd world"

definition ret :: "'a \<Rightarrow> ('e, 'd, 'a) tx" where
  "ret x = (\<lambda>w. (Inr x, w))"

definition fail :: "'e \<Rightarrow> ('e, 'd, 'a) tx" where
  "fail e = (\<lambda>w. (Inl e, w))"

definition attempt :: "('e, 'd, 'a) tx \<Rightarrow> ('e \<Rightarrow> ('f, 'd, 'b) tx) \<Rightarrow> ('a \<Rightarrow> ('f, 'd, 'b) tx)
    \<Rightarrow> ('f, 'd, 'b) tx" where
  "attempt m h k = (\<lambda>w. case m w of (Inl e, w') \<Rightarrow> h e w' | (Inr x, w') \<Rightarrow> k x w')"

definition andthen :: "('e, 'd, 'a) tx \<Rightarrow> ('a \<Rightarrow> ('e, 'd, 'b) tx) \<Rightarrow> ('e, 'd, 'b) tx" where
  "andthen m k = attempt m fail k"

definition map_err :: "('e \<Rightarrow> 'f) \<Rightarrow> ('e, 'd, 'a) tx \<Rightarrow> ('f, 'd, 'a) tx" where
  "map_err g m = attempt m (\<lambda>e. fail (g e)) ret"

definition lift_res :: "'e + 'a \<Rightarrow> ('e, 'd, 'a) tx" where
  "lift_res r = (case r of Inl e \<Rightarrow> fail e | Inr x \<Rightarrow> ret x)"

definition guard :: "bool \<Rightarrow> 'e \<Rightarrow> ('e, 'd, unit) tx" where
  "guard b e = (if b then ret () else fail e)"

text \<open>Reading the clock, the request context and a fresh UUID.\<close>

definition read_clock :: "'d environment \<Rightarrow> ('e, 'd, time) tx" where
  "read_clock E = (\<lambda>w. (Inr (clock E (steps w)), w\<lparr>steps := Suc (steps w)\<rparr>))"

definition ctx_check :: "'d environment \<Rightarrow> 'e \<Rightarrow> ('e, 'd, unit) tx" where
  "ctx_check E e = (\<lambda>w. (if ctx_done E (steps w) then Inl e else Inr (),
     w\<lparr>steps := Suc (steps w)\<rparr>))"

definition fresh_uuid :: "'d environment \<Rightarrow> ('e, 'd, string) tx" where
  "fresh_uuid E = (\<lambda>w. (Inr (new_uuid E (steps w)), w\<lparr>steps := Suc (steps w)\<rparr>))"

definition deref :: "'e \<Rightarrow> 'a option \<Rightarrow> ('e, 'd, 'a) tx" where
  "deref e v = (case v of None \<Rightarrow> fail e | Some x \<Rightarrow> ret x)"

text \<open>Statements.\<close>

definition db_call :: "'d environment \<Rightarrow> 'e \<Rightarrow> (time \<Rightarrow> 'd \<Rightarrow> ('e + 'a) \<times> 'd)
    \<Rightarrow> ('e, 'd, 'a) tx" where
  "db_call E flt f = (\<lambda>w.
     let w1 = w\<lparr>steps := Suc (steps w)\<rparr> in
     if db_fault E (steps w) then (Inl flt, w1)
     else case f (tx_now w) (db w) of (r, d) \<Rightarrow> (r, w1\<lparr>db := d\<rparr>))"

definition query :: "'d environment \<Rightarrow> 'e \<Rightarrow> (time \<Rightarrow> 'd \<Rightarrow> 'a) \<Rightarrow> ('e, 'd, 'a) tx" where
  "query E flt f = db_call E flt (\<lambda>now d. (Inr (f now d), d))"

definition exec :: "'d environment \<Rightarrow> 'e \<Rightarrow> (time \<Rightarrow> 'd \<Rightarrow> 'd) \<Rightarrow> ('e, 'd, unit) tx" where
  "exec E flt f = db_call E flt (\<lambda>now d. (Inr (), f now d))"

definition lock_wait :: "'d environment \<Rightarrow> 'e \<Rightarrow> ('e, 'd, unit) tx" where
  "lock_wait E flt = (\<lambda>w.
     let n = steps w; w1 = w\<lparr>steps := Suc n\<rparr> in
     if db_fault E n then (Inl flt, w1)
     else (Inr (), w1\<lparr>db := interfere E n (db w), base := interfere E n (base w)\<rparr>))"

text \<open>A read on the pool, outside any transaction: other sessions may have committed.\<close>

definition pool_query :: "'d environment \<Rightarrow> 'e \<Rightarrow> (time \<Rightarrow> 'd \<Rightarrow> 'a) \<Rightarrow> ('e, 'd, 'a) tx" where
  "pool_query E flt f = (\<lambda>w.
     let n = steps w; d = interfere E n (db w);
         w1 = \<lparr>db = d, base = d, steps = Suc n, tx_now = clock E n\<rparr> in
     if db_fault E n then (Inl flt, w1) else (Inr (f (clock E n) d), w1))"

definition in_tx :: "'d environment \<Rightarrow> 'e \<Rightarrow> ('e, 'd, 'a) tx \<Rightarrow> ('e, 'd, 'a) tx" where
  "in_tx E flt m = (\<lambda>w.
     let n = steps w; d = interfere E n (db w);
         w1 = \<lparr>db = d, base = d, steps = Suc n, tx_now = clock E n\<rparr> in
     if db_fault E n then (Inl flt, w1)
     else case m w1 of
       (Inl e, w2) \<Rightarrow> (Inl e, w2\<lparr>db := base w2\<rparr>)
     | (Inr x, w2) \<Rightarrow>
         (if db_fault E (steps w2) then (Inl flt, w2\<lparr>db := base w2, steps := Suc (steps w2)\<rparr>)
          else (Inr x, w2\<lparr>base := db w2, steps := Suc (steps w2)\<rparr>)))"

definition outcome :: "('e, 'd, 'a) tx \<Rightarrow> 'd world \<Rightarrow> 'e + 'a" where
  "outcome m w = fst (m w)"

definition after :: "('e, 'd, 'a) tx \<Rightarrow> 'd world \<Rightarrow> 'd" where
  "after m w = db (snd (m w))"

lemmas tx_defs = ret_def fail_def attempt_def andthen_def map_err_def lift_res_def guard_def
  read_clock_def ctx_check_def fresh_uuid_def deref_def db_call_def query_def exec_def
  lock_wait_def pool_query_def in_tx_def outcome_def after_def Let_def

subsection \<open>Equations\<close>

lemma attempt_ret [simp]: "attempt (ret x) h k = k x"
  by (simp add: attempt_def ret_def)

lemma attempt_fail [simp]: "attempt (fail e) h k = h e"
  by (simp add: attempt_def fail_def)

lemma ret_app: "ret x w = (Inr x, w)"
  by (simp add: ret_def)

lemma andthen_ret [simp]: "andthen (ret x) k = k x"
  by (simp add: andthen_def)

lemma andthen_fail [simp]: "andthen (fail e) k = fail e"
  by (simp add: andthen_def)

lemma andthen_assoc: "andthen (andthen m k) l = andthen m (\<lambda>x. andthen (k x) l)"
  by (auto simp: andthen_def attempt_def fail_def fun_eq_iff split: prod.splits sum.splits)

lemma andthen_Inr:
  "andthen m k w = (Inr y, w') \<longleftrightarrow> (\<exists>x v. m w = (Inr x, v) \<and> k x v = (Inr y, w'))"
  by (auto simp: andthen_def attempt_def fail_def split: prod.splits sum.splits)

lemma andthen_Inl:
  "andthen m k w = (Inl e, w') \<longleftrightarrow>
     m w = (Inl e, w') \<or> (\<exists>x v. m w = (Inr x, v) \<and> k x v = (Inl e, w'))"
  by (auto simp: andthen_def attempt_def fail_def split: prod.splits sum.splits)

lemma attempt_Inr:
  "attempt m h k w = (Inr y, w') \<longleftrightarrow>
     (\<exists>e v. m w = (Inl e, v) \<and> h e v = (Inr y, w')) \<or>
     (\<exists>x v. m w = (Inr x, v) \<and> k x v = (Inr y, w'))"
  by (auto simp: attempt_def split: prod.splits sum.splits)

lemma attempt_Inl:
  "attempt m h k w = (Inl y, w') \<longleftrightarrow>
     (\<exists>e v. m w = (Inl e, v) \<and> h e v = (Inl y, w')) \<or>
     (\<exists>x v. m w = (Inr x, v) \<and> k x v = (Inl y, w'))"
  by (auto simp: attempt_def split: prod.splits sum.splits)

lemma ret_Inr [simp]: "ret x w = (r, w') \<longleftrightarrow> r = Inr x \<and> w' = w"
  by (auto simp: ret_def)

lemma fail_Inl [simp]: "fail e w = (r, w') \<longleftrightarrow> r = Inl e \<and> w' = w"
  by (auto simp: fail_def)

lemma map_err_Inr: "map_err g m w = (Inr x, w') \<longleftrightarrow> m w = (Inr x, w')"
  by (auto simp: map_err_def attempt_Inr)

lemma guard_Inr: "guard b e w = (Inr u, w') \<longleftrightarrow> b \<and> w' = w"
  by (auto simp: guard_def)

lemma guard_Inl: "guard b e w = (Inl f, w') \<longleftrightarrow> \<not> b \<and> f = e \<and> w' = w"
  by (auto simp: guard_def)

lemma deref_Inr: "deref e v w = (Inr x, w') \<longleftrightarrow> v = Some x \<and> w' = w"
  by (auto simp: deref_def split: option.splits)

lemma lift_res_Inr: "lift_res r w = (Inr x, w') \<longleftrightarrow> r = Inr x \<and> w' = w"
  by (auto simp: lift_res_def split: sum.splits)

lemma query_Inr: "query E flt f w = (Inr x, w') \<longleftrightarrow>
  \<not> db_fault E (steps w) \<and> x = f (tx_now w) (db w) \<and> w' = w\<lparr>steps := Suc (steps w)\<rparr>"
  by (auto simp: query_def db_call_def Let_def)

lemma exec_Inr: "exec E flt f w = (Inr x, w') \<longleftrightarrow>
  \<not> db_fault E (steps w) \<and> w' = w\<lparr>steps := Suc (steps w), db := f (tx_now w) (db w)\<rparr>"
  by (auto simp: exec_def db_call_def Let_def)

lemma db_call_Inr: "db_call E flt f w = (Inr x, w') \<longleftrightarrow>
  \<not> db_fault E (steps w) \<and>
  (\<exists>d. f (tx_now w) (db w) = (Inr x, d) \<and> w' = w\<lparr>steps := Suc (steps w), db := d\<rparr>)"
  by (auto simp: db_call_def Let_def split: prod.splits)

lemma lock_wait_Inr: "lock_wait E flt w = (Inr x, w') \<longleftrightarrow>
  \<not> db_fault E (steps w) \<and>
  w' = w\<lparr>steps := Suc (steps w), db := interfere E (steps w) (db w),
         base := interfere E (steps w) (base w)\<rparr>"
  by (auto simp: lock_wait_def Let_def)

lemma read_clock_eq [simp]:
  "read_clock E w = (Inr (clock E (steps w)), w\<lparr>steps := Suc (steps w)\<rparr>)"
  by (simp add: read_clock_def)

lemma fresh_uuid_eq [simp]:
  "fresh_uuid E w = (Inr (new_uuid E (steps w)), w\<lparr>steps := Suc (steps w)\<rparr>)"
  by (simp add: fresh_uuid_def)

lemmas tx_Inr = andthen_Inr attempt_Inr guard_Inr deref_Inr lift_res_Inr query_Inr exec_Inr
  db_call_Inr lock_wait_Inr

subsection \<open>Atomicity\<close>

text \<open>A transaction that reports an error leaves no change of its own behind: the tables
  are those of the last committed state it saw.\<close>

lemma in_tx_error_base: "in_tx E flt m w = (Inl e, w') \<Longrightarrow> db w' = base w'"
  by (auto simp: in_tx_def Let_def split: prod.splits sum.splits if_splits)

lemma in_tx_base: "in_tx E flt m w = (r, w') \<Longrightarrow> db w' = base w'"
  by (auto simp: in_tx_def Let_def split: prod.splits sum.splits if_splits)

lemma in_tx_Inr: "in_tx E flt m w = (Inr x, w') \<longleftrightarrow>
  (\<exists>w2. \<not> db_fault E (steps w) \<and>
     m \<lparr>db = interfere E (steps w) (db w), base = interfere E (steps w) (db w),
        steps = Suc (steps w), tx_now = clock E (steps w)\<rparr> = (Inr x, w2) \<and>
     \<not> db_fault E (steps w2) \<and> w' = w2\<lparr>base := db w2, steps := Suc (steps w2)\<rparr>)"
  by (auto simp: in_tx_def Let_def split: prod.splits sum.splits if_splits)

subsection \<open>Two-state guarantees\<close>

text \<open>
  \<open>guar R m\<close>: whatever the failures, the tables after \<open>m\<close> are \<open>R\<close>-related to those
  before, and so is the state a rollback would restore. \<open>R\<close> is a preorder that
  the other sessions respect as well; the rules below then lift a fact about single
  statements to every handler built from them.
\<close>

definition guar :: "('d \<Rightarrow> 'd \<Rightarrow> bool) \<Rightarrow> ('e, 'd, 'a) tx \<Rightarrow> bool" where
  "guar R m \<longleftrightarrow> (\<forall>w. R (db w) (db (snd (m w))) \<and> R (base w) (base (snd (m w))))"

definition env_guar :: "('d \<Rightarrow> 'd \<Rightarrow> bool) \<Rightarrow> 'd environment \<Rightarrow> bool" where
  "env_guar R E \<longleftrightarrow> (\<forall>n d. R d (interfere E n d))"

locale table_order =
  fixes R :: "'d \<Rightarrow> 'd \<Rightarrow> bool"
  assumes R_refl: "R d d"
    and R_trans: "R d1 d2 \<Longrightarrow> R d2 d3 \<Longrightarrow> R d1 d3"
begin

lemma guar_ret: "guar R (ret x)"
  by (simp add: guar_def ret_def R_refl)

lemma guar_fail: "guar R (fail e)"
  by (simp add: guar_def fail_def R_refl)

lemma guar_attempt:
  assumes m: "guar R m" and h: "\<And>e. guar R (h e)" and k: "\<And>x. guar R (k x)"
  shows "guar R (attempt m h k)"
  unfolding guar_def
proof
  fix w
  obtain r v where mw: "m w = (r, v)" by (cases "m w")
  have 1: "R (db w) (db v)" "R (base w) (base v)"
    using m mw by (auto simp: guar_def dest!: spec [of _ w])
  show "R (db w) (db (snd (attempt m h k w))) \<and> R (base w) (base (snd (attempt m h k w)))"
  proof (cases r)
    case (Inl e)
    with mw have "attempt m h k w = h e v" by (simp add: attempt_def)
    moreover have "R (db v) (db (snd (h e v)))" "R (base v) (base (snd (h e v)))"
      using h by (simp_all add: guar_def)
    ultimately show ?thesis
      using 1 R_trans [of "db w" "db v"] R_trans [of "base w" "base v"] by simp
  next
    case (Inr x)
    with mw have "attempt m h k w = k x v" by (simp add: attempt_def)
    moreover have "R (db v) (db (snd (k x v)))" "R (base v) (base (snd (k x v)))"
      using k by (simp_all add: guar_def)
    ultimately show ?thesis
      using 1 R_trans [of "db w" "db v"] R_trans [of "base w" "base v"] by simp
  qed
qed

lemma guar_andthen: "guar R m \<Longrightarrow> (\<And>x. guar R (k x)) \<Longrightarrow> guar R (andthen m k)"
  unfolding andthen_def by (intro guar_attempt guar_fail)

lemma guar_map_err: "guar R m \<Longrightarrow> guar R (map_err g m)"
  unfolding map_err_def by (intro guar_attempt guar_fail guar_ret)

lemma guar_lift_res: "guar R (lift_res r)"
  by (cases r) (simp_all add: lift_res_def guar_ret guar_fail)

lemma guar_guard: "guar R (guard b e)"
  by (simp add: guard_def guar_ret guar_fail)

lemma guar_deref: "guar R (deref e v)"
  by (cases v) (simp_all add: deref_def guar_ret guar_fail)

lemma guar_read_clock: "guar R (read_clock E)"
  by (simp add: guar_def R_refl)

lemma guar_ctx_check: "guar R (ctx_check E e)"
  by (simp add: guar_def ctx_check_def R_refl)

lemma guar_fresh_uuid: "guar R (fresh_uuid E)"
  by (simp add: guar_def R_refl)

lemma guar_query: "guar R (query E flt f)"
  by (simp add: guar_def query_def db_call_def Let_def R_refl)

lemma guar_db_call: "(\<And>now d. R d (snd (f now d))) \<Longrightarrow> guar R (db_call E flt f)"
  by (simp add: guar_def db_call_def Let_def R_refl split_beta)

lemma guar_exec: "(\<And>now d. R d (f now d)) \<Longrightarrow> guar R (exec E flt f)"
  unfolding exec_def by (rule guar_db_call) simp

lemma guar_lock_wait: "env_guar R E \<Longrightarrow> guar R (lock_wait E flt)"
  by (simp add: guar_def env_guar_def lock_wait_def Let_def R_refl)

lemma guar_if: "guar R m \<Longrightarrow> guar R m' \<Longrightarrow> guar R (if b then m else m')"
  by simp

lemma guar_in_tx:
  assumes m: "guar R m" and E: "env_guar R E"
  shows "\<forall>w. db w = base w \<longrightarrow> R (db w) (db (snd (in_tx E flt m w)))"
proof (intro allI impI)
  fix w :: "'d world" assume "db w = base w"
  let ?d = "interfere E (steps w) (db w)"
  let ?w1 = "\<lparr>db = ?d, base = ?d, steps = Suc (steps w), tx_now = clock E (steps w)\<rparr>"
  have d: "R (db w) ?d" using E by (simp add: env_guar_def)
  have b: "R ?d (db (snd (m ?w1)))" "R ?d (base (snd (m ?w1)))"
    using m by (auto simp: guar_def dest!: spec [of _ ?w1])
  obtain r w2 where mw: "m ?w1 = (r, w2)" by (cases "m ?w1")
  have "db (snd (in_tx E flt m w)) \<in> {?d, base w2, db w2}"
    by (cases r) (simp_all add: in_tx_def Let_def mw)
  moreover have "R (db w) (db w2)" "R (db w) (base w2)"
    using R_trans [OF d] b by (simp_all add: mw)
  ultimately show "R (db w) (db (snd (in_tx E flt m w)))" using d by auto
qed

end

text \<open>
  A handler that opens its own transactions is run from a world in which nothing is
  pending (\<open>db w = base w\<close>); \<open>top_guar\<close> is the guarantee for such handlers.
\<close>

definition top_guar :: "('d \<Rightarrow> 'd \<Rightarrow> bool) \<Rightarrow> ('e, 'd, 'a) tx \<Rightarrow> bool" where
  "top_guar R m \<longleftrightarrow> (\<forall>w. db w = base w \<longrightarrow>
     R (db w) (db (snd (m w))) \<and> db (snd (m w)) = base (snd (m w)))"

context table_order begin

lemma top_in_tx: "guar R m \<Longrightarrow> env_guar R E \<Longrightarrow> top_guar R (in_tx E flt m)"
  unfolding top_guar_def using guar_in_tx in_tx_base by (metis prod.collapse)

lemma top_pool_query: "env_guar R E \<Longrightarrow> top_guar R (pool_query E flt f)"
  by (simp add: top_guar_def env_guar_def pool_query_def Let_def)

lemma top_ret: "top_guar R (ret x)"
  by (simp add: top_guar_def ret_def R_refl)

lemma top_fail: "top_guar R (fail e)"
  by (simp add: top_guar_def fail_def R_refl)

lemma top_attempt:
  assumes m: "top_guar R m" and h: "\<And>e. top_guar R (h e)" and k: "\<And>x. top_guar R (k x)"
  shows "top_guar R (attempt m h k)"
  unfolding top_guar_def
proof (intro allI impI)
  fix w :: "'d world" assume w: "db w = base w"
  obtain r v where mw: "m w = (r, v)" by (cases "m w")
  have 1: "R (db w) (db v)" "db v = base v"
    using m mw w by (auto simp: top_guar_def dest!: spec [of _ w])
  show "R (db w) (db (snd (attempt m h k w))) \<and>
    db (snd (attempt m h k w)) = base (snd (attempt m h k w))"
  proof (cases r)
    case (Inl e)
    with mw have "attempt m h k w = h e v" by (simp add: attempt_def)
    moreover have "R (db v) (db (snd (h e v)))" "db (snd (h e v)) = base (snd (h e v))"
      using h [unfolded top_guar_def, rule_format, OF 1(2), of e] by blast+
    ultimately show ?thesis using 1 R_trans [of "db w" "db v"] by simp
  next
    case (Inr x)
    with mw have "attempt m h k w = k x v" by (simp add: attempt_def)
    moreover have "R (db v) (db (snd (k x v)))" "db (snd (k x v)) = base (snd (k x v))"
      using k [unfolded top_guar_def, rule_format, OF 1(2), of x] by blast+
    ultimately show ?thesis using 1 R_trans [of "db w" "db v"] by simp
  qed
qed

lemma top_andthen: "top_guar R m \<Longrightarrow> (\<And>x. top_guar R (k x)) \<Longrightarrow> top_guar R (andthen m k)"
  unfolding andthen_def by (intro top_attempt top_fail)

lemma top_lift_res: "top_guar R (lift_res r)"
  by (cases r) (simp_all add: lift_res_def top_ret top_fail)

lemma top_guard: "top_guar R (guard b e)"
  by (simp add: guard_def top_ret top_fail)

lemma top_deref: "top_guar R (deref e v)"
  by (cases v) (simp_all add: deref_def top_ret top_fail)

lemma top_read_clock: "top_guar R (read_clock E)"
  by (simp add: top_guar_def R_refl)

lemma top_ctx_check: "top_guar R (ctx_check E e)"
  by (simp add: top_guar_def ctx_check_def R_refl)

lemma top_if: "top_guar R m \<Longrightarrow> top_guar R m' \<Longrightarrow> top_guar R (if b then m else m')"
  by simp

lemmas guar_intros = guar_ret guar_fail guar_attempt guar_andthen guar_map_err guar_lift_res
  guar_guard guar_deref guar_read_clock guar_ctx_check guar_fresh_uuid guar_query
  guar_lock_wait guar_if

lemmas top_intros = top_in_tx top_pool_query top_ret top_fail top_attempt top_andthen
  top_lift_res top_guard top_deref top_read_clock top_ctx_check top_if

end

end
