(* ===== verification/Commits.thy ===== *)
theory Commits
  imports Tx
begin

text \<open>
  Guarantees of committed work. \<open>commits R m\<close> is weaker than \<open>guar\<close> inside a
  transaction: only a successful \<open>m\<close> has to respect \<open>R\<close>, because an error on the way rolls
  the whole transaction back. It is the right notion for invariants that several statements
  restore together. \<open>commits_at R w m\<close> is the same from one world \<open>w\<close>, so that a proof can use
  what the earlier statements of the transaction have read.
\<close>

definition commits :: "('d \<Rightarrow> 'd \<Rightarrow> bool) \<Rightarrow> ('e, 'd, 'a) tx \<Rightarrow> bool" where
  "commits R m \<longleftrightarrow> (\<forall>w. R (base w) (base (snd (m w))) \<and>
     (case m w of (Inl e, w') \<Rightarrow> True | (Inr x, w') \<Rightarrow> R (db w) (db w')))"

lemma commitsI:
  assumes "\<And>w r w'. m w = (r, w') \<Longrightarrow> R (base w) (base w')"
    and "\<And>w x w'. m w = (Inr x, w') \<Longrightarrow> R (db w) (db w')"
  shows "commits R m"
  unfolding commits_def
proof
  fix w
  obtain r w' where "m w = (r, w')" by (cases "m w")
  then show "R (base w) (base (snd (m w))) \<and>
     (case m w of (Inl e, w') \<Rightarrow> True | (Inr x, w') \<Rightarrow> R (db w) (db w'))"
    using assms by (cases r) auto
qed

lemma commits_base: "commits R m \<Longrightarrow> m w = (r, w') \<Longrightarrow> R (base w) (base w')"
  by (auto simp: commits_def dest: spec [of _ w])

lemma commits_Inr: "commits R m \<Longrightarrow> m w = (Inr x, w') \<Longrightarrow> R (db w) (db w')"
  by (auto simp: commits_def dest: spec [of _ w])

lemma guar_db: "guar R m \<Longrightarrow> m w = (r, w') \<Longrightarrow> R (db w) (db w') \<and> R (base w) (base w')"
  by (auto simp: guar_def dest!: spec [of _ w])

lemma guar_commits: "guar R m \<Longrightarrow> commits R m"
  by (rule commitsI) (auto dest: guar_db)

context table_order begin

lemma commits_andthen:
  assumes m: "commits R m" and k: "\<And>x. commits R (k x)"
  shows "commits R (andthen m k)"
proof (rule commitsI)
  fix w r w' assume "andthen m k w = (r, w')"
  then show "R (base w) (base w')"
    using commits_base [OF m, of w] commits_base [OF k] R_trans
    by (cases r) (fastforce simp: andthen_Inl andthen_Inr)+
next
  fix w x w' assume "andthen m k w = (Inr x, w')"
  then show "R (db w) (db w')"
    using commits_Inr [OF m, of w] commits_Inr [OF k] R_trans by (fastforce simp: andthen_Inr)
qed

lemma commits_if: "commits R m \<Longrightarrow> commits R m' \<Longrightarrow> commits R (if b then m else m')"
  by simp

lemma commits_ret: "commits R (ret x)"
  by (rule guar_commits [OF guar_ret])

lemma commits_fail: "commits R (fail e)"
  by (rule commitsI) (auto simp: R_refl)

lemma commits_map_err:
  assumes m: "commits R m"
  shows "commits R (map_err g m)"
proof (rule commitsI)
  fix w r w' assume "map_err g m w = (r, w')"
  then have "\<exists>r'. m w = (r', w')"
    by (auto simp: map_err_def attempt_def split: prod.splits sum.splits)
  then show "R (base w) (base w')" using commits_base [OF m] by blast
next
  fix w x w' assume "map_err g m w = (Inr x, w')"
  then have "m w = (Inr x, w')"
    by (auto simp: map_err_def attempt_def split: prod.splits sum.splits)
  then show "R (db w) (db w')" by (rule commits_Inr [OF m])
qed

end

subsection \<open>From one world\<close>

definition commits_at :: "('d \<Rightarrow> 'd \<Rightarrow> bool) \<Rightarrow> 'd world \<Rightarrow> ('e, 'd, 'a) tx \<Rightarrow> bool" where
  "commits_at R w m \<longleftrightarrow> R (base w) (base (snd (m w)))
     \<and> (\<forall>x w'. m w = (Inr x, w') \<longrightarrow> R (db w) (db w'))"

lemma commits_atI:
  assumes "\<And>r w'. m w = (r, w') \<Longrightarrow> R (base w) (base w')"
    and "\<And>x w'. m w = (Inr x, w') \<Longrightarrow> R (db w) (db w')"
  shows "commits_at R w m"
  using assms by (simp add: commits_at_def) (metis prod.collapse)

lemma commits_at_base: "commits_at R w m \<Longrightarrow> m w = (r, w') \<Longrightarrow> R (base w) (base w')"
  by (simp add: commits_at_def)

lemma commits_at_Inr: "commits_at R w m \<Longrightarrow> m w = (Inr x, w') \<Longrightarrow> R (db w) (db w')"
  by (simp add: commits_at_def)

lemma commits_iff_at: "commits R m \<longleftrightarrow> (\<forall>w. commits_at R w m)"
proof
  show "\<forall>w. commits_at R w m" if "commits R m"
    using that by (auto intro!: commits_atI dest: commits_base commits_Inr)
  show "commits R m" if "\<forall>w. commits_at R w m"
    using that by (auto intro!: commitsI dest: commits_at_base commits_at_Inr)
qed

lemma commits_at_of: "commits R m \<Longrightarrow> commits_at R w m"
  by (simp add: commits_iff_at)

text \<open>Statements that never wait for another session leave the rollback state alone.\<close>

definition keeps_base :: "('e, 'd, 'a) tx \<Rightarrow> bool" where
  "keeps_base m \<longleftrightarrow> (\<forall>w. base (snd (m w)) = base w)"

lemma keeps_base_stmt:
  "keeps_base (ret x)" "keeps_base (fail e)" "keeps_base (query E flt f)"
  "keeps_base (exec E flt g)" "keeps_base (db_call E flt h)" "keeps_base (deref e v)"
  "keeps_base (guard b e)" "keeps_base (lift_res r)" "keeps_base (ctx_check E e)"
  "keeps_base (read_clock E)" "keeps_base (fresh_uuid E)"
  by (simp_all add: keeps_base_def tx_defs split: prod.splits sum.splits option.splits)

lemma keeps_base_attempt:
  "keeps_base m \<Longrightarrow> (\<And>e. keeps_base (h e)) \<Longrightarrow> (\<And>x. keeps_base (k x)) \<Longrightarrow> keeps_base (attempt m h k)"
  unfolding keeps_base_def attempt_def
  by (auto split: prod.split sum.split) (metis snd_conv)+

lemma keeps_base_andthen:
  "keeps_base m \<Longrightarrow> (\<And>x. keeps_base (k x)) \<Longrightarrow> keeps_base (andthen m k)"
  unfolding andthen_def by (intro keeps_base_attempt keeps_base_stmt)

lemma keeps_base_map_err: "keeps_base m \<Longrightarrow> keeps_base (map_err g m)"
  unfolding map_err_def by (intro keeps_base_attempt keeps_base_stmt)

lemma keeps_base_if: "keeps_base m \<Longrightarrow> keeps_base m' \<Longrightarrow> keeps_base (if b then m else m')"
  by simp

lemmas keeps_base_intros = keeps_base_stmt keeps_base_attempt keeps_base_andthen
  keeps_base_map_err keeps_base_if

text \<open>Inside a transaction \<open>now()\<close> does not move.\<close>

definition keeps_now :: "('e, 'd, 'a) tx \<Rightarrow> bool" where
  "keeps_now m \<longleftrightarrow> (\<forall>w. tx_now (snd (m w)) = tx_now w)"

lemma keeps_nowD: "keeps_now m \<Longrightarrow> m w = (r, w') \<Longrightarrow> tx_now w' = tx_now w"
  by (metis keeps_now_def snd_conv)

lemma keeps_now_stmt:
  "keeps_now (ret x)" "keeps_now (fail e)" "keeps_now (query E flt f)"
  "keeps_now (exec E flt g)" "keeps_now (db_call E flt h)" "keeps_now (deref e v)"
  "keeps_now (guard b e)" "keeps_now (lift_res r)" "keeps_now (lock_wait E flt)"
  by (simp_all add: keeps_now_def tx_defs split: prod.splits sum.splits option.splits)

lemma keeps_now_attempt:
  "keeps_now m \<Longrightarrow> (\<And>e. keeps_now (h e)) \<Longrightarrow> (\<And>x. keeps_now (k x)) \<Longrightarrow> keeps_now (attempt m h k)"
  unfolding keeps_now_def attempt_def
  by (auto split: prod.split sum.split) (metis snd_conv)+

lemma keeps_now_andthen: "keeps_now m \<Longrightarrow> (\<And>x. keeps_now (k x)) \<Longrightarrow> keeps_now (andthen m k)"
  unfolding andthen_def by (intro keeps_now_attempt keeps_now_stmt)

lemma keeps_now_map_err: "keeps_now m \<Longrightarrow> keeps_now (map_err g m)"
  unfolding map_err_def by (intro keeps_now_attempt keeps_now_stmt)

lemma keeps_now_if: "keeps_now m \<Longrightarrow> keeps_now m' \<Longrightarrow> keeps_now (if b then m else m')"
  by simp

lemmas keeps_now_intros = keeps_now_stmt keeps_now_attempt keeps_now_andthen
  keeps_now_map_err keeps_now_if

context table_order begin

lemma commits_at_stop: "commits_at R w (ret x)" "commits_at R w (fail e)"
  by (simp_all add: commits_at_def R_refl ret_def fail_def)

lemma commits_at_if:
  "(b \<Longrightarrow> commits_at R w m) \<Longrightarrow> (\<not> b \<Longrightarrow> commits_at R w m') \<Longrightarrow> commits_at R w (if b then m else m')"
  by simp

lemma commits_at_andthen:
  assumes m: "commits_at R w m" and k: "\<And>x w'. m w = (Inr x, w') \<Longrightarrow> commits_at R w' (k x)"
  shows "commits_at R w (andthen m k)"
proof (cases "m w")
  case (Pair r v)
  show ?thesis
  proof (cases r)
    case (Inl e)
    with Pair have "andthen m k w = (Inl e, v)" by (simp add: andthen_def attempt_def)
    then show ?thesis using commits_at_base [OF m Pair] by (simp add: commits_at_def)
  next
    case (Inr x)
    with Pair have mw: "m w = (Inr x, v)" by simp
    then have "andthen m k w = k x v" by (simp add: andthen_def attempt_def)
    then show ?thesis
      using k [OF mw] commits_at_base [OF m Pair] commits_at_Inr [OF m mw]
      by (auto simp: commits_at_def intro: R_trans)
  qed
qed

lemma commits_at_read:
  assumes "keeps_base m" and "\<And>x w'. m w = (Inr x, w') \<Longrightarrow> db w' = db w"
  shows "commits_at R w m"
  using assms by (intro commits_atI) (auto simp: keeps_base_def R_refl dest: spec [of _ w])

lemma commits_at_query: "commits_at R w (query E flt f)"
  by (rule commits_at_of) (rule guar_commits [OF guar_query])

lemma commits_at_deref: "commits_at R w (deref e v)"
  by (rule commits_at_of) (rule guar_commits [OF guar_deref])

lemma commits_at_guar: "guar R m \<Longrightarrow> commits_at R w m"
  by (rule commits_at_of) (rule guar_commits)

lemma commits_at_local:
  assumes "keeps_base m" and "\<And>x w'. m w = (Inr x, w') \<Longrightarrow> R (db w) (db w')"
  shows "commits_at R w m"
  using assms by (intro commits_atI) (auto simp: keeps_base_def R_refl dest: spec [of _ w])

text \<open>A transaction runs at a reading of the clock.\<close>

lemma top_in_tx_at:
  assumes m: "\<And>w. tx_now w \<in> range (clock E) \<Longrightarrow> commits_at R w m" and E: "env_guar R E"
  shows "top_guar R (in_tx E flt m)"
  unfolding top_guar_def
proof (intro allI impI)
  fix w :: "'d world" assume "db w = base w"
  let ?d = "interfere E (steps w) (db w)"
  let ?w1 = "\<lparr>db = ?d, base = ?d, steps = Suc (steps w), tx_now = clock E (steps w)\<rparr>"
  have m: "commits_at R ?w1 m" by (rule m) simp
  have d: "R (db w) ?d" using E by (simp add: env_guar_def)
  obtain r w2 where mw: "m ?w1 = (r, w2)" by (cases "m ?w1")
  have b: "R ?d (base w2)" using commits_at_base [OF m mw] by simp
  have c: "R ?d (db w2)" if "r = Inr x" for x using commits_at_Inr [OF m mw [unfolded that]] by simp
  show "R (db w) (db (snd (in_tx E flt m w)))
      \<and> db (snd (in_tx E flt m w)) = base (snd (in_tx E flt m w))"
    using d R_trans [OF d b] R_trans [OF d c] mw
    by (cases r) (auto simp: in_tx_def Let_def)
qed

lemma top_in_tx_commits: "commits R m \<Longrightarrow> env_guar R E \<Longrightarrow> top_guar R (in_tx E flt m)"
  by (rule top_in_tx_at) (rule commits_at_of)

end

end
