(* ===== verification/PlatformAudit.thy ===== *)
theory PlatformAudit
  imports Commits
begin

text \<open>
  \<^verbatim>\<open>internal/audit/platform_dto.go\<close>: the validation every platform audit row passes
  before it is inserted. The actions modelled are those of payments and of payment
  webhooks; their metadata is a map from keys to scalars. A row that fails validation
  fails the caller's transaction.
\<close>

datatype audit_action =
    ActionPaymentStateTransition | ActionReconciliationException | ActionPaymentAttemptCreated
  | ActionPaymentCommandEnqueued | ActionPaymentCommandInvariantViolation
  | ActionPaymentCreateFlagOffRejected | ActionWebhookReceived | ActionWebhookAuthPassed
  | ActionWebhookAuthFailed | ActionWebhookReplay | ActionWebhookDuplicate | ActionWebhookConflict

datatype audit_entity = EntityPaymentAttempt | EntityPaymentWebhook

datatype meta_value = MString string | MInt int | MBool bool

record audit_params =
  au_actor :: "string option"
  au_role :: string
  au_action :: audit_action
  au_entity_type :: audit_entity
  au_entity_id :: "string option"
  au_correlation_id :: "string option"
  au_metadata :: "(string \<times> meta_value) list"

definition isWebhookAuditAction :: "audit_action \<Rightarrow> bool" where
  "isWebhookAuditAction a \<longleftrightarrow>
     a \<in> {ActionWebhookReceived, ActionWebhookAuthPassed, ActionWebhookAuthFailed,
          ActionWebhookReplay, ActionWebhookDuplicate, ActionWebhookConflict}"

definition platformActionEntity :: "audit_action \<Rightarrow> audit_entity" where
  "platformActionEntity a =
     (if isWebhookAuditAction a then EntityPaymentWebhook else EntityPaymentAttempt)"

definition webhookAuditMetadataKeys :: "string list" where
  "webhookAuditMetadataKeys =
     [''provider'', ''environment'', ''route_family'', ''result'', ''reason'', ''raw_body_hash'']"

definition allowedMetadataKeysPerAction :: "audit_action \<Rightarrow> string list" where
  "allowedMetadataKeysPerAction a =
    (case a of
       ActionPaymentStateTransition \<Rightarrow> [''from_state'', ''to_state'', ''attempt_no'', ''late_capture'']
     | ActionReconciliationException \<Rightarrow> [''from_state'', ''to_state'', ''attempt_no'', ''reason'']
     | ActionPaymentAttemptCreated \<Rightarrow> [''attempt_no'']
     | ActionPaymentCommandEnqueued \<Rightarrow> [''attempt_no'', ''command_type'']
     | ActionPaymentCommandInvariantViolation \<Rightarrow> [''command_type'', ''reason'']
     | ActionPaymentCreateFlagOffRejected \<Rightarrow> [''reason'', ''requested_method'', ''request_fingerprint'']
     | _ \<Rightarrow> webhookAuditMetadataKeys)"

definition requiredMetadataKeysPerAction :: "audit_action \<Rightarrow> string list" where
  "requiredMetadataKeysPerAction a =
    (case a of
       ActionPaymentStateTransition \<Rightarrow> [''to_state'', ''attempt_no'', ''late_capture'']
     | _ \<Rightarrow> allowedMetadataKeysPerAction a)"

definition isPaymentAttemptAuditState :: "string \<Rightarrow> bool" where
  "isPaymentAttemptAuditState v \<longleftrightarrow>
     v \<in> {''CREATED'', ''PENDING'', ''CAPTURED'', ''FAILED'', ''EXPIRED'', ''CANCELLED''}"

definition isPaymentReconciliationReason :: "string \<Rightarrow> bool" where
  "isPaymentReconciliationReason v \<longleftrightarrow>
     v \<in> {''LATE_CAPTURE'', ''REFERENCE_MISMATCH'', ''AMOUNT_MISMATCH'', ''CURRENCY_MISMATCH'',
          ''INQUIRY_UNRESOLVED'', ''PROVIDER_CONTRACT_BLOCKED''}"

definition isPaymentCommandInvariantReason :: "string \<Rightarrow> bool" where
  "isPaymentCommandInvariantReason v \<longleftrightarrow> v = ''ATTEMPT_NOT_FOUND''"

definition isAllowedReasonForAction :: "audit_action \<Rightarrow> string \<Rightarrow> bool" where
  "isAllowedReasonForAction a v =
    (if isWebhookAuditAction a then
       v \<in> {''NONE'', ''AUTHENTICATION_FAILED'', ''INVALID_REQUEST'', ''IDEMPOTENCY_CONFLICT'',
            ''REFERENCE_MISMATCH'', ''AMOUNT_MISMATCH'', ''CURRENCY_MISMATCH'',
            ''FUTURE_CREATED_SEMANTIC'', ''TERMINAL_PROVIDER''}
     else if a = ActionReconciliationException then isPaymentReconciliationReason v
     else if a = ActionPaymentCommandInvariantViolation then isPaymentCommandInvariantReason v
     else v \<in> {''LIVE_NOT_ALLOWED'', ''BPS_OUT_OF_BOUNDS'', ''OVERLAP'',
               ''INVALID_TIME'', ''VALIDATION_ERROR'', ''CREATE_DISABLED''})"

definition is_hex_digit :: "char \<Rightarrow> bool" where
  "is_hex_digit c \<longleftrightarrow> is_lower_hex c \<or> CHR ''A'' \<le> c \<and> c \<le> CHR ''F''"

text \<open>The \<open>switch key\<close> of \<open>Validate\<close>, for the keys these actions allow.\<close>

definition metadata_value_ok :: "audit_action \<Rightarrow> string \<Rightarrow> meta_value \<Rightarrow> bool" where
  "metadata_value_ok a key val =
    (if key = ''reason'' then
       (case val of MString v \<Rightarrow> isAllowedReasonForAction a v | _ \<Rightarrow> False)
     else if key = ''provider'' then val = MString ''XENDIT''
     else if key = ''environment'' then val = MString ''TEST''
     else if key = ''route_family'' then
       val \<in> {MString ''payment_session'', MString ''payment'', MString ''refund''}
     else if key = ''result'' then
       val \<in> {MString ''NEW'', MString ''DUPLICATE'', MString ''CONFLICT'', MString ''UNSUPPORTED'',
              MString ''AUTH_FAILED'', MString ''PROCESSED'', MString ''TERMINAL''}
     else if key = ''raw_body_hash'' then
       (case val of MString v \<Rightarrow> length v = 64 \<and> list_all is_lower_hex v | _ \<Rightarrow> False)
     else if key = ''from_state'' \<or> key = ''to_state'' then
       (case val of MString v \<Rightarrow> isPaymentAttemptAuditState v | _ \<Rightarrow> False)
     else if key = ''attempt_no'' then
       (case val of MInt v \<Rightarrow> 0 < v \<and> v \<le> 32767 | _ \<Rightarrow> False)
     else if key = ''late_capture'' then (case val of MBool _ \<Rightarrow> True | _ \<Rightarrow> False)
     else if key = ''command_type'' then
       val \<in> {MString ''PAYMENT_CREATE'', MString ''PAYMENT_INQUIRY''}
     else if key = ''requested_method'' then
       val \<in> {MString ''BCA_VA'', MString ''QRIS'', MString ''CARD''}
     else if key = ''request_fingerprint'' then
       (case val of MString v \<Rightarrow> length v = 64 \<and> list_all is_hex_digit v | _ \<Rightarrow> False)
     else True)"

definition Validate :: "'d environment \<Rightarrow> audit_params \<Rightarrow> bool" where
  "Validate E p \<longleftrightarrow>
     au_entity_type p = platformActionEntity (au_action p)
     \<and> au_role p \<noteq> [] \<and> au_role p = trim_space (au_role p)
     \<and> (case au_actor p of None \<Rightarrow> True | Some u \<Rightarrow> uuid_parse E u \<noteq> None)
     \<and> (case au_entity_id p of None \<Rightarrow> True | Some u \<Rightarrow> uuid_parse E u \<noteq> None)
     \<and> (case au_correlation_id p of None \<Rightarrow> True | Some c \<Rightarrow> trim_space c \<noteq> [])
     \<and> (au_action p \<in> {ActionPaymentStateTransition, ActionReconciliationException,
          ActionPaymentAttemptCreated, ActionPaymentCommandEnqueued,
          ActionPaymentCommandInvariantViolation}
        \<longrightarrow> au_entity_id p \<noteq> None \<and> au_correlation_id p \<noteq> None)
     \<and> (au_action p = ActionPaymentCreateFlagOffRejected \<longrightarrow> au_correlation_id p \<noteq> None)
     \<and> (isWebhookAuditAction (au_action p) \<longrightarrow>
          au_correlation_id p \<noteq> None \<and> au_entity_id p = None \<and> au_role p = ''SYSTEM'')
     \<and> list_all (\<lambda>(k, v). k \<in> set (allowedMetadataKeysPerAction (au_action p))
          \<and> metadata_value_ok (au_action p) k v) (au_metadata p)
     \<and> list_all (\<lambda>k. map_of (au_metadata p) k \<noteq> None) (requiredMetadataKeysPerAction (au_action p))"

text \<open>
  The reasons a reconciliation row may carry: a row with any other reason is refused.
\<close>

lemma Validate_reconciliation_reason:
  assumes "Validate E p" and "au_action p = ActionReconciliationException"
    and "(''reason'', MString v) \<in> set (au_metadata p)"
  shows "isPaymentReconciliationReason v"
  using assms
  by (fastforce simp: Validate_def list_all_iff metadata_value_ok_def isAllowedReasonForAction_def
      isWebhookAuditAction_def)

end
