(* ===== verification/Int64.thy ===== *)
theory Int64
  imports Prelude "HOL-Library.Word" "HOL-Library.Signed_Division"
begin

text \<open>
  Go's \<^verbatim>\<open>int64\<close> (and \<^verbatim>\<open>int\<close> on the 64-bit targets the program is built for): 64-bit
  words read as two's complement by \<open>sint\<close>. Addition, subtraction and multiplication
  wrap; comparison is signed; division and remainder truncate towards zero.
\<close>

type_synonym i64 = "64 word"

definition max_int64 :: i64 where "max_int64 = 0x7FFFFFFFFFFFFFFF"
definition min_int64 :: i64 where "min_int64 = 0x8000000000000000"

definition go_div :: "i64 \<Rightarrow> i64 \<Rightarrow> i64" where
  "go_div a b = word_of_int (sint a sdiv sint b)"

definition go_rem :: "i64 \<Rightarrow> i64 \<Rightarrow> i64" where
  "go_rem a b = word_of_int (sint a smod sint b)"

definition in64 :: "int \<Rightarrow> bool" where
  "in64 x \<longleftrightarrow> - 9223372036854775808 \<le> x \<and> x \<le> 9223372036854775807"

lemma sint_max_int64 [simp]: "sint max_int64 = 9223372036854775807"
  by (simp add: max_int64_def)

lemma sint_min_int64 [simp]: "sint min_int64 = - 9223372036854775808"
  by (simp add: min_int64_def)

lemma in64_sint [simp]: "in64 (sint (a :: i64))"
  using sint_ge [of a] sint_lt [of a] by (simp add: in64_def)

lemma sint_of_int64: "in64 x \<Longrightarrow> sint (word_of_int x :: i64) = x"
  by (simp add: in64_def sint_sbintrunc' signed_take_bit_int_eq_self)

lemma word_of_int_sint64 [simp]: "word_of_int (sint (a :: i64)) = a"
  by simp

lemma plus_i64: "(a :: i64) + b = word_of_int (sint a + sint b)"
  by simp

lemma minus_i64: "(a :: i64) - b = word_of_int (sint a - sint b)"
  by simp

lemma times_i64: "(a :: i64) * b = word_of_int (sint a * sint b)"
  by simp

lemma uminus_i64: "- (a :: i64) = word_of_int (- sint a)"
  by simp

lemma sint_add64: "in64 (sint a + sint b) \<Longrightarrow> sint (a + b :: i64) = sint a + sint b"
  by (simp only: plus_i64 sint_of_int64)

lemma sint_sub64: "in64 (sint a - sint b) \<Longrightarrow> sint (a - b :: i64) = sint a - sint b"
  by (simp only: minus_i64 sint_of_int64)

lemma sint_mul64: "in64 (sint a * sint b) \<Longrightarrow> sint (a * b :: i64) = sint a * sint b"
  by (simp only: times_i64 sint_of_int64)

lemma sint_neg64: "in64 (- sint a) \<Longrightarrow> sint (- a :: i64) = - sint a"
  by (simp only: uminus_i64 sint_of_int64)

lemma sint_eq_iff64: "a = b \<longleftrightarrow> sint (a :: i64) = sint b"
  by (metis word_of_int_sint64)

lemma sdiv_nonneg: "0 \<le> a \<Longrightarrow> 0 < b \<Longrightarrow> a sdiv b = (a :: int) div b"
  by (cases "a = 0") (auto simp: signed_divide_int_def)

lemma smod_nonneg: "0 \<le> a \<Longrightarrow> 0 < b \<Longrightarrow> a smod b = (a :: int) mod b"
  by (cases "a = 0") (auto simp: signed_modulo_int_def)

lemma int_le_div_iff:
  assumes "0 < (q :: int)"
  shows "m \<le> n div q \<longleftrightarrow> m * q \<le> n"
proof
  assume "m \<le> n div q"
  then have "m * q \<le> n div q * q" using assms by (simp add: mult_right_mono)
  also have "\<dots> \<le> n" using assms by (simp flip: minus_mod_eq_div_mult)
  finally show "m * q \<le> n" .
next
  assume "m * q \<le> n"
  then have "m * q div q \<le> n div q" using assms by (intro zdiv_mono1)
  with assms show "m \<le> n div q" by simp
qed

lemma sint_go_div: "0 \<le> sint a \<Longrightarrow> 0 < sint b \<Longrightarrow> sint (go_div a b) = sint a div sint b"
proof -
  assume a: "0 \<le> sint a" and b: "0 < sint b"
  have "0 \<le> sint a div sint b" using a b by (simp add: pos_imp_zdiv_nonneg_iff)
  moreover have "sint a div sint b \<le> sint a" using a b
    by (metis div_by_1 int_one_le_iff_zero_less zdiv_mono2 zero_less_one)
  moreover have "in64 (sint a)" by simp
  ultimately have "in64 (sint a div sint b)" by (simp add: in64_def)
  then show ?thesis using a b by (simp add: go_div_def sdiv_nonneg sint_of_int64)
qed

lemma sint_go_rem: "0 \<le> sint a \<Longrightarrow> 0 < sint b \<Longrightarrow> sint (go_rem a b) = sint a mod sint b"
proof -
  assume a: "0 \<le> sint a" and b: "0 < sint b"
  have "0 \<le> sint a mod sint b" "sint a mod sint b < sint b" using b by simp_all
  moreover have "in64 (sint b)" by simp
  ultimately have "in64 (sint a mod sint b)" by (simp add: in64_def)
  then show ?thesis using a b by (simp add: go_rem_def smod_nonneg sint_of_int64)
qed

end
