(* ===== verification/FeeCalculator.thy ===== *)
theory FeeCalculator
  imports Int64
begin

text \<open>
  \<^verbatim>\<open>internal/platformfinance/calculator.go\<close>: the booking fee calculator in 64-bit
  arithmetic, its specification over the integers, and the refinement between the two.
\<close>

type_synonym booking_channel = string

definition BookingChannelMarketplaceOnline :: booking_channel where
  "BookingChannelMarketplaceOnline = ''MARKETPLACE_ONLINE''"

definition BookingChannelOwnerWalkIn :: booking_channel where
  "BookingChannelOwnerWalkIn = ''OWNER_WALK_IN''"

datatype fee_error =
    ErrInvalidOriginalPrice
  | ErrInvalidFinalBookingPrice
  | ErrInvalidCommissionBps
  | ErrInvalidBookingChannel
  | ErrInvalidCustomerServiceFee
  | ErrPriceAdjustmentReasonRequired
  | ErrOverflowDetected
  | ErrNegativeOperand
  | ErrOwnerNetNegative

record CalculatorParams =
  OriginalPriceRupiah :: i64
  OwnerPriceAdjustmentRupiah :: i64
  PriceAdjustmentReason :: string
  CommissionBps :: i64
  BookingChannel :: booking_channel
  CustomerServiceFeeRupiah :: i64

record CalculatorResult =
  FinalBookingPriceRupiah :: i64
  CustomerChargeAmountRupiah :: i64
  CommissionBasisAmountRupiah :: i64
  ResultCommissionBps :: i64
  CommissionAmountRupiah :: i64
  OwnerNetAmountRupiah :: i64

subsection \<open>Checked arithmetic\<close>

definition checkedAddInt64 :: "i64 \<Rightarrow> i64 \<Rightarrow> fee_error + i64" where
  "checkedAddInt64 a b =
     (if sint b > 0 \<and> sint a > sint (max_int64 - b) then Inl ErrOverflowDetected
      else if sint b < 0 \<and> sint a < sint (min_int64 - b) then Inl ErrOverflowDetected
      else Inr (a + b))"

definition checkedSubInt64 :: "i64 \<Rightarrow> i64 \<Rightarrow> fee_error + i64" where
  "checkedSubInt64 a b =
     (if b = min_int64 then
        (if sint a \<ge> 0 then Inl ErrOverflowDetected else Inr (a - b))
      else checkedAddInt64 a (- b))"

definition checkedMulNonNegativeInt64 :: "i64 \<Rightarrow> i64 \<Rightarrow> fee_error + i64" where
  "checkedMulNonNegativeInt64 a b =
     (if sint a < 0 \<or> sint b < 0 then Inl ErrNegativeOperand
      else if a = 0 \<or> b = 0 then Inr 0
      else if sint a > sint (go_div max_int64 b) then Inl ErrOverflowDetected
      else Inr (a * b))"

lemma checkedAddInt64_spec:
  "checkedAddInt64 a b = (if in64 (sint a + sint b) then Inr (a + b) else Inl ErrOverflowDetected)"
proof -
  have a: "in64 (sint a)" and b: "in64 (sint b)" by simp_all
  have "sint (max_int64 - b) = 9223372036854775807 - sint b" if "sint b > 0"
    using sint_sub64 [of max_int64 b] that b by (simp add: in64_def)
  moreover have "sint (min_int64 - b) = - 9223372036854775808 - sint b" if "sint b < 0"
    using sint_sub64 [of min_int64 b] that b by (simp add: in64_def)
  ultimately show ?thesis
    using a b by (auto simp: checkedAddInt64_def in64_def)
qed

lemma checkedSubInt64_spec:
  "checkedSubInt64 a b = (if in64 (sint a - sint b) then Inr (a - b) else Inl ErrOverflowDetected)"
proof (cases "b = min_int64")
  case True
  have "in64 (sint a)" by simp
  with True show ?thesis by (auto simp: checkedSubInt64_def in64_def)
next
  case False
  have "in64 (sint b)" by simp
  moreover from False have "sint b \<noteq> - 9223372036854775808"
    by (metis sint_eq_iff64 sint_min_int64)
  ultimately have "sint (- b) = - sint b" by (intro sint_neg64) (simp add: in64_def)
  with False show ?thesis by (simp add: checkedSubInt64_def checkedAddInt64_spec)
qed

lemma checkedMulNonNegativeInt64_spec:
  assumes "0 \<le> sint a" and "0 \<le> sint b"
  shows "checkedMulNonNegativeInt64 a b =
    (if in64 (sint a * sint b) then Inr (a * b) else Inl ErrOverflowDetected)"
proof (cases "a = 0 \<or> b = 0")
  case True
  with assms show ?thesis by (auto simp: checkedMulNonNegativeInt64_def in64_def)
next
  case False
  then have b: "0 < sint b"
    using assms(2) by (metis order_le_less signed_0 sint_eq_iff64)
  have nonneg: "- 9223372036854775808 \<le> sint a * sint b"
    using mult_nonneg_nonneg [OF assms] by linarith
  have "9223372036854775807 div sint b < sint a \<longleftrightarrow> 9223372036854775807 < sint a * sint b"
    using int_le_div_iff [OF b, of "sint a" 9223372036854775807] by linarith
  with False b assms nonneg show ?thesis
    by (simp add: checkedMulNonNegativeInt64_def sint_go_div in64_def not_less)
qed

subsection \<open>The calculator\<close>

definition CalculateBookingFees :: "CalculatorParams \<Rightarrow> fee_error + CalculatorResult" where
  "CalculateBookingFees params =
    (if sint (OriginalPriceRupiah params) < 0 then Inl ErrInvalidOriginalPrice
     else if sint (CommissionBps params) < 0 \<or> sint (CommissionBps params) > 3000
       then Inl ErrInvalidCommissionBps
     else if BookingChannel params \<noteq> BookingChannelMarketplaceOnline
           \<and> BookingChannel params \<noteq> BookingChannelOwnerWalkIn then Inl ErrInvalidBookingChannel
     else if CustomerServiceFeeRupiah params \<noteq> 0 then Inl ErrInvalidCustomerServiceFee
     else if OwnerPriceAdjustmentRupiah params \<noteq> 0
           \<and> trim_space (PriceAdjustmentReason params) = [] then Inl ErrPriceAdjustmentReasonRequired
     else rbind (checkedAddInt64 (OriginalPriceRupiah params) (OwnerPriceAdjustmentRupiah params))
     (\<lambda>finalPrice.
       if sint finalPrice < 0 then Inl ErrInvalidFinalBookingPrice
       else
         let effectiveBps = (if BookingChannel params = BookingChannelOwnerWalkIn then 0
                             else CommissionBps params);
             commissionBasis = finalPrice;
             divisor = 10000;
             whole = go_div commissionBasis divisor;
             remainderBasis = go_rem commissionBasis divisor
         in rbind (checkedMulNonNegativeInt64 whole effectiveBps) (\<lambda>wholeProduct.
            rbind (checkedMulNonNegativeInt64 remainderBasis effectiveBps) (\<lambda>remainderProduct.
            let partial = go_div remainderProduct divisor;
                roundingRemainder = go_rem remainderProduct divisor
            in rbind (if sint roundingRemainder \<ge> 5000 then checkedAddInt64 partial 1
                      else Inr partial) (\<lambda>partial.
               rbind (checkedAddInt64 wholeProduct partial) (\<lambda>commissionAmount.
               rbind (checkedAddInt64 finalPrice (CustomerServiceFeeRupiah params)) (\<lambda>customerCharge.
               rbind (checkedSubInt64 commissionBasis commissionAmount) (\<lambda>ownerNet.
               if sint ownerNet < 0 then Inl ErrOwnerNetNegative
               else Inr \<lparr>FinalBookingPriceRupiah = finalPrice,
                         CustomerChargeAmountRupiah = customerCharge,
                         CommissionBasisAmountRupiah = commissionBasis,
                         ResultCommissionBps = effectiveBps,
                         CommissionAmountRupiah = commissionAmount,
                         OwnerNetAmountRupiah = ownerNet\<rparr>))))))))"

subsection \<open>Specification over the integers\<close>

text \<open>Half-up rounding of \<open>basis * bps / 10000\<close>, without any intermediate overflow.\<close>

definition commission_spec :: "int \<Rightarrow> int \<Rightarrow> int" where
  "commission_spec basis bps = (basis * bps + 5000) div 10000"

record fee_breakdown =
  final_price :: int
  customer_charge :: int
  commission_basis :: int
  effective_bps :: int
  commission :: int
  owner_net :: int

definition fee_spec :: "CalculatorParams \<Rightarrow> fee_error + fee_breakdown" where
  "fee_spec p =
    (let orig = sint (OriginalPriceRupiah p); adj = sint (OwnerPriceAdjustmentRupiah p);
         bps = sint (CommissionBps p); fin = orig + adj;
         eff = (if BookingChannel p = BookingChannelOwnerWalkIn then 0 else bps)
     in if orig < 0 then Inl ErrInvalidOriginalPrice
        else if bps < 0 \<or> bps > 3000 then Inl ErrInvalidCommissionBps
        else if BookingChannel p \<notin> {BookingChannelMarketplaceOnline, BookingChannelOwnerWalkIn}
          then Inl ErrInvalidBookingChannel
        else if sint (CustomerServiceFeeRupiah p) \<noteq> 0 then Inl ErrInvalidCustomerServiceFee
        else if adj \<noteq> 0 \<and> trim_space (PriceAdjustmentReason p) = []
          then Inl ErrPriceAdjustmentReasonRequired
        else if fin > 9223372036854775807 then Inl ErrOverflowDetected
        else if fin < 0 then Inl ErrInvalidFinalBookingPrice
        else Inr \<lparr>final_price = fin, customer_charge = fin, commission_basis = fin,
                  effective_bps = eff, commission = commission_spec fin eff,
                  owner_net = fin - commission_spec fin eff\<rparr>)"

definition fee_view :: "CalculatorResult \<Rightarrow> fee_breakdown" where
  "fee_view r = \<lparr>final_price = sint (FinalBookingPriceRupiah r),
     customer_charge = sint (CustomerChargeAmountRupiah r),
     commission_basis = sint (CommissionBasisAmountRupiah r),
     effective_bps = sint (ResultCommissionBps r),
     commission = sint (CommissionAmountRupiah r),
     owner_net = sint (OwnerNetAmountRupiah r)\<rparr>"

lemma round_half_up_qm:
  assumes "r = 10000 * q + (m :: int)" and "0 \<le> m" and "m < 10000"
  shows "(r + 5000) div 10000 = q + (if 5000 \<le> m then 1 else 0)"
proof (cases "5000 \<le> m")
  case True
  have "r + 5000 = 10000 * (q + 1) + (m - 5000)" using assms(1) by simp
  then have "(r + 5000) div 10000 = q + 1"
    by (rule int_div_pos_eq) (use True assms in linarith)+
  with True show ?thesis by simp
next
  case False
  have "r + 5000 = 10000 * q + (m + 5000)" using assms(1) by simp
  then have "(r + 5000) div 10000 = q"
    by (rule int_div_pos_eq) (use False assms in linarith)+
  with False show ?thesis by simp
qed

lemma round_half_up:
  "((r :: int) + 5000) div 10000 = r div 10000 + (if 5000 \<le> r mod 10000 then 1 else 0)"
  by (rule round_half_up_qm) simp_all

lemma commission_split:
  assumes "0 \<le> (b :: int)" and "0 \<le> e"
  shows "b div 10000 * e + (b mod 10000 * e div 10000
      + (if 5000 \<le> b mod 10000 * e mod 10000 then 1 else 0)) = commission_spec b e"
proof -
  let ?r = "b mod 10000 * e"
  have "(b div 10000 * 10000 + b mod 10000) * e = b div 10000 * e * 10000 + ?r"
    by algebra
  moreover have "b div 10000 * 10000 + b mod 10000 = b" by (rule div_mult_mod_eq)
  ultimately have "b * e = b div 10000 * e * 10000 + ?r" by (simp only:)
  then have "b * e + 5000 = (?r + 5000) + (b div 10000 * e) * 10000" by simp
  then have "(b * e + 5000) div 10000 = b div 10000 * e + (?r + 5000) div 10000"
    by simp
  moreover have "(?r + 5000) div 10000 = ?r div 10000 + (if 5000 \<le> ?r mod 10000 then 1 else 0)"
    by (rule round_half_up)
  ultimately show ?thesis by (simp add: commission_spec_def)
qed

lemma commission_spec_bounds:
  assumes "0 \<le> b" and "0 \<le> e" and "e \<le> 3000"
  shows "0 \<le> commission_spec b e" and "10000 * commission_spec b e \<le> b * e + 5000"
    and "commission_spec b e \<le> b"
proof -
  have be: "0 \<le> b * e" using assms by simp
  then show "0 \<le> commission_spec b e"
    by (simp add: commission_spec_def pos_imp_zdiv_nonneg_iff)
  show up: "10000 * commission_spec b e \<le> b * e + 5000"
    unfolding commission_spec_def
    by (simp flip: minus_mod_eq_mult_div)
  show "commission_spec b e \<le> b"
  proof (cases "b = 0")
    case True
    then show ?thesis by (simp add: commission_spec_def)
  next
    case False
    then have "1 \<le> b" using assms(1) by simp
    moreover have "b * e \<le> b * 3000" using assms by (intro mult_left_mono) simp_all
    ultimately show ?thesis using up by linarith
  qed
qed

subsection \<open>Refinement\<close>

text \<open>The commission arithmetic of the code, from the validated price on.\<close>

definition commission_i64 :: "i64 \<Rightarrow> i64 \<Rightarrow> i64" where
  "commission_i64 b e =
     go_div b 10000 * e + (go_div (go_rem b 10000 * e) 10000
       + (if 5000 \<le> sint (go_rem (go_rem b 10000 * e) 10000) then 1 else 0))"

lemma sint_10000 [simp]: "sint (10000 :: i64) = 10000"
  by simp

lemma commission_steps:
  assumes b: "0 \<le> sint b" and e: "0 \<le> sint e" "sint e \<le> 3000"
  shows "checkedMulNonNegativeInt64 (go_div b 10000) e = Inr (go_div b 10000 * e)"
    and "checkedMulNonNegativeInt64 (go_rem b 10000) e = Inr (go_rem b 10000 * e)"
    and "sint (go_div b 10000 * e) = sint b div 10000 * sint e"
    and "sint (go_rem b 10000 * e) = sint b mod 10000 * sint e"
    and "0 \<le> sint b mod 10000 * sint e"
    and "sint b mod 10000 * sint e \<le> 29997000"
    and "0 \<le> sint b div 10000 * sint e"
    and "sint b div 10000 * sint e \<le> sint b"
proof -
  have q: "sint (go_div b 10000) = sint b div 10000" using b by (simp add: sint_go_div)
  have r: "sint (go_rem b 10000) = sint b mod 10000" using b by (simp add: sint_go_rem)
  have rb: "0 \<le> sint b mod 10000" "sint b mod 10000 \<le> 9999"
    using pos_mod_sign [of 10000 "sint b"] pos_mod_bound [of 10000 "sint b"] by linarith+
  have qb: "0 \<le> sint b div 10000" using b by (simp add: pos_imp_zdiv_nonneg_iff)
  show 1: "0 \<le> sint b mod 10000 * sint e" using rb e by simp
  show 2: "sint b mod 10000 * sint e \<le> 29997000"
    using mult_mono [of "sint b mod 10000" 9999 "sint e" 3000] rb e by simp
  show 3: "0 \<le> sint b div 10000 * sint e" using qb e by simp
  have "sint b div 10000 * sint e \<le> sint b div 10000 * 10000"
    using qb e by (intro mult_left_mono) simp_all
  also have "\<dots> \<le> sint b" using b by (simp flip: minus_mod_eq_div_mult)
  finally show 4: "sint b div 10000 * sint e \<le> sint b" .
  have "in64 (sint b)" by simp
  with 3 4 have i1: "in64 (sint (go_div b 10000) * sint e)" by (simp add: q in64_def)
  from 1 2 have i2: "in64 (sint (go_rem b 10000) * sint e)" by (simp add: r in64_def)
  show "checkedMulNonNegativeInt64 (go_div b 10000) e = Inr (go_div b 10000 * e)"
    using checkedMulNonNegativeInt64_spec [of "go_div b 10000" e] i1 qb e q by simp
  show "checkedMulNonNegativeInt64 (go_rem b 10000) e = Inr (go_rem b 10000 * e)"
    using checkedMulNonNegativeInt64_spec [of "go_rem b 10000" e] i2 rb e r by simp
  show "sint (go_div b 10000 * e) = sint b div 10000 * sint e"
    using sint_mul64 [OF i1] q by simp
  show "sint (go_rem b 10000 * e) = sint b mod 10000 * sint e"
    using sint_mul64 [OF i2] r by simp
qed

lemma commission_partial:
  assumes b: "0 \<le> sint b" and e: "0 \<le> sint e" "sint e \<le> 3000"
  defines "p \<equiv> go_rem b 10000 * e"
  shows "(if 5000 \<le> sint (go_rem p 10000) then checkedAddInt64 (go_div p 10000) 1
          else Inr (go_div p 10000)) =
         Inr (go_div p 10000 + (if 5000 \<le> sint (go_rem p 10000) then 1 else 0))"
    and "sint (go_div p 10000 + (if 5000 \<le> sint (go_rem p 10000) then 1 else 0)) =
         sint b mod 10000 * sint e div 10000
         + (if 5000 \<le> sint b mod 10000 * sint e mod 10000 then 1 else 0)"
proof -
  note st = commission_steps [OF b e]
  have sp: "sint p = sint b mod 10000 * sint e" unfolding p_def by (rule st(4))
  then have p0: "0 \<le> sint p" and p1: "sint p \<le> 29997000" using st(5,6) by simp_all
  have d: "sint (go_div p 10000) = sint p div 10000" and m: "sint (go_rem p 10000) = sint p mod 10000"
    using p0 by (simp_all add: sint_go_div sint_go_rem)
  have "0 \<le> sint p div 10000" "sint p div 10000 \<le> 2999" using p0 p1 by simp_all
  then have i: "in64 (sint (go_div p 10000) + sint (1 :: i64))" by (simp add: d in64_def)
  then show "(if 5000 \<le> sint (go_rem p 10000) then checkedAddInt64 (go_div p 10000) 1
          else Inr (go_div p 10000)) =
         Inr (go_div p 10000 + (if 5000 \<le> sint (go_rem p 10000) then 1 else 0))"
    by (simp add: checkedAddInt64_spec)
  show "sint (go_div p 10000 + (if 5000 \<le> sint (go_rem p 10000) then 1 else 0)) =
         sint b mod 10000 * sint e div 10000
         + (if 5000 \<le> sint b mod 10000 * sint e mod 10000 then 1 else 0)"
    using sint_add64 [OF i] by (simp add: d m sp [symmetric])
qed

lemma commission_i64_correct:
  assumes b: "0 \<le> sint b" and e: "0 \<le> sint e" "sint e \<le> 3000"
  shows "sint (commission_i64 b e) = commission_spec (sint b) (sint e)"
    and "in64 (sint (go_div b 10000 * e) + sint (go_div (go_rem b 10000 * e) 10000
       + (if 5000 \<le> sint (go_rem (go_rem b 10000 * e) 10000) then 1 else 0)))"
proof -
  have sum: "sint (go_div b 10000 * e) + sint (go_div (go_rem b 10000 * e) 10000
       + (if 5000 \<le> sint (go_rem (go_rem b 10000 * e) 10000) then 1 else 0))
       = commission_spec (sint b) (sint e)"
    using commission_steps(3) [OF b e] commission_partial(2) [OF b e] commission_split [of "sint b" "sint e"] b e
    by simp
  have "in64 (sint b)" by simp
  then have i: "in64 (commission_spec (sint b) (sint e))"
    using commission_spec_bounds [OF b e] by (simp add: in64_def)
  then show "in64 (sint (go_div b 10000 * e) + sint (go_div (go_rem b 10000 * e) 10000
       + (if 5000 \<le> sint (go_rem (go_rem b 10000 * e) 10000) then 1 else 0)))"
    by (simp only: sum)
  then show "sint (commission_i64 b e) = commission_spec (sint b) (sint e)"
    using sum by (simp only: commission_i64_def sint_add64)
qed

text \<open>The path of the calculator once the guards have passed.\<close>

lemma calculator_ok_path:
  assumes "0 \<le> sint (OriginalPriceRupiah p)"
    and "0 \<le> sint (CommissionBps p)" "sint (CommissionBps p) \<le> 3000"
    and "BookingChannel p = BookingChannelMarketplaceOnline \<or> BookingChannel p = BookingChannelOwnerWalkIn"
    and "CustomerServiceFeeRupiah p = 0"
    and "OwnerPriceAdjustmentRupiah p = 0 \<or> trim_space (PriceAdjustmentReason p) \<noteq> []"
    and add: "checkedAddInt64 (OriginalPriceRupiah p) (OwnerPriceAdjustmentRupiah p) = Inr b"
    and b: "0 \<le> sint b"
  defines "e \<equiv> (if BookingChannel p = BookingChannelOwnerWalkIn then 0 else CommissionBps p)"
  shows "CalculateBookingFees p = Inr \<lparr>FinalBookingPriceRupiah = b,
     CustomerChargeAmountRupiah = b, CommissionBasisAmountRupiah = b,
     ResultCommissionBps = e, CommissionAmountRupiah = commission_i64 b e,
     OwnerNetAmountRupiah = b - commission_i64 b e\<rparr>"
    and "sint (b - commission_i64 b e) = sint b - commission_spec (sint b) (sint e)"
proof -
  have e: "0 \<le> sint e" "sint e \<le> 3000" using assms(2,3) by (simp_all add: e_def)
  note c = commission_i64_correct [OF b e] and bd = commission_spec_bounds [OF b e]
  have "in64 (sint b)" by simp
  with bd have i: "in64 (sint b - sint (commission_i64 b e))" by (simp add: c(1) in64_def)
  show net: "sint (b - commission_i64 b e) = sint b - commission_spec (sint b) (sint e)"
    using sint_sub64 [OF i] c(1) by simp
  have sum: "checkedAddInt64 (go_div b 10000 * e) (go_div (go_rem b 10000 * e) 10000
      + (if 5000 \<le> sint (go_rem (go_rem b 10000 * e) 10000) then 1 else 0))
    = Inr (commission_i64 b e)"
    using c(2) by (simp add: checkedAddInt64_spec commission_i64_def)
  have charge: "checkedAddInt64 b 0 = Inr b" by (simp add: checkedAddInt64_spec)
  have sub: "checkedSubInt64 b (commission_i64 b e) = Inr (b - commission_i64 b e)"
    using i by (simp add: checkedSubInt64_spec)
  show "CalculateBookingFees p = Inr \<lparr>FinalBookingPriceRupiah = b,
     CustomerChargeAmountRupiah = b, CommissionBasisAmountRupiah = b,
     ResultCommissionBps = e, CommissionAmountRupiah = commission_i64 b e,
     OwnerNetAmountRupiah = b - commission_i64 b e\<rparr>"
    using assms(1-6) b bd(3) net
    by (simp add: CalculateBookingFees_def add e_def [symmetric] Let_def
        commission_steps(1,2) [OF b e] commission_partial(1) [OF b e] sum charge sub)
qed

lemma checkedAdd_final:
  assumes "0 \<le> sint a"
  shows "checkedAddInt64 a b = (if sint a + sint b > 9223372036854775807
    then Inl ErrOverflowDetected else Inr (a + b))"
    and "sint a + sint b \<le> 9223372036854775807 \<Longrightarrow> sint (a + b) = sint a + sint b"
proof -
  have "in64 (sint b)" by simp
  with assms have "in64 (sint a + sint b) \<longleftrightarrow> \<not> sint a + sint b > 9223372036854775807"
    by (auto simp: in64_def)
  then show "checkedAddInt64 a b = (if sint a + sint b > 9223372036854775807
      then Inl ErrOverflowDetected else Inr (a + b))"
    and "sint a + sint b \<le> 9223372036854775807 \<Longrightarrow> sint (a + b) = sint a + sint b"
    by (simp_all add: checkedAddInt64_spec sint_add64)
qed

lemma calculator_refines:
  "map_sum id fee_view (CalculateBookingFees p) = fee_spec p"
proof -
  let ?o = "OriginalPriceRupiah p" and ?a = "OwnerPriceAdjustmentRupiah p"
  let ?guards = "0 \<le> sint ?o \<and> 0 \<le> sint (CommissionBps p) \<and> sint (CommissionBps p) \<le> 3000
    \<and> (BookingChannel p = BookingChannelMarketplaceOnline \<or> BookingChannel p = BookingChannelOwnerWalkIn)
    \<and> CustomerServiceFeeRupiah p = 0 \<and> (?a = 0 \<or> trim_space (PriceAdjustmentReason p) \<noteq> [])"
  have z: "sint x = 0 \<longleftrightarrow> x = 0" for x :: i64 by (metis signed_0 sint_eq_iff64)
  show ?thesis
  proof (cases ?guards)
    case False
    then show ?thesis
      by (auto simp: CalculateBookingFees_def fee_spec_def Let_def z)
  next
    case True
    note add = checkedAdd_final [of ?o ?a]
    show ?thesis
    proof (cases "sint ?o + sint ?a > 9223372036854775807 \<or> sint ?o + sint ?a < 0")
      case True
      with \<open>?guards\<close> add show ?thesis
        by (auto simp: CalculateBookingFees_def fee_spec_def Let_def z)
    next
      case False
      with add True have eq: "checkedAddInt64 ?o ?a = Inr (?o + ?a)"
        and s: "sint (?o + ?a) = sint ?o + sint ?a" by auto
      have "0 \<le> sint (?o + ?a)" using False s by simp
      note path = calculator_ok_path [OF _ _ _ _ _ _ eq this]
      let ?e = "if BookingChannel p = BookingChannelOwnerWalkIn then 0 else CommissionBps p"
      have e: "0 \<le> sint ?e" "sint ?e \<le> 3000" using True by simp_all
      have "sint ?e = (if BookingChannel p = BookingChannelOwnerWalkIn then 0
        else sint (CommissionBps p))" by simp
      with True False s path commission_i64_correct(1) [OF _ e, of "?o + ?a"]
      show ?thesis by (auto simp: fee_spec_def fee_view_def Let_def z)
    qed
  qed
qed

lemma calculator_Inr:
  assumes "CalculateBookingFees p = Inr r"
  shows "fee_spec p = Inr (fee_view r)"
  using calculator_refines [of p] assms by simp

lemma fee_spec_Inr:
  assumes "fee_spec p = Inr b"
  shows "final_price b = sint (OriginalPriceRupiah p) + sint (OwnerPriceAdjustmentRupiah p)"
    and "0 \<le> final_price b" and "customer_charge b = final_price b"
    and "commission_basis b = final_price b"
    and "effective_bps b = (if BookingChannel p = BookingChannelOwnerWalkIn then 0 else sint (CommissionBps p))"
    and "commission b = commission_spec (final_price b) (effective_bps b)"
    and "owner_net b = final_price b - commission b"
    and "0 \<le> effective_bps b" and "effective_bps b \<le> 3000"
  using assms by (auto simp: fee_spec_def Let_def split: if_splits)

lemma commission_spec_half_up:
  "\<bar>20000 * commission_spec b e - 2 * (b * e)\<bar> \<le> 10000"
proof -
  have "10000 * ((b * e + 5000) div 10000) = b * e + 5000 - (b * e + 5000) mod 10000"
    by (simp add: minus_mod_eq_mult_div)
  moreover have "0 \<le> (b * e + 5000) mod 10000" "(b * e + 5000) mod 10000 < 10000" by simp_all
  ultimately show ?thesis unfolding commission_spec_def by linarith
qed

text \<open>
  C1. The calculator refines its integer specification on every input: it returns the
  same error, or the same six amounts read as integers. In particular the only overflow
  it can report is that of original price plus adjustment; the quotient and remainder
  arithmetic of the commission never overflows and rounds half up exactly, and the
  defensive negative-net branch is never taken.
\<close>

theorem calculator_refines_spec:
  "map_sum id fee_view (CalculateBookingFees p) = fee_spec p"
  by (rule calculator_refines)

text \<open>
  C2. Money is conserved: when the calculator accepts, the commission and the owner's net
  amount add up to the final price, which is the original price plus the adjustment and
  what the customer is charged; both parts are nonnegative, the commission is within half
  a rupiah of the exact rate, and a walk-in booking pays none.
\<close>

theorem calculator_conserves_money:
  assumes "CalculateBookingFees p = Inr r"
  shows "sint (CommissionAmountRupiah r) + sint (OwnerNetAmountRupiah r) = sint (FinalBookingPriceRupiah r)
    \<and> sint (FinalBookingPriceRupiah r)
        = sint (OriginalPriceRupiah p) + sint (OwnerPriceAdjustmentRupiah p)
    \<and> CustomerChargeAmountRupiah r = FinalBookingPriceRupiah r
    \<and> 0 \<le> sint (CommissionAmountRupiah r) \<and> 0 \<le> sint (OwnerNetAmountRupiah r)
    \<and> \<bar>20000 * sint (CommissionAmountRupiah r)
         - 2 * (sint (FinalBookingPriceRupiah r) * sint (ResultCommissionBps r))\<bar> \<le> 10000
    \<and> (BookingChannel p = BookingChannelOwnerWalkIn \<longrightarrow> CommissionAmountRupiah r = 0)"
proof -
  note f = fee_spec_Inr [OF calculator_Inr [OF assms]]
  have v: "final_price (fee_view r) = sint (FinalBookingPriceRupiah r)"
    "customer_charge (fee_view r) = sint (CustomerChargeAmountRupiah r)"
    "effective_bps (fee_view r) = sint (ResultCommissionBps r)"
    "commission (fee_view r) = sint (CommissionAmountRupiah r)"
    "owner_net (fee_view r) = sint (OwnerNetAmountRupiah r)"
    by (simp_all add: fee_view_def)
  have b: "0 \<le> commission (fee_view r)" "commission (fee_view r) \<le> final_price (fee_view r)"
    using commission_spec_bounds [OF f(2) f(8) f(9)] f(6) by simp_all
  have h: "\<bar>20000 * commission (fee_view r) - 2 * (final_price (fee_view r) * effective_bps (fee_view r))\<bar> \<le> 10000"
    using commission_spec_half_up f(6) by simp
  have w: "CommissionAmountRupiah r = 0" if "BookingChannel p = BookingChannelOwnerWalkIn"
  proof -
    have "commission (fee_view r) = 0" using f(5,6) that by (simp add: commission_spec_def)
    then show ?thesis unfolding v by (metis signed_0 sint_eq_iff64)
  qed
  have c: "CustomerChargeAmountRupiah r = FinalBookingPriceRupiah r"
    using f(3) unfolding v by (simp add: sint_eq_iff64)
  show ?thesis using f(1,7) b h w c unfolding v by simp
qed

theorem calculator_conserves_money_witness:
  "\<exists>r. CalculateBookingFees
      \<lparr>OriginalPriceRupiah = 150001, OwnerPriceAdjustmentRupiah = 0, PriceAdjustmentReason = [],
       CommissionBps = 500, BookingChannel = BookingChannelMarketplaceOnline,
       CustomerServiceFeeRupiah = 0\<rparr> = Inr r
    \<and> sint (CommissionAmountRupiah r) + sint (OwnerNetAmountRupiah r) = 150001"
proof -
  let ?p = "\<lparr>OriginalPriceRupiah = 150001, OwnerPriceAdjustmentRupiah = 0, PriceAdjustmentReason = [],
       CommissionBps = 500, BookingChannel = BookingChannelMarketplaceOnline,
       CustomerServiceFeeRupiah = 0\<rparr>"
  have "is_ok (CalculateBookingFees ?p)" by code_simp
  then obtain r where r: "CalculateBookingFees ?p = Inr r" by (auto simp: is_ok_iff)
  have "sint (150001 :: i64) = 150001" by simp
  with calculator_conserves_money [OF r] show ?thesis using r by auto
qed

end
