(* ===== verification/Database.thy ===== *)
theory Database
  imports Complex_Main PlatformAudit FeeCalculator
begin

text \<open>
  The rows of the tables the modelled code reads and writes (the Go structs that scan
  them have the same fields), the error values of the packages, and the database state
  all services share. Statuses and states whose column has a CHECK list are datatypes;
  amounts whose arithmetic stays in SQL are exact (\<open>rat\<close> for NUMERIC, \<open>int\<close> for
  BIGINT); dates are day numbers and times of day are minutes since midnight.
\<close>

subsection \<open>Errors\<close>

datatype booking_error =
    ErrPastDate | ErrInvalidTimeRange | ErrCourtInactive | ErrVenueInactive | ErrOutsideOpHours
  | ErrOverlapBlockedSlot | ErrOverlapBooking | BErrBookingNotFound | ErrBookingAlreadyCancelled
  | ErrBookingCannotBeCancelled | ErrBookingAlreadyConfirmed | ErrBookingCannotBeConfirmed
  | ErrForbidden | ErrBookingCannotBeMarkedPaid | ErrBookingCannotBeCompleted
  | ErrBookingCannotBeRefunded | ErrBookingRefundAlreadyExists | ErrBookingIncomeLedgerNotFound
  | ErrSandboxPaymentFlowConflict | ErrSandboxPaymentCancelUnavailable | ErrCourtNotFound
  | BErrPromoNotFound | ErrInvalidPromoCode | ErrInvalidPromoPrice
  | ErrSnapshotOrchestratorUnavailable | ErrInvalidPrice | ErrPriceOverrideReasonRequired
  | ErrPriceOverrideReasonTooLong

datatype promo_error =
    ErrPromoNotFound | ErrPromoNotActive | ErrPromoExpired | ErrPromoNotStarted
  | ErrPromoVenueMismatch | PErrInvalidPrice | ErrInvalidBookingDate

datatype term_error =
    ErrInvalidCommercialTermOwner | ErrInvalidCommercialTermTimestamp
  | ErrMissingEffectiveCommercialTerm | ErrDuplicateCommercialTerm
  | ErrUnsupportedCommercialTermFinanceMode | ErrInvalidResolvedCommercialTerm

datatype snapshot_error =
    ErrInvalidBookingFeeSnapshot | ErrUnsupportedSnapshotFinanceMode
  | ErrBookingFeeSnapshotAlreadyExists | ErrBookingFeeSnapshotNotFound

datatype refund_error =
    ErrRefundRequestNotFound | ErrRefundRequestAlreadyExists | ErrRefundRequestNotAllowed
  | ErrBookingRefundCutoffExceeded | ErrRefundRequestAlreadyReviewed | RErrBookingIncomeLedgerNotFound
  | RErrBookingRefundAlreadyExists | RErrForbidden | ErrInvalidReason

datatype payment_error =
    ErrAttemptNotFound | ErrBookingNotFound | ErrSnapshotNotFound | ErrStateConflict
  | ErrInvalidTransition | ErrIdempotencyConflict | ErrCaptureConflict | ErrAlreadyCaptured
  | ErrPaymentIntegrity | ErrInvalidCapture | ErrInvalidCreateAttempt
  | ErrInvalidInquiryIdentity | ErrBookingNotPayable

datatype outbox_error =
    ErrInvalidCommand | ErrCommandNotFound | OErrIdempotencyConflict | ErrNoCommandAvailable
  | ErrLeaseConflict | ErrRefundOutboxNotReady

datatype app_error =
    EBooking booking_error
  | EPayment payment_error
  | EOutbox outbox_error
  | EPromo promo_error
  | ETerm term_error
  | ESnapshot snapshot_error
  | EFee fee_error
  | ERefund refund_error
  | EParse             \<comment> \<open>\<open>time.Parse\<close> rejects the text\<close>
  | EMalformedCommand
  | EUnavailable       \<comment> \<open>\<open>ErrProcessorUnavailable\<close>, \<open>ErrDurabilityUnavailable\<close>\<close>
  | EInvalidWorkerTiming
  | EInvalidIngressInput
  | EText string       \<comment> \<open>an error made on the spot, with its message\<close>
  | ENoRows            \<comment> \<open>\<open>pgx.ErrNoRows\<close>\<close>
  | ERaised string     \<comment> \<open>an exception raised by a trigger, with its message\<close>
  | EUnique string     \<comment> \<open>a unique violation, with the constraint's name\<close>
  | ECheck string      \<comment> \<open>a CHECK violation, with the constraint's name\<close>
  | EAudit             \<comment> \<open>an audit row failed its validation\<close>
  | EDatabase          \<comment> \<open>the statement failed for a reason outside the model\<close>
  | EContext           \<comment> \<open>the request context is done\<close>
  | ENilPointer        \<comment> \<open>a nil dereference: the goroutine panics\<close>

subsection \<open>Bookings\<close>

datatype booking_status =
    PENDING_PAYMENT | WAITING_VERIFICATION | CONFIRMED | PAID | CANCELLED | COMPLETED

record booking =
  bk_id :: string
  bk_customer :: string
  bk_court :: string
  bk_date :: int
  bk_start :: int
  bk_end :: int
  bk_original_price :: "rat option"
  bk_discount :: rat
  bk_final_price :: "rat option"
  bk_promo_id :: "string option"
  bk_promo_code :: "string option"
  bk_total_price :: rat
  bk_status :: booking_status
  bk_payment_reference :: "string option"
  bk_expires_at :: "time option"
  bk_created_at :: time
  bk_updated_at :: time

record court =
  ct_id :: string
  ct_venue_id :: string
  ct_price_per_hour :: rat
  ct_status :: string

record venue =
  vn_id :: string
  vn_owner_profile_id :: string
  vn_status :: string

record owner_profile =
  op_id :: string
  op_user_id :: string

datatype discount_type = PERCENTAGE | FIXED_AMOUNT

record promo =
  pr_id :: string
  pr_owner_id :: string
  pr_venue_id :: "string option"
  pr_code :: string
  pr_discount_type :: discount_type
  pr_discount_value :: rat
  pr_starts_at :: time
  pr_ends_at :: time
  pr_status :: string

record commercial_term =
  tm_id :: string
  tm_owner_profile_id :: "string option"
  tm_phase :: string
  tm_finance_mode :: string
  tm_collection_method :: string
  tm_commission_bps :: int
  tm_valid_from :: time
  tm_valid_until :: "time option"

record operating_hour =
  oh_court :: string
  oh_day :: int
  oh_open :: "int option"
  oh_close :: "int option"
  oh_closed :: bool

record blocked_slot =
  bs_court :: string
  bs_start_at :: time
  bs_end_at :: time

datatype ledger_type = INCOME | EXPENSE
datatype ledger_source = BOOKING | REFUND | MANUAL

record ledger_row =
  lg_owner :: string
  lg_venue :: string
  lg_booking :: "string option"
  lg_created_by :: string
  lg_type :: ledger_type
  lg_source :: ledger_source
  lg_amount :: rat
  lg_description :: string

record offline_customer =
  oc_booking :: string
  oc_name :: string
  oc_phone :: "string option"
  oc_email :: "string option"
  oc_notes :: "string option"
  oc_system_price :: rat
  oc_final_price :: rat
  oc_override_reason :: "string option"

subsection \<open>Payment attempts\<close>

datatype attempt_state =
    AttemptCreated | AttemptPending | AttemptCaptured | AttemptFailed | AttemptExpired
  | AttemptCancelled

record payment_attempt =
  pa_id :: string
  pa_booking_id :: string
  pa_attempt_no :: int
  pa_provider :: string
  pa_environment :: string
  pa_requested_method :: string
  pa_integration_mode :: string
  pa_capture_method :: string
  pa_state :: attempt_state
  pa_currency :: string
  pa_amount :: int
  pa_local_reference :: string
  pa_request_hash :: string
  pa_session_id :: "string option"
  pa_payment_req_id :: "string option"
  pa_payment_id :: "string option"
  pa_status_code :: "string option"
  pa_checkout_url :: "string option"
  pa_expires_at :: time
  pa_captured_at :: "time option"
  pa_created_at :: time
  pa_updated_at :: time

record create_contract =
  cc_attempt_id :: string
  cc_request_hash :: string
  cc_requested_expires_at :: time
  cc_success_url :: string
  cc_cancel_url :: string

record capture_fact =
  cf_attempt_id :: string
  cf_provider :: string
  cf_environment :: string
  cf_payment_id :: string
  cf_payment_req_id :: "string option"
  cf_amount :: int
  cf_currency :: string
  cf_captured_at :: time
  cf_observed_at :: time
  cf_authority :: string
  cf_source_reference :: string
  cf_payload_hash :: string

record create_cancellation =
  cx_attempt_id :: string
  cx_command_id :: string
  cx_actor :: "string option"

subsection \<open>Provider commands\<close>

datatype command_type = PAYMENT_CREATE | PAYMENT_INQUIRY | REFUND_CREATE | REFUND_INQUIRY
datatype aggregate_type = PAYMENT_ATTEMPT | PAYMENT_REFUND
datatype command_state =
    StatePending | StateLeased | StateRetryable | StateSucceeded | StateTerminal

record command_payload =
  pl_attempt_id :: string
  pl_amount :: int
  pl_currency :: string
  pl_requested_method :: string

record command =
  cm_id :: string
  cm_type :: command_type
  cm_aggregate_type :: aggregate_type
  cm_aggregate_id :: string
  cm_attempt_id :: "string option"
  cm_idempotency_key :: string
  cm_request_hash :: string
  cm_payload :: command_payload
  cm_state :: command_state
  cm_attempt_count :: int
  cm_malformed_count :: int
  cm_available_at :: time
  cm_lease_owner :: "string option"
  cm_lease_token :: "string option"
  cm_lease_expires_at :: "time option"
  cm_last_error :: "string option"
  cm_provider_reference :: "string option"
  cm_created_at :: time
  cm_updated_at :: time
  cm_completed_at :: "time option"

subsection \<open>Fee snapshots\<close>

record fee_snapshot =
  fs_booking_id :: string
  fs_channel :: booking_channel
  fs_finance_mode :: string
  fs_currency :: string
  fs_customer_charge :: int
  fs_owner_profile_id :: string
  fs_venue_id :: string
  fs_commercial_term_id :: "string option"
  fs_terms_source :: string
  fs_original_price :: int
  fs_owner_price_adjustment :: int
  fs_price_adjustment_reason :: "string option"
  fs_final_booking_price :: int
  fs_commission_basis :: int
  fs_commission_bps :: int
  fs_commission_amount :: int
  fs_owner_net :: int
  fs_calculation_version :: string

subsection \<open>Refund requests\<close>

datatype refund_status = RefundPending | RefundApproved | RefundRejected | RefundCancelled

record refund_request =
  rr_id :: string
  rr_booking :: string
  rr_customer :: string
  rr_owner :: string
  rr_venue :: "string option"
  rr_reason :: string
  rr_status :: refund_status
  rr_owner_note :: "string option"
  rr_requested_at :: time
  rr_reviewed_at :: "time option"
  rr_reviewed_by :: "string option"
  rr_updated_at :: time

subsection \<open>Webhook inbox\<close>

datatype webhook_processing =
    WReceived | WRetryable | WProcessing | WProcessed | WTerminal | WDuplicate
datatype webhook_verification = WDiagnostic | WVerified | WQuarantined

text \<open>The redacted payload is a JSON object with these keys; the empty string and \<open>0\<close> stand
  for an absent key, as they do for the Go struct it is decoded into.\<close>

record webhook_payload =
  wp_state :: string
  wp_amount :: int
  wp_currency :: string
  wp_source_reference :: string
  wp_payment_id :: string
  wp_payment_request_id :: string
  wp_reason_code :: string

record webhook_event =
  we_id :: string
  we_provider :: string
  we_environment :: string
  we_event_type :: string
  we_event_key :: string
  we_primary_object :: string
  we_raw_body_hash :: string
  we_auth_contract :: string
  we_payload :: webhook_payload
  we_attempt_id :: "string option"
  we_correlation_id :: string
  we_verification :: webhook_verification
  we_processing :: webhook_processing
  we_received_at :: time
  we_created_at :: time
  we_updated_at :: time
  we_processed_at :: "time option"

record dbs =
  bookings :: "booking list"
  courts :: "court list"
  venues :: "venue list"
  owner_profiles :: "owner_profile list"
  promos :: "promo list"
  commercial_terms :: "commercial_term list"
  operating_hours :: "operating_hour list"
  blocked_slots :: "blocked_slot list"
  ledger :: "ledger_row list"
  offline_customers :: "offline_customer list"
  refund_requests :: "refund_request list"
  snapshots :: "fee_snapshot list"
  attempts :: "payment_attempt list"
  contracts :: "create_contract list"
  captures :: "capture_fact list"
  commands :: "command list"
  cancellations :: "create_cancellation list"
  webhook_events :: "webhook_event list"
  audit_log :: "audit_params list"

type_synonym env = "dbs environment"
type_synonym 'a app = "(app_error, dbs, 'a) tx"

text \<open>\<open>paymentflow.LockBooking\<close>: the advisory lock that serialises the payment flows of
  one booking.\<close>

definition LockBooking :: "env \<Rightarrow> string \<Rightarrow> unit app" where
  "LockBooking E bookingID = lock_wait E EDatabase"

text \<open>\<open>PlatformService.Record\<close>: validation, then the row in the caller's transaction.\<close>

definition audit_record :: "env \<Rightarrow> audit_params \<Rightarrow> unit app" where
  "audit_record E p =
     (if \<not> Validate E p then fail EAudit
      else exec E EDatabase (\<lambda>now d. d\<lparr>audit_log := audit_log d @ [p]\<rparr>))"

end
