(* ===== verification/Outbox.thy ===== *)
theory Outbox
  imports Database Sha256
begin

text \<open>
  \<^verbatim>\<open>internal/paymentoutbox\<close>: the transactional outbox of provider commands. The first
  part is \<^verbatim>\<open>model.go\<close> (validation, idempotency keys, digests), the second
  \<^verbatim>\<open>repository.go\<close> (enqueue, claim under a lease, and the three ways to finish a lease).
  \<open>uuid.Parse\<close> of \<^verbatim>\<open>github.com/google/uuid\<close> is the parameter \<open>uuid_parse\<close>: the
  canonical form of a string that is a UUID, \<open>None\<close> otherwise.
\<close>

subsection \<open>Validation\<close>

definition MaxLeaseDuration :: duration where "MaxLeaseDuration = 24 * hour"

record enqueue_params =
  ep_command_type :: command_type
  ep_aggregate_type :: aggregate_type
  ep_aggregate_id :: string
  ep_attempt_id :: string
  ep_idempotency_key :: string
  ep_request_hash :: string
  ep_payload :: command_payload
  ep_available_at :: time

definition is_hex64 :: "string \<Rightarrow> bool" where
  "is_hex64 s \<longleftrightarrow> length s = 64 \<and> list_all is_lower_hex s"

text \<open>\<open>[1-9][0-9]{0,4}\<close>, to the end of the text.\<close>

fun attempt_no_suffix :: "string \<Rightarrow> bool" where
  "attempt_no_suffix (c # d # ds) =
     (c = CHR '':'' \<and> CHR ''1'' \<le> d \<and> d \<le> CHR ''9'' \<and> length ds \<le> 4 \<and> list_all is_digit ds)"
| "attempt_no_suffix _ = False"

definition payment_create_key :: "string \<Rightarrow> bool" where
  "payment_create_key v =
     (case strip_prefix ''payment:create:'' v of None \<Rightarrow> False
      | Some r \<Rightarrow> is_canonical_uuid (take 36 r) \<and> attempt_no_suffix (drop 36 r))"

definition payment_inquiry_key :: "string \<Rightarrow> bool" where
  "payment_inquiry_key v =
     (case strip_prefix ''payment:inquiry:'' v of None \<Rightarrow> False | Some r \<Rightarrow> is_canonical_uuid r)"

definition validateIdempotencyKey :: "command_type \<Rightarrow> string \<Rightarrow> bool" where
  "validateIdempotencyKey t v =
     (case t of PAYMENT_CREATE \<Rightarrow> payment_create_key v
      | PAYMENT_INQUIRY \<Rightarrow> payment_inquiry_key v | _ \<Rightarrow> False)"

definition deterministicIdempotencyKey :: "command_type \<Rightarrow> string \<Rightarrow> string \<Rightarrow> int \<Rightarrow> string" where
  "deterministicIdempotencyKey t bookingID attemptID attemptNo =
     (case t of PAYMENT_CREATE \<Rightarrow> ''payment:create:'' @ bookingID @ '':'' @ format_int attemptNo
      | PAYMENT_INQUIRY \<Rightarrow> ''payment:inquiry:'' @ attemptID | _ \<Rightarrow> [])"

definition DeterministicCreateKey :: "string \<Rightarrow> int \<Rightarrow> string" where
  "DeterministicCreateKey bookingID attemptNo =
     deterministicIdempotencyKey PAYMENT_CREATE bookingID [] attemptNo"

definition DeterministicInquiryKey :: "string \<Rightarrow> string" where
  "DeterministicInquiryKey attemptID = deterministicIdempotencyKey PAYMENT_INQUIRY [] attemptID 0"

definition isAllowedRequestedMethod :: "string \<Rightarrow> bool" where
  "isAllowedRequestedMethod v \<longleftrightarrow> v \<in> {''BCA_VA'', ''QRIS'', ''CARD''}"

text \<open>\<open>json.Marshal\<close> of the payload; its strings have passed validation, so none of their
  bytes is escaped.\<close>

definition marshal_payload :: "command_payload \<Rightarrow> string" where
  "marshal_payload p =
    (let q = [char_of (34 :: nat)]
     in ''{'' @ q @ ''attempt_id'' @ q @ '':'' @ q @ pl_attempt_id p @ q
        @ '','' @ q @ ''amount_rupiah'' @ q @ '':'' @ format_int (pl_amount p)
        @ '','' @ q @ ''currency'' @ q @ '':'' @ q @ pl_currency p @ q
        @ '','' @ q @ ''requested_method'' @ q @ '':'' @ q @ pl_requested_method p @ q @ ''}'')"

definition ValidateEnqueueParams :: "env \<Rightarrow> enqueue_params \<Rightarrow> outbox_error + string" where
  "ValidateEnqueueParams E p =
    (if ep_command_type p = REFUND_CREATE \<or> ep_command_type p = REFUND_INQUIRY
       then Inl ErrRefundOutboxNotReady
     else if ep_aggregate_type p \<noteq> PAYMENT_ATTEMPT then Inl ErrInvalidCommand
     else if uuid_parse E (ep_aggregate_id p) \<noteq> Some (ep_aggregate_id p) then Inl ErrInvalidCommand
     else if ep_attempt_id p = [] \<or> ep_attempt_id p \<noteq> ep_aggregate_id p then Inl ErrInvalidCommand
     else if uuid_parse E (ep_attempt_id p) \<noteq> Some (ep_attempt_id p) then Inl ErrInvalidCommand
     else if \<not> validateIdempotencyKey (ep_command_type p) (ep_idempotency_key p)
           \<or> \<not> is_hex64 (ep_request_hash p) then Inl ErrInvalidCommand
     else if uuid_parse E (pl_attempt_id (ep_payload p)) \<noteq> Some (pl_attempt_id (ep_payload p))
           \<or> pl_attempt_id (ep_payload p) \<noteq> ep_aggregate_id p
           \<or> pl_amount (ep_payload p) \<le> 0
           \<or> pl_currency (ep_payload p) \<noteq> ''IDR''
           \<or> \<not> isAllowedRequestedMethod (pl_requested_method (ep_payload p))
       then Inl ErrInvalidCommand
     else if length (marshal_payload (ep_payload p)) > 16384 then Inl ErrInvalidCommand
     else Inr (marshal_payload (ep_payload p)))"

definition validateProviderReference :: "string \<Rightarrow> bool" where
  "validateProviderReference v =
     (case strip_prefix ''sha256:'' v of None \<Rightarrow> False | Some r \<Rightarrow> is_hex64 r)"

definition DigestProviderReference :: "unicode_tables \<Rightarrow> string \<Rightarrow> outbox_error + string" where
  "DigestProviderReference U v =
     (if \<not> Valid U v True then Inl ErrInvalidCommand else Inr (''sha256:'' @ sha256_hex v))"

definition validateLeaseOwner :: "string \<Rightarrow> bool" where
  "validateLeaseOwner v =
     (case strip_prefix ''worker:'' v of None \<Rightarrow> False | Some r \<Rightarrow> is_canonical_uuid r)"

definition validateLeaseToken :: "env \<Rightarrow> string \<Rightarrow> bool" where
  "validateLeaseToken E token \<longleftrightarrow> uuid_parse E token = Some token"

definition validateLeaseDuration :: "duration \<Rightarrow> bool" where
  "validateLeaseDuration v \<longleftrightarrow> microsecond \<le> v \<and> v \<le> MaxLeaseDuration \<and> v mod microsecond = 0"

definition validateRetryDelay :: "duration \<Rightarrow> bool" where
  "validateRetryDelay v \<longleftrightarrow> 0 \<le> v \<and> v \<le> 24 * hour \<and> v mod microsecond = 0"

definition validateRetryableErrorCode :: "string \<Rightarrow> bool" where
  "validateRetryableErrorCode c \<longleftrightarrow>
     c \<in> {''RETRYABLE_TIMEOUT'', ''RETRYABLE_PROVIDER'', ''RATE_LIMITED'', ''MALFORMED_RESPONSE''}"

definition validateTerminalErrorCode :: "string \<Rightarrow> bool" where
  "validateTerminalErrorCode c \<longleftrightarrow>
     c \<in> {''AUTHENTICATION_FAILED'', ''INVALID_REQUEST'', ''IDEMPOTENCY_CONFLICT'',
          ''REFERENCE_MISMATCH'', ''AMOUNT_MISMATCH'', ''CURRENCY_MISMATCH'', ''TERMINAL_PROVIDER''}"

lemma digest_is_valid_reference:
  "DigestProviderReference U v = Inr r \<Longrightarrow> validateProviderReference r"
  using sha256_hex_shape
  by (auto simp: DigestProviderReference_def validateProviderReference_def is_hex64_def
      list_all_iff split: if_splits)

subsection \<open>Enqueue\<close>

record attempt_facts =
  af_booking_id :: string
  af_attempt_no :: int
  af_state :: attempt_state
  af_requested_method :: string
  af_currency :: string
  af_amount :: int
  af_request_hash :: string

definition loadPaymentAttemptFactsTx :: "env \<Rightarrow> string \<Rightarrow> attempt_facts app" where
  "loadPaymentAttemptFactsTx E attemptID =
     andthen (query E EDatabase (\<lambda>now d. query_row (\<lambda>a. pa_id a = attemptID) (attempts d)))
     (\<lambda>r. case r of None \<Rightarrow> fail (EOutbox ErrInvalidCommand)
      | Some a \<Rightarrow> ret \<lparr>af_booking_id = pa_booking_id a, af_attempt_no = pa_attempt_no a,
          af_state = pa_state a, af_requested_method = pa_requested_method a,
          af_currency = pa_currency a, af_amount = pa_amount a,
          af_request_hash = pa_request_hash a\<rparr>)"

definition commandKeyExistsTx :: "env \<Rightarrow> command_type \<Rightarrow> string \<Rightarrow> bool app" where
  "commandKeyExistsTx E t k =
     query E EDatabase (\<lambda>now d. sql_exists (\<lambda>c. cm_type c = t \<and> cm_idempotency_key c = k) (commands d))"

definition new_command :: "enqueue_params \<Rightarrow> string \<Rightarrow> time \<Rightarrow> command" where
  "new_command p i now =
    \<lparr>cm_id = i, cm_type = ep_command_type p, cm_aggregate_type = ep_aggregate_type p,
     cm_aggregate_id = ep_aggregate_id p, cm_attempt_id = Some (ep_attempt_id p),
     cm_idempotency_key = ep_idempotency_key p, cm_request_hash = ep_request_hash p,
     cm_payload = ep_payload p, cm_state = StatePending, cm_attempt_count = 0,
     cm_malformed_count = 0,
     cm_available_at = (if is_zero (ep_available_at p) then now else ep_available_at p),
     cm_lease_owner = None, cm_lease_token = None, cm_lease_expires_at = None,
     cm_last_error = None, cm_provider_reference = None, cm_created_at = now,
     cm_updated_at = now, cm_completed_at = None\<rparr>"

text \<open>The unique constraints of the table: the primary key, \<open>(command_type,
  idempotency_key)\<close> and \<open>(command_type, aggregate_type, aggregate_id)\<close>.
  \<open>ON CONFLICT DO NOTHING\<close> covers all three.\<close>

definition command_conflict :: "command \<Rightarrow> command \<Rightarrow> bool" where
  "command_conflict c c' \<longleftrightarrow> cm_id c = cm_id c'
     \<or> cm_type c = cm_type c' \<and> cm_idempotency_key c = cm_idempotency_key c'
     \<or> cm_type c = cm_type c' \<and> cm_aggregate_type c = cm_aggregate_type c'
        \<and> cm_aggregate_id c = cm_aggregate_id c'"

definition insert_command :: "command \<Rightarrow> command list \<Rightarrow> command list option" where
  "insert_command c t = (if sql_exists (command_conflict c) t then None else Some (t @ [c]))"

text \<open>The trigger \<open>validate_payment_create_command_contract\<close> of migration 028: it runs
  before the conflict check.\<close>

definition create_contract_trigger :: "dbs \<Rightarrow> command \<Rightarrow> bool" where
  "create_contract_trigger d c \<longleftrightarrow> cm_type c \<noteq> PAYMENT_CREATE \<or>
     (case query_row (\<lambda>k. Some (cc_attempt_id k) = cm_attempt_id c) (contracts d) of
        None \<Rightarrow> False | Some k \<Rightarrow> cc_request_hash k = cm_request_hash c)"

definition missing_contract_message :: string where
  "missing_contract_message =
     ''payment create command requires the matching immutable create contract''"

definition canonical_payload :: "enqueue_params \<Rightarrow> attempt_facts \<Rightarrow> command_payload" where
  "canonical_payload p f =
    \<lparr>pl_attempt_id = ep_attempt_id p, pl_amount = af_amount f, pl_currency = af_currency f,
     pl_requested_method = af_requested_method f\<rparr>"

text \<open>The two halves of \<open>EnqueueTx\<close> after its checks: \<open>INSERT .. ON CONFLICT DO NOTHING\<close>,
  and the comparison with the row that was there before.\<close>

definition insert_statement :: "enqueue_params \<Rightarrow> string \<Rightarrow> time \<Rightarrow> dbs
    \<Rightarrow> (app_error + command option) \<times> dbs" where
  "insert_statement p i now d =
    (let c = new_command p i now
     in if \<not> create_contract_trigger d c then (Inl (ERaised missing_contract_message), d)
        else case insert_command c (commands d) of
          None \<Rightarrow> (Inr None, d) | Some t \<Rightarrow> (Inr (Some c), d\<lparr>commands := t\<rparr>))"

definition replay_command :: "env \<Rightarrow> enqueue_params \<Rightarrow> command_payload \<Rightarrow> (command \<times> bool) app" where
  "replay_command E p canonical =
    andthen (query E EDatabase (\<lambda>now d. query_row (\<lambda>c. cm_type c = ep_command_type p
               \<and> cm_idempotency_key c = ep_idempotency_key p) (commands d)))
    (\<lambda>found. case found of
       None \<Rightarrow> andthen (query E EDatabase (\<lambda>now d. sql_exists (\<lambda>c. cm_type c = ep_command_type p
                 \<and> cm_aggregate_type c = ep_aggregate_type p \<and> cm_aggregate_id c = ep_aggregate_id p)
                 (commands d)))
               (\<lambda>ex. if ex then fail (EOutbox OErrIdempotencyConflict)
                    else fail (EOutbox ErrCommandNotFound))
     | Some c \<Rightarrow>
         if cm_aggregate_type c \<noteq> ep_aggregate_type p \<or> cm_aggregate_id c \<noteq> ep_aggregate_id p
            \<or> cm_attempt_id c = None \<or> cm_attempt_id c \<noteq> Some (ep_attempt_id p)
            \<or> cm_request_hash c \<noteq> ep_request_hash p \<or> cm_payload c \<noteq> canonical
         then fail (EOutbox OErrIdempotencyConflict)
         else ret (c, True))"

definition EnqueueTx :: "env \<Rightarrow> enqueue_params \<Rightarrow> (command \<times> bool) app" where
  "EnqueueTx E p =
    (case ValidateEnqueueParams E p of Inl e \<Rightarrow> fail (EOutbox e)
     | Inr requestedPayload \<Rightarrow>
    andthen (loadPaymentAttemptFactsTx E (ep_attempt_id p)) (\<lambda>facts.
    let expectedKey = deterministicIdempotencyKey (ep_command_type p) (af_booking_id facts)
                        (ep_attempt_id p) (af_attempt_no facts);
        canonical = canonical_payload p facts
    in if ep_idempotency_key p \<noteq> expectedKey \<or> ep_request_hash p \<noteq> af_request_hash facts
          \<or> ep_payload p \<noteq> canonical \<or> requestedPayload \<noteq> marshal_payload canonical
          \<or> (ep_command_type p = PAYMENT_INQUIRY \<and> af_state facts \<noteq> AttemptPending)
       then andthen (commandKeyExistsTx E (ep_command_type p) (ep_idempotency_key p)) (\<lambda>ex.
              if ex then fail (EOutbox OErrIdempotencyConflict) else fail (EOutbox ErrInvalidCommand))
       else
    andthen (fresh_uuid E) (\<lambda>i.
    andthen (db_call E EDatabase (insert_statement p i)) (\<lambda>inserted.
      case inserted of Some c \<Rightarrow> ret (c, False) | None \<Rightarrow> replay_command E p canonical))))"

subsection \<open>Claim\<close>

datatype claim_result = NoCommand | Retry | Claimed command

text \<open>The states a command may be claimed from, and \<open>claimablePaymentCommandPredicate\<close>
  over the joined attempt, booking and cancellation.\<close>

definition claim_due :: "time \<Rightarrow> command \<Rightarrow> bool" where
  "claim_due now c \<longleftrightarrow>
     (cm_state c = StatePending \<or> cm_state c = StateRetryable) \<and> cm_available_at c \<le> now
     \<or> cm_state c = StateLeased \<and> (case cm_lease_expires_at c of None \<Rightarrow> False | Some t \<Rightarrow> t \<le> now)"

definition terminal_attempt :: "attempt_state \<Rightarrow> bool" where
  "terminal_attempt st \<longleftrightarrow>
     st \<in> {AttemptCaptured, AttemptFailed, AttemptExpired, AttemptCancelled}"

definition claimablePaymentCommandPredicate ::
    "time \<Rightarrow> command \<Rightarrow> payment_attempt \<Rightarrow> booking \<Rightarrow> bool \<Rightarrow> bool" where
  "claimablePaymentCommandPredicate now c pa b cancelled \<longleftrightarrow>
     cm_type c = PAYMENT_CREATE \<and> \<not> cancelled
       \<and> (pa_state pa = AttemptCreated \<and> bk_status b = PENDING_PAYMENT \<or> pa_state pa = AttemptPending)
     \<or> cm_type c = PAYMENT_INQUIRY \<and> pa_state pa = AttemptPending
     \<or> cm_state c = StateLeased
       \<and> (case cm_lease_expires_at c of None \<Rightarrow> False | Some t \<Rightarrow> t \<le> now)
       \<and> (cm_type c = PAYMENT_CREATE \<or> cm_type c = PAYMENT_INQUIRY)
       \<and> terminal_attempt (pa_state pa)"

definition joined_claimable :: "time \<Rightarrow> dbs \<Rightarrow> command \<Rightarrow> payment_attempt \<Rightarrow> booking \<Rightarrow> bool" where
  "joined_claimable now d c pa b \<longleftrightarrow>
     cm_attempt_id c = Some (pa_id pa) \<and> bk_id b = pa_booking_id pa \<and> claim_due now c
     \<and> claimablePaymentCommandPredicate now c pa b
          (sql_exists (\<lambda>x. cx_command_id x = cm_id c) (cancellations d))"

definition claim_eligible :: "time \<Rightarrow> dbs \<Rightarrow> command_type list \<Rightarrow> command \<Rightarrow> bool" where
  "claim_eligible now d types c \<longleftrightarrow> cm_type c \<in> set types \<and>
     list_ex (\<lambda>pa. list_ex (joined_claimable now d c pa) (bookings d)) (attempts d)"

definition claim_order :: "command \<Rightarrow> time \<times> time \<times> string" where
  "claim_order c = (cm_available_at c, cm_created_at c, cm_id c)"

definition claim_candidate :: "time \<Rightarrow> dbs \<Rightarrow> command_type list \<Rightarrow> command option" where
  "claim_candidate now d types = first_by claim_order (filter (claim_eligible now d types) (commands d))"

definition booking_of_attempt :: "dbs \<Rightarrow> string option \<Rightarrow> string" where
  "booking_of_attempt d a =
     (case query_row (\<lambda>pa. Some (pa_id pa) = a) (attempts d) of None \<Rightarrow> [] | Some pa \<Rightarrow> pa_booking_id pa)"

text \<open>The \<open>SET\<close> clause of the claim.\<close>

definition lease_command :: "string \<Rightarrow> string \<Rightarrow> int \<Rightarrow> time \<Rightarrow> command \<Rightarrow> command" where
  "lease_command owner token leaseMicros stmt c =
     c\<lparr>cm_state := StateLeased, cm_attempt_count := cm_attempt_count c + 1,
       cm_lease_owner := Some owner, cm_lease_token := Some token,
       cm_lease_expires_at := Some (stmt + leaseMicros * microsecond),
       cm_last_error := (if cm_state c = StateLeased then Some ''LEASE_EXPIRED'' else cm_last_error c),
       cm_updated_at := stmt\<rparr>"

definition claim_update :: "string \<Rightarrow> string \<Rightarrow> int \<Rightarrow> time \<Rightarrow> command_type list \<Rightarrow> string
    \<Rightarrow> time \<Rightarrow> dbs \<Rightarrow> command option \<times> dbs" where
  "claim_update owner token leaseMicros stmt types cid now d =
    (let p = (\<lambda>c. cm_id c = cid \<and> claim_eligible now d types c);
         f = lease_command owner token leaseMicros stmt
     in (case sql_returning p f (commands d) of [] \<Rightarrow> (None, d)
         | c # _ \<Rightarrow> (Some c, d\<lparr>commands := sql_update p f (commands d)\<rparr>)))"

definition claimNextOnce :: "env \<Rightarrow> string \<Rightarrow> int \<Rightarrow> command_type list \<Rightarrow> claim_result app" where
  "claimNextOnce E owner leaseMicros types =
    in_tx E EDatabase (
      andthen (query E EDatabase (\<lambda>now d. map_option (\<lambda>c. (cm_id c, booking_of_attempt d (cm_attempt_id c)))
                                     (claim_candidate now d types)))
      (\<lambda>cand. case cand of None \<Rightarrow> ret NoCommand
       | Some (candidateID, bookingID) \<Rightarrow>
      andthen (LockBooking E bookingID) (\<lambda>_.
      andthen (fresh_uuid E) (\<lambda>token.
      andthen (read_clock E) (\<lambda>stmt.
      andthen (db_call E EDatabase (\<lambda>now d.
          let (r, d') = claim_update owner token leaseMicros stmt types candidateID now d in (Inr r, d')))
      (\<lambda>r. case r of None \<Rightarrow> ret Retry | Some c \<Rightarrow> ret (Claimed c)))))))"

definition commandTypeFilter :: "command_type list \<Rightarrow> outbox_error + command_type list" where
  "commandTypeFilter types =
     (if \<exists>t \<in> set types. t \<noteq> PAYMENT_CREATE \<and> t \<noteq> PAYMENT_INQUIRY then Inl ErrInvalidCommand
      else if types = [] then Inl ErrInvalidCommand
      else Inr (filter (\<lambda>t. t \<in> set types) [PAYMENT_CREATE, PAYMENT_INQUIRY]))"

text \<open>
  The \<open>for\<close> loop retries as long as another session takes each candidate between the
  two statements, which nothing bounds; the loop therefore has fuel, and running out
  of it is \<open>None\<close>.
\<close>

primrec claim_loop :: "nat \<Rightarrow> env \<Rightarrow> string \<Rightarrow> int \<Rightarrow> command_type list \<Rightarrow> command option app" where
  "claim_loop 0 E owner us types = ret None"
| "claim_loop (Suc n) E owner us types =
    andthen (claimNextOnce E owner us types) (\<lambda>r.
      case r of NoCommand \<Rightarrow> fail (EOutbox ErrNoCommandAvailable)
      | Retry \<Rightarrow> claim_loop n E owner us types
      | Claimed c \<Rightarrow> ret (Some c))"

definition ClaimNextForTypes ::
    "nat \<Rightarrow> env \<Rightarrow> string \<Rightarrow> duration \<Rightarrow> command_type list \<Rightarrow> command option app" where
  "ClaimNextForTypes fuel E owner lease types =
    (if \<not> validateLeaseOwner owner \<or> \<not> validateLeaseDuration lease
       then fail (EOutbox ErrInvalidCommand)
     else case commandTypeFilter types of Inl e \<Rightarrow> fail (EOutbox e)
     | Inr types' \<Rightarrow> claim_loop fuel E owner (lease div microsecond) types')"

definition ClaimNext :: "nat \<Rightarrow> env \<Rightarrow> string \<Rightarrow> duration \<Rightarrow> command option app" where
  "ClaimNext fuel E owner lease = ClaimNextForTypes fuel E owner lease [PAYMENT_CREATE, PAYMENT_INQUIRY]"

subsection \<open>Finishing a lease\<close>

definition holds_lease :: "string \<Rightarrow> string \<Rightarrow> string \<Rightarrow> time \<Rightarrow> command \<Rightarrow> bool" where
  "holds_lease cid owner token now c \<longleftrightarrow>
     cm_id c = cid \<and> cm_state c = StateLeased \<and> cm_lease_owner c = Some owner
     \<and> cm_lease_token c = Some token
     \<and> (case cm_lease_expires_at c of None \<Rightarrow> False | Some t \<Rightarrow> now < t)"

definition finishLeaseTx :: "env \<Rightarrow> string \<Rightarrow> string \<Rightarrow> string \<Rightarrow> (time \<Rightarrow> command \<Rightarrow> command) \<Rightarrow> command app" where
  "finishLeaseTx E i owner token setClause =
    (case uuid_parse E i of None \<Rightarrow> fail (EOutbox ErrInvalidCommand)
     | Some cid \<Rightarrow> db_call E EDatabase (\<lambda>now d.
         case sql_returning (holds_lease cid owner token now) (setClause now) (commands d) of
           [] \<Rightarrow> (Inl (EOutbox ErrLeaseConflict), d)
         | c # _ \<Rightarrow> (Inr c, d\<lparr>commands :=
             sql_update (holds_lease cid owner token now) (setClause now) (commands d)\<rparr>)))"

definition finishLease :: "env \<Rightarrow> string \<Rightarrow> string \<Rightarrow> string \<Rightarrow> (time \<Rightarrow> command \<Rightarrow> command) \<Rightarrow> command app" where
  "finishLease E i owner token setClause =
    (if uuid_parse E i = None then fail (EOutbox ErrInvalidCommand)
     else in_tx E EDatabase (finishLeaseTx E i owner token setClause))"

definition clear_lease :: "command \<Rightarrow> command" where
  "clear_lease c = c\<lparr>cm_lease_owner := None, cm_lease_token := None, cm_lease_expires_at := None\<rparr>"

definition set_retryable :: "string \<Rightarrow> int \<Rightarrow> time \<Rightarrow> command \<Rightarrow> command" where
  "set_retryable code delayMicros now c =
    (if code = ''MALFORMED_RESPONSE'' then
       (clear_lease c)\<lparr>
         cm_state := (if cm_malformed_count c \<ge> 1 then StateTerminal else StateRetryable),
         cm_available_at := (if cm_malformed_count c \<ge> 1 then cm_available_at c
                             else now + delayMicros * microsecond),
         cm_last_error := Some code, cm_malformed_count := cm_malformed_count c + 1,
         cm_updated_at := now,
         cm_completed_at := (if cm_malformed_count c \<ge> 1 then Some now else None)\<rparr>
     else (clear_lease c)\<lparr>cm_state := StateRetryable,
         cm_available_at := now + delayMicros * microsecond,
         cm_last_error := Some code, cm_updated_at := now, cm_completed_at := None\<rparr>)"

definition set_succeeded :: "string \<Rightarrow> time \<Rightarrow> command \<Rightarrow> command" where
  "set_succeeded ref now c =
     (clear_lease c)\<lparr>cm_state := StateSucceeded, cm_provider_reference := Some ref,
       cm_updated_at := now, cm_completed_at := Some now, cm_last_error := None\<rparr>"

definition set_terminal :: "string \<Rightarrow> time \<Rightarrow> command \<Rightarrow> command" where
  "set_terminal code now c =
     (clear_lease c)\<lparr>cm_state := StateTerminal, cm_last_error := Some code,
       cm_updated_at := now, cm_completed_at := Some now\<rparr>"

definition MarkRetryable :: "env \<Rightarrow> string \<Rightarrow> string \<Rightarrow> string \<Rightarrow> string \<Rightarrow> duration \<Rightarrow> command app" where
  "MarkRetryable E i owner token code delay =
    (if \<not> validateLeaseOwner owner \<or> \<not> validateLeaseToken E token
        \<or> \<not> validateRetryableErrorCode code \<or> \<not> validateRetryDelay delay
     then fail (EOutbox ErrInvalidCommand)
     else finishLease E i owner token (set_retryable code (delay div microsecond)))"

definition MarkRetryableTx :: "env \<Rightarrow> string \<Rightarrow> string \<Rightarrow> string \<Rightarrow> string \<Rightarrow> duration \<Rightarrow> command app" where
  "MarkRetryableTx E i owner token code delay =
    (if \<not> validateLeaseOwner owner \<or> \<not> validateLeaseToken E token
        \<or> \<not> validateRetryableErrorCode code \<or> \<not> validateRetryDelay delay
     then fail (EOutbox ErrInvalidCommand)
     else finishLeaseTx E i owner token (set_retryable code (delay div microsecond)))"

definition MarkSucceeded :: "env \<Rightarrow> string \<Rightarrow> string \<Rightarrow> string \<Rightarrow> string \<Rightarrow> command app" where
  "MarkSucceeded E i owner token ref =
    (if \<not> validateLeaseOwner owner \<or> \<not> validateLeaseToken E token \<or> \<not> validateProviderReference ref
     then fail (EOutbox ErrInvalidCommand)
     else finishLease E i owner token (set_succeeded ref))"

definition MarkSucceededTx :: "env \<Rightarrow> string \<Rightarrow> string \<Rightarrow> string \<Rightarrow> string \<Rightarrow> command app" where
  "MarkSucceededTx E i owner token ref =
    (if \<not> validateLeaseOwner owner \<or> \<not> validateLeaseToken E token \<or> \<not> validateProviderReference ref
     then fail (EOutbox ErrInvalidCommand)
     else finishLeaseTx E i owner token (set_succeeded ref))"

definition MarkTerminal :: "env \<Rightarrow> string \<Rightarrow> string \<Rightarrow> string \<Rightarrow> string \<Rightarrow> command app" where
  "MarkTerminal E i owner token code =
    (if \<not> validateLeaseOwner owner \<or> \<not> validateLeaseToken E token \<or> \<not> validateTerminalErrorCode code
     then fail (EOutbox ErrInvalidCommand)
     else finishLease E i owner token (set_terminal code))"

definition MarkTerminalTx :: "env \<Rightarrow> string \<Rightarrow> string \<Rightarrow> string \<Rightarrow> string \<Rightarrow> command app" where
  "MarkTerminalTx E i owner token code =
    (if \<not> validateLeaseOwner owner \<or> \<not> validateLeaseToken E token \<or> \<not> validateTerminalErrorCode code
     then fail (EOutbox ErrInvalidCommand)
     else finishLeaseTx E i owner token (set_terminal code))"

end
