(* ===== verification/OutboxLifecycle.thy ===== *)
theory OutboxLifecycle
  imports Outbox
begin

text \<open>
  The life of a provider command. \<open>outbox_order\<close> relates two states of the database
  when the commands of the first are still there, with the same identity, and a
  finished command has not changed at all; \<open>outbox_wf\<close> is the invariant of the table
  (the CHECK and UNIQUE constraints of migration 029 that the code relies on, and the
  two-strike rule for malformed responses). Both are preserved by every operation of the
  repository, whatever statements fail and whatever other sessions do that respects them.
\<close>

subsection \<open>Commands only move forward\<close>

definition finished :: "command_state \<Rightarrow> bool" where
  "finished s \<longleftrightarrow> s = StateSucceeded \<or> s = StateTerminal"

definition command_identity :: "command \<Rightarrow> string \<times> command_type \<times> aggregate_type \<times> string
    \<times> string option \<times> string \<times> string \<times> command_payload \<times> time" where
  "command_identity c = (cm_id c, cm_type c, cm_aggregate_type c, cm_aggregate_id c,
     cm_attempt_id c, cm_idempotency_key c, cm_request_hash c, cm_payload c, cm_created_at c)"

definition command_step :: "command \<Rightarrow> command \<Rightarrow> bool" where
  "command_step c c' \<longleftrightarrow> command_identity c = command_identity c'
     \<and> cm_attempt_count c \<le> cm_attempt_count c' \<and> cm_malformed_count c \<le> cm_malformed_count c'
     \<and> (finished (cm_state c) \<longrightarrow> c' = c)"

definition outbox_order :: "dbs \<Rightarrow> dbs \<Rightarrow> bool" where
  "outbox_order d d' \<longleftrightarrow> grown_by command_step (commands d) (commands d')"

lemma command_step_trans: "command_step a b \<Longrightarrow> command_step b c \<Longrightarrow> command_step a c"
  by (auto simp: command_step_def)

interpretation command_rows: row_step command_step
  by unfold_locales (simp add: command_step_def, erule command_step_trans)

lemma outbox_order_nth:
  "outbox_order d d' \<longleftrightarrow> length (commands d) \<le> length (commands d') \<and>
     (\<forall>i < length (commands d). command_step (commands d ! i) (commands d' ! i))"
  by (simp add: outbox_order_def grown_by_nth)

interpretation outbox_moves: table_order outbox_order
  by unfold_locales
    (simp_all add: outbox_order_def command_rows.grown_refl command_rows.grown_trans)

lemma outbox_order_commands: "commands d' = commands d \<Longrightarrow> outbox_order d d'"
  by (simp add: outbox_order_def command_rows.grown_refl)

lemma outbox_order_update:
  assumes "\<And>c. p c \<Longrightarrow> command_step c (f c)"
  shows "outbox_order d (d\<lparr>commands := sql_update p f (commands d)\<rparr>)"
  using assms by (simp add: outbox_order_def command_rows.grown_update)

lemma outbox_order_append: "outbox_order d (d\<lparr>commands := commands d @ cs\<rparr>)"
  by (simp add: outbox_order_def command_rows.grown_append)

lemma command_step_lease:
  "claim_due now c \<Longrightarrow> command_step c (lease_command owner token us stmt c)"
  by (auto simp: command_step_def lease_command_def command_identity_def claim_due_def finished_def)

lemma command_step_finish:
  assumes "holds_lease cid owner token now c"
  shows "command_step c (set_retryable code us now c)"
    and "command_step c (set_succeeded ref now c)"
    and "command_step c (set_terminal code now c)"
  using assms
  by (auto simp: command_step_def holds_lease_def finished_def command_identity_def
      set_retryable_def set_succeeded_def set_terminal_def clear_lease_def)

subsection \<open>The table invariant\<close>

definition lease_fields_ok :: "command \<Rightarrow> bool" where
  "lease_fields_ok c \<longleftrightarrow>
     (cm_state c = StateLeased \<longleftrightarrow> cm_lease_owner c \<noteq> None)
     \<and> (cm_state c = StateLeased \<longleftrightarrow> cm_lease_token c \<noteq> None)
     \<and> (cm_state c = StateLeased \<longleftrightarrow> cm_lease_expires_at c \<noteq> None)"

text \<open>\<open>chk_payment_provider_command_error_state\<close>.\<close>

definition error_state_ok :: "command \<Rightarrow> bool" where
  "error_state_ok c \<longleftrightarrow>
    (case cm_state c of
       StatePending \<Rightarrow> cm_last_error c = None
     | StateLeased \<Rightarrow> True
     | StateSucceeded \<Rightarrow> cm_last_error c = None
     | StateRetryable \<Rightarrow> (case cm_last_error c of None \<Rightarrow> False | Some e \<Rightarrow>
         validateRetryableErrorCode e \<and> (e = ''MALFORMED_RESPONSE'' \<longrightarrow> cm_malformed_count c = 1))
     | StateTerminal \<Rightarrow> (case cm_last_error c of None \<Rightarrow> False | Some e \<Rightarrow>
         (validateTerminalErrorCode e \<or> e = ''MALFORMED_RESPONSE'')
         \<and> (e = ''MALFORMED_RESPONSE'' \<longrightarrow> cm_malformed_count c = 2)))"

text \<open>The CHECK constraints of the table, and that the second malformed response is final.\<close>

definition command_ok :: "command \<Rightarrow> bool" where
  "command_ok c \<longleftrightarrow> lease_fields_ok c
     \<and> (case cm_lease_owner c of None \<Rightarrow> True | Some u \<Rightarrow> validateLeaseOwner u)
     \<and> (cm_completed_at c \<noteq> None \<longleftrightarrow> finished (cm_state c))
     \<and> (case cm_provider_reference c of None \<Rightarrow> cm_state c \<noteq> StateSucceeded
         | Some r \<Rightarrow> cm_state c = StateSucceeded \<and> validateProviderReference r)
     \<and> error_state_ok c
     \<and> 0 \<le> cm_attempt_count c
     \<and> 0 \<le> cm_malformed_count c \<and> cm_malformed_count c \<le> 2
     \<and> (cm_malformed_count c = 2 \<longrightarrow> cm_state c = StateTerminal)"

text \<open>The rows satisfy the constraints, and no two of them conflict.\<close>

definition outbox_wf :: "dbs \<Rightarrow> bool" where
  "outbox_wf d \<longleftrightarrow> (\<forall>c \<in> set (commands d). command_ok c)
     \<and> distinct (map cm_id (commands d))
     \<and> distinct (map (\<lambda>c. (cm_type c, cm_idempotency_key c)) (commands d))
     \<and> distinct (map (\<lambda>c. (cm_type c, cm_aggregate_type c, cm_aggregate_id c)) (commands d))"

definition keeps_wf :: "dbs \<Rightarrow> dbs \<Rightarrow> bool" where
  "keeps_wf d d' \<longleftrightarrow> (outbox_wf d \<longrightarrow> outbox_wf d')"

interpretation outbox_inv: table_order keeps_wf
  by unfold_locales (auto simp: keeps_wf_def)

lemma outbox_wf_commands: "commands d' = commands d \<Longrightarrow> keeps_wf d d'"
  by (simp add: keeps_wf_def outbox_wf_def)

lemma outbox_wf_update:
  assumes ok: "\<And>c. p c \<Longrightarrow> command_ok c \<Longrightarrow> command_ok (f c)"
    and same: "\<And>c. command_identity (f c) = command_identity c"
  shows "keeps_wf d (d\<lparr>commands := sql_update p f (commands d)\<rparr>)"
proof -
  have "cm_id (f c) = cm_id c" "cm_type (f c) = cm_type c"
    "cm_idempotency_key (f c) = cm_idempotency_key c"
    "cm_aggregate_type (f c) = cm_aggregate_type c" "cm_aggregate_id (f c) = cm_aggregate_id c" for c
    using same [of c] by (simp_all add: command_identity_def)
  then show ?thesis
    using ok by (auto simp: keeps_wf_def outbox_wf_def map_sql_update set_sql_update)
qed

lemma command_ok_new: "command_ok (new_command p i now)"
  by (simp add: new_command_def command_ok_def lease_fields_ok_def finished_def error_state_ok_def)

lemma outbox_wf_insert:
  assumes "insert_command c (commands d) = Some t" and "command_ok c"
  shows "keeps_wf d (d\<lparr>commands := t\<rparr>)"
  using assms
  by (force simp: insert_command_def keeps_wf_def outbox_wf_def command_conflict_def
      sql_exists_iff split: if_splits)

lemma command_ok_lease:
  "claim_due now c \<Longrightarrow> validateLeaseOwner owner \<Longrightarrow> command_ok c
    \<Longrightarrow> command_ok (lease_command owner token us stmt c)"
  by (auto simp: lease_command_def command_ok_def lease_fields_ok_def claim_due_def finished_def
      error_state_ok_def split: option.splits)

lemma command_ok_finish:
  assumes "holds_lease cid owner token now c" and "command_ok c"
  shows "validateRetryableErrorCode code \<Longrightarrow> command_ok (set_retryable code us now c)"
    and "validateProviderReference ref \<Longrightarrow> command_ok (set_succeeded ref now c)"
    and "validateTerminalErrorCode code \<Longrightarrow> command_ok (set_terminal code now c)"
  using assms
  by (auto simp: holds_lease_def command_ok_def lease_fields_ok_def finished_def error_state_ok_def
      set_retryable_def set_succeeded_def set_terminal_def clear_lease_def
      validateTerminalErrorCode_def split: option.splits)

lemma finish_identity:
  "command_identity (set_retryable code us now c) = command_identity c"
  "command_identity (set_succeeded ref now c) = command_identity c"
  "command_identity (set_terminal code now c) = command_identity c"
  "command_identity (lease_command owner token us stmt c) = command_identity c"
  by (simp_all add: command_identity_def set_retryable_def set_succeeded_def set_terminal_def
      clear_lease_def lease_command_def)

subsection \<open>Tombstones\<close>

text \<open>A cancelled create command stays undispatched for ever (migration 028).\<close>

definition tombstones_ok :: "dbs \<Rightarrow> bool" where
  "tombstones_ok d \<longleftrightarrow> (\<forall>x \<in> set (cancellations d). \<forall>c \<in> set (commands d).
     cm_id c = cx_command_id x \<longrightarrow>
       cm_type c = PAYMENT_CREATE \<and> cm_state c = StatePending \<and> cm_attempt_count c = 0)
   \<and> (\<forall>x \<in> set (cancellations d). \<exists>c \<in> set (commands d). cm_id c = cx_command_id x)"

definition keeps_tombstones :: "dbs \<Rightarrow> dbs \<Rightarrow> bool" where
  "keeps_tombstones d d' \<longleftrightarrow>
     (tombstones_ok d \<longrightarrow> tombstones_ok d' \<and> set (cancellations d) \<subseteq> set (cancellations d'))"

lemma tombstones_same:
  "commands d' = commands d \<Longrightarrow> cancellations d' = cancellations d \<Longrightarrow> keeps_tombstones d d'"
  by (simp add: keeps_tombstones_def tombstones_ok_def)

lemma tombstones_update:
  assumes skip: "\<And>c x. c \<in> set (commands d) \<Longrightarrow> x \<in> set (cancellations d) \<Longrightarrow>
      cm_id c = cx_command_id x \<Longrightarrow> cm_type c = PAYMENT_CREATE \<Longrightarrow> cm_state c = StatePending \<Longrightarrow> \<not> p c"
    and same: "\<And>c. cm_id (f c) = cm_id c"
  shows "keeps_tombstones d (d\<lparr>commands := sql_update p f (commands d)\<rparr>)"
proof -
  have "tombstones_ok (d\<lparr>commands := sql_update p f (commands d)\<rparr>)" if ok: "tombstones_ok d"
    unfolding tombstones_ok_def
  proof (intro conjI ballI impI)
    fix x c' assume x: "x \<in> set (cancellations (d\<lparr>commands := sql_update p f (commands d)\<rparr>))"
      and c': "c' \<in> set (commands (d\<lparr>commands := sql_update p f (commands d)\<rparr>))"
      and id: "cm_id c' = cx_command_id x"
    obtain c where c: "c \<in> set (commands d)" "c' = (if p c then f c else c)"
      using c' by (auto simp: set_sql_update)
    have "cm_id c = cx_command_id x" using id c same by (auto split: if_splits)
    with ok x c have st: "cm_type c = PAYMENT_CREATE" "cm_state c = StatePending" "cm_attempt_count c = 0"
      by (auto simp: tombstones_ok_def)
    have "\<not> p c" by (rule skip [OF c(1) _ \<open>cm_id c = cx_command_id x\<close> st(1,2)]) (use x in simp)
    with c st show "cm_type c' = PAYMENT_CREATE" "cm_state c' = StatePending" "cm_attempt_count c' = 0"
      by simp_all
  next
    fix x assume "x \<in> set (cancellations (d\<lparr>commands := sql_update p f (commands d)\<rparr>))"
    with ok obtain c where "c \<in> set (commands d)" "cm_id c = cx_command_id x"
      by (auto simp: tombstones_ok_def)
    then show "\<exists>c' \<in> set (commands (d\<lparr>commands := sql_update p f (commands d)\<rparr>)). cm_id c' = cx_command_id x"
      using same by (intro bexI [of _ "if p c then f c else c"]) (auto simp: set_sql_update)
  qed
  then show ?thesis by (simp add: keeps_tombstones_def)
qed

lemma claim_skips_tombstones:
  assumes "x \<in> set (cancellations d)" and "cm_id c = cx_command_id x"
    and "cm_type c = PAYMENT_CREATE" and "cm_state c = StatePending"
  shows "\<not> claim_eligible now d types c"
  using assms
  by (auto simp: claim_eligible_def joined_claimable_def claimablePaymentCommandPredicate_def
      list_ex_iff sql_exists_iff)

subsection \<open>Every operation of the repository\<close>

text \<open>
  A relation that every change of the command table respects is respected by every
  operation. The assumptions are the three kinds of change: a row inserted, a claim, and
  the end of a lease.
\<close>

definition finish_clause :: "(time \<Rightarrow> command \<Rightarrow> command) \<Rightarrow> bool" where
  "finish_clause f \<longleftrightarrow>
     (\<exists>code us. validateRetryableErrorCode code \<and> f = set_retryable code us)
     \<or> (\<exists>ref. validateProviderReference ref \<and> f = set_succeeded ref)
     \<or> (\<exists>code. validateTerminalErrorCode code \<and> f = set_terminal code)"

lemma finish_clause_intros:
  "validateRetryableErrorCode code \<Longrightarrow> finish_clause (set_retryable code us)"
  "validateProviderReference ref \<Longrightarrow> finish_clause (set_succeeded ref)"
  "validateTerminalErrorCode code \<Longrightarrow> finish_clause (set_terminal code)"
  by (auto simp: finish_clause_def)

locale outbox_relation = table_order R
  for R :: "dbs \<Rightarrow> dbs \<Rightarrow> bool" +
  assumes R_insert: "insert_command (new_command p i now) (commands d) = Some t
      \<Longrightarrow> R d (d\<lparr>commands := t\<rparr>)"
    and R_claim: "validateLeaseOwner owner \<Longrightarrow> R d (snd (claim_update owner token us stmt types cid now d))"
    and R_finish: "finish_clause f
      \<Longrightarrow> R d (d\<lparr>commands := sql_update (holds_lease cid owner token now) (f now) (commands d)\<rparr>)"
begin

lemma guar_loadPaymentAttemptFactsTx: "guar R (loadPaymentAttemptFactsTx E a)"
  unfolding loadPaymentAttemptFactsTx_def
  by (intro guar_intros) (auto split: option.split intro!: guar_intros)

lemma guar_insert_statement: "guar R (db_call E EDatabase (insert_statement p i))"
  by (rule guar_db_call) (auto simp: insert_statement_def Let_def R_refl R_insert split: option.split)

lemma guar_replay_command: "guar R (replay_command E p canonical)"
  unfolding replay_command_def
  by (intro guar_andthen guar_query) (auto split: option.split intro!: guar_intros)

lemma guar_EnqueueTx: "guar R (EnqueueTx E p)"
proof (cases "ValidateEnqueueParams E p")
  case (Inl e)
  then show ?thesis by (simp add: EnqueueTx_def guar_fail)
next
  case (Inr a)
  show ?thesis
    unfolding EnqueueTx_def Inr sum.case commandKeyExistsTx_def Let_def
    by (intro guar_andthen guar_loadPaymentAttemptFactsTx guar_if guar_query guar_fresh_uuid
        guar_insert_statement)
       (auto split: option.split intro!: guar_intros guar_replay_command)
qed

lemma guar_finishLeaseTx: "finish_clause f \<Longrightarrow> guar R (finishLeaseTx E i owner token f)"
  unfolding finishLeaseTx_def
  by (auto split: option.split list.split intro!: guar_fail guar_db_call simp: R_refl R_finish)

lemma guar_MarkRetryableTx: "guar R (MarkRetryableTx E i owner token code delay)"
  unfolding MarkRetryableTx_def by (auto intro!: guar_fail guar_finishLeaseTx finish_clause_intros)

lemma guar_MarkSucceededTx: "guar R (MarkSucceededTx E i owner token ref)"
  unfolding MarkSucceededTx_def by (auto intro!: guar_fail guar_finishLeaseTx finish_clause_intros)

lemma guar_MarkTerminalTx: "guar R (MarkTerminalTx E i owner token code)"
  unfolding MarkTerminalTx_def by (auto intro!: guar_fail guar_finishLeaseTx finish_clause_intros)

lemma top_finishLease:
  "env_guar R E \<Longrightarrow> finish_clause f \<Longrightarrow> top_guar R (finishLease E i owner token f)"
  unfolding finishLease_def by (intro top_if top_fail top_in_tx guar_finishLeaseTx)

lemma top_MarkRetryable: "env_guar R E \<Longrightarrow> top_guar R (MarkRetryable E i owner token code delay)"
  unfolding MarkRetryable_def by (auto intro!: top_fail top_finishLease finish_clause_intros)

lemma top_MarkSucceeded: "env_guar R E \<Longrightarrow> top_guar R (MarkSucceeded E i owner token ref)"
  unfolding MarkSucceeded_def by (auto intro!: top_fail top_finishLease finish_clause_intros)

lemma top_MarkTerminal: "env_guar R E \<Longrightarrow> top_guar R (MarkTerminal E i owner token code)"
  unfolding MarkTerminal_def by (auto intro!: top_fail top_finishLease finish_clause_intros)

lemma top_claimNextOnce: "env_guar R E \<Longrightarrow> validateLeaseOwner owner \<Longrightarrow> top_guar R (claimNextOnce E owner us types)"
  unfolding claimNextOnce_def LockBooking_def
  by (intro top_in_tx guar_andthen guar_query)
     (auto split: option.split claim_result.split prod.split intro!: guar_intros guar_db_call
       simp: split_beta R_claim)

lemma top_claim_loop: "env_guar R E \<Longrightarrow> validateLeaseOwner owner \<Longrightarrow> top_guar R (claim_loop n E owner us types)"
proof (induction n)
  case 0
  then show ?case by (simp add: top_ret)
next
  case (Suc n)
  then show ?case
    unfolding claim_loop.simps
    by (intro top_andthen top_claimNextOnce) (auto split: claim_result.split intro!: top_intros)
qed

lemma top_ClaimNextForTypes:
  "env_guar R E \<Longrightarrow> top_guar R (ClaimNextForTypes n E owner lease types)"
  unfolding ClaimNextForTypes_def
  by (auto split: sum.split intro!: top_fail top_claim_loop)

end

lemma R_claim_cases:
  assumes "\<And>d'. d' = d \<Longrightarrow> R d d'"
    and "R d (d\<lparr>commands := sql_update (\<lambda>c. cm_id c = cid \<and> claim_eligible now d types c)
           (lease_command owner token us stmt) (commands d)\<rparr>)"
  shows "R d (snd (claim_update owner token us stmt types cid now d))"
  using assms by (auto simp: claim_update_def Let_def split: list.split)

lemma claim_eligible_due: "claim_eligible now d types c \<Longrightarrow> claim_due now c"
  by (auto simp: claim_eligible_def joined_claimable_def list_ex_iff)

lemma finish_clause_step:
  "finish_clause f \<Longrightarrow> holds_lease cid owner token now c \<Longrightarrow> command_step c (f now c)"
  by (auto simp: finish_clause_def intro: command_step_finish)

lemma finish_clause_ok:
  "finish_clause f \<Longrightarrow> holds_lease cid owner token now c \<Longrightarrow> command_ok c \<Longrightarrow> command_ok (f now c)"
  by (auto simp: finish_clause_def intro: command_ok_finish)

lemma finish_clause_identity: "finish_clause f \<Longrightarrow> command_identity (f now c) = command_identity c"
  by (auto simp: finish_clause_def finish_identity)

interpretation outbox_moves: outbox_relation outbox_order
proof unfold_locales
  show "insert_command (new_command p i now) (commands d) = Some t
      \<Longrightarrow> outbox_order d (d\<lparr>commands := t\<rparr>)" for p i now d t
    by (auto simp: insert_command_def outbox_order_append split: if_splits)
  show "validateLeaseOwner owner \<Longrightarrow> outbox_order d (snd (claim_update owner token us stmt types cid now d))"
    for d owner token us stmt types cid now
    by (rule R_claim_cases)
       (auto intro!: outbox_order_update command_step_lease simp: outbox_moves.R_refl dest: claim_eligible_due)
  show "finish_clause f \<Longrightarrow> outbox_order d (d\<lparr>commands :=
      sql_update (holds_lease cid owner token now) (f now) (commands d)\<rparr>)"
    for f d cid owner token now
    by (intro outbox_order_update finish_clause_step)
qed

interpretation outbox_inv: outbox_relation keeps_wf
proof unfold_locales
  show "insert_command (new_command p i now) (commands d) = Some t
      \<Longrightarrow> keeps_wf d (d\<lparr>commands := t\<rparr>)" for p i now d t
    by (rule outbox_wf_insert [OF _ command_ok_new])
  show "validateLeaseOwner owner \<Longrightarrow> keeps_wf d (snd (claim_update owner token us stmt types cid now d))"
    for d owner token us stmt types cid now
    by (rule R_claim_cases)
       (auto intro!: outbox_wf_update command_ok_lease simp: outbox_wf_commands finish_identity
         dest: claim_eligible_due)
  show "finish_clause f \<Longrightarrow> keeps_wf d (d\<lparr>commands :=
      sql_update (holds_lease cid owner token now) (f now) (commands d)\<rparr>)"
    for f d cid owner token now
    by (rule outbox_wf_update) (auto intro: finish_clause_ok simp: finish_clause_identity)
qed

interpretation tombstones: table_order keeps_tombstones
  by unfold_locales (auto simp: keeps_tombstones_def)

lemma new_command_not_tombstoned:
  assumes "insert_command c (commands d) = Some t"
  shows "keeps_tombstones d (d\<lparr>commands := t\<rparr>)"
  using assms
  by (fastforce simp: insert_command_def keeps_tombstones_def tombstones_ok_def sql_exists_iff
      command_conflict_def split: if_splits)

interpretation tombstones: outbox_relation keeps_tombstones
proof unfold_locales
  show "insert_command (new_command p i now) (commands d) = Some t
      \<Longrightarrow> keeps_tombstones d (d\<lparr>commands := t\<rparr>)" for p i now d t
    by (rule new_command_not_tombstoned)
  show "validateLeaseOwner owner \<Longrightarrow> keeps_tombstones d (snd (claim_update owner token us stmt types cid now d))"
    for d owner token us stmt types cid now
    by (rule R_claim_cases)
       (auto intro!: tombstones_update simp: tombstones_same lease_command_def
         dest: claim_skips_tombstones)
  show "finish_clause f \<Longrightarrow> keeps_tombstones d (d\<lparr>commands :=
      sql_update (holds_lease cid owner token now) (f now) (commands d)\<rparr>)"
    for f d cid owner token now
    using finish_clause_identity [of f now]
    by (intro tombstones_update) (auto simp: holds_lease_def command_identity_def)
qed

end
