(* ===== verification/Scenario.thy ===== *)
theory Scenario
  imports Outbox
begin

text \<open>
  A small concrete deployment: one court, one pending booking with a price of
  Rp 150,000, one gateway attempt for it and its create command, in an environment
  without failures and without other sessions. The witnesses of the properties run the
  model on it.
\<close>

definition uid :: "char \<Rightarrow> string" where
  "uid c = ''0000000'' @ [c] @ ''-0000-4000-8000-000000000000''"

definition quiet_env :: env where
  "quiet_env = \<lparr>clock = (\<lambda>n. (1000 + int n) * second), db_fault = (\<lambda>n. False),
     interfere = (\<lambda>n d. d), ctx_done = (\<lambda>n. False),
     new_uuid = (\<lambda>n. uid (''abcdef'' ! (n mod 6))),
     uuid_parse = (\<lambda>s. if is_canonical_uuid s then Some s else None),
     go_unicode = \<lparr>rune_print = (\<lambda>r. False), rune_space = (\<lambda>r. False),
       rune_letter = (\<lambda>r. False), rune_lower = (\<lambda>r. r)\<rparr>,
     upper_case = (\<lambda>s. s), sql_upper = (\<lambda>s. s)\<rparr>"

definition start_world :: "dbs \<Rightarrow> dbs world" where
  "start_world d = \<lparr>db = d, base = d, steps = 0, tx_now = 1000 * second\<rparr>"

definition sample_booking :: booking where
  "sample_booking = \<lparr>bk_id = uid CHR ''1'', bk_customer = uid CHR ''5'', bk_court = uid CHR ''6'',
     bk_date = 20000, bk_start = 600, bk_end = 660, bk_original_price = Some 150000,
     bk_discount = 0, bk_final_price = Some 150000, bk_promo_id = None, bk_promo_code = None,
     bk_total_price = 150000, bk_status = PENDING_PAYMENT, bk_payment_reference = None,
     bk_expires_at = Some (5000 * second), bk_created_at = 100 * second,
     bk_updated_at = 100 * second\<rparr>"

definition sample_hash :: string where
  "sample_hash = replicate 64 CHR ''a''"

definition sample_attempt :: payment_attempt where
  "sample_attempt = \<lparr>pa_id = uid CHR ''2'', pa_booking_id = uid CHR ''1'', pa_attempt_no = 1,
     pa_provider = ''XENDIT'', pa_environment = ''TEST'', pa_requested_method = ''QRIS'',
     pa_integration_mode = ''PAYMENT_LINK'', pa_capture_method = ''AUTOMATIC'',
     pa_state = AttemptCreated, pa_currency = ''IDR'', pa_amount = 150000,
     pa_local_reference = ''pay-'' @ uid CHR ''2'', pa_request_hash = sample_hash,
     pa_session_id = None, pa_payment_req_id = None, pa_payment_id = None, pa_status_code = None,
     pa_checkout_url = None, pa_expires_at = 4000 * second, pa_captured_at = None,
     pa_created_at = 200 * second, pa_updated_at = 200 * second\<rparr>"

definition sample_contract :: create_contract where
  "sample_contract = \<lparr>cc_attempt_id = uid CHR ''2'', cc_request_hash = sample_hash,
     cc_requested_expires_at = 4000 * second, cc_success_url = ''https://app.test/ok'',
     cc_cancel_url = ''https://app.test/cancel''\<rparr>"

definition sample_payload :: command_payload where
  "sample_payload = \<lparr>pl_attempt_id = uid CHR ''2'', pl_amount = 150000, pl_currency = ''IDR'',
     pl_requested_method = ''QRIS''\<rparr>"

definition sample_params :: enqueue_params where
  "sample_params = \<lparr>ep_command_type = PAYMENT_CREATE, ep_aggregate_type = PAYMENT_ATTEMPT,
     ep_aggregate_id = uid CHR ''2'', ep_attempt_id = uid CHR ''2'',
     ep_idempotency_key = ''payment:create:'' @ uid CHR ''1'' @ '':1'',
     ep_request_hash = sample_hash, ep_payload = sample_payload, ep_available_at = 0\<rparr>"

definition sample_command :: command where
  "sample_command = new_command sample_params (uid CHR ''3'') (300 * second)"

definition sample_owner :: string where
  "sample_owner = ''worker:'' @ uid CHR ''9''"

definition sample_db :: dbs where
  "sample_db = \<lparr>bookings = [sample_booking], courts = [], venues = [], owner_profiles = [],
     promos = [], commercial_terms = [], operating_hours = [], blocked_slots = [],
     ledger = [], offline_customers = [], refund_requests = [], snapshots = [], attempts = [sample_attempt],
     contracts = [sample_contract], captures = [], commands = [], cancellations = [],
     webhook_events = [], audit_log = []\<rparr>"

definition sample_db_queued :: dbs where
  "sample_db_queued = sample_db\<lparr>commands := [sample_command]\<rparr>"

definition sample_db_leased :: dbs where
  "sample_db_leased = sample_db\<lparr>commands :=
     [lease_command sample_owner (uid CHR ''4'') (60 * 1000000) (900 * second) sample_command]\<rparr>"

lemmas scenario_defs = uid_def quiet_env_def start_world_def sample_booking_def sample_hash_def
  sample_attempt_def sample_contract_def sample_payload_def sample_params_def sample_command_def
  sample_owner_def sample_db_def sample_db_queued_def sample_db_leased_def

subsection \<open>Evaluating the scenario\<close>

named_theorems scenario \<open>facts that evaluate the scenario\<close>

lemma uid_canonical [scenario]: "is_canonical_uuid (uid c) \<longleftrightarrow> hex_class (of_char c)"
  by (simp add: is_canonical_uuid_def uid_def matches_def uuid_pattern_def numeral_eq_Suc
      hex_class_def dash_class_def)

lemma uid_inj [scenario]: "uid c = uid d \<longleftrightarrow> c = d"
  by (simp add: uid_def)

lemma uid_length [scenario]: "length (uid c) = 36"
  by (simp add: uid_def)

lemma uid_not_empty [scenario]: "uid c \<noteq> []"
  by (simp add: uid_def)

lemma quiet_env_simps [scenario]:
  "clock quiet_env n = (1000 + int n) * second" "db_fault quiet_env n = False"
  "interfere quiet_env n d = d" "ctx_done quiet_env n = False"
  "new_uuid quiet_env n = uid (''abcdef'' ! (n mod 6))"
  "uuid_parse quiet_env s = (if is_canonical_uuid s then Some s else None)"
  by (simp_all add: quiet_env_def)

lemma start_world_simps [scenario]:
  "db (start_world d) = d" "base (start_world d) = d" "steps (start_world d) = 0"
  "tx_now (start_world d) = 1000 * second"
  by (simp_all add: start_world_def)

lemma sample_key [scenario]: "payment_create_key (''payment:create:'' @ uid CHR ''1'' @ '':1'')"
  using uid_canonical [of "CHR ''1''"] uid_length [of "CHR ''1''"]
  by (simp add: payment_create_key_def hex_class_def less_eq_char_def del: append_Cons)

lemma sample_hash_hex [scenario]: "is_hex64 sample_hash"
  by (simp add: is_hex64_def sample_hash_def list_all_iff go_defs less_eq_char_def)

lemma sample_marshal [scenario]: "length (marshal_payload sample_payload) \<le> 16384"
  by (simp add: marshal_payload_def sample_payload_def uid_def format_int_def format_nat.simps)

lemma sample_validate [scenario]:
  "ValidateEnqueueParams quiet_env sample_params = Inr (marshal_payload sample_payload)"
  using sample_key sample_hash_hex sample_marshal
  by (simp add: ValidateEnqueueParams_def sample_params_def scenario hex_class_def
      validateIdempotencyKey_def sample_payload_def isAllowedRequestedMethod_def)

lemma sample_owner_valid [scenario]: "validateLeaseOwner sample_owner"
  using uid_canonical [of "CHR ''9''"]
  by (simp add: validateLeaseOwner_def sample_owner_def hex_class_def del: append_Cons)

lemma sample_lease_valid [scenario]: "validateLeaseDuration minute"
  by (simp add: validateLeaseDuration_def MaxLeaseDuration_def)

lemma sample_db_simps [scenario]:
  "commands sample_db = []" "attempts sample_db = [sample_attempt]"
  "contracts sample_db = [sample_contract]" "cancellations sample_db = []"
  "commands sample_db_queued = [sample_command]" "attempts sample_db_queued = [sample_attempt]"
  "contracts sample_db_queued = [sample_contract]" "cancellations sample_db_queued = []"
  by (simp_all add: sample_db_def sample_db_queued_def)

lemma sample_command_simps [scenario]:
  "cm_id sample_command = uid CHR ''3''" "cm_state sample_command = StatePending"
  "cm_type sample_command = PAYMENT_CREATE" "cm_lease_token sample_command = None"
  "cm_updated_at sample_command = 300 * second"
  by (simp_all add: sample_command_def new_command_def sample_params_def)

lemma sample_params_simps [scenario]:
  "ep_command_type sample_params = PAYMENT_CREATE" "ep_aggregate_type sample_params = PAYMENT_ATTEMPT"
  "ep_aggregate_id sample_params = uid CHR ''2''" "ep_attempt_id sample_params = uid CHR ''2''"
  "ep_idempotency_key sample_params = ''payment:create:'' @ uid CHR ''1'' @ '':1''"
  "ep_request_hash sample_params = sample_hash" "ep_payload sample_params = sample_payload"
  "ep_available_at sample_params = 0"
  by (simp_all add: sample_params_def)

lemma sample_attempt_simps [scenario]:
  "pa_id sample_attempt = uid CHR ''2''" "pa_booking_id sample_attempt = uid CHR ''1''"
  "pa_attempt_no sample_attempt = 1" "pa_state sample_attempt = AttemptCreated"
  "pa_requested_method sample_attempt = ''QRIS''" "pa_currency sample_attempt = ''IDR''"
  "pa_amount sample_attempt = 150000" "pa_request_hash sample_attempt = sample_hash"
  by (simp_all add: sample_attempt_def)

lemma sample_enqueue:
  "EnqueueTx quiet_env sample_params (start_world sample_db) =
     (Inr (new_command sample_params (uid CHR ''b'') (1000 * second), False),
      (start_world sample_db)\<lparr>steps := 3,
        db := sample_db\<lparr>commands := [new_command sample_params (uid CHR ''b'') (1000 * second)]\<rparr>\<rparr>)"
proof -
  have t: "create_contract_trigger sample_db (new_command sample_params i now)" for i now
    by (simp add: create_contract_trigger_def new_command_def scenario query_row_def sample_contract_def)
  have f: "loadPaymentAttemptFactsTx quiet_env (uid CHR ''2'') (start_world sample_db) =
    (Inr \<lparr>af_booking_id = uid CHR ''1'', af_attempt_no = 1, af_state = AttemptCreated,
       af_requested_method = ''QRIS'', af_currency = ''IDR'', af_amount = 150000,
       af_request_hash = sample_hash\<rparr>, (start_world sample_db)\<lparr>steps := 1\<rparr>)"
    by (simp add: loadPaymentAttemptFactsTx_def tx_defs scenario query_row_def start_world_def)
  have c: "canonical_payload sample_params \<lparr>af_booking_id = uid CHR ''1'', af_attempt_no = 1,
      af_state = AttemptCreated, af_requested_method = ''QRIS'', af_currency = ''IDR'',
      af_amount = 150000, af_request_hash = sample_hash\<rparr> = sample_payload"
    by (simp add: canonical_payload_def scenario sample_payload_def)
  have one: "format_int 1 = ''1''" by code_simp
  have "insert_statement sample_params (uid CHR ''b'') (1000 * second) sample_db =
    (Inr (Some (new_command sample_params (uid CHR ''b'') (1000 * second))),
     sample_db\<lparr>commands := [new_command sample_params (uid CHR ''b'') (1000 * second)]\<rparr>)"
    by (simp add: insert_statement_def t insert_command_def sql_exists_def scenario Let_def)
  then show ?thesis
    by (simp add: EnqueueTx_def andthen_def attempt_def db_call_def fresh_uuid_def ret_app numeral_3_eq_3
        scenario f c one deterministicIdempotencyKey_def Let_def)
qed

end
