(* ===== verification/OutboxProperties.thy ===== *)
theory OutboxProperties
  imports OutboxLifecycle Scenario
begin

text \<open>
  The properties of the outbox: safety of every operation, what a claim returns and when
  it returns something, who can finish a lease, that enqueueing twice is enqueueing once,
  and that the updates the Go code sends pass the lifecycle trigger of migration 026.
\<close>

subsection \<open>Safety of every operation\<close>

definition outbox_safe :: "dbs \<Rightarrow> dbs \<Rightarrow> bool" where
  "outbox_safe d d' \<longleftrightarrow> outbox_order d d' \<and> keeps_wf d d' \<and> keeps_tombstones d d'"

lemma outbox_safe_refl: "outbox_safe d d"
  by (simp add: outbox_safe_def outbox_moves.R_refl keeps_wf_def keeps_tombstones_def)

lemma outbox_safe_trans: "outbox_safe d1 d2 \<Longrightarrow> outbox_safe d2 d3 \<Longrightarrow> outbox_safe d1 d3"
  using outbox_moves.R_trans by (auto simp: outbox_safe_def keeps_wf_def keeps_tombstones_def)

interpretation outbox_safety: outbox_relation outbox_safe
proof unfold_locales
  show "outbox_safe d d" for d by (rule outbox_safe_refl)
  show "outbox_safe d1 d2 \<Longrightarrow> outbox_safe d2 d3 \<Longrightarrow> outbox_safe d1 d3" for d1 d2 d3
    by (rule outbox_safe_trans)
qed (simp_all add: outbox_safe_def outbox_moves.R_insert outbox_inv.R_insert tombstones.R_insert
    outbox_moves.R_claim outbox_inv.R_claim tombstones.R_claim
    outbox_moves.R_finish outbox_inv.R_finish tombstones.R_finish)

lemma quiet_env_guar: "env_guar outbox_safe quiet_env"
  by (simp add: env_guar_def scenario outbox_safe_refl)

text \<open>
  C3. Safety of the outbox. Whatever statements fail, and whatever other sessions
  that respect the same rules commit at the points where the code waits, no operation of
  the repository deletes a command, changes its identity, lowers its counters or touches a
  finished command; the CHECK and UNIQUE constraints of the table and the two-strike rule
  for malformed responses stay true; and a create command with a cancellation tombstone
  stays pending with no dispatch.
\<close>

theorem outbox_operations_safe:
  assumes "env_guar outbox_safe E"
  shows "guar outbox_safe (EnqueueTx E p)
    \<and> guar outbox_safe (MarkRetryableTx E i owner token code delay)
    \<and> guar outbox_safe (MarkSucceededTx E i owner token ref)
    \<and> guar outbox_safe (MarkTerminalTx E i owner token code')
    \<and> top_guar outbox_safe (MarkRetryable E i owner token code delay)
    \<and> top_guar outbox_safe (MarkSucceeded E i owner token ref)
    \<and> top_guar outbox_safe (MarkTerminal E i owner token code')
    \<and> top_guar outbox_safe (ClaimNextForTypes n E owner lease types)"
  by (intro conjI outbox_safety.guar_EnqueueTx outbox_safety.guar_MarkRetryableTx
      outbox_safety.guar_MarkSucceededTx outbox_safety.guar_MarkTerminalTx
      outbox_safety.top_MarkRetryable outbox_safety.top_MarkSucceeded
      outbox_safety.top_MarkTerminal outbox_safety.top_ClaimNextForTypes assms)

theorem outbox_operations_safe_witness:
  "top_guar outbox_safe (ClaimNextForTypes 1 quiet_env sample_owner (minute) [PAYMENT_CREATE])"
  using outbox_operations_safe [OF quiet_env_guar] by blast

subsection \<open>What a claim returns\<close>

lemma claim_candidate_Some:
  assumes "claim_candidate now d types = Some c"
  shows "c \<in> set (commands d)" and "claim_eligible now d types c"
    and "\<And>x. x \<in> set (commands d) \<Longrightarrow> claim_eligible now d types x \<Longrightarrow> claim_order c \<le> claim_order x"
  using first_by_Some [OF assms [unfolded claim_candidate_def]] by auto

lemma claim_candidate_None:
  "claim_candidate now d types = None \<longleftrightarrow> (\<forall>c \<in> set (commands d). \<not> claim_eligible now d types c)"
  by (simp add: claim_candidate_def first_by_None filter_empty_conv)

lemma claim_update_Some:
  assumes "claim_update owner token us stmt types cid now d = (Some c', d')"
  shows "\<exists>c \<in> set (commands d). cm_id c = cid \<and> claim_eligible now d types c
     \<and> c' = lease_command owner token us stmt c
     \<and> d' = d\<lparr>commands := sql_update (\<lambda>x. cm_id x = cid \<and> claim_eligible now d types x)
                (lease_command owner token us stmt) (commands d)\<rparr>"
proof -
  let ?p = "\<lambda>x. cm_id x = cid \<and> claim_eligible now d types x"
  let ?f = "lease_command owner token us stmt"
  from assms have d': "d' = d\<lparr>commands := sql_update ?p ?f (commands d)\<rparr>"
    and "c' \<in> set (sql_returning ?p ?f (commands d))"
    by (auto simp: claim_update_def Let_def split: list.splits)
  then show ?thesis by (auto simp: sql_returning_def)
qed

text \<open>\<open>d'\<close> is a state reached from \<open>d0\<close> in which the eligible command was leased.\<close>

definition claimed :: "string \<Rightarrow> int \<Rightarrow> command_type list \<Rightarrow> dbs \<Rightarrow> command \<Rightarrow> dbs \<Rightarrow> bool" where
  "claimed owner us types d0 c' d' \<longleftrightarrow> (\<exists>d c now stmt token. outbox_safe d0 d \<and> c \<in> set (commands d)
     \<and> claim_eligible now d types c \<and> c' = lease_command owner token us stmt c
     \<and> d' = d\<lparr>commands := sql_update (\<lambda>x. cm_id x = cm_id c \<and> claim_eligible now d types x)
                (lease_command owner token us stmt) (commands d)\<rparr>)"

lemma claimed_trans:
  "outbox_safe d0 d1 \<Longrightarrow> claimed owner us types d1 c' d' \<Longrightarrow> claimed owner us types d0 c' d'"
  unfolding claimed_def using outbox_safe_trans by blast

lemma env_guar_twice:
  "env_guar outbox_safe E \<Longrightarrow> outbox_safe d (interfere E m (interfere E n d))"
  using outbox_safe_trans by (simp add: env_guar_def) blast

lemma claimNextOnce_Claimed:
  assumes "claimNextOnce E owner us types w = (Inr (Claimed c'), w')"
    and "env_guar outbox_safe E"
  shows "claimed owner us types (db w) c' (db w')"
proof -
  let ?n = "steps w"
  let ?d = "interfere E (Suc (Suc ?n)) (interfere E ?n (db w))"
  obtain cid where "claim_update owner (new_uuid E (Suc (Suc (Suc ?n)))) us
      (clock E (Suc (Suc (Suc (Suc ?n))))) types cid (clock E ?n) ?d = (Some c', db w')"
    using assms(1)
    by (auto simp: claimNextOnce_def in_tx_Inr tx_Inr LockBooking_def
        split: option.splits prod.splits)
  from claim_update_Some [OF this] env_guar_twice [OF assms(2)] show ?thesis
    unfolding claimed_def by blast
qed

lemma claimNextOnce_Retry:
  assumes "claimNextOnce E owner us types w = (Inr Retry, w')" and "env_guar outbox_safe E"
  shows "outbox_safe (db w) (db w')" and "db w' = base w'"
proof -
  have "db w' = interfere E (Suc (Suc (steps w))) (interfere E (steps w) (db w))"
    using assms(1)
    by (auto simp: claimNextOnce_def in_tx_Inr tx_Inr LockBooking_def claim_update_def Let_def
        split: option.splits prod.splits list.splits)
  then show "outbox_safe (db w) (db w')" using env_guar_twice [OF assms(2)] by simp
  show "db w' = base w'" using assms(1) unfolding claimNextOnce_def by (rule in_tx_base)
qed

lemma claim_loop_Some:
  assumes "claim_loop n E owner us types w = (Inr (Some c'), w')" and "env_guar outbox_safe E"
  shows "claimed owner us types (db w) c' (db w')"
  using assms(1)
proof (induction n arbitrary: w)
  case (Suc n)
  then obtain r v where r: "claimNextOnce E owner us types w = (Inr r, v)"
    and rest: "(case r of NoCommand \<Rightarrow> fail (EOutbox ErrNoCommandAvailable)
      | Retry \<Rightarrow> claim_loop n E owner us types | Claimed c \<Rightarrow> ret (Some c)) v = (Inr (Some c'), w')"
    by (auto simp: andthen_Inr)
  show ?case
  proof (cases r)
    case NoCommand
    with rest show ?thesis by simp
  next
    case Retry
    with rest Suc.IH [of v] claimNextOnce_Retry(1) [of E owner us types w v] r assms(2)
    show ?thesis by (auto intro: claimed_trans)
  next
    case (Claimed c)
    with rest r claimNextOnce_Claimed [of E owner us types w c'] assms(2) show ?thesis by simp
  qed
qed simp

lemma sql_update_one:
  assumes "distinct (map k t)" and "c \<in> set t" and "p c" and "\<And>x. p x \<Longrightarrow> k x = k c"
  shows "sql_update p f t = map (\<lambda>x. if x = c then f x else x) t"
proof -
  have "p x \<longleftrightarrow> x = c" if "x \<in> set t" for x
    using assms that by (metis distinct_map inj_onD)
  then show ?thesis by (simp add: sql_update_def)
qed

lemma claim_result:
  assumes claim: "ClaimNextForTypes n E owner lease types w = (Inr (Some c'), w')"
    and E: "env_guar outbox_safe E" and wf: "outbox_wf (db w)"
  shows "\<exists>d c now stmt token. outbox_safe (db w) d \<and> c \<in> set (commands d)
     \<and> cm_type c \<in> set types \<and> claim_due now c \<and> claim_eligible now d types c
     \<and> cm_id c' = cm_id c \<and> cm_state c' = StateLeased \<and> cm_lease_owner c' = Some owner
     \<and> cm_lease_token c' = Some token \<and> cm_lease_expires_at c' = Some (stmt + lease)
     \<and> cm_attempt_count c' = cm_attempt_count c + 1
     \<and> db w' = d\<lparr>commands := map (\<lambda>x. if x = c then c' else x) (commands d)\<rparr>"
proof -
  from claim obtain types' where valid: "validateLeaseDuration lease"
    and f: "commandTypeFilter types = Inr types'"
    and loop: "claim_loop n E owner (lease div microsecond) types' w = (Inr (Some c'), w')"
    by (auto simp: ClaimNextForTypes_def split: if_splits sum.splits)
  from f have sub: "set types' \<subseteq> set types"
    and all: "t \<in> set types \<Longrightarrow> t \<in> set types'" for t
    by (cases t; auto simp: commandTypeFilter_def split: if_splits)+
  from claim_loop_Some [OF loop E] obtain d c now stmt token where
    d: "outbox_safe (db w) d" and c: "c \<in> set (commands d)" "claim_eligible now d types' c"
    and c': "c' = lease_command owner token (lease div microsecond) stmt c"
    and w': "db w' = d\<lparr>commands := sql_update (\<lambda>x. cm_id x = cm_id c \<and> claim_eligible now d types' x)
                   (lease_command owner token (lease div microsecond) stmt) (commands d)\<rparr>"
    unfolding claimed_def by blast
  have "distinct (map cm_id (commands d))"
    using d wf by (simp add: outbox_safe_def keeps_wf_def outbox_wf_def)
  then have "sql_update (\<lambda>x. cm_id x = cm_id c \<and> claim_eligible now d types' x)
      (lease_command owner token (lease div microsecond) stmt) (commands d)
    = map (\<lambda>x. if x = c then lease_command owner token (lease div microsecond) stmt x else x) (commands d)"
    using c by (intro sql_update_one [where k = cm_id]) simp_all
  with w' c' have "db w' = d\<lparr>commands := map (\<lambda>x. if x = c then c' else x) (commands d)\<rparr>"
    by (simp cong: if_cong)
  moreover have "lease div microsecond * microsecond = lease"
    using valid by (simp add: validateLeaseDuration_def mod_eq_0_iff_dvd)
  moreover have "claim_eligible now d types c" "cm_type c \<in> set types"
    using c(2) sub all by (auto simp: claim_eligible_def)
  ultimately show ?thesis
    using d c c' claim_eligible_due [OF c(2)]
    by (intro exI [of _ d] exI [of _ c] exI [of _ now] exI [of _ stmt] exI [of _ token])
       (simp add: lease_command_def)
qed

lemma claim_row:
  assumes "ClaimNextForTypes n E owner lease types w = (Inr (Some c'), w')"
    and "env_guar outbox_safe E" and "outbox_wf (db w)"
  shows "c' \<in> set (commands (db w'))" and "distinct (map cm_id (commands (db w')))"
proof -
  from claim_result [OF assms] obtain d c where
    d: "outbox_safe (db w) d" "c \<in> set (commands d)" "cm_id c' = cm_id c"
      "db w' = d\<lparr>commands := map (\<lambda>x. if x = c then c' else x) (commands d)\<rparr>" by blast
  then show "c' \<in> set (commands (db w'))" by force
  have "map cm_id (commands (db w')) = map cm_id (commands d)" using d by simp
  moreover have "outbox_wf d" using d(1) assms(3) by (simp add: outbox_safe_def keeps_wf_def)
  ultimately show "distinct (map cm_id (commands (db w')))" by (simp add: outbox_wf_def)
qed


subsection \<open>When a claim returns something\<close>

lemma claim_eligible_set: "set ts = set us \<Longrightarrow> claim_eligible now d ts = claim_eligible now d us"
  by (simp add: claim_eligible_def fun_eq_iff)

lemma commandTypeFilter_ok:
  assumes "types \<noteq> []" and "set types \<subseteq> {PAYMENT_CREATE, PAYMENT_INQUIRY}"
  shows "\<exists>ts. commandTypeFilter types = Inr ts \<and> set ts = set types"
proof -
  have "\<not> (\<exists>t \<in> set types. t \<noteq> PAYMENT_CREATE \<and> t \<noteq> PAYMENT_INQUIRY)" using assms(2) by auto
  moreover have "set (filter (\<lambda>t. t \<in> set types) [PAYMENT_CREATE, PAYMENT_INQUIRY]) = set types"
    using assms(2) by (simp only: set_filter) auto
  ultimately show ?thesis using assms(1) by (simp only: commandTypeFilter_def if_False) blast
qed

lemma claim_update_candidate:
  assumes "claim_candidate now d types = Some c" and "distinct (map cm_id (commands d))"
  shows "\<exists>d'. claim_update owner token us stmt types (cm_id c) now d
    = (Some (lease_command owner token us stmt c), d')"
proof -
  note c = claim_candidate_Some [OF assms(1)]
  have "x = c" if "x \<in> set (commands d)" "cm_id x = cm_id c" for x
    using assms(2) c(1) that by (metis distinct_map inj_onD)
  moreover have "c \<in> set (filter (\<lambda>x. cm_id x = cm_id c \<and> claim_eligible now d types x) (commands d))"
    using c(1,2) by simp
  ultimately obtain r where
    "filter (\<lambda>x. cm_id x = cm_id c \<and> claim_eligible now d types x) (commands d) = c # r"
    by (cases "filter (\<lambda>x. cm_id x = cm_id c \<and> claim_eligible now d types x) (commands d)")
       (auto dest!: filter_eq_ConsD)
  then show ?thesis by (simp add: claim_update_def sql_returning_def Let_def)
qed

lemma claim_loop_run:
  assumes "\<forall>k. \<not> db_fault E k" and "\<forall>k d. interfere E k d = d"
    and "claim_candidate (clock E (steps w)) (db w) ts = Some c"
    and "claim_update owner (new_uuid E (Suc (Suc (Suc (steps w))))) us
      (clock E (Suc (Suc (Suc (Suc (steps w)))))) ts (cm_id c) (clock E (steps w)) (db w) = (Some c', d')"
  shows "claim_loop (Suc n) E owner us ts w = (Inr (Some c'), \<lparr>db = d', base = d',
     steps = Suc (Suc (Suc (Suc (Suc (Suc (Suc (steps w))))))), tx_now = clock E (steps w)\<rparr>)"
  using assms by (simp add: claimNextOnce_def LockBooking_def tx_defs)

lemma claim_loop_quiet:
  assumes "\<forall>k. \<not> db_fault E k" and "\<forall>k d. interfere E k d = d"
    and "distinct (map cm_id (commands (db w)))"
  shows "claim_candidate (clock E (steps w)) (db w) ts = None \<Longrightarrow>
      outcome (claim_loop (Suc n) E owner us ts) w = Inl (EOutbox ErrNoCommandAvailable)"
    and "claim_candidate (clock E (steps w)) (db w) ts = Some c \<Longrightarrow>
      \<exists>tok stmt. outcome (claim_loop (Suc n) E owner us ts) w
        = Inr (Some (lease_command owner tok us stmt c))"
proof -
  assume "claim_candidate (clock E (steps w)) (db w) ts = None"
  then show "outcome (claim_loop (Suc n) E owner us ts) w = Inl (EOutbox ErrNoCommandAvailable)"
    using assms by (simp add: claimNextOnce_def tx_defs)
next
  assume c: "claim_candidate (clock E (steps w)) (db w) ts = Some c"
  let ?tok = "new_uuid E (Suc (Suc (Suc (steps w))))"
  let ?stmt = "clock E (Suc (Suc (Suc (Suc (steps w)))))"
  obtain d' where "claim_update owner ?tok us ?stmt ts (cm_id c) (clock E (steps w)) (db w)
      = (Some (lease_command owner ?tok us ?stmt c), d')"
    using claim_update_candidate [OF c assms(3)] by blast
  then have "outcome (claim_loop (Suc n) E owner us ts) w
      = Inr (Some (lease_command owner ?tok us ?stmt c))"
    using claim_loop_run [OF assms(1,2) c] by (simp add: outcome_def)
  then show "\<exists>tok stmt. outcome (claim_loop (Suc n) E owner us ts) w
      = Inr (Some (lease_command owner tok us stmt c))" by blast
qed

text \<open>
  C5. A claim finds work whenever there is work. Without failures and without another
  session, one pass of the loop answers: the first eligible command in the order
  available\_at, created\_at, id, leased to the caller, if some command is eligible, and
  \<open>ErrNoCommandAvailable\<close> exactly when none is. The retry loop never spins.
\<close>

theorem claim_finds_command:
  assumes owner: "validateLeaseOwner owner" "validateLeaseDuration lease"
    and types: "types \<noteq> []" "set types \<subseteq> {PAYMENT_CREATE, PAYMENT_INQUIRY}"
    and quiet: "\<forall>k. \<not> db_fault E k" "\<forall>k d. interfere E k d = d"
    and wf: "outbox_wf (db w)"
  shows "if \<exists>c \<in> set (commands (db w)). claim_eligible (clock E (steps w)) (db w) types c
    then \<exists>c \<in> set (commands (db w)). \<exists>c'.
      outcome (ClaimNextForTypes (Suc n) E owner lease types) w = Inr (Some c')
      \<and> claim_eligible (clock E (steps w)) (db w) types c \<and> cm_id c' = cm_id c
      \<and> cm_state c' = StateLeased \<and> cm_lease_owner c' = Some owner
      \<and> (\<forall>x \<in> set (commands (db w)). claim_eligible (clock E (steps w)) (db w) types x
            \<longrightarrow> claim_order c \<le> claim_order x)
    else outcome (ClaimNextForTypes (Suc n) E owner lease types) w
      = Inl (EOutbox ErrNoCommandAvailable)"
proof -
  obtain ts where ts: "commandTypeFilter types = Inr ts" "set ts = set types"
    using commandTypeFilter_ok [OF types] by blast
  note el = claim_eligible_set [OF ts(2)]
  have run: "outcome (ClaimNextForTypes (Suc n) E owner lease types) w
    = outcome (claim_loop (Suc n) E owner (lease div microsecond) ts) w"
    using owner ts by (simp add: ClaimNextForTypes_def)
  have "distinct (map cm_id (commands (db w)))" using wf by (simp add: outbox_wf_def)
  note quietly = claim_loop_quiet [OF quiet this]
  show ?thesis
  proof (cases "claim_candidate (clock E (steps w)) (db w) ts")
    case None
    with quietly(1) show ?thesis unfolding run by (auto simp: claim_candidate_None el)
  next
    case (Some c)
    with quietly(2) obtain tok stmt where
      "outcome (claim_loop (Suc n) E owner (lease div microsecond) ts) w
        = Inr (Some (lease_command owner tok (lease div microsecond) stmt c))" by blast
    with claim_candidate_Some [OF Some] show ?thesis
      unfolding run el by (auto intro!: bexI [of _ c] simp: lease_command_def)
  qed
qed

subsection \<open>Who can finish a lease\<close>

definition live_lease :: "env \<Rightarrow> dbs world \<Rightarrow> string \<Rightarrow> string \<Rightarrow> string \<Rightarrow> bool" where
  "live_lease E w i owner token \<longleftrightarrow> (case uuid_parse E i of None \<Rightarrow> False
     | Some cid \<Rightarrow> list_ex (holds_lease cid owner token (tx_now w)) (commands (db w)))"

lemma finishLeaseTx_cases:
  "is_ok (outcome (finishLeaseTx E i owner token f) w) \<longleftrightarrow>
     \<not> db_fault E (steps w) \<and> live_lease E w i owner token"
  "is_ok (outcome (finishLeaseTx E i owner token f) w) \<or> after (finishLeaseTx E i owner token f) w = db w"
proof -
  have "is_ok (outcome (finishLeaseTx E i owner token f) w) =
      (\<not> db_fault E (steps w) \<and> live_lease E w i owner token)
    \<and> (is_ok (outcome (finishLeaseTx E i owner token f) w) \<or>
       after (finishLeaseTx E i owner token f) w = db w)"
  proof (cases "uuid_parse E i")
    case None
    then show ?thesis by (simp add: finishLeaseTx_def live_lease_def fail_def outcome_def after_def)
  next
    case (Some cid)
    let ?t = "filter (holds_lease cid owner token (tx_now w)) (commands (db w))"
    have live: "live_lease E w i owner token \<longleftrightarrow> ?t \<noteq> []"
      using Some by (auto simp: live_lease_def filter_empty_conv list_ex_iff)
    show ?thesis
      unfolding live using Some
      by (cases ?t) (simp_all add: finishLeaseTx_def sql_returning_def db_call_def Let_def
        outcome_def after_def)
  qed
  then show "is_ok (outcome (finishLeaseTx E i owner token f) w) \<longleftrightarrow>
     \<not> db_fault E (steps w) \<and> live_lease E w i owner token"
    and "is_ok (outcome (finishLeaseTx E i owner token f) w) \<or>
      after (finishLeaseTx E i owner token f) w = db w" by blast+
qed

lemma guarded_finish:
  "is_ok (outcome (if b then fail e else finishLeaseTx E i owner token f) w) \<longleftrightarrow>
     \<not> b \<and> \<not> db_fault E (steps w) \<and> live_lease E w i owner token"
  "is_ok (outcome (if b then fail e else finishLeaseTx E i owner token f) w) \<or>
     after (if b then fail e else finishLeaseTx E i owner token f) w = db w"
  using finishLeaseTx_cases [of E i owner token f w]
  by (simp_all add: outcome_def after_def fail_def)

lemmas mark_defs = MarkSucceededTx_def MarkRetryableTx_def MarkTerminalTx_def

text \<open>
  Only the live lease finishes a command. Each of the three completions succeeds
  exactly when its arguments are valid, the statement does not fail, and the command is
  leased to this owner under this token with an expiry after the transaction's start; in
  every other case the tables are unchanged. A worker that lost its lease can therefore
  not overwrite the result of the worker that took over.
\<close>

theorem finish_requires_live_lease:
  "is_ok (outcome (MarkSucceededTx E i owner token ref) w) =
      (validateLeaseOwner owner \<and> validateLeaseToken E token \<and> validateProviderReference ref
       \<and> \<not> db_fault E (steps w) \<and> live_lease E w i owner token)
    \<and> is_ok (outcome (MarkRetryableTx E i owner token code delay) w) =
      (validateLeaseOwner owner \<and> validateLeaseToken E token \<and> validateRetryableErrorCode code
       \<and> validateRetryDelay delay \<and> \<not> db_fault E (steps w) \<and> live_lease E w i owner token)
    \<and> is_ok (outcome (MarkTerminalTx E i owner token code') w) =
      (validateLeaseOwner owner \<and> validateLeaseToken E token \<and> validateTerminalErrorCode code'
       \<and> \<not> db_fault E (steps w) \<and> live_lease E w i owner token)
    \<and> (is_ok (outcome (MarkSucceededTx E i owner token ref) w)
         \<or> after (MarkSucceededTx E i owner token ref) w = db w)
    \<and> (is_ok (outcome (MarkRetryableTx E i owner token code delay) w)
         \<or> after (MarkRetryableTx E i owner token code delay) w = db w)
    \<and> (is_ok (outcome (MarkTerminalTx E i owner token code') w)
         \<or> after (MarkTerminalTx E i owner token code') w = db w)"
  unfolding mark_defs
  by (intro conjI guarded_finish(2)) (simp_all only: guarded_finish(1) de_Morgan_disj not_not conj_assoc)

text \<open>
  C6. A stale worker is fenced off. Once a command has been claimed under a token, a
  completion that presents any other token for it fails and changes nothing, even when it
  comes from the same worker.
\<close>

theorem stale_worker_fenced:
  assumes claim: "ClaimNextForTypes n E owner lease types w = (Inr (Some c), w')"
    and E: "env_guar outbox_safe E" and wf: "outbox_wf (db w)"
    and i: "uuid_parse E i = Some (cm_id c)" and token: "cm_lease_token c \<noteq> Some stale"
  shows "\<not> is_ok (outcome (MarkSucceededTx E i old stale ref) w')
    \<and> \<not> is_ok (outcome (MarkRetryableTx E i old stale code delay) w')
    \<and> \<not> is_ok (outcome (MarkTerminalTx E i old stale code') w')
    \<and> after (MarkSucceededTx E i old stale ref) w' = db w'
    \<and> after (MarkRetryableTx E i old stale code delay) w' = db w'
    \<and> after (MarkTerminalTx E i old stale code') w' = db w'"
proof -
  from claim_row [OF claim E wf]
  have c: "c \<in> set (commands (db w'))" "distinct (map cm_id (commands (db w')))" by blast+
  have "\<not> live_lease E w' i old stale"
  proof
    assume "live_lease E w' i old stale"
    then obtain x where x: "x \<in> set (commands (db w'))" "holds_lease (cm_id c) old stale (tx_now w') x"
      using i by (auto simp: live_lease_def list_ex_iff)
    then have "x = c" using c by (auto simp: holds_lease_def distinct_map dest: inj_onD)
    with x token show False by (simp add: holds_lease_def)
  qed
  then have no: "\<not> is_ok (outcome (if b then fail e else finishLeaseTx E i old stale f) w')" for b e f
    by (simp add: guarded_finish(1))
  show ?thesis
    unfolding mark_defs using no guarded_finish(2) by blast
qed

subsection \<open>Enqueueing twice\<close>

text \<open>What the statements of a successful enqueue have established.\<close>

lemma insert_statement_Inr:
  "insert_statement p i now d = (Inr r, d') \<Longrightarrow>
     create_contract_trigger d (new_command p i now) \<and> attempts d' = attempts d \<and> contracts d' = contracts d
     \<and> (case r of None \<Rightarrow> d' = d
        | Some c \<Rightarrow> c = new_command p i now \<and> c \<in> set (commands d'))"
  by (auto simp: insert_statement_def Let_def insert_command_def split: if_splits)

definition stored_for :: "enqueue_params \<Rightarrow> command_payload \<Rightarrow> command \<Rightarrow> bool" where
  "stored_for p canonical c \<longleftrightarrow> cm_type c = ep_command_type p
     \<and> cm_idempotency_key c = ep_idempotency_key p
     \<and> cm_aggregate_type c = ep_aggregate_type p \<and> cm_aggregate_id c = ep_aggregate_id p
     \<and> cm_attempt_id c = Some (ep_attempt_id p) \<and> cm_request_hash c = ep_request_hash p
     \<and> cm_payload c = canonical"

lemma stored_for_new: "stored_for p (ep_payload p) (new_command p i now)"
  by (simp add: stored_for_def new_command_def)

lemma replay_command_Inr:
  assumes "replay_command E p canonical w = (Inr (c, r), w')"
  shows "r \<and> db w' = db w \<and> c \<in> set (commands (db w)) \<and> stored_for p canonical c"
  using assms
  by (auto simp: replay_command_def tx_Inr stored_for_def dest!: query_row_Some
      split: option.splits if_splits)

text \<open>What the checks of \<open>EnqueueTx\<close> establish before it inserts.\<close>

definition enqueue_checked :: "env \<Rightarrow> enqueue_params \<Rightarrow> dbs \<Rightarrow> bool" where
  "enqueue_checked E p d \<longleftrightarrow> (\<exists>a. query_row (\<lambda>a. pa_id a = ep_attempt_id p) (attempts d) = Some a
     \<and> ValidateEnqueueParams E p = Inr (marshal_payload (ep_payload p))
     \<and> ep_idempotency_key p = deterministicIdempotencyKey (ep_command_type p) (pa_booking_id a)
          (ep_attempt_id p) (pa_attempt_no a)
     \<and> ep_request_hash p = pa_request_hash a
     \<and> ep_payload p = \<lparr>pl_attempt_id = ep_attempt_id p, pl_amount = pa_amount a,
          pl_currency = pa_currency a, pl_requested_method = pa_requested_method a\<rparr>
     \<and> (ep_command_type p = PAYMENT_INQUIRY \<longrightarrow> pa_state a = AttemptPending))"

lemma EnqueueTx_Inr_checked:
  assumes "EnqueueTx E p w = (Inr x, w')"
  shows "enqueue_checked E p (db w)" and "\<not> db_fault E (steps w)"
proof -
  obtain req where "ValidateEnqueueParams E p = Inr req"
    using assms by (cases "ValidateEnqueueParams E p") (auto simp: EnqueueTx_def)
  moreover from this have "req = marshal_payload (ep_payload p)"
    by (auto simp: ValidateEnqueueParams_def split: if_splits)
  ultimately have req: "ValidateEnqueueParams E p = Inr (marshal_payload (ep_payload p))" by simp
  from assms show "enqueue_checked E p (db w)" "\<not> db_fault E (steps w)"
    by (auto simp: EnqueueTx_def req loadPaymentAttemptFactsTx_def commandKeyExistsTx_def
        andthen_Inr query_Inr canonical_payload_def enqueue_checked_def Let_def
        split: option.splits if_splits)
qed

lemma EnqueueTx_checked:
  assumes "enqueue_checked E p (db w)" and "\<not> db_fault E (steps w)"
  shows "EnqueueTx E p w =
    andthen (db_call E EDatabase (insert_statement p (new_uuid E (Suc (steps w))))) (\<lambda>inserted.
      case inserted of Some c \<Rightarrow> ret (c, False) | None \<Rightarrow> replay_command E p (ep_payload p))
    (w\<lparr>steps := Suc (Suc (steps w))\<rparr>)"
proof -
  obtain a where "query_row (\<lambda>a. pa_id a = ep_attempt_id p) (attempts (db w)) = Some a"
    "ValidateEnqueueParams E p = Inr (marshal_payload (ep_payload p))"
    "ep_idempotency_key p = deterministicIdempotencyKey (ep_command_type p) (pa_booking_id a)
          (ep_attempt_id p) (pa_attempt_no a)"
    "ep_request_hash p = pa_request_hash a"
    "\<lparr>pl_attempt_id = ep_attempt_id p, pl_amount = pa_amount a,
          pl_currency = pa_currency a, pl_requested_method = pa_requested_method a\<rparr> = ep_payload p"
    "ep_command_type p = PAYMENT_INQUIRY \<longrightarrow> pa_state a = AttemptPending"
    using assms(1) unfolding enqueue_checked_def by metis
  with assms(2) show ?thesis
    by (cases "ep_command_type p = PAYMENT_INQUIRY")
       (simp_all add: EnqueueTx_def andthen_def attempt_def loadPaymentAttemptFactsTx_def query_def
        db_call_def Let_def canonical_payload_def ret_app fresh_uuid_def)
qed

lemma EnqueueTx_stored:
  assumes "EnqueueTx E p w = (Inr (c, r), w')"
  shows "\<exists>i now. create_contract_trigger (db w) (new_command p i now)"
    and "c \<in> set (commands (db w'))" and "stored_for p (ep_payload p) c"
proof -
  note ok = EnqueueTx_Inr_checked [OF assms]
  let ?w = "w\<lparr>steps := Suc (Suc (steps w))\<rparr>"
  from assms [unfolded EnqueueTx_checked [OF ok]] obtain i r1 v1 where
    ins: "db_call E EDatabase (insert_statement p i) ?w = (Inr r1, v1)"
    and rest: "(case r1 of Some c \<Rightarrow> ret (c, False)
        | None \<Rightarrow> replay_command E p (ep_payload p)) v1 = (Inr (c, r), w')"
    by (auto simp: andthen_Inr)
  from ins have st: "insert_statement p i (tx_now w) (db w) = (Inr r1, db v1)"
    by (auto simp: db_call_Inr)
  note st = insert_statement_Inr [OF st]
  then show "\<exists>i now. create_contract_trigger (db w) (new_command p i now)" by blast
  have "c \<in> set (commands (db w')) \<and> stored_for p (ep_payload p) c"
  proof (cases r1)
    case None
    with rest replay_command_Inr show ?thesis by fastforce
  next
    case (Some x)
    with rest st show ?thesis by (auto simp: stored_for_new)
  qed
  then show "c \<in> set (commands (db w'))" and "stored_for p (ep_payload p) c" by simp_all
qed

lemma contract_trigger_indep:
  "create_contract_trigger d (new_command p i now) = create_contract_trigger d (new_command p j t)"
  by (auto simp: create_contract_trigger_def new_command_def split: option.split)

lemma contract_trigger_contracts:
  "contracts d' = contracts d \<Longrightarrow> create_contract_trigger d' c = create_contract_trigger d c"
  by (simp add: create_contract_trigger_def)

lemma stored_for_step:
  "stored_for p y c \<Longrightarrow> command_step c c' \<Longrightarrow> stored_for p y c'"
  by (auto simp: stored_for_def command_step_def command_identity_def)

lemma EnqueueTx_replay:
  assumes checked: "enqueue_checked E p (db w)" and trig: "create_contract_trigger (db w) (new_command p i now)"
    and c: "c \<in> set (commands (db w))" "stored_for p (ep_payload p) c"
    and wf: "outbox_wf (db w)" and ok: "\<forall>k. \<not> db_fault E k"
  shows "outcome (EnqueueTx E p) w = Inr (c, True)" and "after (EnqueueTx E p) w = db w"
proof -
  let ?j = "new_uuid E (Suc (steps w))"
  have t: "create_contract_trigger (db w) (new_command p ?j (tx_now w))"
    using trig contract_trigger_indep by blast
  have "command_conflict (new_command p ?j (tx_now w)) c"
    using c(2) by (simp add: stored_for_def command_conflict_def new_command_def)
  with c(1) have "insert_command (new_command p ?j (tx_now w)) (commands (db w)) = None"
    by (auto simp: insert_command_def sql_exists_iff)
  with t have ins: "insert_statement p ?j (tx_now w) (db w) = (Inr None, db w)"
    by (simp add: insert_statement_def)
  have "query_row (\<lambda>c. (cm_type c, cm_idempotency_key c) = (ep_command_type p, ep_idempotency_key p))
      (commands (db w)) = Some c"
    using wf c by (intro query_row_unique) (auto simp: outbox_wf_def stored_for_def)
  then have "query_row (\<lambda>c. cm_type c = ep_command_type p \<and> cm_idempotency_key c = ep_idempotency_key p)
      (commands (db w)) = Some c" by simp
  with ins c(2) checked ok show "outcome (EnqueueTx E p) w = Inr (c, True)" and
    "after (EnqueueTx E p) w = db w"
    by (simp_all add: EnqueueTx_checked replay_command_def stored_for_def andthen_def attempt_def
        db_call_def query_def Let_def ret_def outcome_def after_def)
qed

text \<open>
  C7. Enqueueing is idempotent. If an enqueue succeeded, then enqueueing the same
  parameters again, at any later moment of the command's life (pending, leased, retried or
  finished) while the attempt is unchanged, succeeds, reports a replay, returns the stored
  command with the same identity, and changes nothing.
\<close>

theorem enqueue_idempotent:
  assumes first: "EnqueueTx E p w = (Inr (c, r), w1)"
    and later: "outbox_order (db w1) (db v)" "outbox_wf (db v)"
    and same: "attempts (db v) = attempts (db w)" "contracts (db v) = contracts (db w)"
    and quiet: "\<forall>k. \<not> db_fault E k"
  shows "\<exists>c'. outcome (EnqueueTx E p) v = Inr (c', True) \<and> command_identity c' = command_identity c
    \<and> after (EnqueueTx E p) v = db v"
proof -
  note st = EnqueueTx_stored [OF first]
  obtain k where k: "k < length (commands (db w1))" "commands (db w1) ! k = c"
    using st(2) by (auto simp: in_set_conv_nth)
  let ?c = "commands (db v) ! k"
  have c': "command_step c ?c" "?c \<in> set (commands (db v))"
    using later(1) k by (auto simp: outbox_order_nth)
  obtain i now where "create_contract_trigger (db v) (new_command p i now)"
    using st(1) contract_trigger_contracts [OF same(2)] by blast
  moreover have "enqueue_checked E p (db v)"
    using EnqueueTx_Inr_checked(1) [OF first] same(1) by (simp add: enqueue_checked_def)
  moreover have "stored_for p (ep_payload p) ?c" by (rule stored_for_step [OF st(3) c'(1)])
  ultimately show ?thesis
    using EnqueueTx_replay [OF _ _ c'(2) _ later(2) quiet, of p] c'(1)
    by (auto simp: command_step_def)
qed

subsection \<open>The lifecycle trigger of the table\<close>

text \<open>\<open>guard_payment_provider_command_lifecycle\<close> of migration 026 and
  \<open>guard_cancelled_payment_create_command_lifecycle\<close> of 028, for an UPDATE: whether the
  trigger returns instead of raising. A comparison with NULL is not true.\<close>

definition error_is :: "command \<Rightarrow> string \<Rightarrow> bool" where
  "error_is c e \<longleftrightarrow> cm_last_error c = Some e"

definition error_is_not :: "command \<Rightarrow> string \<Rightarrow> bool" where
  "error_is_not c e \<longleftrightarrow> (case cm_last_error c of None \<Rightarrow> False | Some x \<Rightarrow> x \<noteq> e)"

definition lease_expires_after :: "time \<Rightarrow> command \<Rightarrow> bool" where
  "lease_expires_after now c \<longleftrightarrow> (case cm_lease_expires_at c of None \<Rightarrow> False | Some t \<Rightarrow> now < t)"

definition lifecycle_trigger :: "time \<Rightarrow> command \<Rightarrow> command \<Rightarrow> bool" where
  "lifecycle_trigger now old new \<longleftrightarrow>
     cm_created_at new = cm_created_at old
     \<and> cm_attempt_count old \<le> cm_attempt_count new
     \<and> cm_malformed_count old \<le> cm_malformed_count new
     \<and> cm_updated_at old \<le> cm_updated_at new
     \<and> \<not> finished (cm_state old)
     \<and> (cm_state old = StatePending \<and> cm_state new = StateLeased
          \<and> cm_attempt_count new = cm_attempt_count old + 1
          \<and> cm_malformed_count new = cm_malformed_count old
          \<and> lease_expires_after now new \<and> cm_last_error new = None \<and> cm_provider_reference new = None
        \<or> cm_state old = StateRetryable \<and> cm_state new = StateLeased
          \<and> cm_attempt_count new = cm_attempt_count old + 1
          \<and> cm_malformed_count new = cm_malformed_count old
          \<and> lease_expires_after now new \<and> cm_last_error new = cm_last_error old
          \<and> cm_provider_reference new = None
        \<or> cm_state old = StateLeased \<and> cm_state new = StateLeased
          \<and> (case cm_lease_expires_at old of None \<Rightarrow> False | Some t \<Rightarrow> t \<le> now)
          \<and> cm_attempt_count new = cm_attempt_count old + 1
          \<and> cm_malformed_count new = cm_malformed_count old
          \<and> cm_lease_token new \<noteq> cm_lease_token old \<and> error_is new ''LEASE_EXPIRED''
          \<and> lease_expires_after now new \<and> cm_provider_reference new = None
        \<or> cm_state old = StateLeased \<and> cm_attempt_count new = cm_attempt_count old
          \<and> lease_expires_after now old
          \<and> (cm_state new = StateRetryable
               \<and> (error_is new ''MALFORMED_RESPONSE'' \<and> cm_malformed_count old = 0
                    \<and> cm_malformed_count new = 1
                  \<or> error_is_not new ''MALFORMED_RESPONSE''
                    \<and> cm_malformed_count new = cm_malformed_count old)
             \<or> cm_state new = StateSucceeded \<and> cm_malformed_count new = cm_malformed_count old
             \<or> cm_state new = StateTerminal
               \<and> (error_is new ''MALFORMED_RESPONSE'' \<and> cm_malformed_count old = 1
                    \<and> cm_malformed_count new = 2
                  \<or> error_is_not new ''MALFORMED_RESPONSE''
                    \<and> cm_malformed_count new = cm_malformed_count old)))"

definition cancelled_trigger :: "dbs \<Rightarrow> command \<Rightarrow> bool" where
  "cancelled_trigger d new \<longleftrightarrow>
     \<not> (cm_type new = PAYMENT_CREATE \<and> (cm_state new \<noteq> StatePending \<or> cm_attempt_count new \<noteq> 0)
        \<and> sql_exists (\<lambda>x. cx_command_id x = cm_id new) (cancellations d))"

lemma claim_passes_lifecycle:
  assumes "claim_due now c" and "command_ok c" and "cm_updated_at c \<le> stmt" and "now \<le> stmt"
    and "0 < us" and "cm_lease_token c \<noteq> Some token"
  shows "lifecycle_trigger now c (lease_command owner token us stmt c)"
proof -
  have "now < stmt + us * 1000" using assms by linarith
  with assms show ?thesis
    by (auto simp: claim_due_def lifecycle_trigger_def lease_command_def lease_expires_after_def
        command_ok_def error_state_ok_def finished_def error_is_def split: option.splits)
qed

lemma eligible_passes_cancelled:
  assumes "claim_eligible now d types c" and "tombstones_ok d" and "c \<in> set (commands d)"
  shows "cancelled_trigger d (lease_command owner token us stmt c)"
proof -
  have "cx_command_id x \<noteq> cm_id c" if "x \<in> set (cancellations d)" for x
  proof
    assume "cx_command_id x = cm_id c"
    with that assms(2,3) have "cm_type c = PAYMENT_CREATE" "cm_state c = StatePending"
      by (auto simp: tombstones_ok_def)
    with that assms(1) \<open>cx_command_id x = cm_id c\<close> show False
      using claim_skips_tombstones by metis
  qed
  then show ?thesis by (auto simp: cancelled_trigger_def lease_command_def sql_exists_iff)
qed

lemma finish_passes_lifecycle:
  assumes "holds_lease cid owner token now c" and "command_ok c" and "cm_updated_at c \<le> now"
  shows "validateRetryableErrorCode code \<Longrightarrow> lifecycle_trigger now c (set_retryable code us now c)"
    and "lifecycle_trigger now c (set_succeeded ref now c)"
    and "validateTerminalErrorCode code \<Longrightarrow> lifecycle_trigger now c (set_terminal code now c)"
  using assms
  by (auto simp: holds_lease_def lifecycle_trigger_def lease_expires_after_def command_ok_def
      error_state_ok_def finished_def error_is_def error_is_not_def validateTerminalErrorCode_def
      set_retryable_def set_succeeded_def set_terminal_def clear_lease_def split: option.splits)


subsection \<open>Witnesses\<close>

lemma sample_command_ok: "command_ok sample_command"
  by (simp add: sample_command_def command_ok_new)

lemma sample_wf: "outbox_wf sample_db_queued"
  by (simp add: outbox_wf_def sample_db_queued_def sample_command_ok)

lemma sample_eligible:
  "claim_eligible 1000000000000 sample_db_queued [PAYMENT_CREATE] sample_command"
  by (simp add: claim_eligible_def joined_claimable_def claimablePaymentCommandPredicate_def
      claim_due_def scenario_defs new_command_def is_zero_def sql_exists_def)

lemma sample_claim:
  "ClaimNextForTypes 1 quiet_env sample_owner (minute) [PAYMENT_CREATE] (start_world sample_db_queued) =
     (Inr (Some (lease_command sample_owner (uid CHR ''d'') 60000000 (1004 * second) sample_command)),
      (start_world (sample_db\<lparr>commands :=
         [lease_command sample_owner (uid CHR ''d'') 60000000 (1004 * second) sample_command]\<rparr>))
        \<lparr>steps := Suc (Suc (Suc (Suc (Suc (Suc (Suc 0))))))\<rparr>)"
proof -
  have c: "commands sample_db_queued = [sample_command]" by (simp add: sample_db_queued_def)
  have cand: "claim_candidate (1000 * second) sample_db_queued [PAYMENT_CREATE] = Some sample_command"
    by (simp add: claim_candidate_def first_by_def c sample_eligible)
  have upd: "claim_update sample_owner (uid CHR ''d'') 60000000 (1004 * second) [PAYMENT_CREATE]
      (cm_id sample_command) (1000 * second) sample_db_queued =
    (Some (lease_command sample_owner (uid CHR ''d'') 60000000 (1004 * second) sample_command),
     sample_db\<lparr>commands :=
         [lease_command sample_owner (uid CHR ''d'') 60000000 (1004 * second) sample_command]\<rparr>)"
    using sample_eligible by (simp add: claim_update_def sql_returning_def sql_update_def c Let_def)
      (simp add: sample_db_queued_def)
  have "claim_loop (Suc 0) quiet_env sample_owner 60000000 [PAYMENT_CREATE] (start_world sample_db_queued) =
     (Inr (Some (lease_command sample_owner (uid CHR ''d'') 60000000 (1004 * second) sample_command)),
      \<lparr>db = sample_db\<lparr>commands :=
         [lease_command sample_owner (uid CHR ''d'') 60000000 (1004 * second) sample_command]\<rparr>,
       base = sample_db\<lparr>commands :=
         [lease_command sample_owner (uid CHR ''d'') 60000000 (1004 * second) sample_command]\<rparr>,
       steps = Suc (Suc (Suc (Suc (Suc (Suc (Suc 0)))))), tx_now = 1000 * second\<rparr>)"
    using cand upd claim_loop_run [of quiet_env "start_world sample_db_queued" "[PAYMENT_CREATE]"
        sample_command sample_owner 60000000 _ _ 0]
    by (simp add: scenario del: claim_loop.simps)
  then show ?thesis
    by (simp add: ClaimNextForTypes_def commandTypeFilter_def scenario start_world_def
        del: claim_loop.simps)
qed


theorem claim_finds_command_witness:
  "\<exists>c'. outcome (ClaimNextForTypes (Suc 0) quiet_env sample_owner (minute) [PAYMENT_CREATE])
     (start_world sample_db_queued) = Inr (Some c') \<and> cm_id c' = uid CHR ''3''
     \<and> cm_state c' = StateLeased"
  using claim_finds_command [of sample_owner "minute" "[PAYMENT_CREATE]" quiet_env
      "start_world sample_db_queued" 0] sample_wf sample_eligible
  by (auto simp: scenario)

theorem stale_worker_fenced_witness:
  "\<exists>c w'. ClaimNextForTypes 1 quiet_env sample_owner (minute) [PAYMENT_CREATE]
       (start_world sample_db_queued) = (Inr (Some c), w')
     \<and> \<not> is_ok (outcome (MarkTerminalTx quiet_env (uid CHR ''3'') sample_owner (uid CHR ''4'')
           ''TERMINAL_PROVIDER'') w')"
  using stale_worker_fenced [OF sample_claim quiet_env_guar, of "uid CHR ''3''" "uid CHR ''4''"]
    sample_claim sample_wf
  by (simp add: scenario lease_command_def hex_class_def)

theorem enqueue_idempotent_witness:
  "\<exists>c w1. EnqueueTx quiet_env sample_params (start_world sample_db) = (Inr (c, False), w1)
     \<and> (\<exists>c'. outcome (EnqueueTx quiet_env sample_params) w1 = Inr (c', True)
          \<and> command_identity c' = command_identity c \<and> after (EnqueueTx quiet_env sample_params) w1 = db w1)"
proof -
  let ?c = "new_command sample_params (uid CHR ''b'') (1000 * second)"
  let ?d = "sample_db\<lparr>commands := [?c]\<rparr>"
  let ?w = "(start_world sample_db)\<lparr>steps := 3, db := ?d\<rparr>"
  have "outbox_wf ?d" by (simp add: outbox_wf_def command_ok_new)
  then show ?thesis
    using enqueue_idempotent [OF sample_enqueue, of ?w] sample_enqueue
    by (simp add: outbox_moves.R_refl scenario)
qed


end
