(* ===== verification/FlowGuards.thy ===== *)
theory FlowGuards
  imports Database
begin

text \<open>
  The triggers that keep the legacy payment flow and the gateway flow of one booking
  apart (migrations 028 and 030), as functions that return the message a trigger raises,
  and the UPDATE of bookings that runs through them.
\<close>

definition attempts_of :: "dbs \<Rightarrow> string \<Rightarrow> payment_attempt list" where
  "attempts_of d bid = filter (\<lambda>a. pa_booking_id a = bid) (attempts d)"

text \<open>The capture evidence \<open>guard_sandbox_booking_payment_isolation\<close> asks for: a captured
  attempt, the matching fact and the audit row of its transition.\<close>

definition fact_matches :: "payment_attempt \<Rightarrow> capture_fact \<Rightarrow> bool" where
  "fact_matches a f \<longleftrightarrow> cf_attempt_id f = pa_id a \<and> cf_provider f = pa_provider a
     \<and> cf_environment f = pa_environment a \<and> cf_amount f = pa_amount a
     \<and> cf_currency f = pa_currency a"

definition captured_transition_audited :: "dbs \<Rightarrow> string \<Rightarrow> bool" where
  "captured_transition_audited d aid \<longleftrightarrow>
     sql_exists (\<lambda>r. au_action r = ActionPaymentStateTransition
        \<and> au_entity_type r = EntityPaymentAttempt \<and> au_entity_id r = Some aid
        \<and> map_of (au_metadata r) ''to_state'' = Some (MString ''CAPTURED'')) (audit_log d)"

definition capture_evidence :: "dbs \<Rightarrow> payment_attempt \<Rightarrow> bool" where
  "capture_evidence d a \<longleftrightarrow> pa_state a = AttemptCaptured \<and> sql_exists (fact_matches a) (captures d)
     \<and> captured_transition_audited d (pa_id a)"

definition undispatched_without_tombstone :: "dbs \<Rightarrow> payment_attempt \<Rightarrow> bool" where
  "undispatched_without_tombstone d a \<longleftrightarrow>
     pa_state a = AttemptCreated \<or>
     pa_state a = AttemptCancelled \<and>
       sql_exists (\<lambda>c. cm_attempt_id c = Some (pa_id a) \<and> cm_type c = PAYMENT_CREATE
          \<and> cm_state c = StatePending \<and> cm_attempt_count c = 0
          \<and> \<not> sql_exists (\<lambda>x. cx_attempt_id x = pa_id a \<and> cx_command_id x = cm_id c) (cancellations d))
         (commands d)"

definition legacy_blocked_message :: string where
  "legacy_blocked_message = ''legacy booking payment transition blocked by sandbox payment attempt''"

definition gateway_paid_message :: string where
  "gateway_paid_message = ''gateway booking paid transition requires captured payment facts''"

definition cancel_blocked_message :: string where
  "cancel_blocked_message =
     ''sandbox booking cancellation requires durable payment cancellation facts''"

definition guard_sandbox_booking_payment_isolation ::
    "dbs \<Rightarrow> booking \<Rightarrow> booking_status \<Rightarrow> string option" where
  "guard_sandbox_booking_payment_isolation d old new =
    (if new \<noteq> bk_status old \<and> (new = CONFIRMED \<or> new = WAITING_VERIFICATION)
        \<and> attempts_of d (bk_id old) \<noteq> [] then Some legacy_blocked_message
     else if new \<noteq> bk_status old \<and> new = PAID \<and> attempts_of d (bk_id old) \<noteq> []
        \<and> \<not> (bk_status old = PENDING_PAYMENT \<and> list_ex (capture_evidence d) (attempts_of d (bk_id old)))
       then Some gateway_paid_message
     else if new \<noteq> bk_status old \<and> new = CANCELLED
        \<and> list_ex (undispatched_without_tombstone d) (attempts_of d (bk_id old))
       then Some cancel_blocked_message
     else None)"

definition owner_cash_message :: string where
  "owner_cash_message = ''legacy owner cash insertion blocked by sandbox payment attempt''"

definition guard_sandbox_owner_cash_isolation :: "dbs \<Rightarrow> ledger_row \<Rightarrow> string option" where
  "guard_sandbox_owner_cash_isolation d r =
    (case lg_booking r of None \<Rightarrow> None
     | Some bid \<Rightarrow>
        if lg_source r = BOOKING \<and> lg_type r = INCOME \<and> attempts_of d bid \<noteq> []
        then Some owner_cash_message else None)"

definition attempt_blocked_message :: string where
  "attempt_blocked_message = ''sandbox payment attempt blocked by legacy booking payment facts''"

definition guard_sandbox_payment_attempt_isolation :: "dbs \<Rightarrow> string \<Rightarrow> string option" where
  "guard_sandbox_payment_attempt_isolation d bid =
    (if map_option bk_status (query_row (\<lambda>b. bk_id b = bid) (bookings d)) \<noteq> Some PENDING_PAYMENT
        \<or> sql_exists (\<lambda>r. lg_booking r = Some bid \<and> lg_source r = BOOKING \<and> lg_type r = INCOME) (ledger d)
     then Some attempt_blocked_message else None)"

text \<open>\<open>UPDATE bookings SET status = ..\<close>: the guard runs for every row, and one exception
  fails the statement.\<close>

definition booking_update :: "(booking \<Rightarrow> bool) \<Rightarrow> (booking \<Rightarrow> booking) \<Rightarrow> dbs
    \<Rightarrow> (app_error + booking list) \<times> dbs" where
  "booking_update p f d =
    (case List.map_filter (\<lambda>b. guard_sandbox_booking_payment_isolation d b (bk_status (f b)))
            (filter p (bookings d)) of
       m # _ \<Rightarrow> (Inl (ERaised m), d)
     | [] \<Rightarrow> (Inr (sql_returning p f (bookings d)), d\<lparr>bookings := sql_update p f (bookings d)\<rparr>))"

lemma booking_update_Inr:
  "booking_update p f d = (Inr rs, d') \<longleftrightarrow>
     (\<forall>b \<in> set (bookings d). p b \<longrightarrow>
        guard_sandbox_booking_payment_isolation d b (bk_status (f b)) = None)
     \<and> rs = sql_returning p f (bookings d) \<and> d' = d\<lparr>bookings := sql_update p f (bookings d)\<rparr>"
proof -
  let ?g = "\<lambda>b. guard_sandbox_booking_payment_isolation d b (bk_status (f b))"
  have "List.map_filter ?g (filter p (bookings d)) = [] \<longleftrightarrow> (\<forall>b \<in> set (bookings d). p b \<longrightarrow> ?g b = None)"
    by (auto simp: List.map_filter_def filter_empty_conv)
  then show ?thesis by (auto simp: booking_update_def split: list.split)
qed

lemma booking_update_same: "booking_update p f d = (Inl e, d') \<Longrightarrow> d' = d"
  by (auto simp: booking_update_def split: list.splits)

end
