(* ===== verification/PaymentDto.thy ===== *)
theory PaymentDto
  imports Database
begin

text \<open>
  \<^verbatim>\<open>internal/payments/dto.go\<close>: the strict parser of Rupiah amounts and the validation
  of an attempt's frozen values. The Go enumerations are string types, so a value outside
  the enumeration is representable and is rejected.
\<close>

definition isCanonicalPositiveDecimal :: "string \<Rightarrow> bool" where
  "isCanonicalPositiveDecimal v =
     (case v of [] \<Rightarrow> False
      | c # cs \<Rightarrow> CHR ''1'' \<le> c \<and> c \<le> CHR ''9'' \<and> list_all is_digit cs)"

text \<open>The value of a string of decimal digits, most significant first.\<close>

definition digit_value :: "char \<Rightarrow> int" where
  "digit_value c = int (of_char c) - 48"

definition decimal_value :: "string \<Rightarrow> int" where
  "decimal_value v = foldl (\<lambda>acc c. 10 * acc + digit_value c) 0 v"

text \<open>\<open>strconv.ParseInt(raw, 10, 64)\<close> on a string of digits: a value out of range is an error.\<close>

definition ParsePositiveRupiah :: "string \<Rightarrow> int option" where
  "ParsePositiveRupiah raw =
     (if \<not> isCanonicalPositiveDecimal raw then None
      else let amount = decimal_value raw
           in if amount > 9223372036854775807 \<or> amount \<le> 0 then None else Some amount)"

definition isLowerAlphaNumeric :: "char \<Rightarrow> bool" where
  "isLowerAlphaNumeric c \<longleftrightarrow> is_lower c \<or> is_digit c"

definition isSafeLocalReference :: "string \<Rightarrow> bool" where
  "isSafeLocalReference v =
     (case v of [] \<Rightarrow> False
      | c # cs \<Rightarrow> length v \<le> 64 \<and> isLowerAlphaNumeric c
          \<and> list_all (\<lambda>x. isLowerAlphaNumeric x \<or> x \<in> {CHR ''.'', CHR ''_'', CHR '':'', CHR ''-''}) cs)"

definition isLowerSHA256 :: "string \<Rightarrow> bool" where
  "isLowerSHA256 v \<longleftrightarrow> length v = 64 \<and> list_all is_lower_hex v"

definition isAllowedProvider :: "string \<Rightarrow> bool" where
  "isAllowedProvider v \<longleftrightarrow> v = ''XENDIT''"

definition isAllowedProviderEnvironment :: "string \<Rightarrow> bool" where
  "isAllowedProviderEnvironment v \<longleftrightarrow> v = ''TEST''"

definition isAllowedRequestedMethod' :: "string \<Rightarrow> bool" where
  "isAllowedRequestedMethod' v \<longleftrightarrow> v = ''BCA_VA'' \<or> v = ''QRIS'' \<or> v = ''CARD''"

definition isAllowedIntegrationMode :: "string \<Rightarrow> bool" where
  "isAllowedIntegrationMode v \<longleftrightarrow> v = ''PAYMENT_LINK''"

definition isAllowedCaptureMethod :: "string \<Rightarrow> bool" where
  "isAllowedCaptureMethod v \<longleftrightarrow> v = ''AUTOMATIC''"

definition isAllowedAttemptState :: "string \<Rightarrow> bool" where
  "isAllowedAttemptState v \<longleftrightarrow>
     v \<in> {''CREATED'', ''PENDING'', ''CAPTURED'', ''FAILED'', ''EXPIRED'', ''CANCELLED''}"

record attempt_input =
  ai_provider :: string
  ai_environment :: string
  ai_requested_method :: string
  ai_integration_mode :: string
  ai_capture_method :: string
  ai_state :: string
  ai_currency :: string
  ai_amount :: string
  ai_local_reference :: string
  ai_request_hash :: string

text \<open>The validated attempt is the input with its amount parsed.\<close>

definition ValidatePaymentAttemptInput :: "attempt_input \<Rightarrow> (attempt_input \<times> int) option" where
  "ValidatePaymentAttemptInput i =
     (case ParsePositiveRupiah (ai_amount i) of None \<Rightarrow> None
      | Some amount \<Rightarrow>
        if isAllowedProvider (ai_provider i) \<and> isAllowedProviderEnvironment (ai_environment i)
           \<and> isAllowedRequestedMethod' (ai_requested_method i)
           \<and> isAllowedIntegrationMode (ai_integration_mode i)
           \<and> isAllowedCaptureMethod (ai_capture_method i) \<and> isAllowedAttemptState (ai_state i)
           \<and> ai_currency i = ''IDR'' \<and> isSafeLocalReference (ai_local_reference i)
           \<and> isLowerSHA256 (ai_request_hash i)
        then Some (i, amount) else None)"

subsection \<open>Round trip\<close>

lemma decimal_value_snoc: "decimal_value (s @ [c]) = 10 * decimal_value s + digit_value c"
  by (simp add: decimal_value_def)

lemma of_char_digit: "n < 10 \<Longrightarrow> of_char (char_of (48 + n :: nat) :: char) = (48 + n :: nat)"
  by simp

lemma format_nat_value: "decimal_value (format_nat n) = int n"
proof (induction n rule: format_nat.induct)
  case (1 n)
  show ?case
  proof (cases "n < 10")
    case True
    then show ?thesis
      by (subst format_nat.simps) (simp add: decimal_value_def digit_value_def)
  next
    case False
    then have "decimal_value (format_nat n) = 10 * int (n div 10) + digit_value (char_of (48 + n mod 10))"
      using 1 by (subst format_nat.simps) (simp add: decimal_value_snoc)
    moreover have "10 * int (n div 10) + int (n mod 10) = int n"
      using div_mult_mod_eq [of n 10] by linarith
    ultimately show ?thesis by (simp add: digit_value_def)
  qed
qed

lemma digit_char: "n < 10 \<Longrightarrow> is_digit (char_of (48 + n :: nat))"
  by (simp add: is_digit_def less_eq_char_def)

lemma format_nat_digits: "list_all is_digit (format_nat n)"
proof (induction n rule: format_nat.induct)
  case (1 n)
  then show ?case
    by (subst format_nat.simps) (simp add: digit_char)
qed

lemma format_nat_canonical: "0 < n \<Longrightarrow> isCanonicalPositiveDecimal (format_nat n)"
proof (induction n rule: format_nat.induct)
  case (1 n)
  show ?case
  proof (cases "n < 10")
    case True
    with 1(2) show ?thesis
      by (subst format_nat.simps) (simp add: isCanonicalPositiveDecimal_def less_eq_char_def)
  next
    case False
    with 1(1) have "isCanonicalPositiveDecimal (format_nat (n div 10))" by simp
    moreover have "is_digit (char_of (48 + n mod 10))" by (rule digit_char) simp
    ultimately show ?thesis
      using False by (subst format_nat.simps) (auto simp: isCanonicalPositiveDecimal_def split: list.splits)
  qed
qed

text \<open>Two canonical decimals with the same value are the same string.\<close>

lemma decimal_value_bounds:
  "list_all is_digit s \<Longrightarrow> 0 \<le> decimal_value s \<and> decimal_value s < 10 ^ length s"
proof (induction s rule: rev_induct)
  case (snoc c s)
  then have "0 \<le> digit_value c" "digit_value c \<le> 9"
    by (simp_all add: is_digit_def digit_value_def less_eq_char_def)
  with snoc show ?case by (simp add: decimal_value_snoc)
qed (simp add: decimal_value_def)

lemma canonical_format:
  "isCanonicalPositiveDecimal s \<Longrightarrow> format_nat (nat (decimal_value s)) = s \<and> 0 < decimal_value s"
proof (induction s rule: rev_induct)
  case Nil
  then show ?case by (simp add: isCanonicalPositiveDecimal_def)
next
  case (snoc c s)
  show ?case
  proof (cases "s = []")
    case True
    with snoc.prems have "CHR ''1'' \<le> c" "c \<le> CHR ''9''"
      by (simp_all add: isCanonicalPositiveDecimal_def)
    then have c: "49 \<le> (of_char c :: nat)" "(of_char c :: nat) \<le> 57"
      by (simp_all add: less_eq_char_def)
    then have "nat (digit_value c) < 10" "48 + nat (digit_value c) = of_char c"
      by (simp_all add: digit_value_def)
    moreover have "0 < digit_value c" using c by (simp add: digit_value_def)
    ultimately show ?thesis
      using True by (subst format_nat.simps) (simp add: decimal_value_def)
  next
    case False
    then obtain x xs where "s = x # xs" by (cases s) auto
    with snoc.prems have s: "isCanonicalPositiveDecimal s" and "is_digit c"
      by (simp_all add: isCanonicalPositiveDecimal_def)
    then have c: "48 \<le> (of_char c :: nat)" "(of_char c :: nat) \<le> 57"
      by (simp_all add: is_digit_def less_eq_char_def)
    let ?d = "nat (digit_value c)" and ?v = "nat (decimal_value s)"
    have d: "?d < 10" "48 + ?d = of_char c" using c by (simp_all add: digit_value_def)
    have v: "format_nat ?v = s" "0 < decimal_value s" using snoc.IH s by simp_all
    have val: "nat (decimal_value (s @ [c])) = 10 * ?v + ?d"
      using v c by (simp add: decimal_value_snoc nat_add_distrib nat_mult_distrib digit_value_def)
    have "\<not> 10 * ?v + ?d < 10" using v by simp
    then have "format_nat (10 * ?v + ?d) = format_nat ((10 * ?v + ?d) div 10)
        @ [char_of (48 + (10 * ?v + ?d) mod 10)]"
      by (subst format_nat.simps) simp
    moreover have "(10 * ?v + ?d) div 10 = ?v" "(10 * ?v + ?d) mod 10 = ?d" using d by simp_all
    ultimately have "format_nat (10 * ?v + ?d) = s @ [c]" using v d by simp
    moreover have "0 < decimal_value (s @ [c])"
      using v c by (simp add: decimal_value_snoc digit_value_def)
    ultimately show ?thesis by (simp add: val)
  qed
qed

text \<open>
  C9. Parsing Rupiah amounts is exactly the inverse of printing them: the parser accepts a
  string precisely when it is the decimal representation of a positive amount that fits an
  int64, and returns that amount. Signs, leading zeroes, spaces, separators and
  exponents are therefore all rejected, and a snapshot amount printed and parsed again
  is unchanged.
\<close>

theorem ParsePositiveRupiah_inverse:
  "ParsePositiveRupiah raw = Some n \<longleftrightarrow>
     0 < n \<and> n \<le> 9223372036854775807 \<and> raw = format_int n"
proof
  assume "ParsePositiveRupiah raw = Some n"
  then show "0 < n \<and> n \<le> 9223372036854775807 \<and> raw = format_int n"
    using canonical_format [of raw]
    by (auto simp: ParsePositiveRupiah_def format_int_def Let_def split: if_splits)
next
  assume "0 < n \<and> n \<le> 9223372036854775807 \<and> raw = format_int n"
  then show "ParsePositiveRupiah raw = Some n"
    using format_nat_canonical [of "nat n"] format_nat_value [of "nat n"]
    by (simp add: ParsePositiveRupiah_def format_int_def)
qed

end
