(* ===== verification/PaymentAttempts.thy ===== *)
theory PaymentAttempts
  imports FlowGuards PaymentDto
begin

text \<open>
  \<^verbatim>\<open>internal/payments/repository.go\<close>: reading an attempt, and the operations that change
  one after it was created: the result of a create call, identities found by an inquiry,
  state transitions, and the capture, alone or together with the booking. The unique
  indexes and CHECK constraints of migration 025 are part of the statements.
\<close>

subsection \<open>Provider values\<close>

text \<open>Statuses and scopes come from the adapter and are Go strings.\<close>

definition PaymentStatusPending :: string where "PaymentStatusPending = ''PENDING''"
definition PaymentStatusCaptured :: string where "PaymentStatusCaptured = ''CAPTURED''"
definition PaymentStatusFailed :: string where "PaymentStatusFailed = ''FAILED''"
definition PaymentStatusExpired :: string where "PaymentStatusExpired = ''EXPIRED''"
definition PaymentStatusCancelled :: string where "PaymentStatusCancelled = ''CANCELLED''"

lemmas payment_status_defs = PaymentStatusPending_def PaymentStatusCaptured_def
  PaymentStatusFailed_def PaymentStatusExpired_def PaymentStatusCancelled_def

definition IsTerminal :: "string \<Rightarrow> bool" where
  "IsTerminal s \<longleftrightarrow> s = PaymentStatusCaptured \<or> s = PaymentStatusFailed
     \<or> s = PaymentStatusExpired \<or> s = PaymentStatusCancelled"

definition ScopeCheckoutSession :: string where "ScopeCheckoutSession = ''CHECKOUT_SESSION''"
definition ScopePayment :: string where "ScopePayment = ''PAYMENT''"

definition scope_IsValid :: "string \<Rightarrow> bool" where
  "scope_IsValid s \<longleftrightarrow> s = ScopeCheckoutSession \<or> s = ScopePayment"

fun state_name :: "attempt_state \<Rightarrow> string" where
  "state_name AttemptCreated = ''CREATED''"
| "state_name AttemptPending = ''PENDING''"
| "state_name AttemptCaptured = ''CAPTURED''"
| "state_name AttemptFailed = ''FAILED''"
| "state_name AttemptExpired = ''EXPIRED''"
| "state_name AttemptCancelled = ''CANCELLED''"

definition is_status_char :: "char \<Rightarrow> bool" where
  "is_status_char c \<longleftrightarrow> is_upper c \<or> is_lower c \<or> is_digit c \<or> c = CHR ''_'' \<or> c = CHR ''-''"

definition isSafeProviderStatusCode :: "string \<Rightarrow> bool" where
  "isSafeProviderStatusCode v \<longleftrightarrow>
     v \<noteq> [] \<and> length v \<le> 64 \<and> v = trim_space v \<and> list_all is_status_char v"

text \<open>
  \<open>safeCheckoutURL\<close> (orchestrator.go) accepts what \<open>net/url\<close> parses as an https URL of one
  of two hosts with a bare token path. Written out on the string: scheme and host are
  case-insensitive, the port may be an empty one, and an empty query or fragment
  may follow; percent-encodings leave a percent sign in the escaped path and fail.
\<close>

definition ascii_lower :: "char \<Rightarrow> char" where
  "ascii_lower c = (if is_upper c then char_of (of_char c + 32 :: nat) else c)"

definition strip_prefix_ci :: "string \<Rightarrow> string \<Rightarrow> string option" where
  "strip_prefix_ci p s =
     (if map ascii_lower (take (length p) s) = p then Some (drop (length p) s) else None)"

definition strip_suffix_char :: "char \<Rightarrow> string \<Rightarrow> string" where
  "strip_suffix_char c s = (if s \<noteq> [] \<and> last s = c then butlast s else s)"

definition safeCheckoutToken :: "string \<Rightarrow> nat \<Rightarrow> nat \<Rightarrow> bool" where
  "safeCheckoutToken v lo hi \<longleftrightarrow> lo \<le> length v \<and> length v \<le> hi \<and>
     list_all (\<lambda>c. is_lower c \<or> is_upper c \<or> is_digit c \<or> c = CHR ''-'' \<or> c = CHR ''_'') v"

definition checkout_path :: "string \<Rightarrow> string \<Rightarrow> nat \<Rightarrow> string \<Rightarrow> bool" where
  "checkout_path host prefix lo s =
     (case strip_prefix_ci host s of None \<Rightarrow> False
      | Some r \<Rightarrow>
        (case strip_prefix prefix (case r of c # r' \<Rightarrow> if c = CHR '':'' then r' else r | [] \<Rightarrow> r) of
           None \<Rightarrow> False | Some token \<Rightarrow> safeCheckoutToken token lo 128))"

definition safeCheckoutURL :: "string \<Rightarrow> bool" where
  "safeCheckoutURL v =
     (case strip_prefix_ci ''https://'' (strip_suffix_char CHR ''?'' (strip_suffix_char CHR ''#'' v)) of
        None \<Rightarrow> False
      | Some r \<Rightarrow> checkout_path ''checkout-staging.xendit.co'' ''/sessions/ps-'' 8 r
          \<or> checkout_path ''dev.xen.to'' ''/'' 4 r)"

subsection \<open>The table\<close>

definition mapPaymentRepositoryError :: "app_error \<Rightarrow> app_error" where
  "mapPaymentRepositoryError e =
    (case e of
       ERaised m \<Rightarrow> if m = attempt_blocked_message then EPayment ErrBookingNotPayable else e
     | EUnique n \<Rightarrow>
         if n = ''uq_payment_attempt_booking_captured'' \<or> n = ''uq_payment_capture_fact_attempt''
           then EPayment ErrAlreadyCaptured
         else if n = ''uq_payment_capture_fact_provider_payment''
                 \<or> n = ''uq_payment_capture_fact_provider_request'' then EPayment ErrCaptureConflict
         else if n = ''uq_payment_attempt_booking_attempt_no''
                 \<or> n = ''uq_payment_attempt_provider_reference'' then EPayment ErrIdempotencyConflict
         else EPayment ErrCaptureConflict
     | _ \<Rightarrow> e)"

definition allowed_status_codes :: "string list" where
  "allowed_status_codes =
     [''PENDING'', ''CAPTURED'', ''FAILED'', ''EXPIRED'', ''CANCELLED'', ''REQUIRES_ACTION'',
      ''ACCEPTING_PAYMENTS'', ''RETRYABLE_TIMEOUT'', ''RETRYABLE_PROVIDER'', ''RATE_LIMITED'',
      ''AUTHENTICATION_FAILED'', ''INVALID_REQUEST'', ''IDEMPOTENCY_CONFLICT'',
      ''REFERENCE_MISMATCH'', ''AMOUNT_MISMATCH'', ''CURRENCY_MISMATCH'', ''TERMINAL_PROVIDER'',
      ''MALFORMED_RESPONSE'']"

text \<open>The CHECK constraints an update can violate, by name.\<close>

definition attempt_check :: "payment_attempt \<Rightarrow> string option" where
  "attempt_check a =
    (if (pa_state a = AttemptCaptured) \<noteq> (pa_captured_at a \<noteq> None)
       then Some ''chk_payment_attempt_capture_time''
     else if pa_expires_at a \<le> pa_created_at a then Some ''chk_payment_attempt_expiry''
     else if (case pa_status_code a of None \<Rightarrow> False | Some c \<Rightarrow> c \<notin> set allowed_status_codes)
       then Some ''chk_payment_attempt_provider_status_code''
     else None)"

definition same_provider :: "payment_attempt \<Rightarrow> payment_attempt \<Rightarrow> bool" where
  "same_provider a b \<longleftrightarrow> pa_provider a = pa_provider b \<and> pa_environment a = pa_environment b"

text \<open>The unique indexes an update can violate: the first one that another row blocks.\<close>

definition attempt_conflict :: "payment_attempt list \<Rightarrow> payment_attempt \<Rightarrow> string option" where
  "attempt_conflict t a =
    (let others = filter (\<lambda>b. pa_id b \<noteq> pa_id a) t in
     if pa_state a = AttemptCaptured
        \<and> sql_exists (\<lambda>b. pa_booking_id b = pa_booking_id a \<and> pa_state b = AttemptCaptured) others
       then Some ''uq_payment_attempt_booking_captured''
     else if pa_session_id a \<noteq> None
        \<and> sql_exists (\<lambda>b. same_provider a b \<and> pa_session_id b = pa_session_id a) others
       then Some ''uq_payment_attempt_provider_session''
     else if pa_payment_req_id a \<noteq> None
        \<and> sql_exists (\<lambda>b. same_provider a b \<and> pa_payment_req_id b = pa_payment_req_id a) others
       then Some ''uq_payment_attempt_provider_request''
     else if pa_payment_id a \<noteq> None
        \<and> sql_exists (\<lambda>b. same_provider a b \<and> pa_payment_id b = pa_payment_id a) others
       then Some ''uq_payment_attempt_provider_payment''
     else None)"

text \<open>\<open>UPDATE payment_attempts SET f WHERE id = i AND p RETURNING \<dots>\<close>: no row is \<open>None\<close>.\<close>

definition update_attempt :: "string \<Rightarrow> (payment_attempt \<Rightarrow> bool) \<Rightarrow> (payment_attempt \<Rightarrow> payment_attempt)
    \<Rightarrow> dbs \<Rightarrow> (app_error + payment_attempt option) \<times> dbs" where
  "update_attempt i p f d =
    (case query_row (\<lambda>a. pa_id a = i \<and> p a) (attempts d) of
       None \<Rightarrow> (Inr None, d)
     | Some a \<Rightarrow>
        (case attempt_check (f a) of Some n \<Rightarrow> (Inl (ECheck n), d)
         | None \<Rightarrow>
        (case attempt_conflict (attempts d) (f a) of Some n \<Rightarrow> (Inl (EUnique n), d)
         | None \<Rightarrow> (Inr (Some (f a)),
             d\<lparr>attempts := sql_update (\<lambda>x. pa_id x = i \<and> p x) f (attempts d)\<rparr>))))"

definition fact_conflict :: "capture_fact list \<Rightarrow> capture_fact \<Rightarrow> string option" where
  "fact_conflict t f =
    (if sql_exists (\<lambda>g. cf_attempt_id g = cf_attempt_id f) t then Some ''uq_payment_capture_fact_attempt''
     else if sql_exists (\<lambda>g. cf_provider g = cf_provider f \<and> cf_environment g = cf_environment f
               \<and> cf_payment_id g = cf_payment_id f) t
       then Some ''uq_payment_capture_fact_provider_payment''
     else if cf_payment_req_id f \<noteq> None
        \<and> sql_exists (\<lambda>g. cf_provider g = cf_provider f \<and> cf_environment g = cf_environment f
               \<and> cf_payment_req_id g = cf_payment_req_id f) t
       then Some ''uq_payment_capture_fact_provider_request''
     else None)"

text \<open>\<open>INSERT INTO payment_capture_facts\<close> with its trigger \<open>validate_payment_capture_fact\<close>.\<close>

definition insert_capture_fact :: "capture_fact \<Rightarrow> dbs \<Rightarrow> (app_error + capture_fact) \<times> dbs" where
  "insert_capture_fact f d =
    (case query_row (\<lambda>a. pa_id a = cf_attempt_id f) (attempts d) of
       None \<Rightarrow> (Inl (ERaised ''payment attempt does not exist''), d)
     | Some a \<Rightarrow>
        if pa_state a \<noteq> AttemptCaptured \<or> pa_captured_at a \<noteq> Some (cf_captured_at f)
          then (Inl (ERaised ''payment capture fact requires the matching captured payment attempt''), d)
        else if \<not> fact_matches a f
          then (Inl (ERaised ''payment capture fact must exactly match its payment attempt''), d)
        else (case fact_conflict (captures d) f of
                Some n \<Rightarrow> (Inl (EUnique n), d)
              | None \<Rightarrow> (Inr f, d\<lparr>captures := captures d @ [f]\<rparr>)))"

subsection \<open>Reading\<close>

definition not_found :: "payment_error \<Rightarrow> 'a option \<Rightarrow> 'a app" where
  "not_found e r = deref (EPayment e) r"

definition select_attempt :: "env \<Rightarrow> string \<Rightarrow> payment_attempt app" where
  "select_attempt E aid =
     andthen (query E EDatabase (\<lambda>now d. query_row (\<lambda>a. pa_id a = aid) (attempts d)))
       (not_found ErrAttemptNotFound)"

definition GetAttemptByID :: "env \<Rightarrow> string \<Rightarrow> payment_attempt app" where
  "GetAttemptByID E i =
     (case uuid_parse E i of None \<Rightarrow> fail (EPayment ErrAttemptNotFound)
      | Some aid \<Rightarrow>
        andthen (pool_query E EDatabase (\<lambda>now d. query_row (\<lambda>a. pa_id a = aid) (attempts d)))
          (not_found ErrAttemptNotFound))"

definition GetAttemptTx :: "env \<Rightarrow> string \<Rightarrow> payment_attempt app" where
  "GetAttemptTx E i =
     (case uuid_parse E i of None \<Rightarrow> fail (EPayment ErrAttemptNotFound)
      | Some aid \<Rightarrow> select_attempt E aid)"

text \<open>The common opening of every operation that changes an attempt: find its booking, take
  the booking-flow lock, read the row again.\<close>

definition lock_attempt :: "env \<Rightarrow> string \<Rightarrow> payment_attempt app" where
  "lock_attempt E aid =
     andthen (select_attempt E aid) (\<lambda>a.
     andthen (LockBooking E (pa_booking_id a)) (\<lambda>_. select_attempt E aid))"

definition LockAttemptForFinalizationTx :: "env \<Rightarrow> string \<Rightarrow> payment_attempt app" where
  "LockAttemptForFinalizationTx E i =
     (case uuid_parse E i of None \<Rightarrow> fail (EPayment ErrAttemptNotFound)
      | Some aid \<Rightarrow> lock_attempt E aid)"

definition findPaymentCreateContract :: "string \<Rightarrow> dbs \<Rightarrow> create_contract option" where
  "findPaymentCreateContract aid d = query_row (\<lambda>c. cc_attempt_id c = aid) (contracts d)"

definition GetCreateContractByAttemptID :: "env \<Rightarrow> string \<Rightarrow> create_contract app" where
  "GetCreateContractByAttemptID E i =
     (case uuid_parse E i of None \<Rightarrow> fail (EPayment ErrAttemptNotFound)
      | Some aid \<Rightarrow>
        andthen (pool_query E EDatabase (\<lambda>now d. findPaymentCreateContract aid d))
          (not_found ErrAttemptNotFound))"

subsection \<open>Reading as a customer\<close>

record customer_status =
  cs_attempt :: payment_attempt
  cs_checkout_eligible :: bool

definition checkout_eligible :: "time \<Rightarrow> payment_attempt \<Rightarrow> booking \<Rightarrow> bool" where
  "checkout_eligible now a b \<longleftrightarrow> pa_state a = AttemptPending \<and> now < pa_expires_at a
     \<and> bk_status b = PENDING_PAYMENT
     \<and> (case bk_expires_at b of None \<Rightarrow> False | Some t \<Rightarrow> now < t)"

text \<open>\<open>FROM payment_attempts pa JOIN bookings b ON b.id = pa.booking_id WHERE ..\<close>\<close>

definition join_booking :: "(payment_attempt \<Rightarrow> booking \<Rightarrow> bool) \<Rightarrow> dbs \<Rightarrow> (payment_attempt \<times> booking) option" where
  "join_booking p d =
     query_row (\<lambda>(a, b). bk_id b = pa_booking_id a \<and> p a b) (List.product (attempts d) (bookings d))"

definition status_of :: "time \<Rightarrow> payment_attempt \<times> booking \<Rightarrow> customer_status" where
  "status_of now ab = \<lparr>cs_attempt = fst ab, cs_checkout_eligible = checkout_eligible now (fst ab) (snd ab)\<rparr>"

definition GetAttemptByIDForCustomer :: "env \<Rightarrow> string \<Rightarrow> string \<Rightarrow> customer_status app" where
  "GetAttemptByIDForCustomer E i customer =
     (case (uuid_parse E i, uuid_parse E customer) of
        (Some aid, Some cid) \<Rightarrow>
          andthen (pool_query E EDatabase (\<lambda>now d. map_option (status_of now)
                     (join_booking (\<lambda>a b. pa_id a = aid \<and> bk_customer b = cid) d)))
            (not_found ErrAttemptNotFound)
      | _ \<Rightarrow> fail (EPayment ErrAttemptNotFound))"

definition GetAttemptByReferenceForCustomer ::
    "env \<Rightarrow> string \<Rightarrow> string \<Rightarrow> string \<Rightarrow> payment_attempt app" where
  "GetAttemptByReferenceForCustomer E bookingID customer ref =
     (case (uuid_parse E bookingID, uuid_parse E customer) of
        (Some bid, Some cid) \<Rightarrow>
          if \<not> isSafeLocalReference ref then fail (EPayment ErrAttemptNotFound)
          else andthen (pool_query E EDatabase (\<lambda>now d. map_option fst
                 (join_booking (\<lambda>a b. pa_booking_id a = bid \<and> bk_customer b = cid
                    \<and> pa_provider a = ''XENDIT'' \<and> pa_environment a = ''TEST''
                    \<and> pa_local_reference a = ref) d)))
            (not_found ErrAttemptNotFound)
      | _ \<Rightarrow> fail (EPayment ErrAttemptNotFound))"

definition GetAttemptByLocalReferenceForCustomer ::
    "env \<Rightarrow> string \<Rightarrow> string \<Rightarrow> customer_status app" where
  "GetAttemptByLocalReferenceForCustomer E customer ref =
     (case uuid_parse E customer of
        Some cid \<Rightarrow>
          if \<not> isSafeLocalReference ref then fail (EPayment ErrAttemptNotFound)
          else andthen (pool_query E EDatabase (\<lambda>now d. map_option (status_of now)
                 (join_booking (\<lambda>a b. bk_customer b = cid
                    \<and> pa_provider a = ''XENDIT'' \<and> pa_environment a = ''TEST''
                    \<and> pa_local_reference a = ref) d)))
            (not_found ErrAttemptNotFound)
      | None \<Rightarrow> fail (EPayment ErrAttemptNotFound))"

definition GetAttemptCreateFactsByReferenceForCustomer ::
    "env \<Rightarrow> string \<Rightarrow> string \<Rightarrow> string \<Rightarrow> (payment_attempt \<times> create_contract) app" where
  "GetAttemptCreateFactsByReferenceForCustomer E bookingID customer ref =
     andthen (GetAttemptByReferenceForCustomer E bookingID customer ref) (\<lambda>a.
     attempt (GetCreateContractByAttemptID E (pa_id a))
       (\<lambda>e. if e = EPayment ErrAttemptNotFound then fail (EPayment ErrPaymentIntegrity) else fail e)
       (\<lambda>c. ret (a, c)))"

record creation_facts =
  pf_amount :: int
  pf_created_at :: time
  pf_expires_at :: time

definition payable_snapshot :: "string \<Rightarrow> fee_snapshot \<Rightarrow> bool" where
  "payable_snapshot bid s \<longleftrightarrow> fs_booking_id s = bid
     \<and> fs_channel s = BookingChannelMarketplaceOnline \<and> fs_finance_mode s = ''SIMULATION''
     \<and> fs_currency s = ''IDR''"

definition GetPaymentCreationFacts :: "env \<Rightarrow> string \<Rightarrow> string \<Rightarrow> creation_facts app" where
  "GetPaymentCreationFacts E bookingID customer =
     (case (uuid_parse E bookingID, uuid_parse E customer) of
        (Some bid, Some cid) \<Rightarrow>
          andthen (pool_query E EDatabase (\<lambda>now d.
             map_option (\<lambda>b. (b, now, map_option fs_customer_charge
                                (query_row (payable_snapshot (bk_id b)) (snapshots d))))
               (query_row (\<lambda>b. bk_id b = bid \<and> bk_customer b = cid) (bookings d))))
          (\<lambda>row. case row of None \<Rightarrow> fail (EPayment ErrBookingNotFound)
           | Some (b, now, amount) \<Rightarrow>
              (case bk_expires_at b of
                 None \<Rightarrow> fail (EPayment ErrBookingNotPayable)
               | Some t \<Rightarrow>
                  if bk_status b \<noteq> PENDING_PAYMENT \<or> t \<le> now then fail (EPayment ErrBookingNotPayable)
                  else (case amount of None \<Rightarrow> fail (EPayment ErrSnapshotNotFound)
                        | Some m \<Rightarrow> ret \<lparr>pf_amount = m, pf_created_at = bk_created_at b,
                                        pf_expires_at = t\<rparr>)))
      | _ \<Rightarrow> fail (EPayment ErrBookingNotFound))"

definition GetAttemptsByBooking :: "env \<Rightarrow> string \<Rightarrow> payment_attempt list app" where
  "GetAttemptsByBooking E bookingID =
     (case uuid_parse E bookingID of None \<Rightarrow> fail (EPayment ErrBookingNotFound)
      | Some bid \<Rightarrow> pool_query E EDatabase (\<lambda>now d. sort_key pa_attempt_no (attempts_of d bid)))"

definition next_attempt_no :: "dbs \<Rightarrow> string \<Rightarrow> int" where
  "next_attempt_no d bid = foldr max (map pa_attempt_no (attempts_of d bid)) 0 + 1"

definition GetNextAttemptNumber :: "env \<Rightarrow> string \<Rightarrow> int app" where
  "GetNextAttemptNumber E bookingID =
     (case uuid_parse E bookingID of None \<Rightarrow> fail (EPayment ErrBookingNotFound)
      | Some bid \<Rightarrow>
        andthen (pool_query E EDatabase (\<lambda>now d. sql_exists (\<lambda>b. bk_id b = bid) (bookings d))) (\<lambda>ex.
          if \<not> ex then fail (EPayment ErrBookingNotFound)
          else pool_query E EDatabase (\<lambda>now d. next_attempt_no d bid)))"

subsection \<open>Audit rows\<close>

definition payment_audit_row :: "payment_attempt \<Rightarrow> audit_action \<Rightarrow> string option \<Rightarrow> string \<Rightarrow> string
    \<Rightarrow> (string \<times> meta_value) list \<Rightarrow> audit_params" where
  "payment_audit_row a action actor role correlation meta =
    \<lparr>au_actor = actor, au_role = role, au_action = action, au_entity_type = EntityPaymentAttempt,
     au_entity_id = Some (pa_id a), au_correlation_id = Some correlation, au_metadata = meta\<rparr>"

definition writePaymentAuditWithActor :: "env \<Rightarrow> payment_attempt \<Rightarrow> string \<Rightarrow> string \<Rightarrow> bool
    \<Rightarrow> string option \<Rightarrow> string \<Rightarrow> string \<Rightarrow> unit app" where
  "writePaymentAuditWithActor E a from_s to_s late actor role correlation =
    (let attempt_no = (''attempt_no'', MInt (pa_attempt_no a));
         action = (if from_s = [] then ActionPaymentAttemptCreated else ActionPaymentStateTransition);
         meta = (if from_s = [] then [attempt_no]
                 else [attempt_no, (''from_state'', MString from_s), (''to_state'', MString to_s),
                       (''late_capture'', MBool late)]);
         corr = (if correlation = [] then pa_local_reference a else correlation);
         role' = (if role = [] then ''SYSTEM'' else role)
     in andthen (audit_record E (payment_audit_row a action actor role' corr meta)) (\<lambda>_.
        if \<not> late then ret ()
        else audit_record E (payment_audit_row a ActionReconciliationException None ''SYSTEM'' corr
               [(''from_state'', MString from_s), (''to_state'', MString to_s), attempt_no,
                (''reason'', MString ''LATE_CAPTURE'')])))"

definition writePaymentAudit :: "env \<Rightarrow> payment_attempt \<Rightarrow> string \<Rightarrow> string \<Rightarrow> bool \<Rightarrow> unit app" where
  "writePaymentAudit E a from_s to_s late =
     writePaymentAuditWithActor E a from_s to_s late None ''SYSTEM'' []"

text \<open>An UPDATE of the attempt whose errors pass through \<open>mapPaymentRepositoryError\<close>; no
  row updated is a state conflict.\<close>

definition run_update :: "env \<Rightarrow> string \<Rightarrow> (payment_attempt \<Rightarrow> bool)
    \<Rightarrow> (time \<Rightarrow> payment_attempt \<Rightarrow> payment_attempt) \<Rightarrow> payment_attempt app" where
  "run_update E aid p f =
     andthen (map_err mapPaymentRepositoryError
                (db_call E EDatabase (\<lambda>now d. update_attempt aid p (f now) d)))
       (not_found ErrStateConflict)"

subsection \<open>The result of a create call\<close>

record create_result_params =
  rp_attempt_id :: string
  rp_provider :: string
  rp_environment :: string
  rp_session_id :: string
  rp_payment_req_id :: "string option"
  rp_payment_id :: "string option"
  rp_status_code :: string
  rp_checkout_url :: "string option"
  rp_expires_at :: "time option"
  rp_status :: string
  rp_amount :: int
  rp_currency :: string

definition validProviderResultIdentity :: "env \<Rightarrow> create_result_params \<Rightarrow> bool" where
  "validProviderResultIdentity E p \<longleftrightarrow> uuid_parse E (rp_attempt_id p) \<noteq> None
     \<and> rp_provider p = ''XENDIT'' \<and> rp_environment p = ''TEST''
     \<and> ValidProviderIdentity (go_unicode E) (rp_session_id p) True
     \<and> isSafeProviderStatusCode (rp_status_code p)
     \<and> validOptionalProviderIdentity (go_unicode E) (rp_payment_req_id p)
     \<and> validOptionalProviderIdentity (go_unicode E) (rp_payment_id p)
     \<and> 0 < rp_amount p \<and> rp_currency p = ''IDR'' \<and> rp_status p = PaymentStatusPending"

text \<open>An identity that is already bound must compare equal.\<close>

definition bound_differs :: "string option \<Rightarrow> string option \<Rightarrow> bool" where
  "bound_differs cur new \<longleftrightarrow> cur \<noteq> None \<and> new \<noteq> None \<and> cur \<noteq> new"

definition coalesce :: "'a option \<Rightarrow> 'a option \<Rightarrow> 'a option" where
  "coalesce new cur = (case new of None \<Rightarrow> cur | Some x \<Rightarrow> Some x)"

definition set_create_result :: "create_result_params \<Rightarrow> time option \<Rightarrow> time
    \<Rightarrow> payment_attempt \<Rightarrow> payment_attempt" where
  "set_create_result p expires now a =
     a\<lparr>pa_state := AttemptPending, pa_session_id := Some (rp_session_id p),
       pa_payment_req_id := coalesce (rp_payment_req_id p) (pa_payment_req_id a),
       pa_payment_id := coalesce (rp_payment_id p) (pa_payment_id a),
       pa_status_code := Some (rp_status_code p),
       pa_checkout_url := coalesce (rp_checkout_url p) (pa_checkout_url a),
       pa_expires_at := (case expires of None \<Rightarrow> pa_expires_at a
                         | Some t \<Rightarrow> if t < pa_expires_at a then t else pa_expires_at a),
       pa_updated_at := now\<rparr>"

definition ApplyCreateProviderResultTx :: "env \<Rightarrow> create_result_params \<Rightarrow> payment_attempt app" where
  "ApplyCreateProviderResultTx E p =
    (if \<not> validProviderResultIdentity E p \<or> rp_status p \<noteq> PaymentStatusPending
        \<or> rp_status_code p = [] \<or> rp_status_code p = ''CAPTURED''
       then fail (EPayment ErrInvalidCapture)
     else if (case rp_checkout_url p of None \<Rightarrow> False | Some u \<Rightarrow> \<not> safeCheckoutURL u)
       then fail (EPayment ErrInvalidCreateAttempt)
     else case uuid_parse E (rp_attempt_id p) of None \<Rightarrow> fail (EPayment ErrInvalidCapture)
     | Some aid \<Rightarrow>
    andthen (lock_attempt E aid) (\<lambda>current.
     if pa_provider current \<noteq> rp_provider p \<or> pa_environment current \<noteq> rp_environment p
        \<or> pa_amount current \<noteq> rp_amount p \<or> pa_currency current \<noteq> rp_currency p
       then fail (EPayment ErrCaptureConflict)
     else if bound_differs (pa_session_id current) (Some (rp_session_id p))
        \<or> bound_differs (pa_payment_req_id current) (rp_payment_req_id p)
        \<or> bound_differs (pa_payment_id current) (rp_payment_id p)
       then fail (EPayment ErrCaptureConflict)
     else if pa_state current \<noteq> AttemptCreated \<and> pa_state current \<noteq> AttemptPending then ret current
     else
    andthen (run_update E aid (\<lambda>a. pa_state a = AttemptCreated \<or> pa_state a = AttemptPending)
               (set_create_result p (map_option truncate_us (rp_expires_at p)))) (\<lambda>updated.
     if pa_state current \<noteq> AttemptPending
       then andthen (writePaymentAudit E updated (state_name (pa_state current))
                       (state_name AttemptPending) False) (\<lambda>_. ret updated)
     else ret updated)))"

subsection \<open>Identities found by an inquiry\<close>

record inquiry_identity_params =
  ip_attempt_id :: string
  ip_provider :: string
  ip_environment :: string
  ip_scope :: string
  ip_session_id :: "string option"
  ip_payment_req_id :: "string option"
  ip_payment_id :: "string option"
  ip_status_code :: string

definition validInquiryIdentityParams :: "env \<Rightarrow> inquiry_identity_params \<Rightarrow> bool" where
  "validInquiryIdentityParams E p \<longleftrightarrow>
     uuid_parse E (ip_attempt_id p) \<noteq> None \<and> ip_provider p = ''XENDIT'' \<and> ip_environment p = ''TEST''
     \<and> scope_IsValid (ip_scope p) \<and> isSafeProviderStatusCode (ip_status_code p)
     \<and> validOptionalProviderIdentity (go_unicode E) (ip_session_id p)
     \<and> validOptionalProviderIdentity (go_unicode E) (ip_payment_req_id p)
     \<and> validOptionalProviderIdentity (go_unicode E) (ip_payment_id p)
     \<and> (if ip_scope p = ScopeCheckoutSession
        then ip_session_id p \<noteq> None \<and> ip_payment_req_id p \<noteq> None \<and> ip_payment_id p = None
        else ip_payment_req_id p \<noteq> None)"

text \<open>The rejections that hand the current row back to the caller are values here.\<close>

datatype inquiry_result = Bound payment_attempt bool | Rejected payment_attempt payment_error

definition set_inquiry_identity :: "inquiry_identity_params \<Rightarrow> time \<Rightarrow> payment_attempt \<Rightarrow> payment_attempt" where
  "set_inquiry_identity p now a =
     a\<lparr>pa_payment_req_id := coalesce (ip_payment_req_id p) (pa_payment_req_id a),
       pa_payment_id := coalesce (ip_payment_id p) (pa_payment_id a),
       pa_status_code := Some (ip_status_code p), pa_updated_at := now\<rparr>"

text \<open>A bound identity that the response does not repeat exactly.\<close>

definition bound_missing :: "string option \<Rightarrow> string option \<Rightarrow> bool" where
  "bound_missing cur new \<longleftrightarrow> cur \<noteq> None \<and> cur \<noteq> new"

definition identity_conflict :: "inquiry_identity_params \<Rightarrow> payment_attempt \<Rightarrow> bool" where
  "identity_conflict p a \<longleftrightarrow>
    (if ip_scope p = ScopeCheckoutSession
     then bound_missing (pa_session_id a) (ip_session_id p)
          \<or> bound_missing (pa_payment_req_id a) (ip_payment_req_id p)
     else bound_missing (pa_payment_req_id a) (ip_payment_req_id p)
          \<or> bound_differs (pa_session_id a) (ip_session_id p)
          \<or> bound_missing (pa_payment_id a) (ip_payment_id p))"

definition ApplyInquiryIdentityTx :: "env \<Rightarrow> inquiry_identity_params \<Rightarrow> inquiry_result app" where
  "ApplyInquiryIdentityTx E p =
    (if \<not> validInquiryIdentityParams E p then fail (EPayment ErrInvalidInquiryIdentity)
     else case uuid_parse E (ip_attempt_id p) of None \<Rightarrow> fail (EPayment ErrInvalidInquiryIdentity)
     | Some aid \<Rightarrow>
    andthen (lock_attempt E aid) (\<lambda>current.
     if pa_provider current \<noteq> ip_provider p \<or> pa_environment current \<noteq> ip_environment p
       then ret (Rejected current ErrStateConflict)
     else if ip_scope p \<noteq> ScopeCheckoutSession \<and> ip_scope p \<noteq> ScopePayment
       then ret (Rejected current ErrInvalidInquiryIdentity)
     else if identity_conflict p current then ret (Rejected current ErrCaptureConflict)
     else if pa_state current \<noteq> AttemptPending then ret (Rejected current ErrStateConflict)
     else if ip_scope p = ScopeCheckoutSession
             \<and> (pa_session_id current = None \<or> ip_session_id p = None)
       then ret (Rejected current ErrCaptureConflict)
     else if ip_scope p = ScopeCheckoutSession \<and> ip_payment_req_id p = None
       then ret (Rejected current ErrInvalidInquiryIdentity)
     else if ip_scope p = ScopePayment
             \<and> (pa_payment_req_id current = None \<or> ip_payment_req_id p = None)
       then ret (Rejected current ErrCaptureConflict)
     else
      let newIdentity = (pa_payment_req_id current = None \<and> ip_payment_req_id p \<noteq> None
                         \<or> pa_payment_id current = None \<and> ip_payment_id p \<noteq> None)
      in andthen (run_update E aid (\<lambda>a. pa_state a = AttemptPending) (set_inquiry_identity p))
           (\<lambda>updated. ret (Bound updated newIdentity))))"

subsection \<open>State transitions\<close>

fun allowedStateTransition :: "attempt_state \<Rightarrow> attempt_state \<Rightarrow> bool" where
  "allowedStateTransition AttemptCreated t = (t = AttemptPending \<or> t = AttemptCancelled)"
| "allowedStateTransition AttemptPending t =
     (t = AttemptFailed \<or> t = AttemptExpired \<or> t = AttemptCancelled)"
| "allowedStateTransition _ t = False"

definition set_state :: "attempt_state \<Rightarrow> time \<Rightarrow> payment_attempt \<Rightarrow> payment_attempt" where
  "set_state st now a = a\<lparr>pa_state := st, pa_updated_at := now\<rparr>"

definition TransitionStateTx :: "env \<Rightarrow> string \<Rightarrow> attempt_state \<Rightarrow> attempt_state \<Rightarrow> payment_attempt app" where
  "TransitionStateTx E i expected next =
    (case uuid_parse E i of None \<Rightarrow> fail (EPayment ErrAttemptNotFound)
     | Some aid \<Rightarrow>
    if \<not> allowedStateTransition expected next then fail (EPayment ErrInvalidTransition)
    else
    andthen (select_attempt E aid) (\<lambda>current.
     if pa_state current \<noteq> expected then fail (EPayment ErrStateConflict)
     else
    andthen (run_update E aid (\<lambda>a. pa_state a = expected) (set_state next)) (\<lambda>a.
    andthen (writePaymentAudit E a (state_name expected) (state_name next) False) (\<lambda>_. ret a))))"

subsection \<open>Capture\<close>

record capture_params =
  cp_attempt_id :: string
  cp_provider :: string
  cp_environment :: string
  cp_payment_id :: string
  cp_payment_req_id :: "string option"
  cp_amount :: int
  cp_currency :: string
  cp_captured_at :: time
  cp_observed_at :: time
  cp_authority :: string
  cp_source_reference :: string
  cp_payload_hash :: string

record capture_result =
  cr_attempt :: payment_attempt
  cr_fact :: capture_fact
  cr_duplicate :: bool
  cr_late :: bool
  cr_booking_paid :: bool

definition isBoundedReference :: "string \<Rightarrow> nat \<Rightarrow> bool" where
  "isBoundedReference v n \<longleftrightarrow> v \<noteq> [] \<and> v = trim_space v \<and> length v \<le> n"

definition validateCaptureParams :: "env \<Rightarrow> capture_params \<Rightarrow> bool" where
  "validateCaptureParams E p \<longleftrightarrow> uuid_parse E (cp_attempt_id p) \<noteq> None
     \<and> cp_provider p = ''XENDIT'' \<and> cp_environment p = ''TEST'' \<and> cp_currency p = ''IDR''
     \<and> 0 < cp_amount p \<and> ValidProviderIdentity (go_unicode E) (cp_payment_id p) True
     \<and> validOptionalProviderIdentity (go_unicode E) (cp_payment_req_id p)
     \<and> (cp_authority p = ''VERIFIED_WEBHOOK'' \<or> cp_authority p = ''AUTHENTICATED_INQUIRY'')
     \<and> isBoundedReference (cp_source_reference p) 191 \<and> isLowerSHA256 (cp_payload_hash p)
     \<and> \<not> is_zero (cp_captured_at p) \<and> \<not> is_zero (cp_observed_at p)
     \<and> cp_captured_at p \<le> cp_observed_at p"

definition canonical_times :: "capture_params \<Rightarrow> capture_params" where
  "canonical_times p = p\<lparr>cp_captured_at := truncate_us (cp_captured_at p),
     cp_observed_at := truncate_us (cp_observed_at p)\<rparr>"

definition findCaptureByAttemptOrProviderID :: "string \<Rightarrow> capture_params \<Rightarrow> dbs \<Rightarrow> capture_fact list" where
  "findCaptureByAttemptOrProviderID aid p d =
     filter (\<lambda>f. cf_attempt_id f = aid \<or> cf_provider f = cp_provider p
        \<and> cf_environment f = cp_environment p \<and> cf_payment_id f = cp_payment_id p) (captures d)"

definition sameCapture :: "capture_fact \<Rightarrow> capture_params \<Rightarrow> bool" where
  "sameCapture f p \<longleftrightarrow> cf_provider f = cp_provider p \<and> cf_environment f = cp_environment p
     \<and> cf_payment_id f = cp_payment_id p \<and> cf_payment_req_id f = cp_payment_req_id p
     \<and> cf_amount f = cp_amount p \<and> cf_currency f = cp_currency p
     \<and> cf_captured_at f = cp_captured_at p"

definition capture_mismatch :: "payment_attempt \<Rightarrow> capture_params \<Rightarrow> bool" where
  "capture_mismatch a p \<longleftrightarrow> pa_provider a \<noteq> cp_provider p \<or> pa_environment a \<noteq> cp_environment p
     \<or> pa_currency a \<noteq> cp_currency p \<or> pa_amount a \<noteq> cp_amount p
     \<or> pa_payment_id a \<noteq> None \<and> pa_payment_id a \<noteq> Some (cp_payment_id p)
     \<or> pa_payment_req_id a \<noteq> None \<and> pa_payment_req_id a \<noteq> cp_payment_req_id p"

definition set_captured :: "capture_params \<Rightarrow> time \<Rightarrow> payment_attempt \<Rightarrow> payment_attempt" where
  "set_captured p now a =
     a\<lparr>pa_state := AttemptCaptured, pa_captured_at := Some (cp_captured_at p),
       pa_payment_id := Some (cp_payment_id p), pa_payment_req_id := cp_payment_req_id p,
       pa_status_code := Some ''CAPTURED'', pa_updated_at := now\<rparr>"

definition new_fact :: "string \<Rightarrow> capture_params \<Rightarrow> capture_fact" where
  "new_fact aid p =
    \<lparr>cf_attempt_id = aid, cf_provider = cp_provider p, cf_environment = cp_environment p,
     cf_payment_id = cp_payment_id p, cf_payment_req_id = cp_payment_req_id p,
     cf_amount = cp_amount p, cf_currency = cp_currency p, cf_captured_at = cp_captured_at p,
     cf_observed_at = cp_observed_at p, cf_authority = cp_authority p,
     cf_source_reference = cp_source_reference p, cf_payload_hash = cp_payload_hash p\<rparr>"

definition booking_status_expired :: "time \<Rightarrow> string \<Rightarrow> dbs \<Rightarrow> (booking_status \<times> bool) option" where
  "booking_status_expired now bid d =
     map_option (\<lambda>b. (bk_status b, case bk_expires_at b of None \<Rightarrow> False | Some t \<Rightarrow> t \<le> now))
       (query_row (\<lambda>b. bk_id b = bid) (bookings d))"

text \<open>The writes of a fresh capture: the attempt, its fact, and the audit rows.\<close>

definition store_capture :: "env \<Rightarrow> string \<Rightarrow> capture_params \<Rightarrow> payment_attempt \<Rightarrow> bool
    \<Rightarrow> capture_result app" where
  "store_capture E aid p a late =
    andthen (run_update E aid (\<lambda>x. pa_state x = pa_state a \<and> pa_captured_at x = None) (set_captured p))
      (\<lambda>updated.
    andthen (map_err mapPaymentRepositoryError
              (db_call E EDatabase (\<lambda>now d. insert_capture_fact (new_fact aid p) d))) (\<lambda>fact.
    andthen (writePaymentAudit E updated (state_name (pa_state a)) (state_name AttemptCaptured) late)
      (\<lambda>_. ret \<lparr>cr_attempt = updated, cr_fact = fact, cr_duplicate = False, cr_late = late,
                cr_booking_paid = False\<rparr>)))"

text \<open>What happens once the attempt, its booking and the existing facts have been read.\<close>

definition decide_capture :: "env \<Rightarrow> string \<Rightarrow> capture_params \<Rightarrow> payment_attempt
    \<Rightarrow> booking_status \<times> bool \<Rightarrow> capture_fact list \<Rightarrow> capture_result app" where
  "decide_capture E aid p a bs found =
    (case found of
       x # y # _ \<Rightarrow> fail (EPayment ErrPaymentIntegrity)
     | [existing] \<Rightarrow>
        if cf_attempt_id existing \<noteq> aid \<or> \<not> sameCapture existing p
          then fail (EPayment ErrCaptureConflict)
        else if pa_state a \<noteq> AttemptCaptured \<or> pa_captured_at a = None
          then fail (EPayment ErrPaymentIntegrity)
        else ret \<lparr>cr_attempt = a, cr_fact = existing, cr_duplicate = True, cr_late = False,
                  cr_booking_paid = False\<rparr>
     | [] \<Rightarrow>
        let late = (fst bs = CANCELLED \<or> snd bs) in
        (case pa_state a of
           AttemptPending \<Rightarrow> store_capture E aid p a late
         | AttemptFailed \<Rightarrow> store_capture E aid p a True
         | AttemptExpired \<Rightarrow> store_capture E aid p a True
         | AttemptCancelled \<Rightarrow> store_capture E aid p a True
         | AttemptCaptured \<Rightarrow> fail (EPayment ErrPaymentIntegrity)
         | AttemptCreated \<Rightarrow> fail (EPayment ErrInvalidTransition)))"

definition RecordCaptureTx :: "env \<Rightarrow> capture_params \<Rightarrow> capture_result app" where
  "RecordCaptureTx E params =
    (if \<not> validateCaptureParams E params then fail (EPayment ErrInvalidCapture)
     else case uuid_parse E (cp_attempt_id params) of None \<Rightarrow> fail (EPayment ErrInvalidCapture)
     | Some aid \<Rightarrow>
    let p = canonical_times params in
    andthen (select_attempt E aid) (\<lambda>a0.
    andthen (LockBooking E (pa_booking_id a0)) (\<lambda>_.
    andthen (select_attempt E aid) (\<lambda>a.
     if pa_booking_id a \<noteq> pa_booking_id a0 then fail (EPayment ErrPaymentIntegrity)
     else
    andthen (andthen (query E EDatabase (\<lambda>now d. booking_status_expired now (pa_booking_id a0) d))
              (not_found ErrPaymentIntegrity)) (\<lambda>bs.
     if capture_mismatch a p then fail (EPayment ErrCaptureConflict)
     else
    andthen (query E EDatabase (\<lambda>now d. findCaptureByAttemptOrProviderID aid p d)) (\<lambda>found.
       decide_capture E aid p a bs found))))))"

definition RecordCapture :: "env \<Rightarrow> capture_params \<Rightarrow> capture_result app" where
  "RecordCapture E params =
    (if \<not> validateCaptureParams E params then fail (EPayment ErrInvalidCapture)
     else in_tx E EDatabase (RecordCaptureTx E (canonical_times params)))"

definition pay_booking :: "string \<Rightarrow> time \<Rightarrow> dbs \<Rightarrow> (app_error + booking list) \<times> dbs" where
  "pay_booking bid now d =
     booking_update (\<lambda>b. bk_id b = bid \<and> bk_status b = PENDING_PAYMENT)
       (\<lambda>b. b\<lparr>bk_status := PAID, bk_updated_at := now\<rparr>) d"

definition FinalizeGatewayCaptureTx :: "env \<Rightarrow> capture_params \<Rightarrow> capture_result app" where
  "FinalizeGatewayCaptureTx E params =
    andthen (RecordCaptureTx E params) (\<lambda>result.
     if cr_late result then ret result
     else
    andthen (map_err mapPaymentRepositoryError
              (db_call E EDatabase (pay_booking (pa_booking_id (cr_attempt result))))) (\<lambda>rows.
     if length rows = 1 then ret (result\<lparr>cr_booking_paid := True\<rparr>)
     else
    andthen (andthen (query E EDatabase (\<lambda>now d. map_option bk_status
               (query_row (\<lambda>b. bk_id b = pa_booking_id (cr_attempt result)) (bookings d))))
              (not_found ErrBookingNotFound)) (\<lambda>status.
     if status = PAID \<and> cr_duplicate result then ret result
     else fail (EPayment ErrStateConflict))))"

end
