(* ===== verification/AttemptLifecycle.thy ===== *)
theory AttemptLifecycle
  imports PaymentAttempts
begin

text \<open>
  The life of a payment attempt: the state machine as an inductive relation, the order in
  which one attempt row evolves, and the invariant that ties attempts, capture facts, audit
  rows and paid bookings together. Every operation of the repository that commits respects
  both; a captured attempt and its fact are written by two statements, so the
  invariant holds of committed work and not after each statement.
\<close>

subsection \<open>The state machine\<close>

inductive attempt_moves :: "attempt_state \<Rightarrow> attempt_state \<Rightarrow> bool" where
  sent: "attempt_moves AttemptCreated AttemptPending"
| withdrawn: "attempt_moves AttemptCreated AttemptCancelled"
| failed: "attempt_moves AttemptPending AttemptFailed"
| expired: "attempt_moves AttemptPending AttemptExpired"
| cancelled: "attempt_moves AttemptPending AttemptCancelled"
| captured: "s \<in> {AttemptPending, AttemptFailed, AttemptExpired, AttemptCancelled}
    \<Longrightarrow> attempt_moves s AttemptCaptured"

inductive_cases from_captured: "attempt_moves AttemptCaptured t"
inductive_cases to_created: "attempt_moves s AttemptCreated"
inductive_simps moves_to_captured: "attempt_moves s AttemptCaptured"
inductive_simps moves_to_pending: "attempt_moves s AttemptPending"

abbreviation attempt_reaches :: "attempt_state \<Rightarrow> attempt_state \<Rightarrow> bool" where
  "attempt_reaches \<equiv> attempt_moves\<^sup>*\<^sup>*"

lemma allowed_moves: "allowedStateTransition s t \<Longrightarrow> attempt_moves s t"
  by (cases s) (auto intro: attempt_moves.intros)

lemma captured_reaches: "attempt_reaches AttemptCaptured t \<Longrightarrow> t = AttemptCaptured"
  by (induction rule: rtranclp_induct) (auto elim: from_captured)

lemma reaches_created: "attempt_reaches s AttemptCreated \<Longrightarrow> s = AttemptCreated"
  by (induction rule: converse_rtranclp_induct) (auto elim: to_created)

subsection \<open>One row\<close>

definition attempt_identity :: "payment_attempt \<Rightarrow> string \<times> string \<times> int \<times> string \<times> string \<times> string
    \<times> string \<times> string \<times> string \<times> int \<times> string \<times> string \<times> time" where
  "attempt_identity a = (pa_id a, pa_booking_id a, pa_attempt_no a, pa_provider a,
     pa_environment a, pa_requested_method a, pa_integration_mode a, pa_capture_method a,
     pa_currency a, pa_amount a, pa_local_reference a, pa_request_hash a, pa_created_at a)"

text \<open>A value that, once set, stays.\<close>

definition kept :: "'a option \<Rightarrow> 'a option \<Rightarrow> bool" where
  "kept cur new \<longleftrightarrow> cur = None \<or> new = cur"

definition attempt_step :: "payment_attempt \<Rightarrow> payment_attempt \<Rightarrow> bool" where
  "attempt_step a a' \<longleftrightarrow> attempt_identity a = attempt_identity a'
     \<and> attempt_reaches (pa_state a) (pa_state a')
     \<and> kept (pa_session_id a) (pa_session_id a') \<and> kept (pa_payment_req_id a) (pa_payment_req_id a')
     \<and> kept (pa_payment_id a) (pa_payment_id a') \<and> kept (pa_captured_at a) (pa_captured_at a')
     \<and> pa_expires_at a' \<le> pa_expires_at a
     \<and> (pa_state a = AttemptCaptured \<longrightarrow> a' = a)"

lemma kept_trans: "kept a b \<Longrightarrow> kept b c \<Longrightarrow> kept a c"
  by (auto simp: kept_def)

lemma kept_coalesce: "\<not> bound_differs cur new \<Longrightarrow> kept cur (coalesce new cur)"
  by (auto simp: kept_def bound_differs_def coalesce_def split: option.splits)

lemma attempt_step_refl: "attempt_step a a"
  by (simp add: attempt_step_def kept_def)

lemma attempt_step_trans:
  assumes ab: "attempt_step a b" and bc: "attempt_step b c"
  shows "attempt_step a c"
proof -
  have "attempt_reaches (pa_state a) (pa_state c)"
    using ab bc rtranclp_trans unfolding attempt_step_def by metis
  moreover have "pa_state a = AttemptCaptured \<longrightarrow> c = a"
    using ab bc by (auto simp: attempt_step_def)
  ultimately show ?thesis
    using ab bc by (auto simp: attempt_step_def intro: kept_trans)
qed

lemma attempt_step_id: "attempt_step a a' \<Longrightarrow> pa_id a' = pa_id a \<and> pa_booking_id a' = pa_booking_id a"
  by (simp add: attempt_step_def attempt_identity_def)

lemma step_create_result:
  assumes "pa_state a = AttemptCreated \<or> pa_state a = AttemptPending"
    and "\<not> bound_differs (pa_session_id a) (Some (rp_session_id p))"
    and "\<not> bound_differs (pa_payment_req_id a) (rp_payment_req_id p)"
    and "\<not> bound_differs (pa_payment_id a) (rp_payment_id p)"
  shows "attempt_step a (set_create_result p e now a)"
proof -
  have "attempt_reaches (pa_state a) AttemptPending"
    using assms(1) r_into_rtranclp [of attempt_moves, OF sent] by auto
  moreover have "kept (pa_session_id a) (Some (rp_session_id p))"
    using assms(2) by (auto simp: kept_def bound_differs_def)
  moreover have "kept (pa_payment_req_id a) (coalesce (rp_payment_req_id p) (pa_payment_req_id a))"
    "kept (pa_payment_id a) (coalesce (rp_payment_id p) (pa_payment_id a))"
    using assms(3,4) by (simp_all add: kept_coalesce)
  moreover have "pa_state a \<noteq> AttemptCaptured" using assms(1) by auto
  moreover have "pa_expires_at (set_create_result p e now a) \<le> pa_expires_at a"
    by (simp add: set_create_result_def split: option.split)
  ultimately show ?thesis
    by (simp add: attempt_step_def set_create_result_def attempt_identity_def
        kept_def [of "pa_captured_at a"])
qed

lemma kept_missing: "\<not> bound_missing cur new \<Longrightarrow> kept cur (coalesce new cur)"
  by (auto simp: kept_def bound_missing_def coalesce_def split: option.splits)

lemma step_inquiry_identity:
  assumes "pa_state a = AttemptPending" and "\<not> identity_conflict p a"
    and "ip_scope p = ScopeCheckoutSession \<longrightarrow> ip_payment_id p = None"
  shows "attempt_step a (set_inquiry_identity p now a)"
proof -
  have "kept (pa_payment_req_id a) (coalesce (ip_payment_req_id p) (pa_payment_req_id a))"
    using assms(2) by (auto simp: identity_conflict_def intro: kept_missing split: if_splits)
  moreover have "kept (pa_payment_id a) (coalesce (ip_payment_id p) (pa_payment_id a))"
    using assms(2,3) by (auto simp: identity_conflict_def coalesce_def kept_def bound_missing_def
        split: if_splits option.splits)
  ultimately show ?thesis
    using assms(1) by (auto simp: attempt_step_def set_inquiry_identity_def attempt_identity_def kept_def)
qed

lemma step_transition:
  "pa_state a = s \<Longrightarrow> allowedStateTransition s t \<Longrightarrow> attempt_step a (set_state t now a)"
  by (cases s) (auto simp: attempt_step_def set_state_def attempt_identity_def kept_def
      intro!: r_into_rtranclp attempt_moves.intros)

lemma step_capture:
  assumes "pa_state a \<in> {AttemptPending, AttemptFailed, AttemptExpired, AttemptCancelled}"
    and "pa_captured_at a = None" and "\<not> capture_mismatch a p"
  shows "attempt_step a (set_captured p now a)"
proof -
  have "attempt_moves (pa_state a) AttemptCaptured" using assms(1) by (rule captured)
  with assms show ?thesis
    by (auto simp: attempt_step_def set_captured_def attempt_identity_def kept_def capture_mismatch_def)
qed


subsection \<open>The tables together\<close>

definition captured_rows :: "dbs \<Rightarrow> payment_attempt set" where
  "captured_rows d = {a \<in> set (attempts d). pa_state a = AttemptCaptured}"

definition capture_of :: "payment_attempt \<Rightarrow> capture_fact \<Rightarrow> bool" where
  "capture_of a f \<longleftrightarrow> fact_matches a f \<and> pa_captured_at a = Some (cf_captured_at f)
     \<and> pa_payment_id a = Some (cf_payment_id f) \<and> pa_payment_req_id a = cf_payment_req_id f"

definition provider_key :: "capture_fact \<Rightarrow> string \<times> string \<times> string" where
  "provider_key f = (cf_provider f, cf_environment f, cf_payment_id f)"

text \<open>
  Identifiers are unique; \<open>CAPTURED\<close> and the capture time go together; a booking has at
  most one captured attempt; captured attempts and capture facts correspond to each other
  one to one, with equal money and identities; a provider payment is captured once; and a
  booking of the gateway flow is \<open>PAID\<close> only with a captured attempt whose transition was
  audited.
\<close>

definition paid_ok :: "dbs \<Rightarrow> bool" where
  "paid_ok d \<longleftrightarrow> (\<forall>b \<in> set (bookings d). bk_status b = PAID \<and> attempts_of d (bk_id b) \<noteq> []
     \<longrightarrow> (\<exists>a \<in> captured_rows d. pa_booking_id a = bk_id b \<and> captured_transition_audited d (pa_id a)))"

definition payments_wf :: "dbs \<Rightarrow> bool" where
  "payments_wf d \<longleftrightarrow> distinct (map pa_id (attempts d))
     \<and> (\<forall>a \<in> set (attempts d). pa_state a = AttemptCaptured \<longleftrightarrow> pa_captured_at a \<noteq> None)
     \<and> (\<forall>a \<in> captured_rows d. \<forall>b \<in> captured_rows d. pa_booking_id a = pa_booking_id b \<longrightarrow> a = b)
     \<and> (\<forall>f \<in> set (captures d). \<exists>a \<in> captured_rows d. capture_of a f)
     \<and> (\<forall>a \<in> captured_rows d. \<exists>f \<in> set (captures d). capture_of a f)
     \<and> distinct (map cf_attempt_id (captures d)) \<and> distinct (map provider_key (captures d))
     \<and> paid_ok d \<and> distinct (map bk_id (bookings d))"

definition attempts_order :: "dbs \<Rightarrow> dbs \<Rightarrow> bool" where
  "attempts_order d d' \<longleftrightarrow> (\<forall>a \<in> set (attempts d). \<exists>a' \<in> set (attempts d'). attempt_step a a')
     \<and> set (captures d) \<subseteq> set (captures d') \<and> set (audit_log d) \<subseteq> set (audit_log d')"

definition payments_safe :: "dbs \<Rightarrow> dbs \<Rightarrow> bool" where
  "payments_safe d d' \<longleftrightarrow> (payments_wf d \<longrightarrow> payments_wf d' \<and> attempts_order d d')"

lemma attempts_order_refl: "attempts_order d d"
  by (auto simp: attempts_order_def intro: attempt_step_refl)

lemma attempts_order_trans:
  "attempts_order d1 d2 \<Longrightarrow> attempts_order d2 d3 \<Longrightarrow> attempts_order d1 d3"
  unfolding attempts_order_def using attempt_step_trans by (meson subset_trans)

interpretation payments: table_order payments_safe
  by unfold_locales (auto simp: payments_safe_def intro: attempts_order_refl attempts_order_trans)

lemma payments_wf_parts:
  assumes "payments_wf d"
  shows "distinct (map pa_id (attempts d))"
    and "a \<in> set (attempts d) \<Longrightarrow> pa_state a = AttemptCaptured \<longleftrightarrow> pa_captured_at a \<noteq> None"
    and "a \<in> captured_rows d \<Longrightarrow> b \<in> captured_rows d \<Longrightarrow> pa_booking_id a = pa_booking_id b \<Longrightarrow> a = b"
    and "f \<in> set (captures d) \<Longrightarrow> \<exists>a \<in> captured_rows d. capture_of a f"
    and "a \<in> captured_rows d \<Longrightarrow> \<exists>f \<in> set (captures d). capture_of a f"
    and "distinct (map cf_attempt_id (captures d))" and "distinct (map provider_key (captures d))"
    and "paid_ok d" and "distinct (map bk_id (bookings d))"
  using assms by (auto simp: payments_wf_def)

text \<open>Changes elsewhere, and rows appended to the audit log.\<close>

lemma captured_rows_cong: "attempts d' = attempts d \<Longrightarrow> captured_rows d' = captured_rows d"
  by (simp add: captured_rows_def)

lemma audited_mono:
  "set (audit_log d) \<subseteq> set (audit_log d') \<Longrightarrow> captured_transition_audited d i
    \<Longrightarrow> captured_transition_audited d' i"
  by (auto simp: captured_transition_audited_def sql_exists_iff)

lemma payments_same:
  assumes "attempts d' = attempts d" "captures d' = captures d" "bookings d' = bookings d"
    and "set (audit_log d) \<subseteq> set (audit_log d')"
  shows "payments_safe d d'"
  unfolding payments_safe_def
proof (intro impI conjI)
  assume wf: "payments_wf d"
  have "paid_ok d'"
    using payments_wf_parts(8) [OF wf] assms audited_mono [OF assms(4)]
    by (force simp: paid_ok_def attempts_of_def captured_rows_def)
  with wf show "payments_wf d'"
    using assms captured_rows_cong [OF assms(1)] by (simp add: payments_wf_def)
  show "attempts_order d d'"
    using assms by (auto simp: attempts_order_def intro: attempt_step_refl)
qed

subsection \<open>Updating one attempt\<close>

definition replace_row :: "string \<Rightarrow> payment_attempt \<Rightarrow> dbs \<Rightarrow> dbs" where
  "replace_row i u d = d\<lparr>attempts := map (\<lambda>x. if pa_id x = i then u else x) (attempts d)\<rparr>"

lemma row_unique:
  assumes "distinct (map pa_id (attempts d))" "a \<in> set (attempts d)" "pa_id a = i"
  shows "query_row (\<lambda>x. pa_id x = i) (attempts d) = Some a"
    and "query_row (\<lambda>x. pa_id x = i \<and> p x) (attempts d) = (if p a then Some a else None)"
proof -
  have uniq: "x = a" if "x \<in> set (attempts d)" "pa_id x = i" for x
    using that assms by (auto simp: distinct_map dest: inj_onD)
  show "query_row (\<lambda>x. pa_id x = i) (attempts d) = Some a"
    using assms by (rule query_row_unique)
  show "query_row (\<lambda>x. pa_id x = i \<and> p x) (attempts d) = (if p a then Some a else None)"
  proof (cases "query_row (\<lambda>x. pa_id x = i \<and> p x) (attempts d)")
    case None
    then have "\<not> p a" using assms(2,3) by (auto simp: query_row_None)
    with None show ?thesis by simp
  next
    case (Some b)
    then have "b \<in> set (attempts d)" "pa_id b = i" "p b" by (auto dest: query_row_Some)
    then have "b = a" "p a" using uniq by blast+
    with Some show ?thesis by simp
  qed
qed

lemma update_attempt_row:
  assumes ids: "distinct (map pa_id (attempts d))" and a: "a \<in> set (attempts d)" "pa_id a = i"
    and up: "update_attempt i p f d = (Inr r, d')"
  shows "(r = None \<and> \<not> p a \<and> d' = d) \<or>
    (r = Some (f a) \<and> p a \<and> attempt_check (f a) = None \<and> attempt_conflict (attempts d) (f a) = None
      \<and> d' = replace_row i (f a) d)"
proof -
  have uniq: "x = a" if "x \<in> set (attempts d)" "pa_id x = i" for x
    using that ids a by (auto simp: distinct_map dest: inj_onD)
  have "sql_update (\<lambda>x. pa_id x = i \<and> p x) f (attempts d)
      = map (\<lambda>x. if pa_id x = i then f a else x) (attempts d)" if "p a"
    using uniq that by (auto simp: sql_update_def intro!: map_cong)
  then show ?thesis
    using up row_unique(2) [OF ids a, of p]
    by (auto simp: update_attempt_def replace_row_def split: if_splits option.splits)
qed

lemma replace_row_rows:
  assumes ids: "distinct (map pa_id (attempts d))" and a: "a \<in> set (attempts d)" "pa_id a = i"
    and u: "pa_id u = i"
  shows "set (attempts (replace_row i u d)) = insert u (set (attempts d) - {a})"
    and "distinct (map pa_id (attempts (replace_row i u d)))"
proof -
  have uniq: "x = a" if "x \<in> set (attempts d)" "pa_id x = i" for x
    using that ids a by (auto simp: distinct_map dest: inj_onD)
  show "set (attempts (replace_row i u d)) = insert u (set (attempts d) - {a})"
  proof (intro equalityI subsetI)
    fix x assume "x \<in> set (attempts (replace_row i u d))"
    then obtain y where y: "y \<in> set (attempts d)" "x = (if pa_id y = i then u else y)"
      by (auto simp: replace_row_def)
    then show "x \<in> insert u (set (attempts d) - {a})" using a by auto
  next
    fix x assume "x \<in> insert u (set (attempts d) - {a})"
    then consider "x = u" | "x \<in> set (attempts d)" "pa_id x \<noteq> i" using uniq by blast
    then show "x \<in> set (attempts (replace_row i u d))"
      using a by cases (force simp: replace_row_def)+
  qed
  have "map pa_id (attempts (replace_row i u d)) = map pa_id (attempts d)"
    using u by (simp add: replace_row_def)
  with ids show "distinct (map pa_id (attempts (replace_row i u d)))" by simp
qed

lemma attempts_of_nonempty: "attempts_of d bid \<noteq> [] \<longleftrightarrow> bid \<in> pa_booking_id ` set (attempts d)"
  by (auto simp: attempts_of_def filter_empty_conv)

lemma replace_row_others:
  "captures (replace_row i u d) = captures d" "bookings (replace_row i u d) = bookings d"
  "audit_log (replace_row i u d) = audit_log d"
  by (simp_all add: replace_row_def)

lemma replace_order:
  assumes "distinct (map pa_id (attempts d))" "a \<in> set (attempts d)" "pa_id a = i" "attempt_step a u"
  shows "attempts_order d (replace_row i u d)"
proof -
  have "pa_id u = i" using attempt_step_id [OF assms(4)] assms(3) by simp
  note rows = replace_row_rows(1) [OF assms(1-3) this]
  show ?thesis
    unfolding attempts_order_def rows replace_row_others
    using assms(4) attempt_step_refl by auto
qed

text \<open>An update that does not capture keeps the captured rows.\<close>

lemma replace_quiet:
  assumes wf: "payments_wf d" and a: "a \<in> set (attempts d)" "pa_id a = i"
    and step: "attempt_step a u" and check: "attempt_check u = None"
    and quiet: "pa_state a \<noteq> AttemptCaptured" "pa_state u \<noteq> AttemptCaptured"
  shows "payments_wf (replace_row i u d) \<and> attempts_order d (replace_row i u d)"
proof
  note w = payments_wf_parts [OF wf]
  have u: "pa_id u = i" "pa_booking_id u = pa_booking_id a" using attempt_step_id [OF step] a by auto
  note rows = replace_row_rows [OF w(1) a u(1)]
  let ?d = "replace_row i u d"
  have cap: "captured_rows ?d = captured_rows d"
    using quiet a by (auto simp: captured_rows_def rows)
  have own: "pa_booking_id ` set (attempts ?d) = pa_booking_id ` set (attempts d)"
    using u a unfolding rows by (auto simp: image_iff)
  have "pa_captured_at u = None"
    using check quiet(2) by (auto simp: attempt_check_def split: if_splits)
  then have times: "\<forall>x \<in> set (attempts ?d). pa_state x = AttemptCaptured \<longleftrightarrow> pa_captured_at x \<noteq> None"
    using w(2) quiet unfolding rows by auto
  have "paid_ok ?d"
    using w(8) unfolding paid_ok_def cap attempts_of_nonempty own replace_row_others
      captured_transition_audited_def .
  then show "payments_wf ?d"
    using wf times rows(2) cap by (simp add: payments_wf_def replace_row_others)
  show "attempts_order d ?d" by (rule replace_order [OF w(1) a step])
qed


subsection \<open>Capturing an attempt\<close>

lemma insert_capture_fact_Inr:
  "insert_capture_fact f d = (Inr g, d') \<longleftrightarrow>
     (\<exists>a. query_row (\<lambda>a. pa_id a = cf_attempt_id f) (attempts d) = Some a
        \<and> pa_state a = AttemptCaptured \<and> pa_captured_at a = Some (cf_captured_at f) \<and> fact_matches a f)
     \<and> fact_conflict (captures d) f = None \<and> g = f \<and> d' = d\<lparr>captures := captures d @ [f]\<rparr>"
  by (auto simp: insert_capture_fact_def split: option.splits if_splits)

lemma fact_conflict_None:
  assumes "fact_conflict t f = None"
  shows "cf_attempt_id f \<notin> cf_attempt_id ` set t" and "provider_key f \<notin> provider_key ` set t"
  using assms by (auto simp: fact_conflict_def sql_exists_iff provider_key_def split: if_splits)

lemma attempt_conflict_captured:
  assumes "attempt_conflict t a = None" "pa_state a = AttemptCaptured"
    and "b \<in> set t" "pa_state b = AttemptCaptured" "pa_booking_id b = pa_booking_id a"
  shows "pa_id b = pa_id a"
  using assms by (auto simp: attempt_conflict_def Let_def sql_exists_iff split: if_splits)

lemma set_captured_fields:
  "pa_state (set_captured p now a) = AttemptCaptured"
  "pa_captured_at (set_captured p now a) = Some (cp_captured_at p)"
  "pa_payment_id (set_captured p now a) = Some (cp_payment_id p)"
  "pa_payment_req_id (set_captured p now a) = cp_payment_req_id p"
  by (simp_all add: set_captured_def)

lemma capture_run:
  assumes wf: "payments_wf d" and a: "a \<in> set (attempts d)" "pa_id a = i"
    and st: "pa_state a \<in> {AttemptPending, AttemptFailed, AttemptExpired, AttemptCancelled}"
    and eq: "\<not> capture_mismatch a p"
    and up: "update_attempt i P (set_captured p now) d = (Inr (Some u), d1)"
    and ins: "insert_capture_fact (new_fact i p) d1 = (Inr f, d2)"
  shows "u = set_captured p now a" and "f = new_fact i p"
    and "d2 = (replace_row i u d)\<lparr>captures := captures d @ [f]\<rparr>"
    and "attempt_step a u" and "attempt_conflict (attempts d) u = None"
    and "fact_conflict (captures d) f = None" and "capture_of u f"
    and "captured_rows d2 = insert u (captured_rows d)"
proof -
  note w = payments_wf_parts [OF wf]
  from update_attempt_row [OF w(1) a up] show u: "u = set_captured p now a"
    and d1: "attempt_conflict (attempts d) u = None" by auto
  from update_attempt_row [OF w(1) a up] have d1': "d1 = replace_row i u d" by auto
  have none: "pa_captured_at a = None" using w(2) [OF a(1)] st by auto
  show step: "attempt_step a u" unfolding u by (rule step_capture [OF st none eq])
  have uid: "pa_id u = i" using attempt_step_id [OF step] a by simp
  from ins show f: "f = new_fact i p" and "fact_conflict (captures d) f = None"
    and d2: "d2 = (replace_row i u d)\<lparr>captures := captures d @ [f]\<rparr>"
    by (auto simp: insert_capture_fact_Inr d1' replace_row_others)
  note rows = replace_row_rows [OF w(1) a uid]
  have "query_row (\<lambda>x. pa_id x = i) (attempts (replace_row i u d)) = Some u"
    by (rule row_unique(1) [OF rows(2) _ uid]) (simp add: rows)
  with ins have "fact_matches u f"
    by (auto simp: insert_capture_fact_Inr d1' f new_fact_def)
  then show "capture_of u f"
    by (simp add: capture_of_def u f set_captured_fields new_fact_def)
  have "pa_state a \<noteq> AttemptCaptured" using st by auto
  then show "captured_rows d2 = insert u (captured_rows d)"
  proof -
    have "set (attempts d2) = insert u (set (attempts d) - {a})" by (simp add: d2 rows)
    moreover have "pa_state u = AttemptCaptured" by (simp add: u set_captured_fields)
    ultimately show ?thesis using \<open>pa_state a \<noteq> AttemptCaptured\<close> unfolding captured_rows_def by auto
  qed
qed

lemma capture_keeps:
  assumes wf: "payments_wf d" and a: "a \<in> set (attempts d)" "pa_id a = i"
    and st: "pa_state a \<in> {AttemptPending, AttemptFailed, AttemptExpired, AttemptCancelled}"
    and eq: "\<not> capture_mismatch a p"
    and up: "update_attempt i P (set_captured p now) d = (Inr (Some u), d1)"
    and ins: "insert_capture_fact (new_fact i p) d1 = (Inr f, d2)"
  shows "payments_wf d2 \<and> attempts_order d d2"
proof
  note w = payments_wf_parts [OF wf] and run = capture_run [OF assms]
  have uid: "pa_id u = i" "pa_booking_id u = pa_booking_id a"
    using attempt_step_id [OF run(4)] a by auto
  note rows = replace_row_rows [OF w(1) a uid(1)]
  have st2: "set (attempts d2) = insert u (set (attempts d) - {a})" "captures d2 = captures d @ [f]"
    "bookings d2 = bookings d" "audit_log d2 = audit_log d"
    "distinct (map pa_id (attempts d2))"
    using rows by (simp_all add: run(3) replace_row_def)
  have ucap: "pa_state u = AttemptCaptured" "pa_captured_at u \<noteq> None"
    by (simp_all add: run(1) set_captured_fields)
  have one: "x = y" if "x \<in> captured_rows d2" "y \<in> captured_rows d2" "pa_booking_id x = pa_booking_id y" for x y
  proof -
    have other: "False" if "z \<in> captured_rows d" "pa_booking_id z = pa_booking_id u" for z
    proof -
      have "pa_id z = pa_id u"
        using attempt_conflict_captured [OF run(5) ucap(1)] that by (auto simp: captured_rows_def)
      then have "z = a" using that a w(1) uid by (auto simp: captured_rows_def distinct_map dest: inj_onD)
      then show False using that st by (auto simp: captured_rows_def)
    qed
    from that consider "x = u" "y = u" | "x = u" "y \<in> captured_rows d"
      | "x \<in> captured_rows d" "y = u" | "x \<in> captured_rows d" "y \<in> captured_rows d"
      unfolding run(8) by blast
    then show ?thesis
      using that(3) other w(3) by cases (simp, metis, metis, blast)
  qed
  have own: "pa_booking_id ` set (attempts d2) = pa_booking_id ` set (attempts d)"
    using uid a unfolding st2 by (auto simp: image_iff)
  have "paid_ok d2"
    using w(8) unfolding paid_ok_def run(8) attempts_of_nonempty own st2(3)
    by (simp add: captured_transition_audited_def st2(4))
  moreover have "\<forall>x \<in> set (attempts d2). pa_state x = AttemptCaptured \<longleftrightarrow> pa_captured_at x \<noteq> None"
    using w(2) ucap unfolding st2 by auto
  moreover have "\<forall>g \<in> set (captures d2). \<exists>x \<in> captured_rows d2. capture_of x g"
    "\<forall>x \<in> captured_rows d2. \<exists>g \<in> set (captures d2). capture_of x g"
    using w(4,5) run(7) unfolding run(8) st2 by auto
  moreover have "distinct (map cf_attempt_id (captures d2))" "distinct (map provider_key (captures d2))"
    using w(6,7) fact_conflict_None [OF run(6)] by (simp_all add: st2)
  moreover have "distinct (map bk_id (bookings d2))" using w(9) by (simp add: st2)
  ultimately show "payments_wf d2" using st2(5) one unfolding payments_wf_def by blast
  show "attempts_order d d2"
    unfolding attempts_order_def st2 using run(4) attempt_step_refl by auto
qed

subsection \<open>Updating bookings\<close>

lemma booking_update_keeps:
  assumes "booking_update p f d = (Inr rs, d')" and same: "\<And>b. bk_id (f b) = bk_id b"
  shows "payments_safe d d'"
  unfolding payments_safe_def
proof (intro impI conjI)
  assume wf: "payments_wf d"
  have g: "\<forall>b \<in> set (bookings d). p b \<longrightarrow> guard_sandbox_booking_payment_isolation d b (bk_status (f b)) = None"
    and d': "d' = d\<lparr>bookings := sql_update p f (bookings d)\<rparr>"
    using assms(1) by (auto simp: booking_update_Inr)
  have "paid_ok d'"
    unfolding paid_ok_def
  proof (intro ballI impI, elim conjE)
    fix b' assume b': "b' \<in> set (bookings d')" "bk_status b' = PAID" "attempts_of d' (bk_id b') \<noteq> []"
    then obtain b where b: "b \<in> set (bookings d)" "b' = (if p b then f b else b)"
      by (auto simp: d' set_sql_update)
    have id: "bk_id b' = bk_id b" using b same by simp
    have ne: "attempts_of d (bk_id b) \<noteq> []" using b'(3) by (simp add: attempts_of_def d' id)
    have "\<exists>a \<in> captured_rows d. pa_booking_id a = bk_id b \<and> captured_transition_audited d (pa_id a)"
    proof (cases "bk_status b = PAID")
      case True
      then show ?thesis using payments_wf_parts(8) [OF wf] b(1) ne by (auto simp: paid_ok_def)
    next
      case False
      then have "p b" "bk_status (f b) = PAID" using b b'(2) by (auto split: if_splits)
      then have "list_ex (capture_evidence d) (attempts_of d (bk_id b))"
        using g b(1) ne False
        by (auto simp: guard_sandbox_booking_payment_isolation_def split: if_splits)
      then show ?thesis
        by (auto simp: list_ex_iff capture_evidence_def captured_rows_def attempts_of_def)
    qed
    then show "\<exists>a \<in> captured_rows d'. pa_booking_id a = bk_id b' \<and> captured_transition_audited d' (pa_id a)"
      by (simp add: captured_rows_def captured_transition_audited_def d' id)
  qed
  moreover have "map bk_id (bookings d') = map bk_id (bookings d)"
    by (simp add: d' map_sql_update same)
  ultimately show "payments_wf d'" using wf by (simp add: payments_wf_def d' captured_rows_def)
  show "attempts_order d d'" by (auto simp: attempts_order_def d' intro: attempt_step_refl)
qed


subsection \<open>Every operation of the repository\<close>

lemma select_attempt_Inr: "select_attempt E aid w = (Inr a, w') \<longleftrightarrow>
    \<not> db_fault E (steps w) \<and> query_row (\<lambda>x. pa_id x = aid) (attempts (db w)) = Some a
    \<and> w' = w\<lparr>steps := Suc (steps w)\<rparr>"
  by (auto simp: select_attempt_def not_found_def tx_Inr)

lemma lock_attempt_row: "lock_attempt E aid w = (Inr a, w') \<Longrightarrow>
    query_row (\<lambda>x. pa_id x = aid) (attempts (db w')) = Some a"
  by (auto simp: lock_attempt_def andthen_Inr select_attempt_Inr)

lemma run_update_Inr: "run_update E aid p f w = (Inr u, w') \<longleftrightarrow> \<not> db_fault E (steps w) \<and>
    (\<exists>d. update_attempt aid p (f (tx_now w)) (db w) = (Inr (Some u), d)
      \<and> w' = w\<lparr>steps := Suc (steps w), db := d\<rparr>)"
  by (auto simp: run_update_def not_found_def tx_Inr map_err_Inr)

lemma keeps_base_run_update: "keeps_base (run_update E aid p f)"
  unfolding run_update_def not_found_def by (intro keeps_base_intros)

lemma guar_payments_audit: "guar payments_safe (audit_record E p)"
  unfolding audit_record_def
  by (intro payments.guar_if payments.guar_fail payments.guar_exec payments_same) auto

lemma guar_payments_writeAudit: "guar payments_safe (writePaymentAudit E a s t late)"
  unfolding writePaymentAudit_def writePaymentAuditWithActor_def Let_def
  by (intro payments.guar_intros guar_payments_audit)

lemma keeps_base_audit: "keeps_base (audit_record E p)"
  unfolding audit_record_def by (intro keeps_base_intros)

lemma keeps_base_writeAudit: "keeps_base (writePaymentAudit E a s t late)"
  unfolding writePaymentAudit_def writePaymentAuditWithActor_def Let_def
  by (intro keeps_base_intros keeps_base_audit)

lemma guar_payments_select: "guar payments_safe (select_attempt E aid)"
  unfolding select_attempt_def not_found_def by (intro payments.guar_intros)

lemma guar_payments_lock:
  "env_guar payments_safe E \<Longrightarrow> guar payments_safe (lock_attempt E aid)"
  unfolding lock_attempt_def LockBooking_def
  by (intro payments.guar_intros guar_payments_select)

lemma run_update_safe:
  assumes row: "query_row (\<lambda>x. pa_id x = aid) (attempts (db w)) = Some a"
    and step: "\<And>now. p a \<Longrightarrow> attempt_step a (f now a)"
    and quiet: "pa_state a \<noteq> AttemptCaptured" "\<And>now. pa_state (f now a) \<noteq> AttemptCaptured"
  shows "commits_at payments_safe w (run_update E aid p f)"
proof (rule payments.commits_at_local [OF keeps_base_run_update])
  fix u w' assume "run_update E aid p f w = (Inr u, w')"
  then obtain d where up: "update_attempt aid p (f (tx_now w)) (db w) = (Inr (Some u), d)"
    and d: "db w' = d" by (auto simp: run_update_Inr)
  have a: "a \<in> set (attempts (db w))" "pa_id a = aid" using query_row_Some [OF row] by auto
  show "payments_safe (db w) (db w')"
    unfolding payments_safe_def d
  proof
    assume wf: "payments_wf (db w)"
    from update_attempt_row [OF payments_wf_parts(1) [OF wf] a up]
    have "p a" "attempt_check (f (tx_now w) a) = None" "d = replace_row aid (f (tx_now w) a) (db w)" by auto
    then show "payments_wf d \<and> attempts_order (db w) d"
      using replace_quiet [OF wf a step _ quiet] by simp
  qed
qed

lemma commits_writeAudit: "commits_at payments_safe w (writePaymentAudit E a s t late)"
  by (rule payments.commits_at_guar [OF guar_payments_writeAudit])

lemma commits_select: "commits_at payments_safe w (select_attempt E aid)"
  by (rule payments.commits_at_guar [OF guar_payments_select])

lemma commits_lock_attempt:
  "env_guar payments_safe E \<Longrightarrow> commits_at payments_safe w (lock_attempt E aid)"
  by (rule payments.commits_at_guar [OF guar_payments_lock])

lemmas commits_steps = payments.commits_at_if payments.commits_at_stop payments.commits_at_andthen
  commits_writeAudit commits_select commits_lock_attempt payments.commits_at_query
  payments.commits_at_deref

lemma set_fields:
  "pa_state (set_create_result p e now a) = AttemptPending"
  "pa_state (set_inquiry_identity q now a) = pa_state a"
  "pa_state (set_state t now a) = t"
  by (simp_all add: set_create_result_def set_inquiry_identity_def set_state_def)

lemma commits_ApplyCreateProviderResultTx:
  assumes E: "env_guar payments_safe E"
  shows "commits payments_safe (ApplyCreateProviderResultTx E p)"
  unfolding commits_iff_at ApplyCreateProviderResultTx_def option.case_eq_if
  by (intro allI commits_steps E)
     (auto intro!: run_update_safe step_create_result dest!: lock_attempt_row simp: set_fields)

lemma inquiry_scope:
  "validInquiryIdentityParams E p \<Longrightarrow> ip_scope p = ScopeCheckoutSession \<longrightarrow> ip_payment_id p = None"
  by (auto simp: validInquiryIdentityParams_def)

lemma commits_ApplyInquiryIdentityTx:
  assumes E: "env_guar payments_safe E"
  shows "commits payments_safe (ApplyInquiryIdentityTx E p)"
  unfolding commits_iff_at ApplyInquiryIdentityTx_def option.case_eq_if Let_def
  by (intro allI commits_steps E)
     (auto intro!: run_update_safe step_inquiry_identity dest!: lock_attempt_row inquiry_scope
       simp: set_fields)

lemma commits_TransitionStateTx: "commits payments_safe (TransitionStateTx E i s t)"
  unfolding commits_iff_at TransitionStateTx_def option.case_eq_if
  by (intro allI commits_steps)
     (auto simp: select_attempt_Inr set_fields elim!: allowedStateTransition.elims
       intro!: run_update_safe step_transition)

lemma store_capture_Inr:
  assumes "store_capture E aid p a late w = (Inr x, w')"
  obtains u d1 f w2 where
    "update_attempt aid (\<lambda>x. pa_state x = pa_state a \<and> pa_captured_at x = None)
       (set_captured p (tx_now w)) (db w) = (Inr (Some u), d1)"
    and "insert_capture_fact (new_fact aid p) d1 = (Inr f, db w2)"
    and "writePaymentAudit E u (state_name (pa_state a)) (state_name AttemptCaptured) late w2
      = (Inr (), w')"
    and "x = \<lparr>cr_attempt = u, cr_fact = f, cr_duplicate = False, cr_late = late, cr_booking_paid = False\<rparr>"
proof -
  from assms obtain u w1 f d where
    run: "run_update E aid (\<lambda>x. pa_state x = pa_state a \<and> pa_captured_at x = None) (set_captured p) w
      = (Inr u, w1)"
    and ins: "insert_capture_fact (new_fact aid p) (db w1) = (Inr f, d)"
    and aud: "writePaymentAudit E u (state_name (pa_state a)) (state_name AttemptCaptured) late
      (w1\<lparr>steps := Suc (steps w1), db := d\<rparr>) = (Inr (), w')"
    and x: "x = \<lparr>cr_attempt = u, cr_fact = f, cr_duplicate = False, cr_late = late, cr_booking_paid = False\<rparr>"
    by (auto simp: store_capture_def andthen_Inr map_err_Inr db_call_Inr)
  from run obtain d1 where "update_attempt aid (\<lambda>x. pa_state x = pa_state a \<and> pa_captured_at x = None)
      (set_captured p (tx_now w)) (db w) = (Inr (Some u), d1)" "db w1 = d1"
    by (auto simp: run_update_Inr)
  then show thesis using that [OF _ _ aud x] ins by simp
qed

lemma commits_store_capture:
  assumes row: "query_row (\<lambda>x. pa_id x = aid) (attempts (db w)) = Some a"
    and st: "pa_state a \<in> {AttemptPending, AttemptFailed, AttemptExpired, AttemptCancelled}"
    and eq: "\<not> capture_mismatch a p"
  shows "commits_at payments_safe w (store_capture E aid p a late)"
proof (rule payments.commits_at_local)
  show "keeps_base (store_capture E aid p a late)"
    unfolding store_capture_def
    by (intro keeps_base_intros keeps_base_run_update keeps_base_writeAudit)
  fix x w' assume "store_capture E aid p a late w = (Inr x, w')"
  then show "payments_safe (db w) (db w')"
  proof (rule store_capture_Inr)
    fix u d1 f w2
    assume up: "update_attempt aid (\<lambda>x. pa_state x = pa_state a \<and> pa_captured_at x = None)
        (set_captured p (tx_now w)) (db w) = (Inr (Some u), d1)"
      and ins: "insert_capture_fact (new_fact aid p) d1 = (Inr f, db w2)"
      and aud: "writePaymentAudit E u (state_name (pa_state a)) (state_name AttemptCaptured) late w2
        = (Inr (), w')"
    have "payments_safe (db w) (db w2)"
      unfolding payments_safe_def
      using capture_keeps [OF _ _ _ st eq up ins] query_row_Some [OF row] by blast
    moreover have "payments_safe (db w2) (db w')"
      by (rule commits_at_Inr [OF commits_writeAudit aud])
    ultimately show "payments_safe (db w) (db w')" by (rule payments.R_trans)
  qed
qed

lemma commits_decide_capture:
  assumes row: "query_row (\<lambda>x. pa_id x = aid) (attempts (db w)) = Some a"
    and eq: "\<not> capture_mismatch a p"
  shows "commits_at payments_safe w (decide_capture E aid p a bs found)"
  using assms
  by (auto simp: decide_capture_def Let_def split: list.split attempt_state.split
      intro!: payments.commits_at_stop commits_store_capture)

lemma commits_RecordCaptureTx:
  assumes E: "env_guar payments_safe E"
  shows "commits payments_safe (RecordCaptureTx E p)"
  unfolding commits_iff_at RecordCaptureTx_def option.case_eq_if Let_def LockBooking_def not_found_def
  by (intro allI commits_steps payments.commits_at_guar [OF payments.guar_lock_wait [OF E]])
     (auto intro!: commits_decide_capture simp: select_attempt_Inr tx_Inr)

lemma guar_pay_booking: "guar payments_safe (db_call E EDatabase (pay_booking bid))"
proof (rule payments.guar_db_call)
  fix now d
  show "payments_safe d (snd (pay_booking bid now d))"
  proof (cases "pay_booking bid now d")
    case (Pair r d')
    then have up: "booking_update (\<lambda>b. bk_id b = bid \<and> bk_status b = PENDING_PAYMENT)
        (\<lambda>b. b\<lparr>bk_status := PAID, bk_updated_at := now\<rparr>) d = (r, d')"
      by (simp add: pay_booking_def)
    show ?thesis
    proof (cases r)
      case (Inl e)
      then show ?thesis using Pair booking_update_same up payments.R_refl by force
    next
      case (Inr rs)
      then show ?thesis using Pair booking_update_keeps [OF up [unfolded Inr]] by simp
    qed
  qed
qed

lemma commits_FinalizeGatewayCaptureTx:
  assumes E: "env_guar payments_safe E"
  shows "commits payments_safe (FinalizeGatewayCaptureTx E p)"
  unfolding FinalizeGatewayCaptureTx_def not_found_def
  by (intro payments.commits_andthen payments.commits_if payments.commits_ret payments.commits_fail
      commits_RecordCaptureTx E guar_commits payments.guar_map_err guar_pay_booking
      payments.guar_query payments.guar_deref)

lemma top_RecordCapture:
  assumes E: "env_guar payments_safe E"
  shows "top_guar payments_safe (RecordCapture E p)"
  unfolding RecordCapture_def
  by (intro payments.top_if payments.top_fail payments.top_in_tx_commits commits_RecordCaptureTx E)

lemma keeps_now_audit: "keeps_now (audit_record E p)"
  unfolding audit_record_def by (intro keeps_now_intros)

lemma keeps_now_writeAudit: "keeps_now (writePaymentAudit E a s t late)"
  unfolding writePaymentAudit_def writePaymentAuditWithActor_def Let_def
  by (intro keeps_now_intros keeps_now_audit)

lemma keeps_now_run_update: "keeps_now (run_update E aid p f)"
  unfolding run_update_def not_found_def by (intro keeps_now_intros)

lemma keeps_now_lock_attempt: "keeps_now (lock_attempt E aid)"
  unfolding lock_attempt_def select_attempt_def not_found_def LockBooking_def
  by (intro keeps_now_intros)

lemma keeps_now_store_capture: "keeps_now (store_capture E aid p a late)"
  unfolding store_capture_def
  by (intro keeps_now_intros keeps_now_run_update keeps_now_writeAudit)

lemma keeps_now_RecordCaptureTx: "keeps_now (RecordCaptureTx E p)"
  unfolding RecordCaptureTx_def select_attempt_def not_found_def LockBooking_def Let_def
    decide_capture_def option.case_eq_if
  by (intro keeps_now_intros) (auto intro!: keeps_now_intros keeps_now_store_capture
      split: list.split attempt_state.split)

end
