(* ===== verification/CaptureRuns.thy ===== *)
theory CaptureRuns
  imports AttemptLifecycle Scenario
begin

text \<open>
  What the capture operations do, run by run: the inversion of a successful
  \<open>RecordCaptureTx\<close> and \<open>FinalizeGatewayCaptureTx\<close>, and the run of a capture that is
  presented again.
\<close>

subsection \<open>Successful runs\<close>

text \<open>A run of \<open>RecordCaptureTx\<close> that succeeds reads the attempt \<open>a\<close> in the state \<open>d\<close> it
  finds once it holds the booking's lock, and either finds the fact already there or
  stores the capture.\<close>

definition duplicate_run :: "string \<Rightarrow> capture_params \<Rightarrow> dbs \<Rightarrow> payment_attempt \<Rightarrow> capture_result \<Rightarrow> dbs \<Rightarrow> bool" where
  "duplicate_run aid p d a r d' \<longleftrightarrow>
     (\<exists>f. findCaptureByAttemptOrProviderID aid p d = [f] \<and> cf_attempt_id f = aid \<and> sameCapture f p
       \<and> pa_state a = AttemptCaptured
       \<and> r = \<lparr>cr_attempt = a, cr_fact = f, cr_duplicate = True, cr_late = False, cr_booking_paid = False\<rparr>
       \<and> d' = d)"

definition late_capture :: "payment_attempt \<Rightarrow> booking_status \<times> bool \<Rightarrow> bool" where
  "late_capture a bs \<longleftrightarrow> pa_state a \<noteq> AttemptPending \<or> fst bs = CANCELLED \<or> snd bs"

definition capturable :: "payment_attempt \<Rightarrow> bool" where
  "capturable a \<longleftrightarrow> pa_state a \<in> {AttemptPending, AttemptFailed, AttemptExpired, AttemptCancelled}"

lemma RecordCaptureTx_Inr:
  assumes "RecordCaptureTx E params w = (Inr r, w')"
  shows "\<exists>aid a bs w1 n. validateCaptureParams E params \<and> uuid_parse E (cp_attempt_id params) = Some aid
    \<and> db w1 = interfere E n (db w) \<and> tx_now w1 = tx_now w
    \<and> query_row (\<lambda>x. pa_id x = aid) (attempts (db w1)) = Some a
    \<and> booking_status_expired (tx_now w) (pa_booking_id a) (db w1) = Some bs
    \<and> \<not> capture_mismatch a (canonical_times params)
    \<and> (duplicate_run aid (canonical_times params) (db w1) a r (db w')
       \<or> findCaptureByAttemptOrProviderID aid (canonical_times params) (db w1) = []
         \<and> capturable a
         \<and> store_capture E aid (canonical_times params) a (late_capture a bs) w1 = (Inr r, w'))"
proof -
  obtain aid where v: "validateCaptureParams E params" "uuid_parse E (cp_attempt_id params) = Some aid"
    using assms by (auto simp: RecordCaptureTx_def split: if_splits option.splits)
  let ?p = "canonical_times params"
  from assms v obtain n bs w1 a d where
    rest: "decide_capture E aid ?p a bs (findCaptureByAttemptOrProviderID aid ?p d) w1 = (Inr r, w')"
    and run: "query_row (\<lambda>x. pa_id x = aid) (attempts d) = Some a"
      "booking_status_expired (tx_now w) (pa_booking_id a) d = Some bs"
      "\<not> capture_mismatch a ?p" "d = interfere E n (db w)" "db w1 = d" "tx_now w1 = tx_now w"
    by (simp add: RecordCaptureTx_def Let_def LockBooking_def)
       (clarsimp simp: andthen_Inr select_attempt_Inr tx_Inr not_found_def split: if_splits)
  have "duplicate_run aid ?p d a r (db w') \<or>
     findCaptureByAttemptOrProviderID aid ?p d = [] \<and> capturable a
       \<and> store_capture E aid ?p a (late_capture a bs) w1 = (Inr r, w')"
    using rest run(5) by (auto simp: decide_capture_def duplicate_run_def capturable_def
        late_capture_def Let_def split: list.splits if_splits attempt_state.splits)
  then show ?thesis
    using v run by (intro exI [of _ aid] exI [of _ a] exI [of _ bs] exI [of _ w1] exI [of _ n]) simp
qed

text \<open>What a stored capture leaves in the tables.\<close>

lemma audit_record_Inr: "audit_record E p w = (Inr x, w') \<longleftrightarrow>
    Validate E p \<and> \<not> db_fault E (steps w)
    \<and> w' = w\<lparr>steps := Suc (steps w), db := (db w)\<lparr>audit_log := audit_log (db w) @ [p]\<rparr>\<rparr>"
  by (auto simp: audit_record_def exec_Inr)

definition transition_row :: "payment_attempt \<Rightarrow> string \<Rightarrow> string \<Rightarrow> bool \<Rightarrow> audit_params" where
  "transition_row a s t late =
     payment_audit_row a ActionPaymentStateTransition None ''SYSTEM'' (pa_local_reference a)
       [(''attempt_no'', MInt (pa_attempt_no a)), (''from_state'', MString s),
        (''to_state'', MString t), (''late_capture'', MBool late)]"

definition late_row :: "payment_attempt \<Rightarrow> string \<Rightarrow> string \<Rightarrow> audit_params" where
  "late_row a s t =
     payment_audit_row a ActionReconciliationException None ''SYSTEM'' (pa_local_reference a)
       [(''from_state'', MString s), (''to_state'', MString t),
        (''attempt_no'', MInt (pa_attempt_no a)), (''reason'', MString ''LATE_CAPTURE'')]"

lemma writePaymentAudit_Inr:
  assumes "s \<noteq> []" and "writePaymentAudit E a s t late w = (Inr x, w')"
  shows "db w' = (db w)\<lparr>audit_log := audit_log (db w)
      @ (if late then [transition_row a s t True, late_row a s t] else [transition_row a s t False])\<rparr>"
  using assms
  by (cases late) (auto simp: writePaymentAudit_def writePaymentAuditWithActor_def Let_def andthen_Inr
      audit_record_Inr transition_row_def late_row_def)

lemma state_name_nonempty: "state_name st \<noteq> []"
  by (cases st) simp_all

definition after_capture :: "string \<Rightarrow> capture_params \<Rightarrow> dbs \<Rightarrow> payment_attempt \<Rightarrow> bool
    \<Rightarrow> time \<Rightarrow> capture_result \<Rightarrow> dbs \<Rightarrow> bool" where
  "after_capture aid p d a late now r d' \<longleftrightarrow>
     r = \<lparr>cr_attempt = set_captured p now a, cr_fact = new_fact aid p, cr_duplicate = False,
          cr_late = late, cr_booking_paid = False\<rparr>
     \<and> (\<exists>rows. d' = (replace_row aid (set_captured p now a) d)
           \<lparr>captures := captures d @ [new_fact aid p], audit_log := audit_log d @ rows\<rparr>)
     \<and> captured_transition_audited d' aid"

lemma store_capture_after:
  assumes wf: "payments_wf (db w)" and row: "query_row (\<lambda>x. pa_id x = aid) (attempts (db w)) = Some a"
    and st: "capturable a" and eq: "\<not> capture_mismatch a p"
    and run: "store_capture E aid p a late w = (Inr r, w')"
  shows "after_capture aid p (db w) a late (tx_now w) r (db w')"
  using run
proof (rule store_capture_Inr)
  fix u d1 f w2
  assume up: "update_attempt aid (\<lambda>x. pa_state x = pa_state a \<and> pa_captured_at x = None)
        (set_captured p (tx_now w)) (db w) = (Inr (Some u), d1)"
    and ins: "insert_capture_fact (new_fact aid p) d1 = (Inr f, db w2)"
    and aud: "writePaymentAudit E u (state_name (pa_state a)) (state_name AttemptCaptured) late w2
      = (Inr (), w')"
    and r: "r = \<lparr>cr_attempt = u, cr_fact = f, cr_duplicate = False, cr_late = late, cr_booking_paid = False\<rparr>"
  have a: "a \<in> set (attempts (db w))" "pa_id a = aid" using query_row_Some [OF row] by auto
  note c = capture_run [OF wf a st [unfolded capturable_def] eq up ins]
  have uid: "pa_id u = aid" using attempt_step_id [OF c(4)] a by simp
  note aud' = writePaymentAudit_Inr [OF state_name_nonempty aud]
  have "transition_row u (state_name (pa_state a)) (state_name AttemptCaptured) late \<in> set (audit_log (db w'))"
    by (simp add: aud')
  then have audited: "captured_transition_audited (db w') aid"
    unfolding captured_transition_audited_def sql_exists_iff
    by (rule bexI [rotated]) (simp add: transition_row_def payment_audit_row_def uid)
  have "audit_log (db w2) = audit_log (db w)" by (simp add: c(3) replace_row_def)
  then show ?thesis
    using audited aud' c(1-3) r unfolding after_capture_def by auto
qed

subsection \<open>Runs without failures\<close>

definition calm :: "env \<Rightarrow> bool" where
  "calm E \<longleftrightarrow> (\<forall>k. \<not> db_fault E k) \<and> (\<forall>k d. interfere E k d = d)"

lemma RecordCaptureTx_calm:
  assumes calm: "calm E" and valid: "validateCaptureParams E q"
    and aid: "uuid_parse E (cp_attempt_id q) = Some aid"
    and row: "query_row (\<lambda>x. pa_id x = aid) (attempts (db w)) = Some a"
    and bs: "booking_status_expired (tx_now w) (pa_booking_id a) (db w) = Some bs"
    and eq: "\<not> capture_mismatch a (canonical_times q)"
  shows "\<exists>k. RecordCaptureTx E q w = decide_capture E aid (canonical_times q) a bs
    (findCaptureByAttemptOrProviderID aid (canonical_times q) (db w)) (w\<lparr>steps := k\<rparr>)"
  using calm valid aid row bs eq
  by (auto simp: RecordCaptureTx_def select_attempt_def not_found_def LockBooking_def calm_def
      tx_defs intro!: exI [of _ "Suc (Suc (Suc (Suc (Suc (steps w)))))"])

lemma RecordCaptureTx_mismatch:
  assumes calm: "calm E" and valid: "validateCaptureParams E q"
    and aid: "uuid_parse E (cp_attempt_id q) = Some aid"
    and row: "query_row (\<lambda>x. pa_id x = aid) (attempts (db w)) = Some a"
    and bs: "booking_status_expired (tx_now w) (pa_booking_id a) (db w) = Some bs"
    and eq: "capture_mismatch a (canonical_times q)"
  shows "outcome (RecordCaptureTx E q) w = Inl (EPayment ErrCaptureConflict)
    \<and> after (RecordCaptureTx E q) w = db w"
  using calm valid aid row bs eq
  by (simp add: RecordCaptureTx_def select_attempt_def not_found_def LockBooking_def calm_def tx_defs)

lemma filter_unique:
  assumes "distinct (map k xs)" "x \<in> set xs" and "\<And>y. y \<in> set xs \<Longrightarrow> P y \<longleftrightarrow> k y = k x"
  shows "filter P xs = [x]"
proof -
  have "filter P xs = filter (\<lambda>y. y = x) xs"
    using assms by (intro filter_cong) (auto simp: distinct_map dest: inj_onD)
  also have "\<dots> = [x]"
  proof -
    have "filter (\<lambda>y. y = x) ys = [x]" if "distinct ys" "x \<in> set ys" for ys
      using that by (induction ys) (auto simp: filter_empty_conv)
    then show ?thesis using assms(1,2) by (simp add: distinct_map)
  qed
  finally show ?thesis .
qed

lemma found_own_fact:
  assumes wf: "payments_wf d" and f: "f \<in> set (captures d)" "capture_of a f" and aid: "pa_id a = aid"
    and eq: "\<not> capture_mismatch a p"
  shows "findCaptureByAttemptOrProviderID aid p d = [f]"
proof -
  note w = payments_wf_parts [OF wf]
  have key: "cf_attempt_id f = aid" "provider_key f = (cp_provider p, cp_environment p, cp_payment_id p)"
    using f(2) eq aid by (auto simp: capture_of_def fact_matches_def capture_mismatch_def provider_key_def)
  have "g = f" if "g \<in> set (captures d)" "provider_key g = provider_key f" for g
    using w(7) f(1) that by (auto simp: distinct_map dest: inj_onD)
  then show ?thesis
    unfolding findCaptureByAttemptOrProviderID_def
    using key by (intro filter_unique [OF w(6) f(1)]) (auto simp: provider_key_def)
qed

lemma replay_run:
  assumes calm: "calm E" and wf: "payments_wf (db w)"
    and a: "a \<in> captured_rows (db w)" and f: "f \<in> set (captures (db w))" "capture_of a f"
    and valid: "validateCaptureParams E q" "uuid_parse E (cp_attempt_id q) = Some (pa_id a)"
    and bs: "booking_status_expired (tx_now w) (pa_booking_id a) (db w) = Some bs"
    and same: "sameCapture f (canonical_times q)"
  shows "\<exists>k. RecordCaptureTx E q w = (Inr \<lparr>cr_attempt = a, cr_fact = f, cr_duplicate = True,
    cr_late = False, cr_booking_paid = False\<rparr>, w\<lparr>steps := k\<rparr>)"
proof -
  have am: "a \<in> set (attempts (db w))" "pa_state a = AttemptCaptured" using a by (auto simp: captured_rows_def)
  have row: "query_row (\<lambda>x. pa_id x = pa_id a) (attempts (db w)) = Some a"
    using row_unique(1) [OF payments_wf_parts(1) [OF wf] am(1)] by simp
  have at: "pa_captured_at a \<noteq> None" "cf_attempt_id f = pa_id a"
    using f(2) by (auto simp: capture_of_def fact_matches_def)
  have eq: "\<not> capture_mismatch a (canonical_times q)"
    using f(2) same by (auto simp: capture_mismatch_def sameCapture_def capture_of_def fact_matches_def)
  show ?thesis
    using RecordCaptureTx_calm [OF calm valid row bs eq] found_own_fact [OF wf f refl eq] am(2) at same
    by (auto simp: decide_capture_def ret_def)
qed

end
