(* ===== verification/CaptureScenario.thy ===== *)
theory CaptureScenario
  imports CaptureRuns
begin

text \<open>
  The concrete deployment of the scenario with a pending attempt, a payment for it, and the
  runs of the capture operations on them: the witnesses of the capture properties.
\<close>

definition sample_capture :: capture_params where
  "sample_capture = \<lparr>cp_attempt_id = uid CHR ''2'', cp_provider = ''XENDIT'', cp_environment = ''TEST'',
     cp_payment_id = uid CHR ''7'', cp_payment_req_id = None, cp_amount = 150000, cp_currency = ''IDR'',
     cp_captured_at = 900 * second, cp_observed_at = 950 * second, cp_authority = ''VERIFIED_WEBHOOK'',
     cp_source_reference = ''evt-1'', cp_payload_hash = sample_hash\<rparr>"

definition sample_pending :: payment_attempt where
  "sample_pending = sample_attempt\<lparr>pa_state := AttemptPending\<rparr>"

definition sample_db_pending :: dbs where
  "sample_db_pending = sample_db\<lparr>attempts := [sample_pending]\<rparr>"

definition sample_captured :: payment_attempt where
  "sample_captured = set_captured sample_capture (1000 * second) sample_pending"

definition sample_fact :: capture_fact where
  "sample_fact = new_fact (uid CHR ''2'') sample_capture"

definition sample_db_captured :: dbs where
  "sample_db_captured = sample_db_pending\<lparr>attempts := [sample_captured], captures := [sample_fact],
     audit_log := [transition_row sample_captured ''PENDING'' ''CAPTURED'' False]\<rparr>"

text \<open>The same payment when the booking's expiry had passed before it was recorded.\<close>

definition sample_db_late :: dbs where
  "sample_db_late = sample_db_captured\<lparr>
     bookings := [sample_booking\<lparr>bk_expires_at := Some (800 * second)\<rparr>],
     audit_log := [transition_row sample_captured ''PENDING'' ''CAPTURED'' True,
                   late_row sample_captured ''PENDING'' ''CAPTURED'']\<rparr>"

lemma sample_capture_valid [scenario]: "validateCaptureParams quiet_env sample_capture"
proof -
  have "ValidProviderIdentity (go_unicode quiet_env) (uid CHR ''7'') True"
    by (simp add: ValidProviderIdentity_def canonical_uuid_Valid scenario hex_class_def)
  moreover have "isBoundedReference ''evt-1'' 191"
    by (simp add: isBoundedReference_def trim_space_graphic graphic_def)
  ultimately show ?thesis
    by (simp add: validateCaptureParams_def sample_capture_def scenario hex_class_def
        validOptionalProviderIdentity_def isLowerSHA256_def sample_hash_def go_defs is_zero_def
        less_eq_char_def list_all_iff)
qed

lemma sample_canonical [scenario]: "canonical_times sample_capture = sample_capture"
  by (simp add: canonical_times_def sample_capture_def truncate_us_def)

lemma sample_pending_tables [scenario]:
  "attempts sample_db_pending = [sample_pending]" "bookings sample_db_pending = [sample_booking]"
  "captures sample_db_pending = []" "audit_log sample_db_pending = []"
  by (simp_all add: sample_db_pending_def sample_db_def)

lemma sample_captured_tables [scenario]:
  "attempts sample_db_captured = [sample_captured]" "bookings sample_db_captured = [sample_booking]"
  "captures sample_db_captured = [sample_fact]"
  "audit_log sample_db_captured = [transition_row sample_captured ''PENDING'' ''CAPTURED'' False]"
  "attempts sample_db_late = [sample_captured]" "captures sample_db_late = [sample_fact]"
  "bookings sample_db_late = [sample_booking\<lparr>bk_expires_at := Some (800 * second)\<rparr>]"
  by (simp_all add: sample_db_captured_def sample_db_late_def scenario)

lemma sample_pending_row [scenario]:
  "pa_id sample_pending = uid CHR ''2''" "pa_booking_id sample_pending = uid CHR ''1''"
  "pa_state sample_pending = AttemptPending" "pa_captured_at sample_pending = None"
  "pa_attempt_no sample_pending = 1" "pa_local_reference sample_pending = pa_local_reference sample_attempt"
  by (simp_all add: sample_pending_def sample_attempt_def)

lemma sample_booking_row [scenario]:
  "bk_id sample_booking = uid CHR ''1''" "bk_status sample_booking = PENDING_PAYMENT"
  "bk_expires_at sample_booking = Some (5000 * second)"
  by (simp_all add: sample_booking_def)

lemma sample_capture_id [scenario]: "cp_attempt_id sample_capture = uid CHR ''2''"
  by (simp add: sample_capture_def)

lemma sample_no_mismatch [scenario]: "\<not> capture_mismatch sample_pending sample_capture"
  by (simp add: capture_mismatch_def sample_capture_def sample_pending_def sample_attempt_def)

lemma set_captured_same [scenario]:
  "pa_id (set_captured q t a) = pa_id a" "pa_booking_id (set_captured q t a) = pa_booking_id a"
  "pa_attempt_no (set_captured q t a) = pa_attempt_no a"
  "pa_local_reference (set_captured q t a) = pa_local_reference a"
  "pa_provider (set_captured q t a) = pa_provider a"
  "pa_environment (set_captured q t a) = pa_environment a"
  "pa_amount (set_captured q t a) = pa_amount a" "pa_currency (set_captured q t a) = pa_currency a"
  "pa_created_at (set_captured q t a) = pa_created_at a"
  "pa_expires_at (set_captured q t a) = pa_expires_at a"
  "pa_status_code (set_captured q t a) = Some ''CAPTURED''"
  by (simp_all add: set_captured_def)

lemma quiet_env_calm [scenario]: "calm quiet_env"
  by (simp add: calm_def scenario)

lemma quiet_env_safe [scenario]: "env_guar payments_safe quiet_env"
  by (simp add: env_guar_def scenario payments.R_refl)

lemma sample_capture_of: "capture_of sample_captured sample_fact"
  by (simp add: capture_of_def fact_matches_def sample_captured_def sample_fact_def new_fact_def
      set_captured_fields scenario sample_capture_def sample_pending_def sample_attempt_def)

lemma sample_captured_rows: "captured_rows sample_db_captured = {sample_captured}"
  "captured_rows sample_db_late = {sample_captured}" "captured_rows sample_db_pending = {}"
  by (auto simp: captured_rows_def scenario) (simp_all add: sample_captured_def set_captured_fields)

lemma sample_payments_wf: "payments_wf sample_db_pending" "payments_wf sample_db_captured" "payments_wf sample_db_late"
  using sample_capture_of sample_captured_rows
  by (simp_all add: payments_wf_def paid_ok_def scenario)
     (simp_all add: sample_captured_def set_captured_fields)

subsection \<open>The capture run\<close>

lemma sample_audit_valid:
  "Validate quiet_env (payment_audit_row (set_captured sample_capture t sample_pending)
     ActionPaymentStateTransition None ''SYSTEM'' (pa_local_reference sample_attempt)
       [(''attempt_no'', MInt 1), (''from_state'', MString ''PENDING''),
        (''to_state'', MString ''CAPTURED''), (''late_capture'', MBool False)])"
proof -
  have "graphic (last (uid CHR ''2''))" and "uid CHR ''2'' \<noteq> []" by (simp_all add: uid_def graphic_def)
  then have "trim_space (''pay-'' @ uid CHR ''2'') = ''pay-'' @ uid CHR ''2''"
    by (intro trim_space_graphic) (simp_all add: graphic_def)
  then show ?thesis
    by (simp add: Validate_def payment_audit_row_def platformActionEntity_def isWebhookAuditAction_def
        trim_space_graphic graphic_def scenario set_captured_fields sample_pending_def
        sample_attempt_def hex_class_def allowedMetadataKeysPerAction_def
        requiredMetadataKeysPerAction_def metadata_value_ok_def isPaymentAttemptAuditState_def)
qed

lemma sample_update: "update_attempt (uid CHR ''2'')
    (\<lambda>x. pa_state x = AttemptPending \<and> pa_captured_at x = None) (set_captured sample_capture (1000 * second))
    sample_db_pending = (Inr (Some sample_captured), sample_db_pending\<lparr>attempts := [sample_captured]\<rparr>)"
  by (simp add: update_attempt_def query_row_def attempt_check_def attempt_conflict_def scenario
      set_captured_fields sql_update_def sql_exists_def allowed_status_codes_def sample_captured_def)
     (simp add: sample_pending_def sample_attempt_def)

lemma sample_insert: "insert_capture_fact (new_fact (uid CHR ''2'') sample_capture)
    (sample_db_pending\<lparr>attempts := [sample_captured]\<rparr>)
  = (Inr sample_fact, sample_db_pending\<lparr>attempts := [sample_captured], captures := [sample_fact]\<rparr>)"
  by (simp add: insert_capture_fact_def query_row_def sample_fact_def new_fact_def set_captured_fields
      fact_matches_def fact_conflict_def sql_exists_def scenario sample_captured_def
      sample_capture_def sample_pending_def sample_attempt_def)

lemma sample_record:
  "\<exists>w. RecordCaptureTx quiet_env sample_capture (start_world sample_db_pending) =
     (Inr \<lparr>cr_attempt = sample_captured, cr_fact = sample_fact, cr_duplicate = False, cr_late = False,
        cr_booking_paid = False\<rparr>, w) \<and> db w = sample_db_captured \<and> tx_now w = 1000 * second"
proof -
  obtain k where k: "RecordCaptureTx quiet_env sample_capture (start_world sample_db_pending)
    = decide_capture quiet_env (uid CHR ''2'') sample_capture sample_pending (PENDING_PAYMENT, False) []
        ((start_world sample_db_pending)\<lparr>steps := k\<rparr>)"
    using RecordCaptureTx_calm [of quiet_env sample_capture "uid CHR ''2''"
        "start_world sample_db_pending" sample_pending "(PENDING_PAYMENT, False)"]
    by (auto simp: scenario hex_class_def query_row_def booking_status_expired_def
        findCaptureByAttemptOrProviderID_def)
  show ?thesis
    unfolding k
    using sample_update sample_insert sample_audit_valid [of "1000 * second"]
    by (simp add: decide_capture_def store_capture_def run_update_def andthen_def attempt_def
        map_err_def db_call_def Let_def scenario not_found_def deref_def ret_app ret_def
        writePaymentAudit_def writePaymentAuditWithActor_def audit_record_def exec_def
        transition_row_def sample_captured_def sample_db_captured_def)
qed

end
