(* ===== verification/CaptureProperties.thy ===== *)
theory CaptureProperties
  imports CaptureScenario
begin

text \<open>
  The properties of payment attempts and captures: safety of every operation, what a
  finalisation does, and what happens when the same payment is presented again.
\<close>



subsection \<open>Finalising a capture\<close>

definition pending_booking :: "string \<Rightarrow> booking \<Rightarrow> bool" where
  "pending_booking bid b \<longleftrightarrow> bk_id b = bid \<and> bk_status b = PENDING_PAYMENT"

definition mark_paid :: "time \<Rightarrow> booking \<Rightarrow> booking" where
  "mark_paid now b = b\<lparr>bk_status := PAID, bk_updated_at := now\<rparr>"

lemma pay_booking_alt:
  "pay_booking bid now d = booking_update (pending_booking bid) (mark_paid now) d"
  by (simp add: pay_booking_def pending_booking_def [abs_def] mark_paid_def [abs_def])

lemma finalize_Inr:
  assumes "FinalizeGatewayCaptureTx E params w = (Inr r, w')"
  obtains r0 w1 where "RecordCaptureTx E params w = (Inr r0, w1)"
    and "(cr_late r0 \<and> r = r0 \<and> db w' = db w1) \<or>
      (\<not> cr_late r0 \<and> (\<exists>rows d. pay_booking (pa_booking_id (cr_attempt r0)) (tx_now w1) (db w1) = (Inr rows, d)
        \<and> db w' = d \<and> (if length rows = 1 then r = r0\<lparr>cr_booking_paid := True\<rparr> else r = r0 \<and> cr_duplicate r0)))"
proof -
  from assms obtain r0 w1 where rec: "RecordCaptureTx E params w = (Inr r0, w1)"
    and rest: "(if cr_late r0 then ret r0 else
      andthen (map_err mapPaymentRepositoryError
              (db_call E EDatabase (pay_booking (pa_booking_id (cr_attempt r0))))) (\<lambda>rows.
        if length rows = 1 then ret (r0\<lparr>cr_booking_paid := True\<rparr>)
        else andthen (andthen (query E EDatabase (\<lambda>now d. map_option bk_status
               (query_row (\<lambda>b. bk_id b = pa_booking_id (cr_attempt r0)) (bookings d))))
              (not_found ErrBookingNotFound)) (\<lambda>status.
          if status = PAID \<and> cr_duplicate r0 then ret r0 else fail (EPayment ErrStateConflict)))) w1
      = (Inr r, w')"
    by (auto simp: FinalizeGatewayCaptureTx_def andthen_Inr)
  show thesis
  proof (rule that [OF rec])
    show "(cr_late r0 \<and> r = r0 \<and> db w' = db w1) \<or>
      (\<not> cr_late r0 \<and> (\<exists>rows d. pay_booking (pa_booking_id (cr_attempt r0)) (tx_now w1) (db w1) = (Inr rows, d)
        \<and> db w' = d \<and> (if length rows = 1 then r = r0\<lparr>cr_booking_paid := True\<rparr> else r = r0 \<and> cr_duplicate r0)))"
      using rest
      by (cases "cr_late r0")
         (auto simp: andthen_Inr map_err_Inr db_call_Inr query_Inr not_found_def deref_Inr split: if_splits)
  qed
qed

lemma filter_key_length:
  assumes "distinct (map k xs)" and "\<And>x. P x \<Longrightarrow> k x = i"
  shows "length (filter P xs) \<le> 1"
  using assms(1)
proof (induction xs)
  case (Cons x xs)
  have "filter P xs = []" if "P x"
  proof -
    have "k y \<noteq> k x" if "y \<in> set xs" for y
      using Cons.prems that by (metis distinct.simps(2) image_eqI list.simps(9) set_map)
    then show ?thesis using assms(2) that by (metis filter_empty_conv)
  qed
  with Cons show ?case by auto
qed simp

lemma pay_booking_run:
  assumes "pay_booking bid now d = (Inr rows, d')" and "distinct (map bk_id (bookings d))"
  shows "length rows = 1 \<Longrightarrow> \<exists>b \<in> set (bookings d). pending_booking bid b"
    and "length rows = 1 \<Longrightarrow>
      d' = d\<lparr>bookings := sql_update (pending_booking bid) (mark_paid now) (bookings d)\<rparr>"
    and "length rows \<noteq> 1 \<Longrightarrow> d' = d"
proof -
  have rows: "rows = map (mark_paid now) (filter (pending_booking bid) (bookings d))"
    and d': "d' = d\<lparr>bookings := sql_update (pending_booking bid) (mark_paid now) (bookings d)\<rparr>"
    using assms(1) unfolding pay_booking_alt booking_update_Inr by (auto simp: sql_returning_def)
  then show "length rows = 1 \<Longrightarrow>
      d' = d\<lparr>bookings := sql_update (pending_booking bid) (mark_paid now) (bookings d)\<rparr>" by simp
  show "\<exists>b \<in> set (bookings d). pending_booking bid b" if "length rows = 1"
    using that unfolding rows by (auto simp: length_Suc_conv filter_eq_Cons_iff)
  have "length (filter (pending_booking bid) (bookings d)) \<le> 1"
    using assms(2) by (rule filter_key_length) (simp add: pending_booking_def)
  then show "d' = d" if "length rows \<noteq> 1"
    using that unfolding rows d' by (auto simp: le_Suc_eq sql_update_none filter_empty_conv)
qed

text \<open>The two halves of a successful finalisation: the capture, and the booking.\<close>

definition capture_effect :: "string \<Rightarrow> capture_params \<Rightarrow> dbs \<Rightarrow> payment_attempt
    \<Rightarrow> booking_status \<times> bool \<Rightarrow> time \<Rightarrow> capture_result \<Rightarrow> dbs \<Rightarrow> bool" where
  "capture_effect aid p d a bs now r d' \<longleftrightarrow>
    (if cr_duplicate r
     then pa_state a = AttemptCaptured \<and> cr_attempt r = a \<and> cr_fact r \<in> set (captures d)
       \<and> sameCapture (cr_fact r) p \<and> \<not> cr_late r
       \<and> attempts d' = attempts d \<and> captures d' = captures d
     else capturable a \<and> cr_attempt r = set_captured p now a \<and> cr_fact r = new_fact aid p
       \<and> captures d' = captures d @ [cr_fact r]
       \<and> attempts d' = attempts (replace_row aid (cr_attempt r) d)
       \<and> cr_late r = late_capture a bs)"

lemma record_effect:
  assumes rec: "RecordCaptureTx E params w = (Inr r, w')"
    and E: "env_guar payments_safe E" and wf: "payments_wf (db w)"
  obtains d a aid bs where "payments_safe (db w) d" "payments_wf d"
    and "uuid_parse E (cp_attempt_id params) = Some aid" "a \<in> set (attempts d)" "pa_id a = aid"
    and "\<not> capture_mismatch a (canonical_times params)"
    and "booking_status_expired (tx_now w) (pa_booking_id a) d = Some bs"
    and "capture_effect aid (canonical_times params) d a bs (tx_now w) r (db w')"
    and "bookings (db w') = bookings d" "pa_booking_id (cr_attempt r) = pa_booking_id a"
    and "\<not> cr_booking_paid r" "distinct (map bk_id (bookings (db w')))"
proof -
  let ?p = "canonical_times params"
  from RecordCaptureTx_Inr [OF rec] obtain aid a bs w0 n where
    aid: "uuid_parse E (cp_attempt_id params) = Some aid"
    and w0: "db w0 = interfere E n (db w)" "tx_now w0 = tx_now w"
    and row: "query_row (\<lambda>x. pa_id x = aid) (attempts (db w0)) = Some a"
    and bs: "booking_status_expired (tx_now w) (pa_booking_id a) (db w0) = Some bs"
    and eq: "\<not> capture_mismatch a ?p"
    and cases: "duplicate_run aid ?p (db w0) a r (db w') \<or>
      findCaptureByAttemptOrProviderID aid ?p (db w0) = [] \<and> capturable a
        \<and> store_capture E aid ?p a (late_capture a bs) w0 = (Inr r, w')"
    by blast
  have safe: "payments_safe (db w) (db w0)" using E by (simp add: w0 env_guar_def)
  then have wf0: "payments_wf (db w0)" using wf by (simp add: payments_safe_def)
  have a: "a \<in> set (attempts (db w0))" "pa_id a = aid" using query_row_Some [OF row] by auto
  have "capture_effect aid ?p (db w0) a bs (tx_now w) r (db w') \<and> bookings (db w') = bookings (db w0)
      \<and> pa_booking_id (cr_attempt r) = pa_booking_id a \<and> \<not> cr_booking_paid r"
    using cases
  proof
    assume dup: "duplicate_run aid ?p (db w0) a r (db w')"
    then have "cr_fact r \<in> set (findCaptureByAttemptOrProviderID aid ?p (db w0))"
      by (auto simp: duplicate_run_def)
    then have "cr_fact r \<in> set (captures (db w0))" by (simp add: findCaptureByAttemptOrProviderID_def)
    with dup show ?thesis by (auto simp: duplicate_run_def capture_effect_def)
  next
    assume "findCaptureByAttemptOrProviderID aid ?p (db w0) = [] \<and> capturable a
      \<and> store_capture E aid ?p a (late_capture a bs) w0 = (Inr r, w')"
    then have cap: "capturable a" and "after_capture aid ?p (db w0) a (late_capture a bs) (tx_now w) r (db w')"
      using store_capture_after [OF wf0 row _ eq] w0(2) by auto
    then show ?thesis
      by (auto simp: after_capture_def capture_effect_def replace_row_def set_captured_def)
  qed
  then show thesis
    using that [OF safe wf0 aid a eq bs] payments_wf_parts(9) [OF wf0] by simp
qed

text \<open>
  C11. What a successful finalisation has done. In the state \<open>d\<close> it found under the booking's
  lock, either the payment had been captured before and the very fact is reported as a
  duplicate with attempts and facts unchanged, or the attempt is now captured, exactly one
  new fact records the presented payment, and the capture is late exactly when the attempt
  was closed, the booking cancelled or its expiry passed. A late capture leaves every
  booking alone; a fresh one pays the booking, which was pending, in the same transaction.
\<close>

theorem finalize_outcomes:
  assumes run: "FinalizeGatewayCaptureTx E params w = (Inr r, w')"
    and E: "env_guar payments_safe E" and wf: "payments_wf (db w)"
  shows "\<exists>d a aid bs. payments_safe (db w) d \<and> uuid_parse E (cp_attempt_id params) = Some aid
    \<and> a \<in> set (attempts d) \<and> pa_id a = aid \<and> \<not> capture_mismatch a (canonical_times params)
    \<and> booking_status_expired (tx_now w) (pa_booking_id a) d = Some bs
    \<and> capture_effect aid (canonical_times params) d a bs (tx_now w) r (db w')
    \<and> (\<not> cr_duplicate r \<longrightarrow> cr_booking_paid r = (\<not> cr_late r))
    \<and> bookings (db w') = (if cr_booking_paid r
         then sql_update (pending_booking (pa_booking_id a)) (mark_paid (tx_now w)) (bookings d)
         else bookings d)
    \<and> (cr_booking_paid r \<longrightarrow> (\<exists>b \<in> set (bookings d). pending_booking (pa_booking_id a) b))"
proof -
  obtain r0 w1 where rec: "RecordCaptureTx E params w = (Inr r0, w1)"
    and fin: "(cr_late r0 \<and> r = r0 \<and> db w' = db w1) \<or>
      (\<not> cr_late r0 \<and> (\<exists>rows d. pay_booking (pa_booking_id (cr_attempt r0)) (tx_now w1) (db w1) = (Inr rows, d)
        \<and> db w' = d \<and> (if length rows = 1 then r = r0\<lparr>cr_booking_paid := True\<rparr> else r = r0 \<and> cr_duplicate r0)))"
    by (rule finalize_Inr [OF run])
  have now: "tx_now w1 = tx_now w" by (rule keeps_nowD [OF keeps_now_RecordCaptureTx rec])
  obtain d a aid bs where d: "payments_safe (db w) d" "payments_wf d"
    and aid: "uuid_parse E (cp_attempt_id params) = Some aid" and a: "a \<in> set (attempts d)" "pa_id a = aid"
    and eq: "\<not> capture_mismatch a (canonical_times params)"
    and bs: "booking_status_expired (tx_now w) (pa_booking_id a) d = Some bs"
    and eff: "capture_effect aid (canonical_times params) d a bs (tx_now w) r0 (db w1)"
    and bk: "bookings (db w1) = bookings d" "pa_booking_id (cr_attempt r0) = pa_booking_id a"
      "\<not> cr_booking_paid r0" "distinct (map bk_id (bookings (db w1)))"
    by (rule record_effect [OF rec E wf])
  have "capture_effect aid (canonical_times params) d a bs (tx_now w) r (db w')
    \<and> (\<not> cr_duplicate r \<longrightarrow> cr_booking_paid r = (\<not> cr_late r))
    \<and> bookings (db w') = (if cr_booking_paid r
         then sql_update (pending_booking (pa_booking_id a)) (mark_paid (tx_now w)) (bookings d)
         else bookings d)
    \<and> (cr_booking_paid r \<longrightarrow> (\<exists>b \<in> set (bookings d). pending_booking (pa_booking_id a) b))"
    using fin
  proof
    assume "cr_late r0 \<and> r = r0 \<and> db w' = db w1"
    then show ?thesis using eff bk by simp
  next
    assume "\<not> cr_late r0 \<and> (\<exists>rows d. pay_booking (pa_booking_id (cr_attempt r0)) (tx_now w1) (db w1) = (Inr rows, d)
        \<and> db w' = d \<and> (if length rows = 1 then r = r0\<lparr>cr_booking_paid := True\<rparr> else r = r0 \<and> cr_duplicate r0))"
    then obtain rows where late: "\<not> cr_late r0"
      and pay: "pay_booking (pa_booking_id a) (tx_now w) (db w1) = (Inr rows, db w')"
      and r: "if length rows = 1 then r = r0\<lparr>cr_booking_paid := True\<rparr> else r = r0 \<and> cr_duplicate r0"
      using bk(2) now by auto
    note run = pay_booking_run [OF pay bk(4)]
    show ?thesis
    proof (cases "length rows = 1")
      case True
      then show ?thesis
        using eff bk late r run(1,2) by (simp add: capture_effect_def split: if_splits)
    next
      case False
      then show ?thesis using eff bk late r run(3) by (simp add: capture_effect_def)
    qed
  qed
  then show ?thesis
    using d aid a eq bs by (intro exI [of _ d] exI [of _ a] exI [of _ aid] exI [of _ bs]) simp
qed

lemma sample_finalize:
  "\<exists>w. FinalizeGatewayCaptureTx quiet_env sample_capture (start_world sample_db_pending) =
     (Inr \<lparr>cr_attempt = sample_captured, cr_fact = sample_fact, cr_duplicate = False, cr_late = False,
        cr_booking_paid = True\<rparr>, w)"
proof -
  obtain w where rec: "RecordCaptureTx quiet_env sample_capture (start_world sample_db_pending) =
     (Inr \<lparr>cr_attempt = sample_captured, cr_fact = sample_fact, cr_duplicate = False, cr_late = False,
        cr_booking_paid = False\<rparr>, w)" "db w = sample_db_captured" "tx_now w = 1000 * second"
    using sample_record by blast
  have "captured_transition_audited sample_db_captured (uid CHR ''2'')"
    by (simp add: captured_transition_audited_def sql_exists_def scenario transition_row_def
        payment_audit_row_def sample_captured_def)
  then have "capture_evidence sample_db_captured sample_captured"
    using sample_capture_of
    by (auto simp: capture_evidence_def sql_exists_def capture_of_def scenario sample_captured_def
        set_captured_fields)
  then have "guard_sandbox_booking_payment_isolation sample_db_captured sample_booking PAID = None"
    by (simp add: guard_sandbox_booking_payment_isolation_def attempts_of_def scenario sample_captured_def)
  then have pay: "pay_booking (uid CHR ''1'') now sample_db_captured
      = (Inr [mark_paid now sample_booking], sample_db_captured\<lparr>bookings := [mark_paid now sample_booking]\<rparr>)" for now
    unfolding pay_booking_alt booking_update_Inr
    by (simp add: sql_returning_def sql_update_def scenario pending_booking_def) (simp add: mark_paid_def)
  have "pa_booking_id sample_captured = uid CHR ''1''" by (simp add: sample_captured_def scenario)
  then show ?thesis
    using rec pay
    by (simp add: FinalizeGatewayCaptureTx_def andthen_def attempt_def map_err_def db_call_def
        Let_def ret_app scenario)
qed

theorem finalize_outcomes_witness:
  "\<exists>w' d a. FinalizeGatewayCaptureTx quiet_env sample_capture (start_world sample_db_pending)
      = (Inr \<lparr>cr_attempt = sample_captured, cr_fact = sample_fact, cr_duplicate = False, cr_late = False,
              cr_booking_paid = True\<rparr>, w')
    \<and> capture_effect (uid CHR ''2'') sample_capture d a (PENDING_PAYMENT, False) (1000 * second)
        \<lparr>cr_attempt = sample_captured, cr_fact = sample_fact, cr_duplicate = False, cr_late = False,
         cr_booking_paid = True\<rparr> (db w')"
proof -
  obtain w where run: "FinalizeGatewayCaptureTx quiet_env sample_capture (start_world sample_db_pending) =
     (Inr \<lparr>cr_attempt = sample_captured, cr_fact = sample_fact, cr_duplicate = False, cr_late = False,
        cr_booking_paid = True\<rparr>, w)" using sample_finalize by blast
  have "payments_wf (db (start_world sample_db_pending))" by (simp add: scenario sample_payments_wf)
  from finalize_outcomes [OF run quiet_env_safe this] obtain d a bs where
    "capture_effect (uid CHR ''2'') sample_capture d a bs (1000 * second)
      \<lparr>cr_attempt = sample_captured, cr_fact = sample_fact, cr_duplicate = False, cr_late = False,
       cr_booking_paid = True\<rparr> (db w)"
    by (auto simp: scenario hex_class_def)
  then have "capture_effect (uid CHR ''2'') sample_capture d a bs (1000 * second)
      \<lparr>cr_attempt = sample_captured, cr_fact = sample_fact, cr_duplicate = False, cr_late = False,
       cr_booking_paid = True\<rparr> (db w) \<and> \<not> late_capture a bs"
    by (auto simp: capture_effect_def)
  then have "capture_effect (uid CHR ''2'') sample_capture d a (PENDING_PAYMENT, False) (1000 * second)
      \<lparr>cr_attempt = sample_captured, cr_fact = sample_fact, cr_duplicate = False, cr_late = False,
       cr_booking_paid = True\<rparr> (db w)"
    by (auto simp: capture_effect_def late_capture_def)
  with run show ?thesis by blast
qed

subsection \<open>The same payment again\<close>

text \<open>
  C12. A payment is captured once. Presenting a payment for a captured attempt again, with
  whatever observation time, authority or source, changes nothing: the very fact that was
  stored is reported as a duplicate when provider, identities, amount, currency and
  capture time agree with it, and anything else is \<open>ErrCaptureConflict\<close>.
\<close>

theorem captured_attempt_replay:
  assumes calm: "calm E" and wf: "payments_wf (db w)"
    and a: "a \<in> captured_rows (db w)" and f: "f \<in> set (captures (db w))" "capture_of a f"
    and valid: "validateCaptureParams E q" "uuid_parse E (cp_attempt_id q) = Some (pa_id a)"
    and bs: "booking_status_expired (tx_now w) (pa_booking_id a) (db w) = Some bs"
  shows "outcome (RecordCaptureTx E q) w =
      (if sameCapture f (canonical_times q)
       then Inr \<lparr>cr_attempt = a, cr_fact = f, cr_duplicate = True, cr_late = False, cr_booking_paid = False\<rparr>
       else Inl (EPayment ErrCaptureConflict))
    \<and> after (RecordCaptureTx E q) w = db w"
proof -
  have am: "a \<in> set (attempts (db w))" "pa_state a = AttemptCaptured" using a by (auto simp: captured_rows_def)
  have row: "query_row (\<lambda>x. pa_id x = pa_id a) (attempts (db w)) = Some a"
    using row_unique(1) [OF payments_wf_parts(1) [OF wf] am(1)] by simp
  have at: "pa_captured_at a \<noteq> None" "cf_attempt_id f = pa_id a"
    using f(2) by (auto simp: capture_of_def fact_matches_def)
  show ?thesis
  proof (cases "capture_mismatch a (canonical_times q)")
    case True
    then have "\<not> sameCapture f (canonical_times q)"
      using f(2) by (auto simp: capture_mismatch_def sameCapture_def capture_of_def fact_matches_def)
    with RecordCaptureTx_mismatch [OF calm valid row bs True] show ?thesis by simp
  next
    case False
    obtain k where "RecordCaptureTx E q w = decide_capture E (pa_id a) (canonical_times q) a bs [f]
        (w\<lparr>steps := k\<rparr>)"
      using RecordCaptureTx_calm [OF calm valid row bs False]
        found_own_fact [OF wf f refl False] by auto
    then show ?thesis
      using am(2) at by (auto simp: outcome_def after_def decide_capture_def ret_def fail_def)
  qed
qed

theorem captured_attempt_replay_witness:
  "outcome (RecordCaptureTx quiet_env (sample_capture\<lparr>cp_authority := ''AUTHENTICATED_INQUIRY''\<rparr>))
      (start_world sample_db_captured)
    = Inr \<lparr>cr_attempt = sample_captured, cr_fact = sample_fact, cr_duplicate = True, cr_late = False,
           cr_booking_paid = False\<rparr>"
proof -
  let ?q = "sample_capture\<lparr>cp_authority := ''AUTHENTICATED_INQUIRY''\<rparr>"
  have v: "validateCaptureParams quiet_env ?q"
    using sample_capture_valid by (simp add: validateCaptureParams_def)
  have s: "sameCapture sample_fact (canonical_times ?q)"
    by (simp add: sameCapture_def sample_fact_def new_fact_def canonical_times_def sample_capture_def truncate_us_def)
  have rows: "sample_captured \<in> captured_rows (db (start_world sample_db_captured))"
    "sample_fact \<in> set (captures (db (start_world sample_db_captured)))"
    by (simp_all add: scenario sample_captured_rows)
  have wf: "payments_wf (db (start_world sample_db_captured))" by (simp add: scenario sample_payments_wf)
  have u: "uuid_parse quiet_env (cp_attempt_id ?q) = Some (pa_id sample_captured)"
    by (simp add: scenario hex_class_def sample_captured_def)
  have b: "booking_status_expired (tx_now (start_world sample_db_captured)) (pa_booking_id sample_captured)
      (db (start_world sample_db_captured)) = Some (PENDING_PAYMENT, False)"
    by (simp add: booking_status_expired_def scenario query_row_def sample_captured_def)
  show ?thesis
    using captured_attempt_replay [OF quiet_env_calm wf rows sample_capture_of v u b] s by simp
qed

text \<open>
  C13. A replayed late capture pays the booking. The comment on
  \<open>FinalizeGatewayCaptureTx\<close> says that a late capture stays unpaid and is left for
  reconciliation. The flag that says so is not stored: when the same payment is finalised a
  second time it is reported as a duplicate that is not late, and a booking that is still
  \<open>PENDING_PAYMENT\<close> is marked \<open>PAID\<close>, however long its expiry has passed.
\<close>

theorem late_capture_replay_pays:
  assumes calm: "calm E" and wf: "payments_wf (db w)"
    and a: "a \<in> captured_rows (db w)" and f: "f \<in> set (captures (db w))" "capture_of a f"
    and valid: "validateCaptureParams E q" "uuid_parse E (cp_attempt_id q) = Some (pa_id a)"
    and same: "sameCapture f (canonical_times q)"
    and audited: "captured_transition_audited (db w) (pa_id a)"
    and b: "b \<in> set (bookings (db w))" "pending_booking (pa_booking_id a) b"
  shows "outcome (FinalizeGatewayCaptureTx E q) w = Inr \<lparr>cr_attempt = a, cr_fact = f,
      cr_duplicate = True, cr_late = False, cr_booking_paid = True\<rparr>
    \<and> mark_paid (tx_now w) b \<in> set (bookings (after (FinalizeGatewayCaptureTx E q) w))"
proof -
  note bids = payments_wf_parts(9) [OF wf]
  have bid: "bk_id b = pa_booking_id a" using b(2) by (simp add: pending_booking_def)
  have "query_row (\<lambda>x. bk_id x = pa_booking_id a) (bookings (db w)) = Some b"
    by (rule query_row_unique [OF bids b(1) bid])
  then obtain bs where bs: "booking_status_expired (tx_now w) (pa_booking_id a) (db w) = Some bs"
    by (simp add: booking_status_expired_def)
  obtain k where rec: "RecordCaptureTx E q w = (Inr \<lparr>cr_attempt = a, cr_fact = f, cr_duplicate = True,
      cr_late = False, cr_booking_paid = False\<rparr>, w\<lparr>steps := k\<rparr>)"
    using replay_run [OF calm wf a f valid bs same] by blast
  have am: "a \<in> set (attempts (db w))" "pa_state a = AttemptCaptured" using a by (auto simp: captured_rows_def)
  have only: "filter (pending_booking (pa_booking_id a)) (bookings (db w)) = [b]"
    by (rule filter_unique [OF bids b(1)])
       (metis b bid bids distinct_map inj_onD pending_booking_def)
  have "capture_evidence (db w) a"
    using am f audited by (auto simp: capture_evidence_def sql_exists_iff capture_of_def)
  then have ev: "list_ex (capture_evidence (db w)) (attempts_of (db w) (pa_booking_id a))"
    using am by (auto simp: list_ex_iff attempts_of_def)
  have "guard_sandbox_booking_payment_isolation (db w) x (bk_status (mark_paid now x)) = None"
    if "pending_booking (pa_booking_id a) x" for x now
    using that ev by (auto simp: guard_sandbox_booking_payment_isolation_def mark_paid_def pending_booking_def)
  then have pay: "pay_booking (pa_booking_id a) now (db w) = (Inr [mark_paid now b],
      (db w)\<lparr>bookings := sql_update (pending_booking (pa_booking_id a)) (mark_paid now) (bookings (db w))\<rparr>)" for now
    unfolding pay_booking_alt booking_update_Inr by (simp add: sql_returning_def only)
  have "\<not> db_fault E k" for k using calm by (simp add: calm_def)
  then have "\<exists>v. FinalizeGatewayCaptureTx E q w = (Inr \<lparr>cr_attempt = a, cr_fact = f, cr_duplicate = True,
      cr_late = False, cr_booking_paid = True\<rparr>, v) \<and> db v =
      (db w)\<lparr>bookings := sql_update (pending_booking (pa_booking_id a)) (mark_paid (tx_now w)) (bookings (db w))\<rparr>"
    by (simp add: FinalizeGatewayCaptureTx_def andthen_def attempt_def map_err_def db_call_def rec pay
        Let_def ret_app)
  then show ?thesis using b by (auto simp: outcome_def after_def set_sql_update)
qed

theorem late_capture_replay_pays_witness:
  "\<exists>b \<in> set (bookings (after (FinalizeGatewayCaptureTx quiet_env sample_capture) (start_world sample_db_late))).
     bk_status b = PAID \<and> bk_expires_at b = Some (800 * second)
     \<and> 800 * second < tx_now (start_world sample_db_late)"
proof -
  let ?w = "start_world sample_db_late" and ?b = "sample_booking\<lparr>bk_expires_at := Some (800 * second)\<rparr>"
  have rows: "sample_captured \<in> captured_rows (db ?w)" "sample_fact \<in> set (captures (db ?w))"
    by (simp_all add: scenario sample_captured_rows)
  have wf: "payments_wf (db ?w)" by (simp add: scenario sample_payments_wf)
  have u: "uuid_parse quiet_env (cp_attempt_id sample_capture) = Some (pa_id sample_captured)"
    by (simp add: scenario hex_class_def sample_captured_def)
  have s: "sameCapture sample_fact (canonical_times sample_capture)"
    by (simp add: sameCapture_def sample_fact_def new_fact_def scenario)
  have aud: "captured_transition_audited (db ?w) (pa_id sample_captured)"
    by (simp add: captured_transition_audited_def sql_exists_def scenario transition_row_def
        sample_db_late_def payment_audit_row_def)
  have b: "?b \<in> set (bookings (db ?w))" "pending_booking (pa_booking_id sample_captured) ?b"
    by (simp_all add: scenario pending_booking_def sample_captured_def)
  have "mark_paid (tx_now ?w) ?b \<in> set (bookings (after (FinalizeGatewayCaptureTx quiet_env sample_capture) ?w))"
    using late_capture_replay_pays [OF quiet_env_calm wf rows sample_capture_of sample_capture_valid u s aud b]
    by blast
  then show ?thesis by (rule bexI [rotated]) (simp add: mark_paid_def scenario)
qed

text \<open>
  Customers see only their own payments. An attempt that a customer reads by its
  identifier, by reference or by booking belongs to a booking of that customer, and it is
  the row of the committed state the statement ran on.
\<close>

theorem customer_reads_own_attempts:
  "(case outcome (GetAttemptByIDForCustomer E i customer) w of Inl e \<Rightarrow> True
     | Inr cs \<Rightarrow> \<exists>d b. pa_id (cs_attempt cs) = the (uuid_parse E i) \<and> cs_attempt cs \<in> set (attempts d)
         \<and> b \<in> set (bookings d) \<and> bk_id b = pa_booking_id (cs_attempt cs)
         \<and> Some (bk_customer b) = uuid_parse E customer \<and> d = interfere E (steps w) (db w))
   \<and> (case outcome (GetAttemptByLocalReferenceForCustomer E customer ref) w of Inl e \<Rightarrow> True
     | Inr cs \<Rightarrow> \<exists>d b. pa_local_reference (cs_attempt cs) = ref \<and> cs_attempt cs \<in> set (attempts d)
         \<and> b \<in> set (bookings d) \<and> bk_id b = pa_booking_id (cs_attempt cs)
         \<and> Some (bk_customer b) = uuid_parse E customer \<and> d = interfere E (steps w) (db w))
   \<and> (case outcome (GetAttemptByReferenceForCustomer E bookingID customer ref) w of Inl e \<Rightarrow> True
     | Inr a \<Rightarrow> \<exists>d b. pa_local_reference a = ref \<and> a \<in> set (attempts d)
         \<and> b \<in> set (bookings d) \<and> bk_id b = pa_booking_id a \<and> Some (bk_id b) = uuid_parse E bookingID
         \<and> Some (bk_customer b) = uuid_parse E customer \<and> d = interfere E (steps w) (db w))"
proof (intro conjI)
  have join: "a \<in> set (attempts d) \<and> b \<in> set (bookings d) \<and> bk_id b = pa_booking_id a \<and> p a b"
    if "join_booking p d = Some (a, b)" for p d a b
    using query_row_Some [OF that [unfolded join_booking_def]] by auto
  note run = outcome_def andthen_def attempt_def pool_query_def Let_def not_found_def deref_def
    ret_def fail_def status_of_def
  show "case outcome (GetAttemptByIDForCustomer E i customer) w of Inl e \<Rightarrow> True
     | Inr cs \<Rightarrow> \<exists>d b. pa_id (cs_attempt cs) = the (uuid_parse E i) \<and> cs_attempt cs \<in> set (attempts d)
         \<and> b \<in> set (bookings d) \<and> bk_id b = pa_booking_id (cs_attempt cs)
         \<and> Some (bk_customer b) = uuid_parse E customer \<and> d = interfere E (steps w) (db w)"
    by (auto simp: GetAttemptByIDForCustomer_def run split: option.split dest!: join)
  show "case outcome (GetAttemptByLocalReferenceForCustomer E customer ref) w of Inl e \<Rightarrow> True
     | Inr cs \<Rightarrow> \<exists>d b. pa_local_reference (cs_attempt cs) = ref \<and> cs_attempt cs \<in> set (attempts d)
         \<and> b \<in> set (bookings d) \<and> bk_id b = pa_booking_id (cs_attempt cs)
         \<and> Some (bk_customer b) = uuid_parse E customer \<and> d = interfere E (steps w) (db w)"
    by (auto simp: GetAttemptByLocalReferenceForCustomer_def run split: option.split dest!: join)
  show "case outcome (GetAttemptByReferenceForCustomer E bookingID customer ref) w of Inl e \<Rightarrow> True
     | Inr a \<Rightarrow> \<exists>d b. pa_local_reference a = ref \<and> a \<in> set (attempts d)
         \<and> b \<in> set (bookings d) \<and> bk_id b = pa_booking_id a \<and> Some (bk_id b) = uuid_parse E bookingID
         \<and> Some (bk_customer b) = uuid_parse E customer \<and> d = interfere E (steps w) (db w)"
    by (auto simp: GetAttemptByReferenceForCustomer_def run split: option.split dest!: join)
qed


definition sample_result :: create_result_params where
  "sample_result = \<lparr>rp_attempt_id = uid CHR ''2'', rp_provider = ''XENDIT'', rp_environment = ''TEST'',
     rp_session_id = uid CHR ''7'', rp_payment_req_id = None, rp_payment_id = None,
     rp_status_code = ''ACTIVE'', rp_checkout_url = None, rp_expires_at = None,
     rp_status = PaymentStatusPending, rp_amount = 150000, rp_currency = ''IDR''\<rparr>"


end
