(* ===== verification/RetryPolicy.thy ===== *)
theory RetryPolicy
  imports Outbox
begin

text \<open>
  \<^verbatim>\<open>internal/paymentworker/policy.go\<close>: the delay before a failed command is tried again. A
  \<^verbatim>\<open>time.Duration\<close> is an \<^verbatim>\<open>int64\<close> number of nanoseconds; it is an \<open>int\<close> here, with the
  wrap-around written out where the code multiplies or adds without a bound
  (\<open>deterministicJitter\<close>). The doubling loop is recursion on the iterations left.
\<close>

definition wrap64 :: "int \<Rightarrow> int" where
  "wrap64 x = (x + 9223372036854775808) mod 18446744073709551616 - 9223372036854775808"

lemma wrap64_id: "- 9223372036854775808 \<le> x \<Longrightarrow> x < 9223372036854775808 \<Longrightarrow> wrap64 x = x"
  by (simp add: wrap64_def)

record retry_policy =
  pol_initial :: duration
  pol_max :: duration
  pol_jitter :: "(string \<Rightarrow> int \<Rightarrow> duration \<Rightarrow> duration) option"

text \<open>\<open>for i := 1; i < attemptCount; i++\<close>: \<open>Inl\<close> is the early return.\<close>

primrec double_loop :: "nat \<Rightarrow> duration \<Rightarrow> duration \<Rightarrow> duration + duration" where
  "double_loop 0 mx delay = Inr delay"
| "double_loop (Suc n) mx delay =
     (if delay \<ge> mx div 2 then Inl mx else double_loop n mx (delay * 2))"

definition baseDelay :: "retry_policy \<Rightarrow> int \<Rightarrow> duration \<Rightarrow> duration" where
  "baseDelay p attemptCount retryAfter =
    (let initial = (if pol_initial p \<le> 0 then 2 * second else pol_initial p);
         mx = (if pol_max p < initial then 60 * second else pol_max p);
         count = (if attemptCount < 1 then 1 else attemptCount)
     in case double_loop (nat (count - 1)) mx initial of
          Inl r \<Rightarrow> r
        | Inr d \<Rightarrow>
           (let delay = (if d > mx then mx else d)
            in if retryAfter > delay then (if retryAfter > mx then mx else retryAfter) else delay))"

definition maxDelay :: "retry_policy \<Rightarrow> duration" where
  "maxDelay p = (if pol_max p < pol_initial p \<or> pol_max p \<le> 0 then 60 * second else pol_max p)"

definition deterministicJitter :: "string \<Rightarrow> int \<Rightarrow> duration \<Rightarrow> duration" where
  "deterministicJitter key n d =
    (if d \<le> 0 then 0
     else
       let sum = sha256 (key @ '':'' @ format_int n);
           spread = int ((sum ! 0 * 256 + sum ! 1) mod 1001);
           extra = wrap64 (d * spread) sdiv 10000
       in wrap64 (d + extra))"

definition normalizeRetryDelay :: "duration \<Rightarrow> duration \<Rightarrow> duration" where
  "normalizeRetryDelay value mx =
    (if value \<le> 0 \<or> mx \<le> 0 then 0
     else
       let mx = mx - mx mod microsecond
       in if mx \<le> 0 then 0
          else if value \<ge> mx then mx
          else
            let remainder = value mod microsecond;
                value = (if remainder \<noteq> 0 then value + (microsecond - remainder) else value)
            in if value > mx then mx else value)"

definition Delay :: "retry_policy \<Rightarrow> string \<Rightarrow> int \<Rightarrow> duration \<Rightarrow> duration" where
  "Delay p key attemptCount retryAfter =
    (let b = baseDelay p attemptCount retryAfter
     in case pol_jitter p of
          None \<Rightarrow> normalizeRetryDelay b (maxDelay p)
        | Some jitter \<Rightarrow>
           (let delayed = jitter key attemptCount b;
                delayed = (if delayed < b then b else delayed);
                delayed = (if delayed > maxDelay p then maxDelay p else delayed)
            in normalizeRetryDelay delayed (maxDelay p)))"

definition DefaultRetryPolicy :: retry_policy where
  "DefaultRetryPolicy = \<lparr>pol_initial = 2 * second, pol_max = 60 * second,
     pol_jitter = Some deterministicJitter\<rparr>"

subsection \<open>Closed form\<close>

text \<open>A policy \<open>NewProcessor\<close> accepts.\<close>

definition policy_ok :: "retry_policy \<Rightarrow> bool" where
  "policy_ok p \<longleftrightarrow> 0 < pol_initial p \<and> validateRetryDelay (pol_initial p)
     \<and> validateRetryDelay (pol_max p) \<and> pol_initial p \<le> pol_max p"

text \<open>The specification: the initial delay doubled for every earlier attempt, raised to the
  provider's Retry-After and capped.\<close>

definition backoff :: "retry_policy \<Rightarrow> int \<Rightarrow> duration \<Rightarrow> duration" where
  "backoff p n retryAfter = min (pol_max p) (max retryAfter (pol_initial p * 2 ^ nat (n - 1)))"

lemma double_loop_closed:
  assumes "even mx" and "0 < d"
  shows "case double_loop n mx d of Inl r \<Rightarrow> r = mx \<and> mx \<le> d * 2 ^ n | Inr r \<Rightarrow> r = d * 2 ^ n"
  using assms(2)
proof (induction n arbitrary: d)
  case (Suc n)
  show ?case
  proof (cases "d \<ge> mx div 2")
    case True
    then have "mx \<le> d * 2" using assms(1) by auto
    also have "d * 2 \<le> d * 2 * 2 ^ n" using Suc.prems by simp
    finally show ?thesis using True by (simp add: ac_simps)
  next
    case False
    then show ?thesis using Suc.IH [of "d * 2"] Suc.prems by (simp add: mult.assoc split: sum.splits)
  qed
qed simp

lemma baseDelay_closed:
  assumes "policy_ok p"
  shows "baseDelay p n retryAfter = backoff p n retryAfter"
proof -
  have p: "0 < pol_initial p" "pol_initial p \<le> pol_max p" using assms by (auto simp: policy_ok_def)
  have "pol_max p mod 1000 = 0" using assms by (simp add: policy_ok_def validateRetryDelay_def)
  then have "1000 dvd pol_max p" by (simp add: mod_eq_0_iff_dvd)
  moreover have "(2 :: int) dvd 1000" by simp
  ultimately have "even (pol_max p)" by (rule dvd_trans [rotated])
  note loop = double_loop_closed [OF this p(1), of "nat (n - 1)"]
  show ?thesis
  proof (cases "double_loop (nat (n - 1)) (pol_max p) (pol_initial p)")
    case (Inl r)
    then show ?thesis using loop p
      by (auto simp: baseDelay_def backoff_def Let_def)
  next
    case (Inr d)
    then show ?thesis using loop p
      by (auto simp: baseDelay_def backoff_def Let_def min_def max_def)
  qed
qed

lemma backoff_bounds:
  assumes "policy_ok p"
  shows "0 < backoff p n ra" and "backoff p n ra \<le> pol_max p" and "pol_initial p \<le> backoff p n ra"
proof -
  have p: "0 < pol_initial p" "pol_initial p \<le> pol_max p" using assms by (auto simp: policy_ok_def)
  then have "pol_initial p * 1 \<le> pol_initial p * 2 ^ nat (n - 1)"
    by (intro mult_left_mono) simp_all
  then show "pol_initial p \<le> backoff p n ra" using p by (simp add: backoff_def le_max_iff_disj)
  then show "0 < backoff p n ra" using p by simp
  show "backoff p n ra \<le> pol_max p" by (simp add: backoff_def)
qed

lemma normalize_bounds:
  assumes "0 < mx" "mx mod 1000 = 0" "0 < v" "v \<le> mx"
  shows "v \<le> normalizeRetryDelay v mx" and "normalizeRetryDelay v mx \<le> mx"
    and "normalizeRetryDelay v mx mod 1000 = 0" and "normalizeRetryDelay v mx < v + 1000"
proof -
  obtain a r where v: "v = 1000 * a + r" and vr: "v mod 1000 = r" and r: "0 \<le> r" "r < 1000"
    using mult_div_mod_eq [of 1000 v] by (metis pos_mod_bound pos_mod_sign zero_less_numeral)
  have up: "v + (1000 - r) = 1000 * (a + 1)" using v by (simp add: distrib_left)
  obtain q where q: "mx = 1000 * q" using assms(2) by (auto simp: mod_eq_0_iff_dvd)
  have fit: "v + (1000 - r) \<le> mx" if "v < mx"
  proof -
    have "a < q" using that v q r by linarith
    then have "a + 1 \<le> q" by simp
    then show ?thesis using v q by linarith
  qed
  have N: "normalizeRetryDelay v mx
      = (if v \<ge> mx then mx else if v mod 1000 = 0 then v else v + (1000 - r))"
    using assms fit by (cases "v < mx") (simp_all add: normalizeRetryDelay_def Let_def vr)
  show "v \<le> normalizeRetryDelay v mx" using assms r by (simp add: N)
  show "normalizeRetryDelay v mx \<le> mx" using assms fit by (simp add: N)
  show "normalizeRetryDelay v mx mod 1000 = 0" using assms by (auto simp: N up)
  show "normalizeRetryDelay v mx < v + 1000"
  proof (cases "v \<ge> mx \<or> v mod 1000 = 0")
    case True
    then show ?thesis using assms by (auto simp: N)
  next
    case False
    then have "0 < r" using r vr by linarith
    with False show ?thesis by (simp add: N)
  qed
qed

lemma deterministicJitter_bounds:
  assumes "0 < b" and "b \<le> 24 * hour"
  shows "b \<le> deterministicJitter k n b" and "deterministicJitter k n b \<le> b + b div 10"
proof -
  define sp where "sp = int ((sha256 (k @ '':'' @ format_int n) ! 0 * 256
      + sha256 (k @ '':'' @ format_int n) ! 1) mod 1001)"
  have sp: "0 \<le> sp" "sp \<le> 1000" by (simp_all add: sp_def)
  have prod: "0 \<le> b * sp" "b * sp \<le> b * 1000"
    using assms sp by (simp_all add: mult_left_mono)
  then have "0 \<le> b * sp" "b * sp \<le> 86400000000000000" using assms(2) by linarith+
  then have w: "wrap64 (b * sp) = b * sp" by (intro wrap64_id) linarith+
  have e: "b * sp sdiv 10000 = b * sp div 10000" using prod by (simp add: signed_divide_int_def sgn_if)
  have e0: "0 \<le> b * sp div 10000" "b * sp div 10000 \<le> b div 10"
  proof -
    show "0 \<le> b * sp div 10000" using prod by (simp add: pos_imp_zdiv_nonneg_iff)
    have "b * sp div 10000 \<le> (b * 1000) div 10000" using prod by (intro zdiv_mono1) simp_all
    also have "\<dots> = b div 10" by simp
    finally show "b * sp div 10000 \<le> b div 10" .
  qed
  have "wrap64 (b + b * sp div 10000) = b + b * sp div 10000"
    using assms e0 by (intro wrap64_id) linarith+
  moreover have "deterministicJitter k n b = wrap64 (b + wrap64 (b * sp) sdiv 10000)"
    using assms by (simp add: deterministicJitter_def Let_def sp_def)
  ultimately have "deterministicJitter k n b = b + b * sp div 10000" by (simp add: w e)
  with e0 show "b \<le> deterministicJitter k n b" "deterministicJitter k n b \<le> b + b div 10" by simp_all
qed

lemma Delay_any_jitter:
  assumes p: "policy_ok p"
  shows "backoff p n ra \<le> Delay p key n ra" and "Delay p key n ra \<le> pol_max p"
    and "validateRetryDelay (Delay p key n ra)"
    and "(\<And>j. pol_jitter p = Some j \<Longrightarrow> j key n (backoff p n ra) \<le> u) \<Longrightarrow> backoff p n ra \<le> u
      \<Longrightarrow> Delay p key n ra < u + 1000"
proof -
  have mx: "maxDelay p = pol_max p" "0 < pol_max p" "pol_max p mod 1000 = 0" "pol_max p \<le> 24 * hour"
    using p by (auto simp: maxDelay_def policy_ok_def validateRetryDelay_def)
  note b = backoff_bounds [OF p, of n ra]
  define v where "v = (case pol_jitter p of None \<Rightarrow> backoff p n ra
    | Some j \<Rightarrow> min (pol_max p) (max (backoff p n ra) (j key n (backoff p n ra))))"
  have D: "Delay p key n ra = normalizeRetryDelay v (pol_max p)"
    by (auto simp: Delay_def v_def baseDelay_closed [OF p] mx(1) Let_def min_def max_def
        split: option.split)
  have v: "backoff p n ra \<le> v" "v \<le> pol_max p" using b by (auto simp: v_def split: option.split)
  then have "0 < v" using b by simp
  note N = normalize_bounds [OF mx(2,3) this v(2)]
  show "backoff p n ra \<le> Delay p key n ra" "Delay p key n ra \<le> pol_max p" using N v by (simp_all add: D)
  then show "validateRetryDelay (Delay p key n ra)"
    using N b(1) mx(4) by (simp add: validateRetryDelay_def D)
  show "Delay p key n ra < u + 1000"
    if "\<And>j. pol_jitter p = Some j \<Longrightarrow> j key n (backoff p n ra) \<le> u" "backoff p n ra \<le> u"
  proof -
    have "v \<le> u" using that by (auto simp: v_def min_le_iff_disj split: option.split)
    then show ?thesis using N(4) by (simp add: D)
  qed
qed

text \<open>
  C15. Retry delays. For every policy the processor accepts, and whatever the key and the
  jitter function, the delay is at least the capped exponential backoff (the initial delay
  doubled per earlier attempt, raised to the provider's Retry-After), at most the
  configured maximum, and a delay the outbox accepts. With the deterministic jitter it
  exceeds the backoff by at most a tenth, rounded up to a microsecond; the 64-bit products
  of the jitter do not overflow.
\<close>

theorem retry_delay_bounds:
  assumes "policy_ok p"
  shows "backoff p n ra \<le> Delay p key n ra \<and> Delay p key n ra \<le> pol_max p
    \<and> validateRetryDelay (Delay p key n ra)
    \<and> (pol_jitter p = Some deterministicJitter \<longrightarrow>
         Delay p key n ra < backoff p n ra + backoff p n ra div 10 + microsecond)"
proof -
  note b = backoff_bounds [OF assms, of n ra]
  have "backoff p n ra \<le> 24 * hour"
    using b(2) assms by (simp add: policy_ok_def validateRetryDelay_def)
  note j = deterministicJitter_bounds(2) [OF b(1) this]
  have "0 \<le> backoff p n ra div 10" using b(1) by simp
  then show ?thesis
    using Delay_any_jitter(1-3) [OF assms, where n = n and ra = ra and key = key]
      Delay_any_jitter(4) [OF assms, where u = "backoff p n ra + backoff p n ra div 10" and key = key] j
    by auto
qed

theorem retry_delay_bounds_witness:
  "8 * second \<le> Delay DefaultRetryPolicy ''payment:inquiry:x'' 3 0
    \<and> Delay DefaultRetryPolicy ''payment:inquiry:x'' 3 0 < 8800 * 1000000 + microsecond"
proof -
  have ok: "policy_ok DefaultRetryPolicy"
    by (simp add: policy_ok_def DefaultRetryPolicy_def validateRetryDelay_def)
  have b: "backoff DefaultRetryPolicy 3 0 = 8 * second"
    by (simp add: backoff_def DefaultRetryPolicy_def)
  have jitter: "pol_jitter DefaultRetryPolicy = Some deterministicJitter"
    by (simp add: DefaultRetryPolicy_def)
  show ?thesis
    using retry_delay_bounds [OF ok, of 3 0 "''payment:inquiry:x''"]
    by (simp add: b jitter)
qed

end
