(* ===== verification/WorkerDecision.thy ===== *)
theory WorkerDecision
  imports RetryPolicy PaymentAttempts
begin

text \<open>
  The pure half of \<^verbatim>\<open>internal/paymentworker\<close>: \<^verbatim>\<open>decision.go\<close>, which says whether a command may
  call the provider, the classification of provider responses in \<^verbatim>\<open>processor.go\<close>, and the
  provider-neutral values of \<^verbatim>\<open>internal/payments/adapter.go\<close> they work on. The provider
  itself is the parameter \<open>adapter\<close>: any answer to any call.
\<close>

subsection \<open>The adapter's values\<close>

text \<open>A Go \<open>error\<close> as \<open>errors.As\<close> and \<open>errors.Is\<close> see it, in the order of the tests: an
  \<open>AdapterError\<close> in its chain with its code and retry-after, the two context errors, or
  anything else.\<close>

datatype go_error =
    AsAdapterError string duration | IsDeadlineExceeded | IsCanceled | OtherError

definition adapter_codes :: "string list" where
  "adapter_codes =
     [''RETRYABLE_TIMEOUT'', ''RETRYABLE_PROVIDER'', ''RATE_LIMITED'', ''AUTHENTICATION_FAILED'',
      ''INVALID_REQUEST'', ''IDEMPOTENCY_CONFLICT'', ''REFERENCE_MISMATCH'', ''AMOUNT_MISMATCH'',
      ''CURRENCY_MISMATCH'', ''TERMINAL_PROVIDER'', ''MALFORMED_RESPONSE'', ''FUTURE_CREATED_SEMANTIC'']"

definition code_IsValid :: "string \<Rightarrow> bool" where
  "code_IsValid c \<longleftrightarrow> c \<in> set adapter_codes"

record adapter_error =
  ae_code :: string
  ae_retry_after :: duration

definition NewAdapterError :: "string \<Rightarrow> duration \<Rightarrow> adapter_error" where
  "NewAdapterError code retryAfter =
     \<lparr>ae_code = (if code_IsValid code then code else ''MALFORMED_RESPONSE''),
      ae_retry_after = retryAfter\<rparr>"

definition NormalizeAdapterError :: "go_error \<Rightarrow> adapter_error" where
  "NormalizeAdapterError e =
    (case e of
       AsAdapterError code retryAfter \<Rightarrow> NewAdapterError code retryAfter
     | IsDeadlineExceeded \<Rightarrow> \<lparr>ae_code = ''RETRYABLE_TIMEOUT'', ae_retry_after = 0\<rparr>
     | IsCanceled \<Rightarrow> NewAdapterError ''RETRYABLE_PROVIDER'' 0
     | OtherError \<Rightarrow> \<lparr>ae_code = ''RETRYABLE_PROVIDER'', ae_retry_after = 0\<rparr>)"

record create_request =
  cq_attempt_id :: string
  cq_amount :: int
  cq_currency :: string
  cq_requested_method :: string
  cq_integration_mode :: string
  cq_capture_method :: string
  cq_local_reference :: string
  cq_idempotency_key :: string
  cq_request_hash :: string
  cq_expires_at :: time
  cq_success_url :: string
  cq_cancel_url :: string

record create_response =
  ca_session_id :: string
  ca_payment_req_id :: string
  ca_payment_id :: string
  ca_status :: string
  ca_amount :: int
  ca_currency :: string
  ca_checkout_url :: string
  ca_expires_at :: time
  ca_correlation_id :: string
  ca_status_code :: string

record status_request =
  sq_attempt_id :: string
  sq_session_id :: string
  sq_payment_req_id :: string
  sq_payment_id :: string
  sq_idempotency_key :: string

record status_response =
  sr_scope :: string
  sr_session_id :: string
  sr_payment_req_id :: string
  sr_payment_id :: string
  sr_status :: string
  sr_amount :: int
  sr_currency :: string
  sr_captured_at :: "time option"
  sr_payload_hash :: string
  sr_reason_code :: string
  sr_status_code :: string

text \<open>Every call may be answered differently: the answers also depend on when it is made.\<close>

record adapter =
  ad_create :: "nat \<Rightarrow> create_request \<Rightarrow> go_error + create_response"
  ad_status :: "nat \<Rightarrow> status_request \<Rightarrow> go_error + status_response"

subsection \<open>Deciding what a command may do\<close>

datatype identity_state = IdentityNone | IdentitySession | IdentityPaymentRequest
  | IdentityPayment | IdentityInvalid

datatype execution_action = CallCreate | CallInquiry | LocalCreateRecovery | LocalRetry
  | LocalNoop | LocalTerminal | RejectLease

record execution_decision =
  xd_action :: execution_action
  xd_identity :: identity_state
  xd_reason :: string

definition isTerminalAttemptState :: "attempt_state \<Rightarrow> bool" where
  "isTerminalAttemptState st \<longleftrightarrow>
     (case st of AttemptCaptured \<Rightarrow> True | AttemptFailed \<Rightarrow> True | AttemptExpired \<Rightarrow> True
      | AttemptCancelled \<Rightarrow> True | _ \<Rightarrow> False)"

definition commandLeaseActive :: "command \<Rightarrow> time \<Rightarrow> bool" where
  "commandLeaseActive c now \<longleftrightarrow>
     cm_state c = StateLeased \<and> cm_attempt_id c \<noteq> None \<and> cm_lease_owner c \<noteq> None
     \<and> cm_lease_token c \<noteq> None
     \<and> (case cm_lease_expires_at c of None \<Rightarrow> False | Some t \<Rightarrow> now < t)"

definition classifyProviderIdentity :: "unicode_tables \<Rightarrow> payment_attempt \<Rightarrow> identity_state" where
  "classifyProviderIdentity U a =
    (if list_ex (\<lambda>v. case v of None \<Rightarrow> False | Some s \<Rightarrow> \<not> ValidProviderIdentity U s True)
          [pa_session_id a, pa_payment_req_id a, pa_payment_id a] then IdentityInvalid
     else if pa_payment_id a \<noteq> None \<and> pa_payment_req_id a = None then IdentityInvalid
     else if pa_payment_id a \<noteq> None then IdentityPayment
     else if pa_payment_req_id a \<noteq> None then IdentityPaymentRequest
     else if pa_session_id a \<noteq> None then IdentitySession
     else IdentityNone)"

definition decision :: "execution_action \<Rightarrow> identity_state \<Rightarrow> execution_decision" where
  "decision act st = \<lparr>xd_action = act, xd_identity = st, xd_reason = []\<rparr>"

definition blocked :: "identity_state \<Rightarrow> execution_decision" where
  "blocked st = \<lparr>xd_action = LocalTerminal, xd_identity = st, xd_reason = ''PROVIDER_CONTRACT_BLOCKED''\<rparr>"

definition decideCommandExecution :: "unicode_tables \<Rightarrow> command \<Rightarrow> payment_attempt \<Rightarrow> time
    \<Rightarrow> execution_decision" where
  "decideCommandExecution U c a now =
    (let st = classifyProviderIdentity U a
     in if \<not> commandLeaseActive c now then decision RejectLease st
        else if isTerminalAttemptState (pa_state a) then decision LocalNoop st
        else case cm_type c of
          PAYMENT_CREATE \<Rightarrow>
            if pa_state a \<noteq> AttemptCreated \<and> pa_state a \<noteq> AttemptPending then blocked st
            else (case st of
              IdentityNone \<Rightarrow> decision CallCreate st
            | IdentitySession \<Rightarrow> decision LocalCreateRecovery st
            | IdentityPaymentRequest \<Rightarrow> decision LocalCreateRecovery st
            | IdentityPayment \<Rightarrow> decision LocalCreateRecovery st
            | IdentityInvalid \<Rightarrow> blocked st)
        | PAYMENT_INQUIRY \<Rightarrow>
            if pa_state a \<noteq> AttemptPending then blocked st
            else (case st of
              IdentityNone \<Rightarrow> decision LocalRetry st
            | IdentitySession \<Rightarrow> decision CallInquiry st
            | IdentityPaymentRequest \<Rightarrow> decision CallInquiry st
            | IdentityPayment \<Rightarrow> decision CallInquiry st
            | IdentityInvalid \<Rightarrow> blocked st)
        | _ \<Rightarrow> blocked st)"

definition valueOrEmpty :: "string option \<Rightarrow> string" where
  "valueOrEmpty v = (case v of None \<Rightarrow> [] | Some s \<Rightarrow> s)"

definition optionalString :: "string \<Rightarrow> string option" where
  "optionalString v = (if v = [] then None else Some v)"

definition optionalTime :: "time \<Rightarrow> time option" where
  "optionalTime t = (if is_zero t then None else Some t)"

definition preferredProviderIdentity :: "payment_attempt \<Rightarrow> string" where
  "preferredProviderIdentity a =
    (case pa_payment_id a of Some s \<Rightarrow> s
     | None \<Rightarrow> (case pa_payment_req_id a of Some s \<Rightarrow> s | None \<Rightarrow> valueOrEmpty (pa_session_id a)))"

subsection \<open>The command's facts\<close>

text \<open>The payload column holds what \<open>marshal_payload\<close> wrote, so decoding it yields the struct;
  what is left of \<open>decodePayload\<close> are its checks of the fields.\<close>

definition decodePayload :: "command_payload \<Rightarrow> command_payload option" where
  "decodePayload p =
    (if pl_attempt_id p = [] \<or> pl_amount p \<le> 0 \<or> pl_currency p \<noteq> ''IDR''
        \<or> pl_requested_method p = [] then None else Some p)"

definition commandFactsMatch :: "command \<Rightarrow> payment_attempt \<Rightarrow> command_payload \<Rightarrow> bool" where
  "commandFactsMatch c a p \<longleftrightarrow>
     cm_request_hash c = pa_request_hash a \<and> pl_attempt_id p = pa_id a \<and> pl_amount p = pa_amount a
     \<and> pl_currency p = pa_currency a \<and> pl_requested_method p = pa_requested_method a
     \<and> (case cm_type c of
          PAYMENT_CREATE \<Rightarrow> cm_idempotency_key c = DeterministicCreateKey (pa_booking_id a) (pa_attempt_no a)
        | PAYMENT_INQUIRY \<Rightarrow> cm_idempotency_key c = DeterministicInquiryKey (pa_id a)
        | _ \<Rightarrow> False)"

subsection \<open>Classifying a create response\<close>

definition safeProviderStatusCode :: "string \<Rightarrow> bool" where
  "safeProviderStatusCode v \<longleftrightarrow>
     v = [] \<or> length v \<le> 64 \<and> v = trim_space v \<and> list_all is_status_char v"

record create_result =
  cl_session_id :: string
  cl_payment_req_id :: "string option"
  cl_payment_id :: "string option"
  cl_status_code :: string
  cl_reference :: string

definition classifyCreateResult :: "unicode_tables \<Rightarrow> payment_attempt \<Rightarrow> create_response
    \<Rightarrow> create_result option" where
  "classifyCreateResult U a r =
    (if ca_status r \<noteq> PaymentStatusPending \<or> ca_amount r \<noteq> pa_amount a \<or> ca_currency r \<noteq> pa_currency a
        \<or> \<not> ValidProviderIdentity U (ca_session_id r) True
        \<or> \<not> ValidProviderIdentity U (ca_payment_req_id r) False
        \<or> \<not> ValidProviderIdentity U (ca_payment_id r) False then None
     else
       let statusCode = (if ca_status_code r = [] then ca_status r else ca_status_code r)
       in if \<not> safeProviderStatusCode statusCode \<or> statusCode = PaymentStatusCaptured then None
          else case DigestProviderReference U (ca_session_id r) of Inl e \<Rightarrow> None
          | Inr ref \<Rightarrow> Some
              \<lparr>cl_session_id = ca_session_id r,
               cl_payment_req_id = optionalString (ca_payment_req_id r),
               cl_payment_id = optionalString (ca_payment_id r),
               cl_status_code = statusCode, cl_reference = ref\<rparr>)"

subsection \<open>Classifying an inquiry response\<close>

datatype inquiry_kind = InquiryRetry | InquiryBindIdentityAndRetry | InquiryCapture
  | InquiryTerminalPayment | InquiryRejectMismatch | InquiryRejectMalformed

type_synonym inquiry_decision = "inquiry_kind \<times> string"

definition validInquiryStatus :: "string \<Rightarrow> bool" where
  "validInquiryStatus s \<longleftrightarrow> s = PaymentStatusPending \<or> IsTerminal s"

text \<open>The amount and the currency may be absent; when present they must be the attempt's.
  The empty string is agreement.\<close>

definition optionalInquiryMoneyMismatch :: "payment_attempt \<Rightarrow> status_response \<Rightarrow> string" where
  "optionalInquiryMoneyMismatch a r =
    (if sr_amount r \<noteq> 0 \<and> sr_amount r \<noteq> pa_amount a then ''AMOUNT_MISMATCH''
     else if sr_currency r \<noteq> [] \<and> sr_currency r \<noteq> pa_currency a then ''CURRENCY_MISMATCH''
     else [])"

definition validEvidenceHash :: "string \<Rightarrow> bool" where
  "validEvidenceHash v \<longleftrightarrow>
     length v = 64 \<and> list_all is_hex_digit v \<and> v = map ascii_lower v"

definition malformed :: inquiry_decision where
  "malformed = (InquiryRejectMalformed, ''MALFORMED_RESPONSE'')"

definition reference_mismatch :: inquiry_decision where
  "reference_mismatch = (InquiryRejectMismatch, ''REFERENCE_MISMATCH'')"

definition decide_session :: "payment_attempt \<Rightarrow> status_response \<Rightarrow> inquiry_decision" where
  "decide_session a r =
    (if pa_session_id a = None \<or> Some (sr_session_id r) \<noteq> pa_session_id a then reference_mismatch
     else if sr_payment_id r \<noteq> [] then malformed
     else if pa_payment_req_id a \<noteq> None \<and> sr_payment_req_id r \<noteq> []
             \<and> pa_payment_req_id a \<noteq> Some (sr_payment_req_id r) then reference_mismatch
     else if optionalInquiryMoneyMismatch a r \<noteq> []
       then (InquiryRejectMismatch, optionalInquiryMoneyMismatch a r)
     else if sr_payment_req_id r \<noteq> [] \<and> pa_payment_req_id a = None
       then (InquiryBindIdentityAndRetry, [])
     else if sr_status r = PaymentStatusPending then (InquiryRetry, [])
     else if sr_status r = PaymentStatusExpired \<or> sr_status r = PaymentStatusCancelled
       then (InquiryTerminalPayment, [])
     else malformed)"

definition decide_payment :: "payment_attempt \<Rightarrow> status_response \<Rightarrow> inquiry_decision" where
  "decide_payment a r =
    (if pa_payment_req_id a = None \<or> Some (sr_payment_req_id r) \<noteq> pa_payment_req_id a
       then reference_mismatch
     else if sr_session_id r \<noteq> [] \<and> pa_session_id a \<noteq> None \<and> Some (sr_session_id r) \<noteq> pa_session_id a
       then reference_mismatch
     else if pa_payment_id a \<noteq> None \<and> Some (sr_payment_id r) \<noteq> pa_payment_id a then reference_mismatch
     else if optionalInquiryMoneyMismatch a r \<noteq> []
       then (InquiryRejectMismatch, optionalInquiryMoneyMismatch a r)
     else if sr_status r = PaymentStatusPending
       then (if sr_payment_id r \<noteq> [] \<and> pa_payment_id a = None then (InquiryBindIdentityAndRetry, [])
             else (InquiryRetry, []))
     else if sr_amount r \<noteq> pa_amount a then (InquiryRejectMismatch, ''AMOUNT_MISMATCH'')
     else if sr_currency r \<noteq> pa_currency a then (InquiryRejectMismatch, ''CURRENCY_MISMATCH'')
     else if sr_status r = PaymentStatusCaptured
       then (if sr_payment_id r = [] \<or> (case sr_captured_at r of None \<Rightarrow> True | Some t \<Rightarrow> is_zero t)
                \<or> \<not> validEvidenceHash (sr_payload_hash r) then malformed
             else (InquiryCapture, []))
     else (InquiryTerminalPayment, []))"

definition decideInquiryResponse :: "unicode_tables \<Rightarrow> payment_attempt \<Rightarrow> status_response
    \<Rightarrow> inquiry_decision" where
  "decideInquiryResponse U a r =
    (if \<not> scope_IsValid (sr_scope r) \<or> \<not> safeProviderStatusCode (sr_status_code r)
        \<or> \<not> validInquiryStatus (sr_status r) then malformed
     else if \<not> ValidProviderIdentity U (sr_session_id r) (sr_scope r = ScopeCheckoutSession)
        \<or> \<not> ValidProviderIdentity U (sr_payment_req_id r) (sr_scope r = ScopePayment)
        \<or> \<not> ValidProviderIdentity U (sr_payment_id r) False then malformed
     else if sr_scope r = ScopeCheckoutSession then decide_session a r else decide_payment a r)"

definition validateInquiryResponse :: "unicode_tables \<Rightarrow> payment_attempt \<Rightarrow> status_response \<Rightarrow> string" where
  "validateInquiryResponse U a r =
    (let (kind, reason) = decideInquiryResponse U a r
     in if kind = InquiryRetry \<or> kind = InquiryBindIdentityAndRetry then [] else reason)"

definition inquiryIdentityParamsWithStatus :: "payment_attempt \<Rightarrow> status_response \<Rightarrow> string
    \<Rightarrow> inquiry_identity_params" where
  "inquiryIdentityParamsWithStatus a r statusCode =
    \<lparr>ip_attempt_id = pa_id a, ip_provider = pa_provider a, ip_environment = pa_environment a,
     ip_scope = sr_scope r, ip_session_id = optionalString (sr_session_id r),
     ip_payment_req_id = optionalString (sr_payment_req_id r),
     ip_payment_id = optionalString (sr_payment_id r), ip_status_code = statusCode\<rparr>"

definition inquiryIdentityParams :: "payment_attempt \<Rightarrow> status_response \<Rightarrow> inquiry_identity_params" where
  "inquiryIdentityParams a r =
     inquiryIdentityParamsWithStatus a r (if sr_status_code r = [] then sr_status r else sr_status_code r)"

subsection \<open>Characterisations\<close>

lemma ascii_lower_hex: "is_hex_digit c \<and> c = ascii_lower c \<longleftrightarrow> is_lower_hex c"
proof (cases "is_upper c")
  case True
  then have u: "65 \<le> (of_char c :: nat)" "(of_char c :: nat) \<le> 90"
    by (simp_all add: is_upper_def less_eq_char_def)
  have "ascii_lower c \<noteq> c"
  proof
    assume "ascii_lower c = c"
    with True have "char_of (of_char c + 32 :: nat) = c" by (simp add: ascii_lower_def)
    then have "(of_char c + 32 :: nat) mod 256 = of_char c" by (metis of_char_of)
    with u show False by simp
  qed
  moreover have "\<not> is_lower_hex c"
    using u by (auto simp: is_lower_hex_def is_digit_def less_eq_char_def)
  ultimately show ?thesis by auto
next
  case False
  then show ?thesis
    by (auto simp: is_hex_digit_def ascii_lower_def is_upper_def less_eq_char_def)
qed

lemma evidence_hash: "validEvidenceHash v \<longleftrightarrow> isLowerSHA256 v"
proof -
  have "v = map ascii_lower v \<longleftrightarrow> list_all (\<lambda>c. c = ascii_lower c) v"
    by (simp add: list_all_iff) (metis map_idI map_eq_conv map_ident)
  then show ?thesis
    using ascii_lower_hex
    by (auto simp: validEvidenceHash_def isLowerSHA256_def list_all_iff)
qed

lemma classify_none: "classifyProviderIdentity U a = IdentityNone \<longleftrightarrow>
    pa_session_id a = None \<and> pa_payment_req_id a = None \<and> pa_payment_id a = None"
  by (auto simp: classifyProviderIdentity_def split: option.splits)

definition identity_known :: "identity_state \<Rightarrow> bool" where
  "identity_known st \<longleftrightarrow> st \<noteq> IdentityNone \<and> st \<noteq> IdentityInvalid"

lemma identity_known_iff: "identity_known (classifyProviderIdentity U a) \<longleftrightarrow>
    preferredProviderIdentity a \<noteq> [] \<and> \<not> (pa_payment_id a \<noteq> None \<and> pa_payment_req_id a = None)
    \<and> validOptionalProviderIdentity U (pa_session_id a)
    \<and> validOptionalProviderIdentity U (pa_payment_req_id a)
    \<and> validOptionalProviderIdentity U (pa_payment_id a)"
  by (auto simp: identity_known_def classifyProviderIdentity_def preferredProviderIdentity_def
      valueOrEmpty_def validOptionalProviderIdentity_def ValidProviderIdentity_def split: option.splits)

lemma provider_call:
  "xd_action (decideCommandExecution U c a now) = CallCreate \<longleftrightarrow>
      commandLeaseActive c now \<and> cm_type c = PAYMENT_CREATE
      \<and> pa_state a \<in> {AttemptCreated, AttemptPending} \<and> classifyProviderIdentity U a = IdentityNone"
  "xd_action (decideCommandExecution U c a now) = CallInquiry \<longleftrightarrow>
      commandLeaseActive c now \<and> cm_type c = PAYMENT_INQUIRY \<and> pa_state a = AttemptPending
      \<and> identity_known (classifyProviderIdentity U a)"
proof -
  define st where "st = classifyProviderIdentity U a"
  show "xd_action (decideCommandExecution U c a now) = CallCreate \<longleftrightarrow>
      commandLeaseActive c now \<and> cm_type c = PAYMENT_CREATE
      \<and> pa_state a \<in> {AttemptCreated, AttemptPending} \<and> classifyProviderIdentity U a = IdentityNone"
    and "xd_action (decideCommandExecution U c a now) = CallInquiry \<longleftrightarrow>
      commandLeaseActive c now \<and> cm_type c = PAYMENT_INQUIRY \<and> pa_state a = AttemptPending
      \<and> identity_known (classifyProviderIdentity U a)"
    unfolding decideCommandExecution_def Let_def st_def [symmetric]
    by (cases "pa_state a"; cases "cm_type c"; cases st;
        simp add: decision_def blocked_def isTerminalAttemptState_def identity_known_def)+
qed

text \<open>
  C21. Authorisation of provider calls. The worker calls the provider's create endpoint
  exactly for a create command under a live lease whose attempt is created or pending and
  has no provider identity at all, and its status endpoint exactly for an inquiry command
  under a live lease whose pending attempt has a provider identity, every stored identity
  valid and a payment never without its payment request.
\<close>

theorem provider_call_authorized:
  "(xd_action (decideCommandExecution U c a now) = CallCreate \<longleftrightarrow>
      commandLeaseActive c now \<and> cm_type c = PAYMENT_CREATE
      \<and> pa_state a \<in> {AttemptCreated, AttemptPending}
      \<and> pa_session_id a = None \<and> pa_payment_req_id a = None \<and> pa_payment_id a = None)
   \<and> (xd_action (decideCommandExecution U c a now) = CallInquiry \<longleftrightarrow>
      commandLeaseActive c now \<and> cm_type c = PAYMENT_INQUIRY \<and> pa_state a = AttemptPending
      \<and> preferredProviderIdentity a \<noteq> []
      \<and> \<not> (pa_payment_id a \<noteq> None \<and> pa_payment_req_id a = None)
      \<and> validOptionalProviderIdentity U (pa_session_id a)
      \<and> validOptionalProviderIdentity U (pa_payment_req_id a)
      \<and> validOptionalProviderIdentity U (pa_payment_id a))"
  by (simp add: provider_call classify_none identity_known_iff)

lemma capture_evidence:
  "fst (decideInquiryResponse U a r) = InquiryCapture \<longleftrightarrow>
     sr_scope r = ScopePayment \<and> sr_status r = PaymentStatusCaptured
     \<and> safeProviderStatusCode (sr_status_code r)
     \<and> pa_payment_req_id a = Some (sr_payment_req_id r)
     \<and> ValidProviderIdentity U (sr_payment_req_id r) True
     \<and> ValidProviderIdentity U (sr_payment_id r) True
     \<and> pa_payment_id a \<in> {None, Some (sr_payment_id r)}
     \<and> ValidProviderIdentity U (sr_session_id r) False
     \<and> (sr_session_id r = [] \<or> pa_session_id a \<in> {None, Some (sr_session_id r)})
     \<and> sr_amount r = pa_amount a \<and> sr_currency r = pa_currency a
     \<and> (\<exists>t. sr_captured_at r = Some t \<and> t \<noteq> 0) \<and> isLowerSHA256 (sr_payload_hash r)"
proof -
  let ?ok = "pa_payment_req_id a = Some (sr_payment_req_id r)
     \<and> pa_payment_id a \<in> {None, Some (sr_payment_id r)}
     \<and> (sr_session_id r = [] \<or> pa_session_id a \<in> {None, Some (sr_session_id r)})
     \<and> sr_amount r = pa_amount a \<and> sr_currency r = pa_currency a
     \<and> sr_status r = PaymentStatusCaptured \<and> sr_payment_id r \<noteq> []
     \<and> (\<exists>t. sr_captured_at r = Some t \<and> t \<noteq> 0) \<and> isLowerSHA256 (sr_payload_hash r)"
  have payment: "fst (decide_payment a r) = InquiryCapture \<longleftrightarrow> ?ok"
    by (auto simp: decide_payment_def optionalInquiryMoneyMismatch_def reference_mismatch_def
        malformed_def payment_status_defs evidence_hash is_zero_def split: option.splits if_splits)
  have session: "fst (decide_session a r) \<noteq> InquiryCapture"
    by (simp add: decide_session_def reference_mismatch_def malformed_def)
  have id: "ValidProviderIdentity U v True \<longleftrightarrow> ValidProviderIdentity U v False \<and> v \<noteq> []" for v
    by (auto simp: ValidProviderIdentity_def Valid_def)
  show ?thesis
    using session
    by (auto simp: decideInquiryResponse_def payment malformed_def id scope_IsValid_def
        ScopePayment_def ScopeCheckoutSession_def validInquiryStatus_def IsTerminal_def)
qed

text \<open>
  C22. Evidence for a capture. An inquiry response is taken as a capture exactly when it is
  a payment-scope answer with status CAPTURED, a safe status code and a capture time, whose
  payment request is the attempt's, whose payment and session are valid and contradict no
  stored identity, whose amount and currency are the attempt's, and whose evidence hash is
  a lower-case SHA-256 digest. A checkout-session answer never proves a capture.
\<close>

theorem capture_needs_evidence:
  "fst (decideInquiryResponse U a r) = InquiryCapture \<longleftrightarrow>
     sr_scope r = ScopePayment \<and> sr_status r = PaymentStatusCaptured
     \<and> safeProviderStatusCode (sr_status_code r)
     \<and> pa_payment_req_id a = Some (sr_payment_req_id r)
     \<and> ValidProviderIdentity U (sr_payment_req_id r) True
     \<and> ValidProviderIdentity U (sr_payment_id r) True
     \<and> pa_payment_id a \<in> {None, Some (sr_payment_id r)}
     \<and> ValidProviderIdentity U (sr_session_id r) False
     \<and> (sr_session_id r = [] \<or> pa_session_id a \<in> {None, Some (sr_session_id r)})
     \<and> sr_amount r = pa_amount a \<and> sr_currency r = pa_currency a
     \<and> (\<exists>t. sr_captured_at r = Some t \<and> t \<noteq> 0) \<and> isLowerSHA256 (sr_payload_hash r)"
  by (rule capture_evidence)

end
