(* ===== verification/Processor.thy ===== *)
theory Processor
  imports WorkerDecision
begin

text \<open>
  \<^verbatim>\<open>internal/paymentworker/processor.go\<close>: one leased command, processed. \<open>Process\<close> decides with
  \<^verbatim>\<open>decision.go\<close> whether the provider is called, calls it outside any transaction, and ends
  the lease in one transaction together with what the answer changes. A transaction that
  is rolled back so that another can finish the command is one whose error is a
  \<open>fallback\<close>. A nil dereference panics: it is the error \<open>ENilPointer\<close>, which rolls back.
\<close>

record processor =
  pr_adapter :: adapter
  pr_policy :: retry_policy
  pr_timeout :: duration

subsection \<open>Construction\<close>

text \<open>\<open>None\<close> stands for a nil dependency: \<open>deps\<close> says whether the pool, the repositories and
  the audit service are all there. A nil jitter is replaced, so is a policy of zeros.\<close>

record processor_options =
  po_policy :: retry_policy
  po_adapter_timeout :: duration

definition processor_policy :: "retry_policy \<Rightarrow> retry_policy option" where
  "processor_policy p =
    (if pol_initial p = 0 \<and> pol_max p = 0 then Some DefaultRetryPolicy
     else if pol_initial p \<le> 0 \<or> \<not> validateRetryDelay (pol_initial p)
             \<or> \<not> validateRetryDelay (pol_max p) \<or> pol_max p < pol_initial p then None
     else Some (case pol_jitter p of None \<Rightarrow> p\<lparr>pol_jitter := Some deterministicJitter\<rparr> | Some j \<Rightarrow> p))"

definition NewProcessor :: "bool \<Rightarrow> adapter option \<Rightarrow> processor_options \<Rightarrow> app_error + processor" where
  "NewProcessor deps ad opt =
    (case ad of None \<Rightarrow> Inl EUnavailable
     | Some A \<Rightarrow>
        if \<not> deps then Inl EUnavailable
        else case processor_policy (po_policy opt) of None \<Rightarrow> Inl (EOutbox ErrInvalidCommand)
        | Some policy \<Rightarrow>
           if po_adapter_timeout opt = 0
             then Inr \<lparr>pr_adapter = A, pr_policy = policy, pr_timeout = 10 * second\<rparr>
           else if po_adapter_timeout opt < 0 \<or> MaxLeaseDuration \<le> po_adapter_timeout opt
             then Inl (EOutbox ErrInvalidCommand)
           else Inr \<lparr>pr_adapter = A, pr_policy = policy, pr_timeout = po_adapter_timeout opt\<rparr>)"

definition CallTimeout :: "processor option \<Rightarrow> duration" where
  "CallTimeout p = (case p of None \<Rightarrow> 0 | Some p \<Rightarrow> pr_timeout p)"

subsection \<open>Ending the lease\<close>

text \<open>\<open>*command.LeaseOwner\<close> and \<open>*command.LeaseToken\<close> as arguments of a call.\<close>

definition with_lease :: "command \<Rightarrow> (string \<Rightarrow> string \<Rightarrow> 'a app) \<Rightarrow> 'a app" where
  "with_lease c k =
     andthen (deref ENilPointer (cm_lease_owner c)) (\<lambda>owner.
     andthen (deref ENilPointer (cm_lease_token c)) (\<lambda>token. k owner token))"

definition retry_delay :: "processor \<Rightarrow> command \<Rightarrow> duration \<Rightarrow> duration" where
  "retry_delay P c retryAfter = Delay (pr_policy P) (cm_idempotency_key c) (cm_attempt_count c) retryAfter"

definition mark_retryable :: "env \<Rightarrow> command \<Rightarrow> string \<Rightarrow> duration \<Rightarrow> command app" where
  "mark_retryable E c code delay =
     with_lease c (\<lambda>owner token. MarkRetryableTx E (cm_id c) owner token code delay)"

definition mark_succeeded :: "env \<Rightarrow> command \<Rightarrow> string \<Rightarrow> command app" where
  "mark_succeeded E c ref =
     with_lease c (\<lambda>owner token. MarkSucceededTx E (cm_id c) owner token ref)"

definition mark_terminal :: "env \<Rightarrow> command \<Rightarrow> string \<Rightarrow> command app" where
  "mark_terminal E c code =
     with_lease c (\<lambda>owner token. MarkTerminalTx E (cm_id c) owner token code)"

definition lockAttemptForFinalizationTx :: "env \<Rightarrow> command \<Rightarrow> payment_attempt app" where
  "lockAttemptForFinalizationTx E c =
     (case cm_attempt_id c of None \<Rightarrow> fail EMalformedCommand
      | Some i \<Rightarrow> LockAttemptForFinalizationTx E i)"

fun command_type_name :: "command_type \<Rightarrow> string" where
  "command_type_name PAYMENT_CREATE = ''PAYMENT_CREATE''"
| "command_type_name PAYMENT_INQUIRY = ''PAYMENT_INQUIRY''"
| "command_type_name REFUND_CREATE = ''REFUND_CREATE''"
| "command_type_name REFUND_INQUIRY = ''REFUND_INQUIRY''"

definition reconciliation_row :: "payment_attempt \<Rightarrow> string \<Rightarrow> audit_params" where
  "reconciliation_row a reason =
     payment_audit_row a ActionReconciliationException None ''SYSTEM'' (pa_local_reference a)
       [(''from_state'', MString (state_name (pa_state a))),
        (''to_state'', MString (state_name (pa_state a))),
        (''attempt_no'', MInt (pa_attempt_no a)), (''reason'', MString reason)]"

definition recordReconciliationForAttemptTx :: "env \<Rightarrow> payment_attempt \<Rightarrow> string \<Rightarrow> unit app" where
  "recordReconciliationForAttemptTx E a reason = audit_record E (reconciliation_row a reason)"

definition recordReconciliationTx :: "env \<Rightarrow> command \<Rightarrow> string \<Rightarrow> unit app" where
  "recordReconciliationTx E c reason =
     (case cm_attempt_id c of None \<Rightarrow> fail EMalformedCommand
      | Some i \<Rightarrow> andthen (GetAttemptTx E i) (\<lambda>a. recordReconciliationForAttemptTx E a reason))"

definition recordCommandAudit :: "env \<Rightarrow> payment_attempt \<Rightarrow> command_type \<Rightarrow> unit app" where
  "recordCommandAudit E a t =
     audit_record E (payment_audit_row a ActionPaymentCommandEnqueued None ''SYSTEM''
       (pa_local_reference a)
       [(''attempt_no'', MInt (pa_attempt_no a)), (''command_type'', MString (command_type_name t))])"

definition finishTerminalTx :: "env \<Rightarrow> command \<Rightarrow> string \<Rightarrow> string \<Rightarrow> unit app" where
  "finishTerminalTx E c code reason =
     andthen (mark_terminal E c code) (\<lambda>_. recordReconciliationTx E c reason)"

definition finishTerminal :: "env \<Rightarrow> command \<Rightarrow> string \<Rightarrow> string \<Rightarrow> unit app" where
  "finishTerminal E c code reason = in_tx E EDatabase (finishTerminalTx E c code reason)"

text \<open>The best provider identity of the attempt, or a local one when it is missing or
  not digestible; the latter is also reported for reconciliation.\<close>

definition noop_identity :: "payment_attempt \<Rightarrow> string" where
  "noop_identity a =
    (let p = valueOrEmpty (pa_payment_id a);
         q = (if p = [] then valueOrEmpty (pa_payment_req_id a) else p)
     in if q = [] then valueOrEmpty (pa_session_id a) else q)"

definition finishNoopTx :: "env \<Rightarrow> command \<Rightarrow> payment_attempt \<Rightarrow> unit app" where
  "finishNoopTx E c a =
    (let providerID = noop_identity a; U = go_unicode E in
     case DigestProviderReference U providerID of
       Inr ref \<Rightarrow>
        (if providerID \<noteq> [] then andthen (mark_succeeded E c ref) (\<lambda>_. ret ())
         else case DigestProviderReference U (''local:'' @ pa_id a) of
                Inl e \<Rightarrow> fail (EOutbox e)
              | Inr ref' \<Rightarrow> andthen (mark_succeeded E c ref') (\<lambda>_. ret ()))
     | Inl _ \<Rightarrow>
        (case DigestProviderReference U (''local:'' @ pa_id a) of
           Inl e \<Rightarrow> fail (EOutbox e)
         | Inr ref' \<Rightarrow> andthen (mark_succeeded E c ref') (\<lambda>_.
            if providerID \<noteq> [] then recordReconciliationForAttemptTx E a ''PROVIDER_CONTRACT_BLOCKED''
            else ret ())))"

definition finishNoop :: "env \<Rightarrow> command \<Rightarrow> payment_attempt \<Rightarrow> unit app" where
  "finishNoop E c a = in_tx E EDatabase (finishNoopTx E c a)"

definition missing_attempt_row :: "command \<Rightarrow> string \<Rightarrow> audit_params" where
  "missing_attempt_row c i =
    \<lparr>au_actor = None, au_role = ''SYSTEM'', au_action = ActionPaymentCommandInvariantViolation,
     au_entity_type = EntityPaymentAttempt, au_entity_id = Some i,
     au_correlation_id = Some (cm_idempotency_key c),
     au_metadata = [(''command_type'', MString (command_type_name (cm_type c))),
                    (''reason'', MString ''ATTEMPT_NOT_FOUND'')]\<rparr>"

definition finishMissingAttemptTerminal :: "env \<Rightarrow> command \<Rightarrow> string \<Rightarrow> unit app" where
  "finishMissingAttemptTerminal E c code =
    in_tx E EDatabase (andthen (mark_terminal E c code) (\<lambda>_.
      case cm_attempt_id c of None \<Rightarrow> fail EMalformedCommand
      | Some i \<Rightarrow> audit_record E (missing_attempt_row c i)))"

text \<open>The opening both kinds of retry share: the attempt under its lock; a terminal one is
  completed locally.\<close>

definition unless_terminal :: "env \<Rightarrow> command \<Rightarrow> unit app \<Rightarrow> unit app" where
  "unless_terminal E c k =
    andthen (lockAttemptForFinalizationTx E c) (\<lambda>current.
      if isTerminalAttemptState (pa_state current) then finishNoopTx E c current else k)"

definition finishRetryableWithDelay :: "env \<Rightarrow> command \<Rightarrow> string \<Rightarrow> duration \<Rightarrow> unit app" where
  "finishRetryableWithDelay E c code delay =
    in_tx E EDatabase (unless_terminal E c
      (andthen (mark_retryable E c code delay) (\<lambda>_. ret ())))"

definition finishRetryable :: "env \<Rightarrow> processor \<Rightarrow> command \<Rightarrow> string \<Rightarrow> unit app" where
  "finishRetryable E P c code = finishRetryableWithDelay E c code (retry_delay P c 0)"

definition finishMalformed :: "env \<Rightarrow> processor \<Rightarrow> command \<Rightarrow> string \<Rightarrow> unit app" where
  "finishMalformed E P c reason =
    in_tx E EDatabase (unless_terminal E c
      (andthen (mark_retryable E c ''MALFORMED_RESPONSE'' (retry_delay P c 0)) (\<lambda>done.
        if cm_state done = StateTerminal then recordReconciliationTx E c reason else ret ())))"

subsection \<open>Adapter errors\<close>

definition finish_timeout :: "env \<Rightarrow> processor \<Rightarrow> command \<Rightarrow> payment_attempt \<Rightarrow> adapter_error \<Rightarrow> unit app" where
  "finish_timeout E P c a err =
    in_tx E EDatabase (andthen (LockAttemptForFinalizationTx E (pa_id a)) (\<lambda>current.
      if isTerminalAttemptState (pa_state current) then finishNoopTx E c current
      else
      andthen (if pa_state current = AttemptCreated
               then andthen (TransitionStateTx E (pa_id a) AttemptCreated AttemptPending) (\<lambda>_. ret ())
               else if pa_state current \<noteq> AttemptPending then fail (EPayment ErrStateConflict)
               else ret ()) (\<lambda>_.
      andthen (mark_retryable E c (ae_code err) (retry_delay P c (ae_retry_after err))) (\<lambda>_. ret ()))))"

definition finishAdapterError :: "env \<Rightarrow> processor \<Rightarrow> command \<Rightarrow> payment_attempt \<Rightarrow> go_error \<Rightarrow> bool
    \<Rightarrow> unit app" where
  "finishAdapterError E P c a e create =
    (let err = NormalizeAdapterError e; code = ae_code err in
     if code \<in> {''RETRYABLE_TIMEOUT'', ''RETRYABLE_PROVIDER'', ''RATE_LIMITED'', ''MALFORMED_RESPONSE''}
     then
       if code = ''MALFORMED_RESPONSE'' then finishMalformed E P c ''PROVIDER_CONTRACT_BLOCKED''
       else if create \<and> code = ''RETRYABLE_TIMEOUT'' \<and> pa_state a = AttemptCreated
         then finish_timeout E P c a err
       else finishRetryableWithDelay E c code (retry_delay P c (ae_retry_after err))
     else finishTerminal E c code code)"

subsection \<open>Create commands\<close>

definition inquiry_enqueue :: "payment_attempt \<Rightarrow> enqueue_params" where
  "inquiry_enqueue a =
    \<lparr>ep_command_type = PAYMENT_INQUIRY, ep_aggregate_type = PAYMENT_ATTEMPT, ep_aggregate_id = pa_id a,
     ep_attempt_id = pa_id a, ep_idempotency_key = DeterministicInquiryKey (pa_id a),
     ep_request_hash = pa_request_hash a,
     ep_payload = \<lparr>pl_attempt_id = pa_id a, pl_amount = pa_amount a, pl_currency = pa_currency a,
       pl_requested_method = pa_requested_method a\<rparr>,
     ep_available_at = 0\<rparr>"

definition finishCreateSuccessTx :: "env \<Rightarrow> command \<Rightarrow> payment_attempt \<Rightarrow> string \<Rightarrow> unit app" where
  "finishCreateSuccessTx E c a providerReference =
    andthen (EnqueueTx E (inquiry_enqueue a)) (\<lambda>(_, replayed).
    andthen (if \<not> replayed then recordCommandAudit E a PAYMENT_INQUIRY else ret ()) (\<lambda>_.
    andthen (mark_succeeded E c providerReference) (\<lambda>_. ret ())))"

definition finishKnownCreateIdentity :: "env \<Rightarrow> command \<Rightarrow> unit app" where
  "finishKnownCreateIdentity E c =
    in_tx E EDatabase (andthen (lockAttemptForFinalizationTx E c) (\<lambda>current.
    andthen (read_clock E) (\<lambda>now.
    let dec = decideCommandExecution (go_unicode E) c current now in
    case xd_action dec of
      RejectLease \<Rightarrow> fail (EOutbox ErrLeaseConflict)
    | LocalNoop \<Rightarrow> finishNoopTx E c current
    | LocalTerminal \<Rightarrow> finishTerminalTx E c ''TERMINAL_PROVIDER'' (xd_reason dec)
    | LocalCreateRecovery \<Rightarrow>
        andthen (if pa_state current = AttemptCreated
                 then TransitionStateTx E (pa_id current) AttemptCreated AttemptPending
                 else ret current) (\<lambda>current.
        case DigestProviderReference (go_unicode E) (preferredProviderIdentity current) of
          Inl e \<Rightarrow> fail (EOutbox e)
        | Inr ref \<Rightarrow> finishCreateSuccessTx E c current ref)
    | _ \<Rightarrow> fail (EPayment ErrStateConflict))))"

text \<open>Why a transaction was rolled back: the error is returned, or the command is finished
  another way.\<close>

datatype fallback = Return app_error | AsMalformed | AsMismatch

definition fall_back :: "env \<Rightarrow> processor \<Rightarrow> command \<Rightarrow> fallback \<Rightarrow> unit app" where
  "fall_back E P c f =
    (case f of Return e \<Rightarrow> fail e
     | AsMalformed \<Rightarrow> finishMalformed E P c ''PROVIDER_CONTRACT_BLOCKED''
     | AsMismatch \<Rightarrow> finishTerminal E c ''REFERENCE_MISMATCH'' ''REFERENCE_MISMATCH'')"

definition create_error :: "app_error \<Rightarrow> fallback" where
  "create_error e =
    (if e = EPayment ErrInvalidCreateAttempt \<or> e = EPayment ErrInvalidCapture then AsMalformed
     else if e = EPayment ErrCaptureConflict then AsMismatch else Return e)"

definition capture_error :: "app_error \<Rightarrow> fallback" where
  "capture_error e =
    (if e = EPayment ErrCaptureConflict then AsMismatch
     else if e = EPayment ErrInvalidCapture then AsMalformed else Return e)"

definition identity_error :: "app_error \<Rightarrow> fallback" where
  "identity_error e =
    (if e = EPayment ErrCaptureConflict then AsMismatch
     else if e = EPayment ErrInvalidInquiryIdentity then AsMalformed else Return e)"

definition create_result_of :: "payment_attempt \<Rightarrow> create_response \<Rightarrow> create_result \<Rightarrow> create_result_params" where
  "create_result_of a r cl =
    \<lparr>rp_attempt_id = pa_id a, rp_provider = pa_provider a, rp_environment = pa_environment a,
     rp_session_id = cl_session_id cl, rp_payment_req_id = cl_payment_req_id cl,
     rp_payment_id = cl_payment_id cl, rp_status_code = cl_status_code cl,
     rp_checkout_url = optionalString (ca_checkout_url r),
     rp_expires_at = optionalTime (ca_expires_at r), rp_status = ca_status r,
     rp_amount = ca_amount r, rp_currency = ca_currency r\<rparr>"

definition create_request_of :: "command \<Rightarrow> payment_attempt \<Rightarrow> create_contract \<Rightarrow> create_request" where
  "create_request_of c a k =
    \<lparr>cq_attempt_id = pa_id a, cq_amount = pa_amount a, cq_currency = pa_currency a,
     cq_requested_method = pa_requested_method a, cq_integration_mode = pa_integration_mode a,
     cq_capture_method = pa_capture_method a, cq_local_reference = pa_local_reference a,
     cq_idempotency_key = cm_idempotency_key c, cq_request_hash = cm_request_hash c,
     cq_expires_at = cc_requested_expires_at k, cq_success_url = cc_success_url k,
     cq_cancel_url = cc_cancel_url k\<rparr>"

text \<open>The provider calls: outside any transaction, under a timeout whose expiry is one of the
  answers.\<close>

definition call_create :: "adapter \<Rightarrow> create_request \<Rightarrow> (go_error + create_response) app" where
  "call_create A q = (\<lambda>w. (Inr (ad_create A (steps w) q), w\<lparr>steps := Suc (steps w)\<rparr>))"

definition call_status :: "adapter \<Rightarrow> status_request \<Rightarrow> (go_error + status_response) app" where
  "call_status A q = (\<lambda>w. (Inr (ad_status A (steps w) q), w\<lparr>steps := Suc (steps w)\<rparr>))"

definition apply_create_answer :: "env \<Rightarrow> processor \<Rightarrow> command \<Rightarrow> payment_attempt \<Rightarrow> create_response
    \<Rightarrow> unit app" where
  "apply_create_answer E P c a r =
    (case classifyCreateResult (go_unicode E) a r of
       None \<Rightarrow> finishMalformed E P c ''PROVIDER_CONTRACT_BLOCKED''
     | Some cl \<Rightarrow>
        attempt (in_tx E (Return EDatabase)
          (andthen (map_err create_error (ApplyCreateProviderResultTx E (create_result_of a r cl)))
            (\<lambda>applied. map_err Return
              (if isTerminalAttemptState (pa_state applied) then finishNoopTx E c applied
               else finishCreateSuccessTx E c applied (cl_reference cl)))))
          (fall_back E P c) ret)"

text \<open>The guard both provider calls pass at the last moment.\<close>

definition still_leased :: "env \<Rightarrow> command \<Rightarrow> unit app" where
  "still_leased E c =
    andthen (read_clock E) (\<lambda>now.
    andthen (guard (commandLeaseActive c now) (EOutbox ErrLeaseConflict)) (\<lambda>_. ctx_check E EContext))"

definition processCreate :: "env \<Rightarrow> processor \<Rightarrow> command \<Rightarrow> command_payload \<Rightarrow> unit app" where
  "processCreate E P c payload =
    attempt (GetAttemptByID E (pl_attempt_id payload))
     (\<lambda>e. if e = EPayment ErrAttemptNotFound then finishMissingAttemptTerminal E c ''INVALID_REQUEST''
          else fail e)
     (\<lambda>a.
    if \<not> commandFactsMatch c a payload then finishTerminal E c ''REFERENCE_MISMATCH'' ''REFERENCE_MISMATCH''
    else
    andthen (read_clock E) (\<lambda>now.
    let dec = decideCommandExecution (go_unicode E) c a now in
    case xd_action dec of
      RejectLease \<Rightarrow> fail (EOutbox ErrLeaseConflict)
    | LocalNoop \<Rightarrow> finishNoop E c a
    | LocalCreateRecovery \<Rightarrow> finishKnownCreateIdentity E c
    | LocalTerminal \<Rightarrow> finishTerminal E c ''TERMINAL_PROVIDER'' (xd_reason dec)
    | CallCreate \<Rightarrow>
        attempt (GetCreateContractByAttemptID E (pa_id a))
         (\<lambda>e. if e = EPayment ErrAttemptNotFound
              then finishTerminal E c ''INVALID_REQUEST'' ''PROVIDER_CONTRACT_BLOCKED'' else fail e)
         (\<lambda>contract.
        andthen (still_leased E c) (\<lambda>_.
        andthen (call_create (pr_adapter P) (create_request_of c a contract)) (\<lambda>answer.
        case answer of Inl err \<Rightarrow> finishAdapterError E P c a err True
        | Inr r \<Rightarrow> apply_create_answer E P c a r)))
    | _ \<Rightarrow> fail (EOutbox ErrInvalidCommand)))"

subsection \<open>Inquiry commands\<close>

text \<open>A rejected identity hands back the current row: one that is terminal is completed
  locally, in the same transaction.\<close>

definition after_identity :: "env \<Rightarrow> command \<Rightarrow> inquiry_result \<Rightarrow> (fallback, dbs, unit) tx
    \<Rightarrow> (fallback, dbs, unit) tx" where
  "after_identity E c res k =
    (case res of
       Bound _ _ \<Rightarrow> k
     | Rejected current e \<Rightarrow>
        if e = ErrStateConflict \<and> isTerminalAttemptState (pa_state current)
          then map_err Return (finishNoopTx E c current)
        else fail (identity_error (EPayment e)))"

definition bindInquiryIdentityAndRetry :: "env \<Rightarrow> processor \<Rightarrow> command \<Rightarrow> payment_attempt
    \<Rightarrow> status_response \<Rightarrow> unit app" where
  "bindInquiryIdentityAndRetry E P c a r =
    attempt (in_tx E (Return EDatabase)
      (andthen (map_err identity_error (ApplyInquiryIdentityTx E (inquiryIdentityParams a r))) (\<lambda>res.
       after_identity E c res
         (andthen (map_err Return (mark_retryable E c ''RETRYABLE_PROVIDER'' (retry_delay P c 0)))
           (\<lambda>_. ret ())))))
      (fall_back E P c) ret"

definition inquiry_capture_params :: "command \<Rightarrow> payment_attempt \<Rightarrow> status_response \<Rightarrow> time \<Rightarrow> time
    \<Rightarrow> capture_params" where
  "inquiry_capture_params c a r capturedAt now =
    \<lparr>cp_attempt_id = pa_id a, cp_provider = pa_provider a, cp_environment = pa_environment a,
     cp_payment_id = sr_payment_id r, cp_payment_req_id = optionalString (sr_payment_req_id r),
     cp_amount = sr_amount r, cp_currency = sr_currency r, cp_captured_at = capturedAt,
     cp_observed_at = now, cp_authority = ''AUTHENTICATED_INQUIRY'',
     cp_source_reference = cm_idempotency_key c, cp_payload_hash = sr_payload_hash r\<rparr>"

text \<open>\<open>payments.AttemptState(response.Status)\<close> for the three statuses that end an attempt.\<close>

definition ended_state :: "string \<Rightarrow> attempt_state option" where
  "ended_state s =
    (if s = PaymentStatusFailed then Some AttemptFailed
     else if s = PaymentStatusExpired then Some AttemptExpired
     else if s = PaymentStatusCancelled then Some AttemptCancelled else None)"

definition apply_inquiry_status :: "env \<Rightarrow> command \<Rightarrow> payment_attempt \<Rightarrow> status_response
    \<Rightarrow> (fallback, dbs, unit) tx" where
  "apply_inquiry_status E c a r =
    (if sr_status r = PaymentStatusCaptured then
       andthen (map_err Return (deref ENilPointer (sr_captured_at r))) (\<lambda>capturedAt.
       andthen (read_clock E) (\<lambda>now.
       andthen (map_err capture_error
         (FinalizeGatewayCaptureTx E (inquiry_capture_params c a r capturedAt now))) (\<lambda>_. ret ())))
     else case ended_state (sr_status r) of
       Some st \<Rightarrow>
         attempt (TransitionStateTx E (pa_id a) AttemptPending st)
           (\<lambda>e. if e = EPayment ErrStateConflict then ret () else fail (capture_error e)) (\<lambda>_. ret ())
     | None \<Rightarrow> fail AsMalformed)"

definition finish_inquiry :: "env \<Rightarrow> processor \<Rightarrow> command \<Rightarrow> payment_attempt \<Rightarrow> status_response
    \<Rightarrow> unit app" where
  "finish_inquiry E P c a r =
    (let providerID =
       (if sr_payment_id r \<noteq> [] then sr_payment_id r
        else if sr_payment_req_id r \<noteq> [] then sr_payment_req_id r else valueOrEmpty (pa_session_id a))
     in case DigestProviderReference (go_unicode E) providerID of
       Inl e \<Rightarrow> finishMalformed E P c ''PROVIDER_CONTRACT_BLOCKED''
     | Inr ref \<Rightarrow>
       (let complete = andthen (apply_inquiry_status E c a r) (\<lambda>_.
              andthen (map_err Return (mark_succeeded E c ref)) (\<lambda>_. ret ()))
        in attempt (in_tx E (Return EDatabase)
             (if sr_scope r = ScopePayment \<and> sr_status r \<noteq> PaymentStatusCaptured
              then andthen (map_err identity_error (ApplyInquiryIdentityTx E (inquiryIdentityParams a r)))
                     (\<lambda>res. after_identity E c res complete)
              else complete))
             (fall_back E P c) ret))"

definition apply_inquiry_answer :: "env \<Rightarrow> processor \<Rightarrow> command \<Rightarrow> payment_attempt \<Rightarrow> status_response
    \<Rightarrow> unit app" where
  "apply_inquiry_answer E P c a r =
    (let (kind, reason) = decideInquiryResponse (go_unicode E) a r in
     case kind of
       InquiryRejectMalformed \<Rightarrow> finishMalformed E P c ''PROVIDER_CONTRACT_BLOCKED''
     | InquiryRejectMismatch \<Rightarrow> finishTerminal E c reason reason
     | InquiryBindIdentityAndRetry \<Rightarrow> bindInquiryIdentityAndRetry E P c a r
     | InquiryRetry \<Rightarrow> finishRetryable E P c ''RETRYABLE_PROVIDER''
     | _ \<Rightarrow>
        if sr_status r = PaymentStatusCaptured \<and> sr_captured_at r = None
          then finishMalformed E P c ''PROVIDER_CONTRACT_BLOCKED''
        else finish_inquiry E P c a r)"

definition status_request_of :: "command \<Rightarrow> payment_attempt \<Rightarrow> status_request" where
  "status_request_of c a =
    \<lparr>sq_attempt_id = pa_id a, sq_session_id = valueOrEmpty (pa_session_id a),
     sq_payment_req_id = valueOrEmpty (pa_payment_req_id a),
     sq_payment_id = valueOrEmpty (pa_payment_id a), sq_idempotency_key = cm_idempotency_key c\<rparr>"

definition processInquiry :: "env \<Rightarrow> processor \<Rightarrow> command \<Rightarrow> command_payload \<Rightarrow> unit app" where
  "processInquiry E P c payload =
    andthen (deref ENilPointer (cm_attempt_id c)) (\<lambda>i.
    attempt (GetAttemptByID E i)
     (\<lambda>e. if e = EPayment ErrAttemptNotFound then finishMissingAttemptTerminal E c ''INVALID_REQUEST''
          else fail e)
     (\<lambda>a.
    if \<not> commandFactsMatch c a payload then finishTerminal E c ''REFERENCE_MISMATCH'' ''REFERENCE_MISMATCH''
    else
    andthen (read_clock E) (\<lambda>now.
    let dec = decideCommandExecution (go_unicode E) c a now in
    case xd_action dec of
      RejectLease \<Rightarrow> fail (EOutbox ErrLeaseConflict)
    | LocalNoop \<Rightarrow> finishNoop E c a
    | LocalRetry \<Rightarrow> finishRetryable E P c ''RETRYABLE_PROVIDER''
    | LocalTerminal \<Rightarrow> finishTerminal E c ''TERMINAL_PROVIDER'' (xd_reason dec)
    | CallInquiry \<Rightarrow>
        andthen (still_leased E c) (\<lambda>_.
        andthen (call_status (pr_adapter P) (status_request_of c a)) (\<lambda>answer.
        case answer of Inl err \<Rightarrow> finishAdapterError E P c a err False
        | Inr r \<Rightarrow> apply_inquiry_answer E P c a r))
    | _ \<Rightarrow> fail (EOutbox ErrInvalidCommand))))"

definition Process :: "env \<Rightarrow> processor \<Rightarrow> command \<Rightarrow> unit app" where
  "Process E P c =
    andthen (ctx_check E EContext) (\<lambda>_.
    andthen (read_clock E) (\<lambda>now.
    if \<not> commandLeaseActive c now then fail (EOutbox ErrLeaseConflict)
    else case decodePayload (cm_payload c) of
      None \<Rightarrow> finishTerminal E c ''INVALID_REQUEST'' ''REFERENCE_MISMATCH''
    | Some payload \<Rightarrow>
       if cm_attempt_id c \<noteq> Some (pl_attempt_id payload) \<or> cm_aggregate_id c \<noteq> pl_attempt_id payload
         then finishTerminal E c ''INVALID_REQUEST'' ''REFERENCE_MISMATCH''
       else (case cm_type c of
         PAYMENT_CREATE \<Rightarrow> processCreate E P c payload
       | PAYMENT_INQUIRY \<Rightarrow> processInquiry E P c payload
       | _ \<Rightarrow> fail (EOutbox ErrInvalidCommand))))"

end
