(* ===== verification/ProcessorSafety.thy ===== *)
theory ProcessorSafety
  imports Processor OutboxProperties AttemptLifecycle
begin

text \<open>
  Safety of the worker. \<open>worker_relation\<close> is the interface the processor relies on: a
  relation between states of the database that every statement sequence of the two
  repositories and of the audit service respects when it commits. Any such relation is
  respected by \<open>Process\<close> as a whole, whatever the provider answers. The outbox's and the
  payment tables' invariants are two such relations.
\<close>

subsection \<open>Recovering inside a transaction\<close>

text \<open>An error handled without a rollback is harmless when it left the tables alone.\<close>

context table_order begin

lemma commits_recover:
  assumes m: "commits R m" and h: "\<And>e. commits R (h e)" and k: "\<And>x. commits R (k x)"
    and err: "\<And>w e w'. m w = (Inl e, w') \<Longrightarrow> db w' = db w \<or> (\<exists>f. h e = fail f)"
  shows "commits R (attempt m h k)"
proof (rule commitsI)
  fix w r w' assume "attempt m h k w = (r, w')"
  then show "R (base w) (base w')"
    using commits_base [OF m, of w] commits_base [OF k] commits_base [OF h] R_trans
    by (cases r) (fastforce simp: attempt_Inl attempt_Inr)+
next
  fix w x w' assume "attempt m h k w = (Inr x, w')"
  then consider e v where "m w = (Inl e, v)" "h e v = (Inr x, w')"
    | y v where "m w = (Inr y, v)" "k y v = (Inr x, w')" by (auto simp: attempt_Inr)
  then show "R (db w) (db w')"
  proof cases
    case 1
    then have "db v = db w" using err by fastforce
    then show ?thesis using commits_Inr [OF h 1(2)] by simp
  next
    case 2
    then show ?thesis using commits_Inr [OF m 2(1)] commits_Inr [OF k 2(2)] R_trans by blast
  qed
qed

end

text \<open>The relations between states of this database.\<close>

locale database_order = table_order R
  for R :: "dbs \<Rightarrow> dbs \<Rightarrow> bool"
begin

lemma commits_select_row: "commits R (select_attempt E aid)"
  unfolding select_attempt_def not_found_def by (rule guar_commits) (intro guar_intros)

lemma commits_GetAttemptTx: "commits R (GetAttemptTx E i)"
  unfolding GetAttemptTx_def by (auto split: option.split intro!: commits_fail commits_select_row)

end

lemma run_update_conflict:
  assumes "run_update E aid p f w = (Inl (EPayment ErrStateConflict), w')"
  shows "db w' = db w"
proof (cases "db_fault E (steps w)")
  case True
  then have "run_update E aid p f w = (Inl EDatabase, w\<lparr>steps := Suc (steps w)\<rparr>)"
    by (simp add: run_update_def andthen_def attempt_def map_err_def db_call_def Let_def fail_def
        mapPaymentRepositoryError_def)
  with assms show ?thesis by simp
next
  case False
  obtain r d where u: "update_attempt aid p (f (tx_now w)) (db w) = (r, d)" by fastforce
  then have same: "d = db w" if "\<nexists>a. r = Inr (Some a)"
    using that by (auto simp: update_attempt_def split: option.splits)
  have "\<nexists>a. r = Inr (Some a)"
    using assms False
    by (auto simp: run_update_def andthen_def attempt_def map_err_def db_call_def Let_def u
        not_found_def deref_def ret_def)
  then have "d = db w" by (rule same)
  moreover have "db w' = d"
    using assms False
    by (cases r) (auto simp: run_update_def andthen_def attempt_def map_err_def db_call_def Let_def u
        not_found_def deref_def ret_def fail_def split: option.splits)
  ultimately show ?thesis by simp
qed

lemma writeAudit_no_conflict:
  "writePaymentAudit E a from_s to_s False w \<noteq> (Inl (EPayment ErrStateConflict), w')"
  by (auto simp: writePaymentAudit_def writePaymentAuditWithActor_def audit_record_def Let_def
      andthen_Inl exec_def db_call_def split: if_splits)

lemma select_attempt_db: "select_attempt E aid w = (r, w') \<Longrightarrow> db w' = db w"
  by (auto simp: select_attempt_def query_def db_call_def Let_def andthen_def attempt_def not_found_def
      deref_def ret_def fail_def split: if_splits option.splits)

lemma transition_conflict:
  assumes "TransitionStateTx E i s t w = (Inl (EPayment ErrStateConflict), w')"
  shows "db w' = db w"
  using assms
  by (auto simp: TransitionStateTx_def andthen_Inl writeAudit_no_conflict
      dest!: run_update_conflict select_attempt_db split: if_splits option.splits)

subsection \<open>The interface\<close>

locale worker_relation = database_order R
  for R :: "dbs \<Rightarrow> dbs \<Rightarrow> bool" +
  assumes R_enqueue: "commits R (EnqueueTx E ep)"
    and R_retryable: "commits R (MarkRetryableTx E i owner token code delay)"
    and R_succeeded: "commits R (MarkSucceededTx E i owner token ref)"
    and R_terminal: "commits R (MarkTerminalTx E i owner token code)"
    and R_audit: "commits R (audit_record E row)"
    and R_create_result: "env_guar R E \<Longrightarrow> commits R (ApplyCreateProviderResultTx E cr)"
    and R_inquiry: "env_guar R E \<Longrightarrow> commits R (ApplyInquiryIdentityTx E ip)"
    and R_transition: "env_guar R E \<Longrightarrow> commits R (TransitionStateTx E i s t)"
    and R_finalize: "env_guar R E \<Longrightarrow> commits R (FinalizeGatewayCaptureTx E cp)"
begin

lemmas commits_intros = commits_ret commits_fail commits_andthen commits_map_err commits_if
  R_enqueue R_retryable R_succeeded R_terminal R_audit R_create_result R_inquiry R_transition
  R_finalize guar_commits [OF guar_deref] guar_commits [OF guar_read_clock]
  guar_commits [OF guar_query]

lemma commits_lock:
  assumes "env_guar R E"
  shows "commits R (LockAttemptForFinalizationTx E i)" and "commits R (lockAttemptForFinalizationTx E c)"
proof -
  show 1: "commits R (LockAttemptForFinalizationTx E i)" for i
    unfolding LockAttemptForFinalizationTx_def lock_attempt_def LockBooking_def
    by (auto split: option.split intro!: commits_intros commits_select_row
        guar_commits [OF guar_lock_wait [OF assms]])
  show "commits R (lockAttemptForFinalizationTx E c)"
    unfolding lockAttemptForFinalizationTx_def by (auto split: option.split intro!: commits_fail 1)
qed

lemma commits_marks: "commits R (mark_retryable E c code delay)" "commits R (mark_succeeded E c ref)"
  "commits R (mark_terminal E c code)"
  unfolding mark_retryable_def mark_succeeded_def mark_terminal_def with_lease_def
  by (intro commits_intros)+

lemma commits_reconciliation: "commits R (recordReconciliationForAttemptTx E a reason)"
  "commits R (recordReconciliationTx E c reason)" "commits R (recordCommandAudit E a t)"
  unfolding recordReconciliationTx_def recordReconciliationForAttemptTx_def recordCommandAudit_def
  by (auto split: option.split intro!: commits_intros commits_GetAttemptTx)

lemma commits_finishTerminalTx: "commits R (finishTerminalTx E c code reason)"
  unfolding finishTerminalTx_def by (intro commits_andthen commits_marks commits_reconciliation)

lemma commits_finishNoopTx: "commits R (finishNoopTx E c a)"
  unfolding finishNoopTx_def Let_def
  by (auto split: sum.split intro!: commits_intros commits_marks commits_reconciliation)

lemma commits_unless_terminal:
  "env_guar R E \<Longrightarrow> commits R k \<Longrightarrow> commits R (unless_terminal E c k)"
  unfolding unless_terminal_def by (intro commits_intros commits_lock commits_finishNoopTx)

lemma commits_finishCreateSuccessTx: "commits R (finishCreateSuccessTx E c a ref)"
  unfolding finishCreateSuccessTx_def
  by (auto split: prod.split intro!: commits_intros commits_marks commits_reconciliation)

lemma top_finishers:
  assumes E: "env_guar R E"
  shows "top_guar R (finishTerminal E c code reason)" and "top_guar R (finishNoop E c a)"
    and "top_guar R (finishMissingAttemptTerminal E c code)"
    and "top_guar R (finishRetryableWithDelay E c code delay)"
    and "top_guar R (finishMalformed E P c reason)" and "top_guar R (finish_timeout E P c a err)"
  unfolding finishTerminal_def finishNoop_def finishMissingAttemptTerminal_def
    finishRetryableWithDelay_def finishMalformed_def finish_timeout_def
  by (auto split: option.split intro!: top_in_tx_commits E commits_finishTerminalTx
      commits_finishNoopTx commits_intros commits_marks commits_unless_terminal commits_lock
      commits_reconciliation)

lemma top_finishAdapterError: "env_guar R E \<Longrightarrow> top_guar R (finishAdapterError E P c a e create)"
  unfolding finishAdapterError_def Let_def by (intro top_if top_finishers)

lemma top_fall_back: "env_guar R E \<Longrightarrow> top_guar R (fall_back E P c f)"
  unfolding fall_back_def by (auto split: fallback.split intro!: top_fail top_finishers)

lemma top_finishKnownCreateIdentity: "env_guar R E \<Longrightarrow> top_guar R (finishKnownCreateIdentity E c)"
  unfolding finishKnownCreateIdentity_def Let_def
  by (intro top_in_tx_commits commits_andthen commits_lock guar_commits [OF guar_read_clock])
     (auto split: execution_action.split sum.split intro!: commits_intros commits_finishNoopTx
       commits_finishTerminalTx commits_finishCreateSuccessTx)

lemma top_apply_create_answer: "env_guar R E \<Longrightarrow> top_guar R (apply_create_answer E P c a r)"
  unfolding apply_create_answer_def
  by (auto split: option.split intro!: top_attempt top_ret top_fall_back top_in_tx_commits
      top_finishers commits_intros commits_finishNoopTx commits_finishCreateSuccessTx)

lemma commits_after_identity: "commits R k \<Longrightarrow> commits R (after_identity E c res k)"
  unfolding after_identity_def
  by (auto split: inquiry_result.split intro!: commits_intros commits_finishNoopTx)

lemma top_bindInquiry: "env_guar R E \<Longrightarrow> top_guar R (bindInquiryIdentityAndRetry E P c a r)"
  unfolding bindInquiryIdentityAndRetry_def
  by (intro top_attempt top_ret top_fall_back top_in_tx_commits commits_intros
      commits_after_identity commits_marks)

lemma commits_apply_inquiry_status:
  assumes E: "env_guar R E"
  shows "commits R (apply_inquiry_status E c a r)"
proof -
  let ?h = "\<lambda>e. if e = EPayment ErrStateConflict then ret () else fail (capture_error e)"
  have "commits R (attempt (TransitionStateTx E (pa_id a) AttemptPending st) ?h (\<lambda>_. ret ()))" for st
    by (rule commits_recover)
       (use transition_conflict in \<open>auto intro!: commits_intros E\<close>)
  then show ?thesis
    unfolding apply_inquiry_status_def
    by (auto split: option.split intro!: commits_intros E)
qed

lemma top_finish_inquiry: "env_guar R E \<Longrightarrow> top_guar R (finish_inquiry E P c a r)"
  unfolding finish_inquiry_def Let_def
  by (auto split: sum.split intro!: top_attempt top_ret top_fall_back top_in_tx_commits
      top_finishers commits_intros commits_after_identity commits_apply_inquiry_status commits_marks)

lemma top_apply_inquiry_answer: "env_guar R E \<Longrightarrow> top_guar R (apply_inquiry_answer E P c a r)"
  unfolding apply_inquiry_answer_def Let_def finishRetryable_def
  by (auto split: prod.split inquiry_kind.split intro!: top_finishers top_bindInquiry top_finish_inquiry)

lemma top_calls: "top_guar R (call_create A q)" "top_guar R (call_status A q')"
  by (simp_all add: top_guar_def call_create_def call_status_def R_refl)

lemma top_still_leased: "top_guar R (still_leased E c)"
  unfolding still_leased_def by (intro top_intros)

lemma top_reads:
  assumes "env_guar R E"
  shows "top_guar R (GetAttemptByID E i)" and "top_guar R (GetCreateContractByAttemptID E i)"
  unfolding GetAttemptByID_def GetCreateContractByAttemptID_def not_found_def
  by (auto split: option.split intro!: top_intros assms)

lemma top_processCreate: "env_guar R E \<Longrightarrow> top_guar R (processCreate E P c payload)"
  unfolding processCreate_def Let_def
  by (intro top_attempt top_reads top_if top_finishers top_fail top_andthen top_read_clock)
     (auto split: execution_action.split sum.split intro!: top_attempt top_reads top_finishers top_fail
       top_andthen top_still_leased top_calls top_finishAdapterError top_apply_create_answer
       top_finishKnownCreateIdentity)

lemma top_processInquiry: "env_guar R E \<Longrightarrow> top_guar R (processInquiry E P c payload)"
  unfolding processInquiry_def Let_def
  by (intro top_attempt top_reads top_if top_finishers top_fail top_andthen top_read_clock top_deref)
     (auto split: execution_action.split sum.split simp: finishRetryable_def
       intro!: top_finishers top_fail top_andthen top_still_leased top_calls
       top_finishAdapterError top_apply_inquiry_answer)

lemma top_Process: "env_guar R E \<Longrightarrow> top_guar R (Process E P c)"
  unfolding Process_def
  by (intro top_andthen top_ctx_check top_read_clock top_if top_fail)
     (auto split: option.split command_type.split intro!: top_if top_finishers top_fail
       top_processCreate top_processInquiry)

end

subsection \<open>The payment tables\<close>

interpretation payments: database_order payments_safe
  by unfold_locales

interpretation payments: outbox_relation payments_safe
proof unfold_locales
  show "validateLeaseOwner owner \<Longrightarrow> payments_safe d (snd (claim_update owner token us stmt types cid now d))"
    for owner d token us stmt types cid now
    by (rule R_claim_cases) (auto intro!: payments_same)
qed (auto intro!: payments_same)

interpretation payments: worker_relation payments_safe
  by unfold_locales
    (rule guar_commits [OF payments.guar_EnqueueTx] guar_commits [OF payments.guar_MarkRetryableTx]
      guar_commits [OF payments.guar_MarkSucceededTx] guar_commits [OF payments.guar_MarkTerminalTx]
      guar_commits [OF guar_payments_audit]
      commits_ApplyCreateProviderResultTx commits_ApplyInquiryIdentityTx
      commits_TransitionStateTx commits_FinalizeGatewayCaptureTx; assumption?)+

subsection \<open>The outbox\<close>

text \<open>The payment repository never writes the outbox tables or the webhook inbox.\<close>

locale other_tables = table_order R
  for R :: "dbs \<Rightarrow> dbs \<Rightarrow> bool" +
  assumes R_same: "commands d' = commands d \<Longrightarrow> cancellations d' = cancellations d
    \<Longrightarrow> webhook_events d' = webhook_events d \<Longrightarrow> R d d'"
begin

lemma guar_audit: "guar R (audit_record E p)"
  unfolding audit_record_def by (intro guar_if guar_fail guar_exec) (simp add: R_same)

lemma guar_writeAudit: "guar R (writePaymentAudit E a s t late)"
  unfolding writePaymentAudit_def writePaymentAuditWithActor_def Let_def
  by (intro guar_intros guar_audit)

lemma guar_select: "guar R (select_attempt E aid)"
  unfolding select_attempt_def not_found_def by (intro guar_intros)

lemma guar_lock: "env_guar R E \<Longrightarrow> guar R (lock_attempt E aid)"
  unfolding lock_attempt_def LockBooking_def by (intro guar_intros guar_select)

lemma guar_run_update: "guar R (run_update E aid p f)"
  unfolding run_update_def not_found_def
  by (intro guar_intros guar_db_call)
     (auto simp: update_attempt_def R_refl split: option.split intro!: R_same)

lemmas steps = guar_intros guar_select guar_lock guar_run_update guar_writeAudit guar_audit

lemma guar_create_result: "env_guar R E \<Longrightarrow> guar R (ApplyCreateProviderResultTx E cr)"
  unfolding ApplyCreateProviderResultTx_def by (auto split: option.split intro!: steps)

lemma guar_inquiry: "env_guar R E \<Longrightarrow> guar R (ApplyInquiryIdentityTx E ip)"
  unfolding ApplyInquiryIdentityTx_def Let_def by (auto split: option.split intro!: steps)

lemma guar_transition: "env_guar R E \<Longrightarrow> guar R (TransitionStateTx E i s t)"
  unfolding TransitionStateTx_def by (auto split: option.split intro!: steps)

lemma guar_store_capture: "guar R (store_capture E aid p a late)"
  unfolding store_capture_def
  by (intro steps guar_db_call)
     (auto simp: insert_capture_fact_def R_refl split: option.split intro!: R_same)

lemma guar_decide_capture: "guar R (decide_capture E aid p a bs found)"
  unfolding decide_capture_def Let_def
  by (auto split: list.split attempt_state.split intro!: guar_intros guar_store_capture)

lemma guar_RecordCaptureTx: "env_guar R E \<Longrightarrow> guar R (RecordCaptureTx E p)"
  unfolding RecordCaptureTx_def Let_def LockBooking_def not_found_def
  by (auto split: option.split intro!: steps guar_decide_capture)

lemma guar_finalize: "env_guar R E \<Longrightarrow> guar R (FinalizeGatewayCaptureTx E p)"
  unfolding FinalizeGatewayCaptureTx_def not_found_def
  by (intro guar_intros guar_RecordCaptureTx guar_db_call)
     (auto simp: pay_booking_def booking_update_def R_refl split: option.split list.split intro!: R_same)

end

interpretation outbox_safety: other_tables outbox_safe
  by unfold_locales
    (simp add: outbox_safe_def outbox_order_commands outbox_wf_commands tombstones_same)

interpretation outbox_safety: worker_relation outbox_safe
  by unfold_locales
    (rule guar_commits, rule outbox_safety.guar_EnqueueTx outbox_safety.guar_MarkRetryableTx
      outbox_safety.guar_MarkSucceededTx outbox_safety.guar_MarkTerminalTx outbox_safety.guar_audit
      outbox_safety.guar_create_result outbox_safety.guar_inquiry outbox_safety.guar_transition
      outbox_safety.guar_finalize; assumption?)+

end
