(* ===== verification/WorkerScenario.thy ===== *)
theory WorkerScenario
  imports Processor CaptureScenario OutboxProperties
begin

text \<open>
  The scenario's create command, claimed by a worker, and its runs through the processor.
\<close>

definition sample_claimed :: command where
  "sample_claimed = lease_command sample_owner (uid CHR ''4'') 60000000 (990 * second) sample_command"

lemma sample_claimed_simps [scenario]:
  "cm_id sample_claimed = uid CHR ''3''" "cm_type sample_claimed = PAYMENT_CREATE"
  "cm_aggregate_id sample_claimed = uid CHR ''2''"
  "cm_attempt_id sample_claimed = Some (uid CHR ''2'')"
  "cm_idempotency_key sample_claimed = ''payment:create:'' @ uid CHR ''1'' @ '':1''"
  "cm_request_hash sample_claimed = sample_hash" "cm_payload sample_claimed = sample_payload"
  "cm_state sample_claimed = StateLeased" "cm_lease_owner sample_claimed = Some sample_owner"
  "cm_lease_token sample_claimed = Some (uid CHR ''4'')"
  "cm_lease_expires_at sample_claimed = Some (1050 * second)"
  "cm_malformed_count sample_claimed = 0"
  by (simp_all add: sample_claimed_def lease_command_def sample_command_def new_command_def sample_params_def)

lemma sample_claimed_key [scenario]: "DeterministicCreateKey (uid CHR ''1'') 1 = cm_idempotency_key sample_claimed"
proof -
  have "format_int 1 = ''1''" by code_simp
  then show ?thesis by (simp add: DeterministicCreateKey_def deterministicIdempotencyKey_def scenario)
qed

lemma sample_payload_simps [scenario]:
  "pl_attempt_id sample_payload = uid CHR ''2''" "pl_amount sample_payload = 150000"
  "pl_currency sample_payload = ''IDR''" "pl_requested_method sample_payload = ''QRIS''"
  by (simp_all add: sample_payload_def)

lemma sample_active [scenario]: "t < 1050 * second \<Longrightarrow> commandLeaseActive sample_claimed t"
  by (simp add: commandLeaseActive_def scenario)

lemma sample_payload_decoded [scenario]: "decodePayload sample_payload = Some sample_payload"
  by (simp add: decodePayload_def scenario)

definition sample_db_work :: "payment_attempt \<Rightarrow> dbs" where
  "sample_db_work a = sample_db\<lparr>attempts := [a], commands := [sample_claimed]\<rparr>"

lemma sample_db_work_simps [scenario]:
  "attempts (sample_db_work a) = [a]" "commands (sample_db_work a) = [sample_claimed]"
  by (simp_all add: sample_db_work_def)

lemma sample_captured_simps [scenario]:
  "pa_state sample_captured = AttemptCaptured" "pa_id sample_captured = uid CHR ''2''"
  "pa_payment_id sample_captured = Some (uid CHR ''7'')" "pa_request_hash sample_captured = sample_hash"
  "pa_amount sample_captured = 150000" "pa_currency sample_captured = ''IDR''"
  "pa_requested_method sample_captured = ''QRIS''" "pa_booking_id sample_captured = uid CHR ''1''"
  "pa_attempt_no sample_captured = 1"
  by (simp_all add: sample_captured_def set_captured_def sample_capture_def sample_pending_def
      sample_attempt_def)

lemma sample_owner_args [scenario]: "validateLeaseToken quiet_env (uid CHR ''4'')"
  by (simp add: validateLeaseToken_def scenario hex_class_def)

lemma finish_sample:
  assumes "commands (db w) = [sample_claimed]" and "tx_now w < 1050 * second"
  shows "finishLeaseTx quiet_env (uid CHR ''3'') sample_owner (uid CHR ''4'') f w
    = (Inr (f (tx_now w) sample_claimed),
       w\<lparr>steps := Suc (steps w), db := (db w)\<lparr>commands := [f (tx_now w) sample_claimed]\<rparr>\<rparr>)"
  using assms
  by (simp add: finishLeaseTx_def scenario hex_class_def db_call_def Let_def sql_returning_def
      holds_lease_def sql_update_def)

lemma succeed_sample:
  assumes "commands (db w) = [sample_claimed]" and "tx_now w < 1050 * second"
    and "validateProviderReference ref"
  shows "mark_succeeded quiet_env sample_claimed ref w
    = (Inr (set_succeeded ref (tx_now w) sample_claimed),
       w\<lparr>steps := Suc (steps w), db := (db w)\<lparr>commands := [set_succeeded ref (tx_now w) sample_claimed]\<rparr>\<rparr>)"
  using finish_sample [OF assms(1,2)] assms(3)
  by (simp add: mark_succeeded_def with_lease_def MarkSucceededTx_def scenario deref_def)

lemma sample_noop_run:
  "\<exists>w'. Process quiet_env P sample_claimed (start_world (sample_db_work sample_captured)) = (Inr (), w')"
proof -
  obtain ref where ref: "DigestProviderReference (go_unicode quiet_env) (uid CHR ''7'') = Inr ref"
    by (simp add: DigestProviderReference_def canonical_uuid_Valid scenario hex_class_def)
  note ref_ok = digest_is_valid_reference [OF ref]
  have facts: "commandFactsMatch sample_claimed sample_captured sample_payload"
    by (simp add: commandFactsMatch_def scenario del: append_Cons)
  show ?thesis
    by (simp add: Process_def andthen_def attempt_def ctx_check_def scenario fail_def
        processCreate_def GetAttemptByID_def hex_class_def pool_query_def Let_def query_row_def
        not_found_def deref_def ret_def facts decideCommandExecution_def isTerminalAttemptState_def
        decision_def finishNoop_def in_tx_def finishNoopTx_def noop_identity_def valueOrEmpty_def ref
        ref_ok succeed_sample)
qed

end
