(* ===== verification/ProcessorProperties.thy ===== *)
theory ProcessorProperties
  imports ProcessorSafety WorkerScenario
begin

text \<open>
  The properties of \<open>Process\<close>: safety, that a successful run has ended the lease it was
  given, when the provider cannot have been called, the evidence a capture is recorded on,
  and the adapter errors that can never be recorded.
\<close>

subsection \<open>Safety\<close>

text \<open>
  C16. Safety of the worker. Whatever the provider answers, whatever fails and whatever
  other sessions that respect the same rules do meanwhile, processing a command keeps the
  invariants of the outbox (no command lost, identities fixed, finished commands
  untouched, tombstones respected) and of the payment tables (attempts only move along the
  state machine, identities are bound once, captures are permanent and one to one with
  captured attempts, a paid gateway booking has its captured attempt), and leaves no
  transaction open.
\<close>

theorem process_safe:
  assumes "env_guar outbox_safe E" and "env_guar payments_safe E"
  shows "top_guar outbox_safe (Process E P c) \<and> top_guar payments_safe (Process E P c)"
  using assms outbox_safety.top_Process payments.top_Process by blast

theorem process_safe_witness:
  "\<forall>P. top_guar outbox_safe (Process quiet_env P sample_claimed)
    \<and> top_guar payments_safe (Process quiet_env P sample_claimed)"
  using process_safe [OF quiet_env_guar quiet_env_safe] by blast

subsection \<open>A successful run ends the lease\<close>

definition yields :: "(dbs \<Rightarrow> bool) \<Rightarrow> ('e, dbs, 'a) tx \<Rightarrow> bool" where
  "yields Q m \<longleftrightarrow> (\<forall>w x w'. m w = (Inr x, w') \<longrightarrow> Q (db w'))"

lemma yields_fail: "yields Q (fail e)"
  by (simp add: yields_def)

lemma yields_andthen: "(\<And>x. yields Q (k x)) \<Longrightarrow> yields Q (andthen m k)"
  by (auto simp: yields_def andthen_Inr)

lemma yields_attempt: "(\<And>e. yields Q (h e)) \<Longrightarrow> (\<And>x. yields Q (k x)) \<Longrightarrow> yields Q (attempt m h k)"
  by (fastforce simp: yields_def attempt_Inr)

lemma yields_attempt_ret: "yields Q m \<Longrightarrow> (\<And>e. yields Q (h e)) \<Longrightarrow> yields Q (attempt m h ret)"
  by (fastforce simp: yields_def attempt_Inr)

lemma yields_map_err: "yields Q m \<Longrightarrow> yields Q (map_err g m)"
  unfolding map_err_def by (intro yields_attempt_ret yields_fail)

lemma yields_in_tx: "yields Q m \<Longrightarrow> yields Q (in_tx E flt m)"
  by (fastforce simp: yields_def in_tx_Inr)

lemma yields_if: "yields Q m \<Longrightarrow> yields Q m' \<Longrightarrow> yields Q (if b then m else m')"
  by simp

text \<open>\<open>m\<close> reaches \<open>Q\<close> and what follows does not touch the commands.\<close>

definition same_commands :: "dbs \<Rightarrow> dbs \<Rightarrow> bool" where
  "same_commands d d' \<longleftrightarrow> commands d' = commands d"

interpretation same: other_tables same_commands
  by unfold_locales (simp_all add: same_commands_def)

lemma same_GetAttemptTx: "guar same_commands (GetAttemptTx E i)"
  unfolding GetAttemptTx_def by (auto split: option.split intro!: same.guar_fail same.guar_select)

lemma same_reconciliation: "guar same_commands (recordReconciliationForAttemptTx E a reason)"
  "guar same_commands (recordReconciliationTx E c reason)"
  unfolding recordReconciliationTx_def recordReconciliationForAttemptTx_def
  by (auto split: option.split intro!: same.guar_fail same.guar_andthen same_GetAttemptTx same.guar_audit)

lemma yields_then:
  assumes m: "yields Q m" and k: "\<And>x. guar same_commands (k x)"
    and Q: "\<And>d d'. same_commands d d' \<Longrightarrow> Q d \<Longrightarrow> Q d'"
  shows "yields Q (andthen m k)"
  unfolding yields_def andthen_Inr
proof (intro allI impI, elim exE conjE)
  fix w x w' y v assume "m w = (Inr y, v)" "k y v = (Inr x, w')"
  then show "Q (db w')" using m guar_db [OF k] Q by (fastforce simp: yields_def)
qed

text \<open>The row a live lease was ended on: \<open>c0\<close> was held with the command's own owner and token
  at the time of the statement, and what the row holds now is the result.\<close>

definition lease_ended :: "env \<Rightarrow> command \<Rightarrow> dbs \<Rightarrow> bool" where
  "lease_ended E c d \<longleftrightarrow>
     (\<exists>cid owner token now c0 f. uuid_parse E (cm_id c) = Some cid \<and> cm_lease_owner c = Some owner
        \<and> cm_lease_token c = Some token \<and> holds_lease cid owner token now c0
        \<and> finish_clause f \<and> f now c0 \<in> set (commands d))"

lemma lease_ended_same: "same_commands d d' \<Longrightarrow> lease_ended E c d \<Longrightarrow> lease_ended E c d'"
  by (auto simp: lease_ended_def same_commands_def)

lemma finishLeaseTx_ended:
  assumes "finishLeaseTx E (cm_id c) owner token f w = (Inr x, w')" and "finish_clause f"
    and "cm_lease_owner c = Some owner" "cm_lease_token c = Some token"
  shows "lease_ended E c (db w')"
proof -
  from assms(1) obtain cid where cid: "uuid_parse E (cm_id c) = Some cid"
    by (auto simp: finishLeaseTx_def split: option.splits)
  let ?p = "holds_lease cid owner token (tx_now w)" and ?t = "commands (db w)"
  have "filter ?p ?t \<noteq> []" and w': "commands (db w') = sql_update ?p (f (tx_now w)) ?t"
    using assms(1) cid
    by (auto simp: finishLeaseTx_def db_call_Inr sql_returning_def split: list.splits)
  then obtain c0 where "c0 \<in> set ?t" "?p c0" by (auto simp: filter_empty_conv)
  moreover from this have "f (tx_now w) c0 \<in> set (commands (db w'))"
    unfolding w' set_sql_update by (auto intro!: image_eqI [of _ _ c0])
  ultimately show ?thesis using assms(2-4) cid by (auto simp: lease_ended_def)
qed

lemma yields_marks:
  "yields (lease_ended E c) (mark_retryable E c code delay)"
  "yields (lease_ended E c) (mark_succeeded E c ref)"
  "yields (lease_ended E c) (mark_terminal E c code')"
  unfolding mark_retryable_def mark_succeeded_def mark_terminal_def with_lease_def yields_def
    MarkRetryableTx_def MarkSucceededTx_def MarkTerminalTx_def
  by (auto simp: andthen_Inr deref_Inr split: if_splits
      intro!: finishLeaseTx_ended finish_clause_intros)

lemma ended_then:
  assumes "yields (lease_ended E c) m" and "\<And>x. guar same_commands (k x)"
  shows "yields (lease_ended E c) (andthen m k)"
  using assms lease_ended_same by (rule yields_then)

lemmas ends = yields_fail yields_map_err yields_if ended_then [OF yields_marks(1)]
  ended_then [OF yields_marks(2)] ended_then [OF yields_marks(3)]
  same_reconciliation same.guar_ret same.guar_fail same.guar_if same.guar_audit

lemma ends_marked: "yields (lease_ended E c) (andthen (mark_succeeded E c ref) (\<lambda>_. ret x))"
  "yields (lease_ended E c) (andthen (mark_retryable E c code delay) (\<lambda>_. ret x))"
  by (intro ends)+

lemma same_missing: "guar same_commands (case cm_attempt_id c of None \<Rightarrow> fail EMalformedCommand
    | Some i \<Rightarrow> audit_record E (missing_attempt_row c i))"
  by (auto split: option.split intro!: same.guar_fail same.guar_audit)

lemma ends_finishTerminalTx: "yields (lease_ended E c) (finishTerminalTx E c code reason)"
  unfolding finishTerminalTx_def by (intro ends)

lemma ends_finishNoopTx: "yields (lease_ended E c) (finishNoopTx E c a)"
  unfolding finishNoopTx_def Let_def by (auto split: sum.split intro!: ends)

lemma ends_unless_terminal:
  "yields (lease_ended E c) k \<Longrightarrow> yields (lease_ended E c) (unless_terminal E c k)"
  unfolding unless_terminal_def by (intro yields_andthen yields_if ends_finishNoopTx)

lemma ends_finishCreateSuccessTx: "yields (lease_ended E c) (finishCreateSuccessTx E c a ref)"
  unfolding finishCreateSuccessTx_def
  unfolding split_beta by (intro yields_andthen [where m = "EnqueueTx _ _"] yields_andthen
      [where m = "if _ then _ else _"] ends_marked)

lemma ends_finishers:
  "yields (lease_ended E c) (finishTerminal E c code reason)"
  "yields (lease_ended E c) (finishNoop E c a)"
  "yields (lease_ended E c) (finishMissingAttemptTerminal E c code)"
  "yields (lease_ended E c) (finishRetryableWithDelay E c code delay)"
  "yields (lease_ended E c) (finishMalformed E P c reason)"
  "yields (lease_ended E c) (finish_timeout E P c a err)"
  unfolding finishTerminal_def finishNoop_def finishMissingAttemptTerminal_def
    finishRetryableWithDelay_def finishMalformed_def finish_timeout_def
  by (intro yields_in_tx ends_finishTerminalTx ends_finishNoopTx ends_unless_terminal ends
      same_missing
    | (rule yields_andthen, intro yields_if ends_finishNoopTx)
    | (rule yields_andthen, rule ends_marked))+

lemma ends_finishRetryable: "yields (lease_ended E c) (finishRetryable E P c code)"
  unfolding finishRetryable_def by (rule ends_finishers)

lemma ends_finishAdapterError: "yields (lease_ended E c) (finishAdapterError E P c a e create)"
  unfolding finishAdapterError_def Let_def by (intro yields_if ends_finishers)

lemma ends_fall_back: "yields (lease_ended E c) (fall_back E P c f)"
  unfolding fall_back_def by (cases f) (auto intro!: yields_fail ends_finishers)

lemma ends_digested: "yields (lease_ended E c) (case r of Inl e \<Rightarrow> fail (EOutbox e)
    | Inr ref \<Rightarrow> finishCreateSuccessTx E c a ref)"
  by (cases r) (auto intro: yields_fail ends_finishCreateSuccessTx)

lemma ends_finishKnownCreateIdentity: "yields (lease_ended E c) (finishKnownCreateIdentity E c)"
  unfolding finishKnownCreateIdentity_def Let_def
  by (intro yields_in_tx yields_andthen [where m = "lockAttemptForFinalizationTx _ _"]
      yields_andthen [where m = "read_clock _"])
     (simp split: execution_action.split add: yields_fail ends_finishNoopTx ends_finishTerminalTx
       ends_digested yields_andthen [OF ends_digested])

lemma ends_apply_create_answer: "yields (lease_ended E c) (apply_create_answer E P c a r)"
  unfolding apply_create_answer_def
  by (auto split: option.split intro!: ends_finishers yields_attempt_ret yields_in_tx
      yields_andthen yields_map_err yields_if ends_finishNoopTx ends_finishCreateSuccessTx ends_fall_back)

lemma ends_after_identity:
  "yields (lease_ended E c) k \<Longrightarrow> yields (lease_ended E c) (after_identity E c res k)"
  unfolding after_identity_def
  by (cases res) (auto intro!: yields_map_err ends_finishNoopTx yields_fail)

lemma ends_marked_err: "yields (lease_ended E c) (andthen (map_err g (mark_succeeded E c ref)) (\<lambda>_. ret x))"
  "yields (lease_ended E c) (andthen (map_err g (mark_retryable E c code delay)) (\<lambda>_. ret x))"
  by (intro ended_then yields_map_err yields_marks same.guar_ret)+

lemma ends_bindInquiry: "yields (lease_ended E c) (bindInquiryIdentityAndRetry E P c a r)"
  unfolding bindInquiryIdentityAndRetry_def
  by (rule yields_attempt_ret, rule yields_in_tx, rule yields_andthen, rule ends_after_identity,
      rule ends_marked_err, rule ends_fall_back)

lemma ends_finish_inquiry: "yields (lease_ended E c) (finish_inquiry E P c a r)"
proof -
  have "yields (lease_ended E c) (andthen (apply_inquiry_status E c a r)
      (\<lambda>_. andthen (map_err Return (mark_succeeded E c ref)) (\<lambda>_. ret ())))" for ref
    by (rule yields_andthen, rule ends_marked_err)
  then show ?thesis
    unfolding finish_inquiry_def Let_def
    by (auto split: sum.split intro!: ends_finishers yields_attempt_ret yields_in_tx yields_if
        yields_andthen [where m = "map_err _ _"] ends_after_identity ends_fall_back)
qed

lemma ends_apply_inquiry_answer: "yields (lease_ended E c) (apply_inquiry_answer E P c a r)"
  unfolding apply_inquiry_answer_def Let_def
  by (auto split: prod.split inquiry_kind.split intro!: ends_finishers ends_bindInquiry
      ends_finish_inquiry ends_finishRetryable)

lemma ends_processCreate: "yields (lease_ended E c) (processCreate E P c payload)"
  unfolding processCreate_def Let_def
  by (rule yields_attempt)
     (auto split: execution_action.split sum.split intro!: yields_fail yields_andthen yields_attempt
       ends_finishers ends_finishAdapterError ends_apply_create_answer ends_finishKnownCreateIdentity)

lemma ends_processInquiry: "yields (lease_ended E c) (processInquiry E P c payload)"
  unfolding processInquiry_def Let_def
  by (intro yields_andthen yields_attempt)
     (auto split: execution_action.split sum.split intro!: yields_fail yields_andthen
       ends_finishers ends_finishAdapterError ends_apply_inquiry_answer ends_finishRetryable)



subsection \<open>When the provider is not called\<close>

lemma pool_read:
  "GetAttemptByID E i w = (Inr a, w') \<Longrightarrow>
     a \<in> set (attempts (interfere E (steps w) (db w))) \<and> uuid_parse E i = Some (pa_id a)"
  by (auto simp: GetAttemptByID_def andthen_Inr pool_query_def Let_def not_found_def deref_Inr
      split: option.splits if_splits dest!: query_row_Some)

lemma processCreate_silent:
  assumes "\<And>a v' now. GetAttemptByID E (pl_attempt_id payload) v = (Inr a, v') \<Longrightarrow>
      commandFactsMatch c a payload \<Longrightarrow> xd_action (decideCommandExecution (go_unicode E) c a now) \<noteq> CallCreate"
  shows "processCreate E (P\<lparr>pr_adapter := A\<rparr>) c payload v = processCreate E (P\<lparr>pr_adapter := B\<rparr>) c payload v"
proof (cases "GetAttemptByID E (pl_attempt_id payload) v")
  case (Pair r v')
  show ?thesis
  proof (cases r)
    case (Inl e)
    with Pair show ?thesis by (simp add: processCreate_def attempt_def)
  next
    case (Inr a)
    with Pair assms have "xd_action (decideCommandExecution (go_unicode E) c a now) \<noteq> CallCreate"
      if "commandFactsMatch c a payload" for now using that by blast
    with Pair Inr show ?thesis
      by (auto simp: processCreate_def attempt_def andthen_def Let_def split: execution_action.split)
  qed
qed

text \<open>
  C18. No second create call. When every attempt the command can read already has a
  provider identity, or has left the created and pending states, processing a create
  command never reaches the provider: the run is the same for every provider, whatever it
  would answer. A create that was answered but not recorded is recovered locally.
\<close>

theorem recovered_create_is_silent:
  assumes "cm_type c = PAYMENT_CREATE"
    and "\<forall>a \<in> set (attempts (interfere E (steps w + 2) (db w))). cm_attempt_id c = Some (pa_id a) \<longrightarrow>
       pa_session_id a \<noteq> None \<or> pa_payment_req_id a \<noteq> None \<or> pa_payment_id a \<noteq> None
       \<or> pa_state a \<notin> {AttemptCreated, AttemptPending}"
  shows "Process E (P\<lparr>pr_adapter := A\<rparr>) c w = Process E (P\<lparr>pr_adapter := B\<rparr>) c w"
proof -
  let ?v = "w\<lparr>steps := Suc (Suc (steps w))\<rparr>"
  have "processCreate E (P\<lparr>pr_adapter := A\<rparr>) c payload ?v = processCreate E (P\<lparr>pr_adapter := B\<rparr>) c payload ?v"
    if id: "cm_attempt_id c = Some (pl_attempt_id payload)" for payload
  proof (rule processCreate_silent)
    fix a v' now assume "GetAttemptByID E (pl_attempt_id payload) ?v = (Inr a, v')"
      and m: "commandFactsMatch c a payload"
    then have "a \<in> set (attempts (interfere E (steps w + 2) (db w)))" by (auto dest: pool_read)
    with assms(2) id m show "xd_action (decideCommandExecution (go_unicode E) c a now) \<noteq> CallCreate"
      by (auto simp: provider_call classify_none commandFactsMatch_def)
  qed
  then show ?thesis
    using assms(1) by (auto simp: Process_def andthen_def attempt_def ctx_check_def split: option.split)
qed

theorem recovered_create_is_silent_witness:
  "\<forall>P A B. Process quiet_env (P\<lparr>pr_adapter := A\<rparr>) sample_claimed (start_world (sample_db_work sample_captured))
    = Process quiet_env (P\<lparr>pr_adapter := B\<rparr>) sample_claimed (start_world (sample_db_work sample_captured))"
  by (intro allI, rule recovered_create_is_silent) (simp_all add: scenario)

subsection \<open>From a provider answer to a capture\<close>

lemma inquiry_key_bounded:
  assumes "is_canonical_uuid i"
  shows "isBoundedReference (DeterministicInquiryKey i) 191"
proof -
  have len: "length i = 36" using canonical_uuid_length [OF assms] .
  then have ne: "i \<noteq> []" by auto
  have "matches uuid_pattern (map of_char i)" using assms by (simp add: is_canonical_uuid_def)
  from uuid_bytes [OF this of_char_member [of "last i" i]] ne
  have g: "graphic (last i)" by (auto simp: graphic_def)
  have "DeterministicInquiryKey i = ''payment:inquiry:'' @ i"
    by (simp add: DeterministicInquiryKey_def deterministicIdempotencyKey_def)
  moreover have "trim_space (''payment:inquiry:'' @ i) = ''payment:inquiry:'' @ i"
    by (rule trim_space_graphic) (use g ne in \<open>simp_all add: graphic_def\<close>)
  ultimately show ?thesis using len by (simp add: isBoundedReference_def)
qed

text \<open>
  C19. What the inquiry accepts, the repository can record. For an attempt row with the
  values its table enforces and a command whose facts match it, a response taken as a
  capture becomes capture parameters that agree with the attempt, and that pass validation
  exactly when the provider's capture time is not after the worker's clock.
\<close>

theorem inquiry_capture_recordable:
  assumes decided: "fst (decideInquiryResponse (go_unicode E) a r) = InquiryCapture"
    and facts: "commandFactsMatch c a payload" "cm_type c = PAYMENT_INQUIRY"
    and row: "is_canonical_uuid (pa_id a)" "uuid_parse E (pa_id a) \<noteq> None" "pa_provider a = ''XENDIT''"
      "pa_environment a = ''TEST''" "pa_currency a = ''IDR''" "0 < pa_amount a"
    and t: "sr_captured_at r = Some t" and now: "now \<noteq> 0"
  shows "(validateCaptureParams E (inquiry_capture_params c a r t now) \<longleftrightarrow> t \<le> now)
    \<and> \<not> capture_mismatch a (canonical_times (inquiry_capture_params c a r t now))"
proof -
  note ev = decided [unfolded capture_evidence]
  have req: "optionalString (sr_payment_req_id r) = pa_payment_req_id a"
    using ev by (auto simp: optionalString_def ValidProviderIdentity_def)
  have key: "isBoundedReference (cm_idempotency_key c) 191"
    using facts inquiry_key_bounded [OF row(1)] by (simp add: commandFactsMatch_def)
  show ?thesis
    using ev row t now key
    by (auto simp: validateCaptureParams_def inquiry_capture_params_def req capture_mismatch_def
        canonical_times_def validOptionalProviderIdentity_def is_zero_def)
qed

definition sample_requested :: payment_attempt where
  "sample_requested = sample_pending\<lparr>pa_payment_req_id := Some (uid CHR ''8'')\<rparr>"

definition sample_inquiry :: command where
  "sample_inquiry = sample_claimed\<lparr>cm_type := PAYMENT_INQUIRY,
     cm_idempotency_key := DeterministicInquiryKey (uid CHR ''2'')\<rparr>"

definition sample_answer :: status_response where
  "sample_answer = \<lparr>sr_scope = ScopePayment, sr_session_id = [], sr_payment_req_id = uid CHR ''8'',
     sr_payment_id = uid CHR ''7'', sr_status = PaymentStatusCaptured, sr_amount = 150000,
     sr_currency = ''IDR'', sr_captured_at = Some (900 * second), sr_payload_hash = sample_hash,
     sr_reason_code = [], sr_status_code = []\<rparr>"

theorem inquiry_capture_recordable_witness:
  "validateCaptureParams quiet_env
     (inquiry_capture_params sample_inquiry sample_requested sample_answer (900 * second) (1000 * second))"
proof -
  have hash: "isLowerSHA256 sample_hash"
    using sample_hash_hex by (simp add: is_hex64_def isLowerSHA256_def)
  have decided: "fst (decideInquiryResponse (go_unicode quiet_env) sample_requested sample_answer) = InquiryCapture"
    unfolding capture_evidence
    by (simp add: sample_answer_def sample_requested_def sample_pending_def sample_attempt_def
        ValidProviderIdentity_def canonical_uuid_Valid scenario hex_class_def safeProviderStatusCode_def hash)
  have facts: "commandFactsMatch sample_inquiry sample_requested sample_payload"
    "cm_type sample_inquiry = PAYMENT_INQUIRY"
    by (simp_all add: commandFactsMatch_def sample_inquiry_def sample_requested_def sample_pending_def
        sample_attempt_def scenario)
  have row: "is_canonical_uuid (pa_id sample_requested)" "uuid_parse quiet_env (pa_id sample_requested) \<noteq> None"
    "pa_provider sample_requested = ''XENDIT''" "pa_environment sample_requested = ''TEST''"
    "pa_currency sample_requested = ''IDR''" "0 < pa_amount sample_requested"
    by (simp_all add: sample_requested_def sample_pending_def sample_attempt_def scenario hex_class_def)
  have t: "sr_captured_at sample_answer = Some (900 * second)" by (simp add: sample_answer_def)
  show ?thesis
    using inquiry_capture_recordable [OF decided facts row t, of "1000 * second"] by simp
qed

subsection \<open>Errors that cannot be recorded\<close>

text \<open>
  C20. Adapter errors that never finish. For the adapter errors AUTHENTICATION_FAILED,
  INVALID_REQUEST, IDEMPOTENCY_CONFLICT, TERMINAL_PROVIDER and FUTURE_CREATED_SEMANTIC the
  processor cannot end the lease: the code is not a reconciliation reason the audit
  accepts (the last is not even an error code the outbox accepts), so the transaction is
  rolled back and the run fails, in every environment. The command stays leased and is claimed again when the lease expires.
\<close>

theorem terminal_adapter_error_never_recorded:
  assumes "code \<in> {''AUTHENTICATION_FAILED'', ''INVALID_REQUEST'', ''IDEMPOTENCY_CONFLICT'',
      ''TERMINAL_PROVIDER'', ''FUTURE_CREATED_SEMANTIC''}"
  shows "\<not> is_ok (outcome (finishAdapterError E P c a (AsAdapterError code retryAfter) create) w)"
proof -
  have "finishTerminal E c code code v \<noteq> (Inr (), v')" for v v'
    using assms
    by (auto simp: finishTerminal_def in_tx_Inr finishTerminalTx_def andthen_Inr recordReconciliationTx_def
        recordReconciliationForAttemptTx_def audit_record_def reconciliation_row_def payment_audit_row_def
        isPaymentReconciliationReason_def
        dest!: Validate_reconciliation_reason split: option.splits if_splits)
  moreover have "finishAdapterError E P c a (AsAdapterError code retryAfter) create = finishTerminal E c code code"
    using assms
    by (auto simp: finishAdapterError_def NormalizeAdapterError_def NewAdapterError_def code_IsValid_def
        adapter_codes_def)
  ultimately show ?thesis by (cases "finishTerminal E c code code w") (auto simp: outcome_def is_ok_iff)
qed

theorem terminal_adapter_error_never_recorded_witness:
  "\<forall>P. \<not> is_ok (outcome (finishAdapterError quiet_env P sample_claimed sample_attempt
     (AsAdapterError ''TERMINAL_PROVIDER'' 0) True) (start_world (sample_db_work sample_attempt)))"
  by (intro allI, rule terminal_adapter_error_never_recorded) simp

end
