(* ===== verification/Worker.thy ===== *)
theory Worker
  imports ProcessorProperties
begin

text \<open>
  \<^verbatim>\<open>internal/paymentworker/worker.go\<close>: the loop that claims commands and hands them to the
  processor. Its events are the only thing an observer sees; it returns nothing. The random
  choice of \<open>select\<close> between a tick and the end of the context is a list of the choices made.
\<close>

record worker_event =
  ev_code :: string
  ev_command_id :: string
  ev_command_type :: "command_type option"
  ev_attempt_id :: string
  ev_attempt_count :: int

record worker =
  wk_processor :: processor
  wk_types :: "command_type list"
  wk_owner :: string
  wk_lease :: duration
  wk_poll :: duration

record worker_options =
  wo_types :: "command_type list"
  wo_owner :: string
  wo_lease :: duration
  wo_poll :: duration
  wo_margin :: duration

text \<open>\<open>uuid.NewString\<close> is the argument \<open>fresh\<close>; \<open>None\<close> is a nil dependency.\<close>

definition NewWorker :: "string \<Rightarrow> bool \<Rightarrow> processor option \<Rightarrow> worker_options \<Rightarrow> app_error + worker" where
  "NewWorker fresh has_outbox proc opt =
    (case proc of None \<Rightarrow> Inl (EText ''payment worker dependencies are required'')
     | Some P \<Rightarrow>
    if \<not> has_outbox then Inl (EText ''payment worker dependencies are required'')
    else
      let owner = (if wo_owner opt = [] then ''worker:'' @ fresh else wo_owner opt);
          lease = (if wo_lease opt = 0 then 30 * second else wo_lease opt);
          poll = (if wo_poll opt \<le> 0 then second else wo_poll opt);
          margin = (if wo_margin opt \<le> 0 then 5 * second else wo_margin opt);
          callTimeout = CallTimeout (Some P);
          types = (if wo_types opt = [] then [PAYMENT_CREATE, PAYMENT_INQUIRY] else wo_types opt)
      in if \<not> validateLeaseOwner owner then Inl (EOutbox ErrInvalidCommand)
         else if \<not> validateLeaseDuration lease then Inl (EOutbox ErrInvalidCommand)
         else if callTimeout \<le> 0 \<or> margin \<ge> lease \<or> callTimeout > lease - margin
           then Inl EInvalidWorkerTiming
         else if list_ex (\<lambda>t. t \<noteq> PAYMENT_CREATE \<and> t \<noteq> PAYMENT_INQUIRY) types
           then Inl (EOutbox ErrInvalidCommand)
         else Inr \<lparr>wk_processor = P, wk_types = types, wk_owner = owner, wk_lease = lease,
                   wk_poll = poll\<rparr>)"

definition plain_event :: "string \<Rightarrow> worker_event" where
  "plain_event code = \<lparr>ev_code = code, ev_command_id = [], ev_command_type = None,
     ev_attempt_id = [], ev_attempt_count = 0\<rparr>"

definition commandEvent :: "string \<Rightarrow> command \<Rightarrow> worker_event" where
  "commandEvent code c =
    \<lparr>ev_code = code, ev_command_id = cm_id c, ev_command_type = Some (cm_type c),
     ev_attempt_id = valueOrEmpty (cm_attempt_id c), ev_attempt_count = cm_attempt_count c\<rparr>"

text \<open>
  One tick. The events are returned; a panic of the claim or of the processor is recovered
  into one. When the fuel of the claim loop runs out, the claim is still being retried and
  nothing is emitted.
\<close>

definition processOne :: "nat \<Rightarrow> env \<Rightarrow> worker \<Rightarrow> worker_event list app" where
  "processOne fuel E W =
    attempt (ctx_check E EContext) (\<lambda>_. ret [])
     (\<lambda>_.
    attempt (ClaimNextForTypes fuel E (wk_owner W) (wk_lease W) (wk_types W))
     (\<lambda>e. if e = EOutbox ErrNoCommandAvailable then ret [] else ret [plain_event ''CLAIM_FAILED''])
     (\<lambda>claimed. case claimed of None \<Rightarrow> ret []
      | Some c \<Rightarrow>
    attempt (ctx_check E EContext) (\<lambda>_. ret [])
     (\<lambda>_.
    attempt (Process E (wk_processor W) c)
     (\<lambda>e. if e = ENilPointer then ret [commandEvent ''COMMAND_PANIC_RECOVERED'' c]
          else attempt (ctx_check E EContext) (\<lambda>_. ret [])
            (\<lambda>_. if e = EOutbox ErrLeaseConflict then ret [commandEvent ''LEASE_CONFLICT'' c]
                 else ret [commandEvent ''COMMAND_FAILED'' c]))
     (\<lambda>_. ret []))))"

text \<open>\<open>True\<close> is a tick, \<open>False\<close> the end of the context; after the last choice the loop waits.\<close>

primrec Start :: "nat \<Rightarrow> env \<Rightarrow> worker \<Rightarrow> bool list \<Rightarrow> worker_event list app" where
  "Start fuel E W [] = ret []"
| "Start fuel E W (tick # choices) =
    (if \<not> tick then ret [plain_event ''WORKER_STOPPED'']
     else andthen (processOne fuel E W) (\<lambda>events.
          andthen (Start fuel E W choices) (\<lambda>rest. ret (events @ rest))))"

subsection \<open>Properties\<close>

text \<open>
  Timing of a worker. A worker that can be constructed has a lease that the outbox
  accepts and that is longer than a provider call, a valid owner, a positive poll interval
  and only payment commands.
\<close>

theorem worker_lease_covers_call:
  assumes "NewWorker fresh has_outbox proc opt = Inr W"
  shows "validateLeaseOwner (wk_owner W) \<and> validateLeaseDuration (wk_lease W)
    \<and> 0 < pr_timeout (wk_processor W) \<and> pr_timeout (wk_processor W) < wk_lease W
    \<and> 0 < wk_poll W \<and> wk_types W \<noteq> [] \<and> set (wk_types W) \<subseteq> {PAYMENT_CREATE, PAYMENT_INQUIRY}"
  using assms
  by (auto simp: NewWorker_def Let_def CallTimeout_def list_ex_iff split: option.splits if_splits)

definition sample_processor :: "adapter \<Rightarrow> processor" where
  "sample_processor A = \<lparr>pr_adapter = A, pr_policy = DefaultRetryPolicy, pr_timeout = 10 * second\<rparr>"

definition sample_worker :: "adapter \<Rightarrow> worker" where
  "sample_worker A = \<lparr>wk_processor = sample_processor A, wk_types = [PAYMENT_CREATE, PAYMENT_INQUIRY],
     wk_owner = sample_owner, wk_lease = minute, wk_poll = second\<rparr>"

theorem worker_lease_covers_call_witness:
  "\<forall>A. pr_timeout (wk_processor (sample_worker A)) < wk_lease (sample_worker A)"
proof
  fix A
  have "NewWorker [] True (Some (sample_processor A))
      \<lparr>wo_types = [], wo_owner = sample_owner, wo_lease = minute, wo_poll = 0, wo_margin = 0\<rparr>
    = Inr (sample_worker A)"
    using sample_owner_valid
    by (simp add: NewWorker_def Let_def scenario CallTimeout_def sample_processor_def sample_worker_def
        sample_owner_def)
  from worker_lease_covers_call [OF this]
  show "pr_timeout (wk_processor (sample_worker A)) < wk_lease (sample_worker A)" by simp
qed

context worker_relation begin

lemma top_processOne:
  assumes "env_guar R E" and "\<And>n owner lease types. top_guar R (ClaimNextForTypes n E owner lease types)"
  shows "top_guar R (processOne fuel E W)"
  unfolding processOne_def
  by (intro top_attempt top_ctx_check top_ret assms(2) top_if)
     (auto split: option.split intro!: top_attempt top_ctx_check top_ret top_if top_Process assms(1))

lemma top_Start:
  assumes "env_guar R E" and "\<And>n owner lease types. top_guar R (ClaimNextForTypes n E owner lease types)"
  shows "top_guar R (Start fuel E W choices)"
proof (induction choices)
  case Nil
  show ?case by (simp add: top_ret)
next
  case (Cons tick choices)
  show ?case
    unfolding Start.simps by (intro top_if top_ret top_andthen top_processOne assms Cons.IH)
qed

end

lemma processOne_total: "\<exists>evs w'. processOne fuel E W w = (Inr evs, w')"
  by (auto simp: processOne_def attempt_def ret_def split: sum.split prod.split option.split)

lemma Start_total: "\<exists>evs w'. Start fuel E W choices w = (Inr evs, w')"
proof (induction choices arbitrary: w)
  case (Cons tick choices)
  obtain evs v where "processOne fuel E W w = (Inr evs, v)" using processOne_total by blast
  moreover obtain evs' v' where "Start fuel E W choices v = (Inr evs', v')" using Cons.IH by blast
  ultimately show ?case by (simp add: andthen_def attempt_def ret_def)
qed (simp add: ret_def)



end
