(* ===== verification/WebhookInbox.thy ===== *)
theory WebhookInbox
  imports Database Sha256
begin

text \<open>
  \<^verbatim>\<open>internal/paymentwebhooks/repository.go\<close> and \<^verbatim>\<open>model.go\<close>: the durable inbox of provider
  webhooks, with the constraints and triggers of migration 029, and the replay
  classification of \<^verbatim>\<open>internal/payments/adapter.go\<close>. A row that fails a CHECK outside the
  model (patterns of references, the shape of the redacted payload) is a statement that
  fails: one of the faults of the environment.
\<close>

subsection \<open>Values\<close>

text \<open>A normalised provider event. Route families, states and verification states are Go strings.\<close>

record hook_event =
  he_key :: string
  he_type :: string
  he_primary_object :: string
  he_session_id :: string
  he_payment_req_id :: string
  he_payment_id :: string
  he_refund_id :: string
  he_state :: string
  he_amount :: int
  he_currency :: string
  he_occurred_at :: time
  he_observed_at :: time
  he_source_reference :: string
  he_payload_hash :: string
  he_reason :: string
  he_verification :: string

definition RoutePaymentSession :: string where "RoutePaymentSession = ''payment_session''"
definition RoutePayment :: string where "RoutePayment = ''payment''"
definition RouteRefund :: string where "RouteRefund = ''refund''"

definition Accepts :: "string \<Rightarrow> string \<Rightarrow> bool" where
  "Accepts family eventType =
    (if family = RoutePaymentSession then
       eventType = ''payment_session.completed'' \<or> eventType = ''payment_session.expired''
     else if family = RoutePayment then eventType = ''payment.capture''
     else if family = RouteRefund then eventType = ''refund.succeeded'' \<or> eventType = ''refund.failed''
     else False)"

definition provisional_contract :: string where
  "provisional_contract = ''XENDIT_CALLBACK_TOKEN_V1_PROVISIONAL''"

definition verified_contract :: string where
  "verified_contract = ''XENDIT_CALLBACK_TOKEN_V1_VERIFIED''"

definition IsXenditWebhookContractVersion :: "string \<Rightarrow> bool" where
  "IsXenditWebhookContractVersion v \<longleftrightarrow> v = provisional_contract \<or> v = verified_contract"

definition IsXenditWebhookEventEligibleForVerifiedContract :: "string \<Rightarrow> bool" where
  "IsXenditWebhookEventEligibleForVerifiedContract t \<longleftrightarrow>
     t = ''payment_session.completed'' \<or> t = ''payment_session.expired''"

subsection \<open>Replays\<close>

record replay_input =
  ri_found :: bool
  ri_existing_hash :: string
  ri_incoming_hash :: string

datatype replay_decision = ReplayNew | ReplayDuplicateSameBody | ReplayConflicting

record replay_classification =
  rc_decision :: replay_decision
  rc_verification :: webhook_verification
  rc_reason :: string
  rc_may_mutate :: bool

definition isLowercaseSHA256 :: "string \<Rightarrow> bool" where
  "isLowercaseSHA256 v \<longleftrightarrow> length v = 64 \<and> list_all is_lower_hex v"

definition replay_error :: app_error where
  "replay_error = EText ''invalid webhook replay input''"

definition ClassifyWebhookReplay :: "replay_input \<Rightarrow> app_error + replay_classification" where
  "ClassifyWebhookReplay i =
    (if \<not> isLowercaseSHA256 (ri_incoming_hash i) then Inl replay_error
     else if \<not> ri_found i then
       (if ri_existing_hash i \<noteq> [] then Inl replay_error
        else Inr \<lparr>rc_decision = ReplayNew, rc_verification = WDiagnostic, rc_reason = [],
                  rc_may_mutate = True\<rparr>)
     else if \<not> isLowercaseSHA256 (ri_existing_hash i) then Inl replay_error
     else if ri_existing_hash i = ri_incoming_hash i then
       Inr \<lparr>rc_decision = ReplayDuplicateSameBody, rc_verification = WDiagnostic, rc_reason = [],
            rc_may_mutate = False\<rparr>
     else Inr \<lparr>rc_decision = ReplayConflicting, rc_verification = WQuarantined,
               rc_reason = ''IDEMPOTENCY_CONFLICT'', rc_may_mutate = False\<rparr>)"

subsection \<open>The table\<close>

definition ended_processing :: "webhook_processing \<Rightarrow> bool" where
  "ended_processing p \<longleftrightarrow> p = WProcessed \<or> p = WTerminal \<or> p = WDuplicate"

text \<open>What \<open>guard_payment_webhook_event_identity\<close> protects.\<close>

definition event_facts :: "webhook_event \<Rightarrow> string \<times> string \<times> string \<times> string \<times> string \<times> string \<times> string
    \<times> string \<times> webhook_payload \<times> string option \<times> string \<times> time \<times> time" where
  "event_facts e = (we_id e, we_provider e, we_environment e, we_event_type e, we_event_key e,
     we_primary_object e, we_raw_body_hash e, we_auth_contract e, we_payload e, we_attempt_id e,
     we_correlation_id e, we_received_at e, we_created_at e)"

text \<open>\<open>guard_payment_webhook_event_lifecycle\<close> for an UPDATE: the message raised, if any.\<close>

definition lifecycle_guard :: "webhook_event \<Rightarrow> webhook_event \<Rightarrow> string option" where
  "lifecycle_guard old new =
    (if we_updated_at new < we_updated_at old
        \<or> we_processed_at old \<noteq> None \<and> we_processed_at new \<noteq> we_processed_at old
        \<or> we_verification old = WVerified \<and> we_verification new \<noteq> WVerified
        \<or> we_verification old = WQuarantined \<and> we_verification new \<noteq> WQuarantined
       then Some ''payment webhook event lifecycle is monotonic''
     else if ended_processing (we_processing old)
       then Some ''terminal payment webhook events are immutable''
     else if (case we_processing old of
           WReceived \<Rightarrow> we_processing new \<in> {WProcessing, WRetryable, WProcessed, WTerminal, WDuplicate}
         | WProcessing \<Rightarrow> we_processing new \<in> {WRetryable, WProcessed, WTerminal, WDuplicate}
         | WRetryable \<Rightarrow> we_processing new \<in> {WProcessing, WProcessed, WTerminal, WDuplicate}
         | _ \<Rightarrow> False) then None
     else Some ''illegal payment webhook event lifecycle transition'')"

definition event_check :: "webhook_event \<Rightarrow> string option" where
  "event_check e =
    (if ended_processing (we_processing e) \<noteq> (we_processed_at e \<noteq> None)
       then Some ''chk_payment_webhook_event_processed''
     else if we_verification e = WQuarantined \<and> we_processing e \<noteq> WTerminal
       then Some ''chk_payment_webhook_event_quarantine''
     else if we_created_at e < we_received_at e \<or> we_updated_at e < we_created_at e
        \<or> (case we_processed_at e of None \<Rightarrow> False
           | Some t \<Rightarrow> t < we_received_at e \<or> t < we_created_at e)
       then Some ''chk_payment_webhook_event_timestamps''
     else None)"

definition update_error :: "webhook_event \<Rightarrow> webhook_event \<Rightarrow> app_error option" where
  "update_error old new =
    (if event_facts new \<noteq> event_facts old
       then Some (ERaised ''payment webhook event identity and facts are immutable'')
     else case lifecycle_guard old new of Some m \<Rightarrow> Some (ERaised m)
     | None \<Rightarrow> map_option ECheck (event_check new))"

text \<open>\<open>UPDATE payment_webhook_events SET f WHERE p\<close>: the first row that is refused fails the
  statement; the result is the list of the updated rows.\<close>

definition update_events :: "(webhook_event \<Rightarrow> bool) \<Rightarrow> (webhook_event \<Rightarrow> webhook_event) \<Rightarrow> dbs
    \<Rightarrow> (app_error + webhook_event list) \<times> dbs" where
  "update_events p f d =
    (case List.map_filter (\<lambda>e. update_error e (f e)) (filter p (webhook_events d)) of
       x # _ \<Rightarrow> (Inl x, d)
     | [] \<Rightarrow> (Inr (sql_returning p f (webhook_events d)),
              d\<lparr>webhook_events := sql_update p f (webhook_events d)\<rparr>))"

definition event_identity :: "webhook_event \<Rightarrow> string \<times> string \<times> string" where
  "event_identity e = (we_provider e, we_environment e, we_event_key e)"

definition webhook_event_types :: "string list" where
  "webhook_event_types =
     [''payment_session.completed'', ''payment_session.expired'', ''payment.capture'',
      ''refund.succeeded'', ''refund.failed'']"

definition insert_error :: "dbs \<Rightarrow> webhook_event \<Rightarrow> app_error option" where
  "insert_error d e =
    (if \<not> (we_processing e = WReceived \<and> we_processed_at e = None
           \<or> we_processing e = WTerminal \<and> we_verification e = WQuarantined \<and> we_processed_at e \<noteq> None)
       then Some (ERaised ''payment webhook events must start received or as a quarantined terminal fact'')
     else if we_event_type e \<notin> set webhook_event_types then Some (ECheck ''chk_payment_webhook_event_type'')
     else if we_event_key e \<noteq> we_provider e @ ''|'' @ we_event_type e @ ''|'' @ we_primary_object e
       then Some (ECheck ''chk_payment_webhook_event_key'')
     else if \<not> isLowercaseSHA256 (we_raw_body_hash e) then Some (ECheck ''chk_payment_webhook_event_raw_hash'')
     else if \<not> IsXenditWebhookContractVersion (we_auth_contract e)
       then Some (ECheck ''chk_payment_webhook_event_auth_contract'')
     else case event_check e of Some n \<Rightarrow> Some (ECheck n)
     | None \<Rightarrow>
        if sql_exists (\<lambda>x. event_identity x = event_identity e \<or> we_id x = we_id e) (webhook_events d)
          then Some (EUnique ''uq_payment_webhook_event_identity'')
        else None)"

definition insert_event :: "webhook_event \<Rightarrow> dbs \<Rightarrow> (app_error + unit) \<times> dbs" where
  "insert_event e d =
    (case insert_error d e of Some x \<Rightarrow> (Inl x, d)
     | None \<Rightarrow> (Inr (), d\<lparr>webhook_events := webhook_events d @ [e]\<rparr>))"

subsection \<open>The redacted payload\<close>

text \<open>
  The length of \<open>json.Marshal\<close>'s encoding of a string: quotes, two-byte escapes for the
  quote, the backslash and five control characters, six-byte escapes for the other control
  characters, for the HTML characters, for U+2028 and U+2029, and for every byte that is
  not part of valid UTF-8.
\<close>

fun json_string_size :: "nat list \<Rightarrow> nat" where
  "json_string_size [] = 0"
| "json_string_size (a # bs) =
    (if a < 128 then
       (if a \<in> {34, 92, 8, 9, 10, 12, 13} then 2 else if a < 32 \<or> a \<in> {60, 62, 38} then 6 else 1)
       + json_string_size bs
     else case bs of
       b # bs' \<Rightarrow>
        if utf8_decode [a, b] \<noteq> None then 2 + json_string_size bs'
        else (case bs' of
          c # bs'' \<Rightarrow>
           if utf8_decode [a, b, c] \<noteq> None
             then (if utf8_decode [a, b, c] = Some [8232] \<or> utf8_decode [a, b, c] = Some [8233] then 6 else 3)
               + json_string_size bs''
           else (case bs'' of
             e # bs''' \<Rightarrow>
              if utf8_decode [a, b, c, e] \<noteq> None then 4 + json_string_size bs''' else 6 + json_string_size bs
           | [] \<Rightarrow> 6 + json_string_size bs)
        | [] \<Rightarrow> 6 + json_string_size bs)
     | [] \<Rightarrow> 6 + json_string_size bs)"

definition json_size :: "string \<Rightarrow> nat" where
  "json_size s = 2 + json_string_size (map of_char s)"

text \<open>The size of the object: the four keys that are always there and the three optional ones.\<close>

definition redacted_size :: "webhook_payload \<Rightarrow> nat" where
  "redacted_size p =
    (let field = (\<lambda>k n. length k + 4 + n)
     in 1 + field ''state'' (json_size (wp_state p)) + field ''amount_rupiah'' (length (format_int (wp_amount p)))
        + field ''currency'' (json_size (wp_currency p))
        + field ''source_reference'' (json_size (wp_source_reference p))
        + (if wp_payment_id p = [] then 0 else field ''payment_id'' (json_size (wp_payment_id p)))
        + (if wp_payment_request_id p = [] then 0
           else field ''payment_request_id'' (json_size (wp_payment_request_id p)))
        + (if wp_reason_code p = [] then 0 else field ''reason_code'' (json_size (wp_reason_code p))))"

definition redactedPayload :: "hook_event \<Rightarrow> app_error + webhook_payload" where
  "redactedPayload e =
    (let p = \<lparr>wp_state = he_state e, wp_amount = he_amount e, wp_currency = he_currency e,
              wp_source_reference = he_source_reference e, wp_payment_id = he_payment_id e,
              wp_payment_request_id = he_payment_req_id e, wp_reason_code = he_reason e\<rparr>
     in if redacted_size p > 2048 then Inl (EText ''redacted webhook payload invalid'') else Inr p)"

subsection \<open>The repository\<close>

record attempt_context =
  ac_id :: string
  ac_amount :: int
  ac_currency :: string
  ac_session_id :: string
  ac_payment_req_id :: string
  ac_payment_id :: string

definition optional_or_empty :: "string option \<Rightarrow> string" where
  "optional_or_empty v = (case v of None \<Rightarrow> [] | Some s \<Rightarrow> s)"

definition context_of :: "payment_attempt \<Rightarrow> attempt_context" where
  "context_of a = \<lparr>ac_id = pa_id a, ac_amount = pa_amount a, ac_currency = pa_currency a,
     ac_session_id = optional_or_empty (pa_session_id a),
     ac_payment_req_id = optional_or_empty (pa_payment_req_id a),
     ac_payment_id = optional_or_empty (pa_payment_id a)\<rparr>"

definition identity_matches :: "hook_event \<Rightarrow> payment_attempt \<Rightarrow> bool" where
  "identity_matches e a \<longleftrightarrow> pa_provider a = ''XENDIT'' \<and> pa_environment a = ''TEST''
     \<and> (he_session_id e \<noteq> [] \<and> pa_session_id a = Some (he_session_id e)
        \<or> he_payment_req_id e \<noteq> [] \<and> pa_payment_req_id a = Some (he_payment_req_id e)
        \<or> he_payment_id e \<noteq> [] \<and> pa_payment_id a = Some (he_payment_id e))"

text \<open>No match and several matches are both \<open>None\<close>.\<close>

definition FindAttemptContext :: "env \<Rightarrow> hook_event \<Rightarrow> attempt_context option app" where
  "FindAttemptContext E e =
     andthen (pool_query E EDatabase (\<lambda>now d. filter (identity_matches e) (attempts d)))
       (\<lambda>rows. case rows of [a] \<Rightarrow> ret (Some (context_of a)) | _ \<Rightarrow> ret None)"

record accept_params =
  ap_event :: hook_event
  ap_contract :: string
  ap_correlation_id :: string
  ap_family :: string
  ap_received_at :: time
  ap_attempt_id :: "string option"

datatype acceptance = AcceptedNew | AcceptedDuplicate | AcceptedConflict

definition validAcceptParams :: "accept_params \<Rightarrow> bool" where
  "validAcceptParams p \<longleftrightarrow> he_key (ap_event p) \<noteq> [] \<and> he_type (ap_event p) \<noteq> []
     \<and> he_primary_object (ap_event p) \<noteq> [] \<and> he_payload_hash (ap_event p) \<noteq> []
     \<and> IsXenditWebhookContractVersion (ap_contract p) \<and> ap_correlation_id p \<noteq> []
     \<and> \<not> is_zero (ap_received_at p)"

definition verification_column :: "string \<Rightarrow> webhook_verification option" where
  "verification_column s =
    (if s = ''DIAGNOSTIC'' then Some WDiagnostic else if s = ''VERIFIED'' then Some WVerified
     else if s = ''QUARANTINED'' then Some WQuarantined else None)"

definition initialLifecycle :: "hook_event \<Rightarrow> webhook_processing" where
  "initialLifecycle e = (if he_verification e = ''QUARANTINED'' then WTerminal else WReceived)"

definition safeReason :: "string \<Rightarrow> string" where
  "safeReason r = (if r = [] then ''NONE'' else r)"

definition webhook_audit_row :: "audit_action \<Rightarrow> string \<Rightarrow> string \<Rightarrow> string \<Rightarrow> string \<Rightarrow> string
    \<Rightarrow> audit_params" where
  "webhook_audit_row action correlation family result reason hash =
    \<lparr>au_actor = None, au_role = ''SYSTEM'', au_action = action, au_entity_type = EntityPaymentWebhook,
     au_entity_id = None, au_correlation_id = Some correlation,
     au_metadata = [(''provider'', MString ''XENDIT''), (''environment'', MString ''TEST''),
       (''route_family'', MString family), (''result'', MString result), (''reason'', MString reason),
       (''raw_body_hash'', MString hash)]\<rparr>"

definition writeAudit :: "env \<Rightarrow> audit_action \<Rightarrow> accept_params \<Rightarrow> string \<Rightarrow> string \<Rightarrow> unit app" where
  "writeAudit E action p result reason =
     audit_record E (webhook_audit_row action (ap_correlation_id p) (ap_family p) result reason
       (he_payload_hash (ap_event p)))"

definition new_event :: "accept_params \<Rightarrow> webhook_payload \<Rightarrow> webhook_verification \<Rightarrow> string \<Rightarrow> time
    \<Rightarrow> webhook_event" where
  "new_event p payload v i now =
    (let e = ap_event p; st = initialLifecycle e in
     \<lparr>we_id = i, we_provider = ''XENDIT'', we_environment = ''TEST'', we_event_type = he_type e,
      we_event_key = he_key e, we_primary_object = he_primary_object e,
      we_raw_body_hash = he_payload_hash e, we_auth_contract = ap_contract p, we_payload = payload,
      we_attempt_id = ap_attempt_id p, we_correlation_id = ap_correlation_id p, we_verification = v,
      we_processing = st, we_received_at = ap_received_at p, we_created_at = now, we_updated_at = now,
      we_processed_at = (if st = WTerminal then Some now else None)\<rparr>)"

definition has_key :: "string \<Rightarrow> webhook_event \<Rightarrow> bool" where
  "has_key k e \<longleftrightarrow> event_identity e = (''XENDIT'', ''TEST'', k)"

definition set_quarantined :: "time \<Rightarrow> webhook_event \<Rightarrow> webhook_event" where
  "set_quarantined now e = e\<lparr>we_verification := WQuarantined, we_processing := WTerminal,
     we_processed_at := Some now, we_updated_at := now\<rparr>"

text \<open>The two outcomes of the lookup by key, inside the transaction of \<open>Accept\<close>.\<close>

definition accept_new :: "env \<Rightarrow> accept_params \<Rightarrow> acceptance app" where
  "accept_new E p =
    (case redactedPayload (ap_event p) of Inl e \<Rightarrow> fail e
     | Inr payload \<Rightarrow>
    andthen (fresh_uuid E) (\<lambda>i.
    andthen (case verification_column (he_verification (ap_event p)) of
               None \<Rightarrow> db_call E EDatabase (\<lambda>now d. (Inl (ECheck ''chk_payment_webhook_event_verification''), d))
             | Some v \<Rightarrow> db_call E EDatabase (\<lambda>now d. insert_event (new_event p payload v i now) d)) (\<lambda>_.
    andthen (writeAudit E ActionWebhookReceived p ''NEW'' (safeReason (he_reason (ap_event p)))) (\<lambda>_.
    andthen (writeAudit E ActionWebhookAuthPassed p ''NEW'' (safeReason (he_reason (ap_event p))))
      (\<lambda>_. ret AcceptedNew)))))"

definition accept_replay :: "env \<Rightarrow> accept_params \<Rightarrow> webhook_event \<Rightarrow> acceptance app" where
  "accept_replay E p existing =
    (case ClassifyWebhookReplay \<lparr>ri_found = True, ri_existing_hash = we_raw_body_hash existing,
            ri_incoming_hash = he_payload_hash (ap_event p)\<rparr> of
       Inl e \<Rightarrow> fail e
     | Inr cl \<Rightarrow>
        if rc_decision cl = ReplayDuplicateSameBody then
          andthen (writeAudit E ActionWebhookDuplicate p ''DUPLICATE'' (safeReason (he_reason (ap_event p))))
            (\<lambda>_. ret AcceptedDuplicate)
        else
          andthen (if we_processing existing \<in> {WReceived, WProcessing, WRetryable}
                   then andthen (db_call E EDatabase
                          (\<lambda>now d. update_events (has_key (he_key (ap_event p))) (set_quarantined now) d))
                          (\<lambda>_. ret ())
                   else ret ()) (\<lambda>_.
          andthen (writeAudit E ActionWebhookConflict p ''CONFLICT'' ''IDEMPOTENCY_CONFLICT'')
            (\<lambda>_. ret AcceptedConflict)))"

definition Accept :: "env \<Rightarrow> accept_params \<Rightarrow> acceptance app" where
  "Accept E p =
    (if \<not> validAcceptParams p then fail EInvalidIngressInput
     else in_tx E EDatabase
       (andthen (query E EDatabase (\<lambda>now d. query_row (has_key (he_key (ap_event p))) (webhook_events d)))
         (\<lambda>row. case row of None \<Rightarrow> accept_new E p | Some existing \<Rightarrow> accept_replay E p existing)))"

definition RecordUnsupported :: "env \<Rightarrow> string \<Rightarrow> string \<Rightarrow> string \<Rightarrow> unit app" where
  "RecordUnsupported E family correlation hash =
    (if correlation = [] \<or> hash = [] then fail EInvalidIngressInput
     else in_tx E EDatabase (audit_record E (webhook_audit_row ActionWebhookConflict correlation family
            ''UNSUPPORTED'' ''INVALID_REQUEST'' hash)))"

definition RecordAuthFailure :: "env \<Rightarrow> string \<Rightarrow> string \<Rightarrow> string \<Rightarrow> unit app" where
  "RecordAuthFailure E family correlation hash =
    (if correlation = [] \<or> hash = [] then fail EInvalidIngressInput
     else in_tx E EDatabase (audit_record E (webhook_audit_row ActionWebhookAuthFailed correlation family
            ''AUTH_FAILED'' ''AUTHENTICATION_FAILED'' hash)))"

end
