(* ===== verification/WebhookProcessor.thy ===== *)
theory WebhookProcessor
  imports WebhookInbox PaymentAttempts
begin

text \<open>
  \<^verbatim>\<open>internal/paymentwebhookprocessor\<close>: the worker that finishes the verified events of the
  inbox. It claims one event at a time, applies an expiry to a pending attempt and nothing
  else, and marks the event. An error of Go that comes with a \<open>claimed\<close> flag is just the error
  here: the caller never reads the flag then.
\<close>

record inbox_processor =
  ip_timeout :: duration

definition NewProcessorWithOptions :: "bool \<Rightarrow> bool \<Rightarrow> bool \<Rightarrow> duration \<Rightarrow> app_error + inbox_processor" where
  "NewProcessorWithOptions has_db has_attempts has_audit recovery =
    (if \<not> has_db \<or> \<not> has_attempts \<or> \<not> has_audit then Inl EUnavailable
     else if recovery < 0 then Inl EUnavailable
     else Inr \<lparr>ip_timeout = (if recovery = 0 then 5 * minute else recovery)\<rparr>)"

text \<open>\<open>UPDATE .. WHERE provider = 'XENDIT' AND provider_environment = 'TEST' AND ..\<close>.\<close>

definition stale_processing :: "duration \<Rightarrow> time \<Rightarrow> webhook_event \<Rightarrow> bool" where
  "stale_processing timeout now e \<longleftrightarrow> we_provider e = ''XENDIT'' \<and> we_environment e = ''TEST''
     \<and> we_verification e = WVerified \<and> we_processing e = WProcessing
     \<and> we_updated_at e \<le> now - (timeout div microsecond) * microsecond"

definition set_processing :: "webhook_processing \<Rightarrow> time \<Rightarrow> webhook_event \<Rightarrow> webhook_event" where
  "set_processing st now e = e\<lparr>we_processing := st, we_updated_at := now\<rparr>"

definition set_ended :: "webhook_processing \<Rightarrow> time \<Rightarrow> webhook_event \<Rightarrow> webhook_event" where
  "set_ended st now e = e\<lparr>we_processing := st, we_processed_at := Some now, we_updated_at := now\<rparr>"

definition reclaimStaleProcessing :: "env \<Rightarrow> duration \<Rightarrow> webhook_event list app" where
  "reclaimStaleProcessing E timeout =
     db_call E EDatabase (\<lambda>now d. update_events (stale_processing timeout now) (set_processing WRetryable now) d)"

text \<open>The rows other sessions have locked, which \<open>SKIP LOCKED\<close> passes over, are the argument \<open>busy\<close>.\<close>

definition claimable :: "string list \<Rightarrow> webhook_event \<Rightarrow> bool" where
  "claimable busy e \<longleftrightarrow> we_provider e = ''XENDIT'' \<and> we_environment e = ''TEST''
     \<and> we_verification e = WVerified \<and> we_processing e \<in> {WReceived, WRetryable}
     \<and> we_event_type e \<in> {''payment_session.completed'', ''payment_session.expired''}
     \<and> we_id e \<notin> set busy"

definition event_order :: "webhook_event \<Rightarrow> time \<times> string" where
  "event_order e = (we_received_at e, we_id e)"

definition event_candidate :: "string list \<Rightarrow> dbs \<Rightarrow> webhook_event option" where
  "event_candidate busy d = first_by event_order (filter (claimable busy) (webhook_events d))"

definition claim_event :: "string list \<Rightarrow> time \<Rightarrow> dbs \<Rightarrow> (app_error + webhook_event option) \<times> dbs" where
  "claim_event busy now d =
    (case event_candidate busy d of None \<Rightarrow> (Inr None, d)
     | Some c \<Rightarrow>
        (case update_events (\<lambda>e. we_id e = we_id c) (set_processing WProcessing now) d of
           (Inl e, d') \<Rightarrow> (Inl e, d')
         | (Inr [], d') \<Rightarrow> (Inr None, d')
         | (Inr (e # es), d') \<Rightarrow> (Inr (Some e), d')))"

text \<open>\<open>None\<close> is \<open>pgx.ErrNoRows\<close>; the row stands for the columns \<open>inboxEvent\<close> scans.\<close>

definition claimNext :: "env \<Rightarrow> string list \<Rightarrow> webhook_event option app" where
  "claimNext E busy = db_call E EDatabase (claim_event busy)"

subsection \<open>Processing\<close>

definition validPayload :: "webhook_payload \<Rightarrow> bool" where
  "validPayload p \<longleftrightarrow> wp_amount p > 0 \<and> wp_currency p = ''IDR''
     \<and> wp_state p \<in> {''PENDING'', ''CAPTURED'', ''FAILED'', ''EXPIRED'', ''CANCELLED''}"

definition decodeInboxPayload :: "webhook_payload \<Rightarrow> app_error + webhook_payload" where
  "decodeInboxPayload p = (if \<not> validPayload p then Inl (EText ''payment webhook inbox payload invalid'') else Inr p)"

text \<open>
  The errors of \<open>ProcessOne\<close> before they are told apart: \<open>HIdle\<close> is \<open>pgx.ErrNoRows\<close> of the
  claim, \<open>HTerminal\<close> a \<open>terminalError\<close> of the claimed event.
\<close>

datatype hook_error = HIdle | HTerminal webhook_event string | HFault app_error

type_synonym 'a hook = "(hook_error, dbs, 'a) tx"

definition routeFamily :: "string \<Rightarrow> string" where
  "routeFamily t =
    (if t = ''payment_session.completed'' \<or> t = ''payment_session.expired'' then ''payment_session'' else ''payment'')"

definition recordWebhookAudit :: "env \<Rightarrow> webhook_event \<Rightarrow> string \<Rightarrow> string \<Rightarrow> unit app" where
  "recordWebhookAudit E e result reason =
     audit_record E (webhook_audit_row ActionWebhookReplay (we_correlation_id e) (routeFamily (we_event_type e))
       result reason (we_raw_body_hash e))"

definition markProcessedTx :: "env \<Rightarrow> webhook_event \<Rightarrow> string \<Rightarrow> unit app" where
  "markProcessedTx E e reason =
     andthen (db_call E EDatabase (\<lambda>now d.
         update_events (\<lambda>x. we_id x = we_id e \<and> we_processing x = WProcessing) (set_ended WProcessed now) d))
       (\<lambda>_. recordWebhookAudit E e ''PROCESSED'' reason)"

definition applyNonCaptureState :: "env \<Rightarrow> webhook_event \<Rightarrow> attempt_state \<Rightarrow> unit hook" where
  "applyNonCaptureState E e target =
    (case we_attempt_id e of None \<Rightarrow> fail (HTerminal e ''REFERENCE_MISMATCH'')
     | Some aid \<Rightarrow>
    attempt (GetAttemptTx E aid)
     (\<lambda>x. if x = EPayment ErrAttemptNotFound then fail (HTerminal e ''REFERENCE_MISMATCH'') else fail (HFault x))
     (\<lambda>a.
    if pa_state a = target \<or> pa_state a = AttemptCaptured then ret ()
    else if pa_state a \<noteq> AttemptPending then ret ()
    else
    attempt (TransitionStateTx E (pa_id a) AttemptPending target)
     (\<lambda>x. if x = EPayment ErrStateConflict then ret () else fail (HFault x))
     (\<lambda>_. ret ())))"

definition processClaimed :: "env \<Rightarrow> webhook_event \<Rightarrow> unit hook" where
  "processClaimed E e =
    (case decodeInboxPayload (we_payload e) of Inl _ \<Rightarrow> fail (HTerminal e ''INVALID_REQUEST'')
     | Inr _ \<Rightarrow>
    if we_event_type e = ''payment_session.completed'' then map_err HFault (markProcessedTx E e ''NONE'')
    else if we_event_type e = ''payment_session.expired'' then
      andthen (applyNonCaptureState E e AttemptExpired) (\<lambda>_. map_err HFault (markProcessedTx E e ''NONE''))
    else fail (HTerminal e ''INVALID_REQUEST''))"

definition terminal_target :: "string \<Rightarrow> webhook_event \<Rightarrow> bool" where
  "terminal_target i e \<longleftrightarrow> we_id e = i \<and> we_verification e = WVerified
     \<and> we_processing e \<in> {WReceived, WRetryable, WProcessing}"

definition markTerminal :: "env \<Rightarrow> webhook_event \<Rightarrow> string \<Rightarrow> unit app" where
  "markTerminal E e reason =
    in_tx E EDatabase (
      andthen (db_call E EDatabase (\<lambda>now d.
          update_events (terminal_target (we_id e)) (set_ended WTerminal now) d)) (\<lambda>rows.
      if length rows \<noteq> 1 then fail (EPayment ErrStateConflict)
      else recordWebhookAudit E e ''TERMINAL'' reason))"

definition process_claim :: "env \<Rightarrow> string list \<Rightarrow> inbox_processor \<Rightarrow> unit hook" where
  "process_claim E busy P =
    andthen (map_err HFault (reclaimStaleProcessing E (ip_timeout P))) (\<lambda>_.
    andthen (map_err HFault (claimNext E busy)) (\<lambda>c.
      case c of None \<Rightarrow> fail HIdle | Some e \<Rightarrow> processClaimed E e))"

text \<open>Every error, \<open>HIdle\<close> included, leaves through the deferred rollback.\<close>

definition ProcessOne :: "env \<Rightarrow> string list \<Rightarrow> inbox_processor \<Rightarrow> bool app" where
  "ProcessOne E busy P =
    attempt (in_tx E (HFault EDatabase) (process_claim E busy P))
     (\<lambda>x. case x of HIdle \<Rightarrow> ret False
        | HTerminal e reason \<Rightarrow> andthen (markTerminal E e reason) (\<lambda>_. ret True)
        | HFault err \<Rightarrow> fail err)
     (\<lambda>_. ret True)"

subsection \<open>The worker\<close>

record inbox_worker =
  iw_processor :: inbox_processor
  iw_poll :: duration

definition NewInboxWorker :: "inbox_processor option \<Rightarrow> duration \<Rightarrow> app_error + inbox_worker" where
  "NewInboxWorker p poll =
    (case p of None \<Rightarrow> Inl EUnavailable
     | Some P \<Rightarrow> Inr \<lparr>iw_processor = P, iw_poll = (if poll \<le> 0 then second else poll)\<rparr>)"

text \<open>
  The loop of \<open>Start\<close>. Each wait for the next poll consumes a choice, \<open>True\<close> for the timer and
  \<open>False\<close> for the end of the context; without one left the loop is still waiting. The fuel
  counts iterations, and \<open>busy n\<close> lists the rows locked by others in the n-th from the end.
\<close>

datatype loop_end = OutOfFuel | Waiting | Stopped

primrec StartInbox :: "nat \<Rightarrow> env \<Rightarrow> (nat \<Rightarrow> string list) \<Rightarrow> inbox_worker \<Rightarrow> bool list \<Rightarrow> loop_end app" where
  "StartInbox 0 E busy W choices = ret OutOfFuel"
| "StartInbox (Suc n) E busy W choices =
    (let wait = (case choices of [] \<Rightarrow> ret Waiting
                 | c # cs \<Rightarrow> if c then StartInbox n E busy W cs else ret Stopped)
     in attempt (ctx_check E EContext) (\<lambda>_. ret Stopped)
       (\<lambda>_. attempt (ProcessOne E (busy n) (iw_processor W)) (\<lambda>_. wait)
         (\<lambda>claimed. if claimed then StartInbox n E busy W choices else wait)))"

end
