(* ===== verification/WebhookSafety.thy ===== *)
theory WebhookSafety
  imports WebhookProcessor ProcessorSafety
begin

text \<open>
  The life of an inbox row. \<open>inbox_order\<close> relates two states when every event is still there
  with its facts, an ended event has not changed at all, and neither a verification nor a
  quarantine has been taken back; \<open>inbox_wf\<close> are the table's constraints. \<open>inbox_relation\<close> is
  what a relation between states has to satisfy for the ingress and the processor as a whole
  to respect it.
\<close>

subsection \<open>Events only move forward\<close>

definition event_step :: "webhook_event \<Rightarrow> webhook_event \<Rightarrow> bool" where
  "event_step old new \<longleftrightarrow> event_facts new = event_facts old
     \<and> (ended_processing (we_processing old) \<longrightarrow> new = old)
     \<and> (we_verification old = WVerified \<longrightarrow> we_verification new = WVerified)
     \<and> (we_verification old = WQuarantined \<longrightarrow> we_verification new = WQuarantined)
     \<and> we_updated_at old \<le> we_updated_at new"

interpretation event_rows: row_step event_step
  by unfold_locales (auto simp: event_step_def)

definition inbox_order :: "dbs \<Rightarrow> dbs \<Rightarrow> bool" where
  "inbox_order d d' \<longleftrightarrow> grown_by event_step (webhook_events d) (webhook_events d')"

definition event_ok :: "webhook_event \<Rightarrow> bool" where
  "event_ok e \<longleftrightarrow> event_check e = None \<and> we_event_type e \<in> set webhook_event_types
     \<and> we_event_key e = we_provider e @ ''|'' @ we_event_type e @ ''|'' @ we_primary_object e
     \<and> isLowercaseSHA256 (we_raw_body_hash e) \<and> IsXenditWebhookContractVersion (we_auth_contract e)"

definition inbox_wf :: "dbs \<Rightarrow> bool" where
  "inbox_wf d \<longleftrightarrow> (\<forall>e \<in> set (webhook_events d). event_ok e)
     \<and> distinct (map event_identity (webhook_events d)) \<and> distinct (map we_id (webhook_events d))"

definition inbox_safe :: "dbs \<Rightarrow> dbs \<Rightarrow> bool" where
  "inbox_safe d d' \<longleftrightarrow> inbox_order d d' \<and> (inbox_wf d \<longrightarrow> inbox_wf d')"

interpretation inbox: table_order inbox_safe
  by unfold_locales
    (auto simp: inbox_safe_def inbox_order_def event_rows.grown_refl intro: event_rows.grown_trans)

lemma inbox_same: "webhook_events d' = webhook_events d \<Longrightarrow> inbox_safe d d'"
  by (simp add: inbox_safe_def inbox_order_def inbox_wf_def event_rows.grown_refl)

lemma lifecycle_guard_None:
  "lifecycle_guard old new = None \<Longrightarrow> \<not> ended_processing (we_processing old)
     \<and> (we_verification old = WVerified \<longrightarrow> we_verification new = WVerified)
     \<and> (we_verification old = WQuarantined \<longrightarrow> we_verification new = WQuarantined)
     \<and> we_updated_at old \<le> we_updated_at new"
  by (auto simp: lifecycle_guard_def split: if_splits)

lemma update_error_None:
  assumes "update_error old new = None"
  shows "event_step old new" and "event_check new = None" and "\<not> ended_processing (we_processing old)"
  using assms lifecycle_guard_None [of old new]
  by (auto simp: update_error_def event_step_def split: if_splits option.splits)

lemma event_facts_ok:
  assumes "event_facts new = event_facts old" and "event_ok old" and "event_check new = None"
  shows "event_ok new"
  using assms by (simp add: event_facts_def event_ok_def)

text \<open>The two outcomes of an UPDATE of the inbox.\<close>

lemma update_events_Inr:
  "update_events p f d = (Inr rows, d') \<longleftrightarrow>
     (\<forall>e \<in> set (webhook_events d). p e \<longrightarrow> update_error e (f e) = None)
     \<and> rows = map f (filter p (webhook_events d))
     \<and> d' = d\<lparr>webhook_events := sql_update p f (webhook_events d)\<rparr>"
proof -
  have errs: "List.map_filter (\<lambda>e. update_error e (f e)) (filter p es) = []
      \<longleftrightarrow> (\<forall>e \<in> set es. p e \<longrightarrow> update_error e (f e) = None)" for es
    by (induction es) (auto simp: List.map_filter_simps split: option.split)
  show ?thesis
    unfolding errs [symmetric]
    by (auto simp: update_events_def sql_returning_def split: list.split)
qed

lemma update_events_Inl: "update_events p f d = (Inl x, d') \<Longrightarrow> d' = d"
  by (auto simp: update_events_def split: list.splits)

lemma inbox_safe_update: "inbox_safe d (snd (update_events p f d))"
proof (cases "update_events p f d")
  case (Pair r d')
  show ?thesis
  proof (cases r)
    case (Inl e)
    then show ?thesis using Pair update_events_Inl inbox.R_refl by fastforce
  next
    case (Inr rows)
    with Pair have ok: "\<And>e. e \<in> set (webhook_events d) \<Longrightarrow> p e \<Longrightarrow> update_error e (f e) = None"
      and d': "d' = d\<lparr>webhook_events := sql_update p f (webhook_events d)\<rparr>"
      by (simp_all add: update_events_Inr)
    have keep: "map k (sql_update p f (webhook_events d)) = map k (webhook_events d)"
      if facts: "\<And>e e'. event_facts e = event_facts e' \<Longrightarrow> k e = k e'" for k :: "webhook_event \<Rightarrow> 'b"
    proof -
      have "k (f e) = k e" if "e \<in> set (webhook_events d)" "p e" for e
        by (rule facts) (use update_error_None(1) [OF ok [OF that]] in \<open>simp add: event_step_def\<close>)
      then show ?thesis by (simp add: sql_update_def)
    qed
    have "inbox_wf d'" if wf: "inbox_wf d"
    proof -
      have "event_ok (f e)" if "e \<in> set (webhook_events d)" "p e" for e
        using wf that ok [OF that] event_facts_ok update_error_None
        unfolding inbox_wf_def event_step_def by blast
      moreover have "map event_identity (webhook_events d') = map event_identity (webhook_events d)"
        "map we_id (webhook_events d') = map we_id (webhook_events d)"
        by (auto simp: d' event_identity_def event_facts_def intro!: keep)
      ultimately show ?thesis using wf by (auto simp: inbox_wf_def d' set_sql_update)
    qed
    moreover have "inbox_order d d'"
      using ok update_error_None(1) by (auto simp: inbox_order_def d' intro!: event_rows.grown_update)
    ultimately show ?thesis by (simp add: Pair inbox_safe_def)
  qed
qed

lemma insert_error_None:
  "insert_error d e = None \<Longrightarrow> event_ok e
     \<and> (\<forall>x \<in> set (webhook_events d). event_identity x \<noteq> event_identity e \<and> we_id x \<noteq> we_id e)"
  by (auto simp: insert_error_def event_ok_def sql_exists_iff split: if_splits option.splits)

lemma inbox_safe_insert: "inbox_safe d (snd (insert_event e d))"
proof (cases "insert_error d e")
  case None
  then show ?thesis
    using insert_error_None [OF None]
    by (auto simp: insert_event_def inbox_safe_def inbox_order_def inbox_wf_def event_rows.grown_append)
qed (simp add: insert_event_def inbox.R_refl)

subsection \<open>The interface\<close>

locale inbox_relation = database_order R
  for R :: "dbs \<Rightarrow> dbs \<Rightarrow> bool" +
  assumes R_update: "R d (snd (update_events p f d))"
    and R_insert: "R d (snd (insert_event e d))"
    and R_log: "commits R (audit_record E row)"
    and R_expire: "env_guar R E \<Longrightarrow> commits R (TransitionStateTx E i AttemptPending AttemptExpired)"
begin

lemma commits_inbox_writes:
  "commits R (db_call E flt (\<lambda>now d. update_events (p now) (f now) d))"
  "commits R (db_call E flt (\<lambda>now d. insert_event (g now) d))"
  "commits R (db_call E flt (\<lambda>now d. (Inl x, d)))"
  by (auto intro!: guar_commits guar_db_call simp: R_update R_insert R_refl)

lemmas inbox_steps = commits_ret commits_fail commits_andthen commits_map_err commits_if R_log
  commits_inbox_writes guar_commits [OF guar_query] guar_commits [OF guar_fresh_uuid]

lemma commits_accept_new: "commits R (accept_new E p)"
  unfolding accept_new_def writeAudit_def
  by (auto split: sum.split option.split intro!: inbox_steps)

lemma commits_accept_replay: "commits R (accept_replay E p e)"
  unfolding accept_replay_def writeAudit_def
  by (auto split: sum.split intro!: inbox_steps)

lemma top_Accept: "env_guar R E \<Longrightarrow> top_guar R (Accept E p)"
  unfolding Accept_def
  by (auto split: option.split intro!: top_if top_fail top_in_tx_commits inbox_steps
      commits_accept_new commits_accept_replay)

lemma top_receipts:
  assumes "env_guar R E"
  shows "top_guar R (RecordUnsupported E family correlation hash)"
    and "top_guar R (RecordAuthFailure E family correlation hash)"
    and "top_guar R (FindAttemptContext E e)"
  unfolding RecordUnsupported_def RecordAuthFailure_def FindAttemptContext_def
  by (auto split: list.split intro!: top_if top_fail top_ret top_andthen top_pool_query
      top_in_tx_commits R_log assms)

lemma commits_claimNext: "commits R (claimNext E busy)"
  unfolding claimNext_def
proof (intro guar_commits guar_db_call)
  fix now d
  have "R d d'" if "update_events p f d = (r, d')" for p f r d' using R_update that by (metis snd_conv)
  then show "R d (snd (claim_event busy now d))"
    by (auto simp: claim_event_def R_refl split: option.split prod.split sum.split list.split)
qed

lemma commits_applyNonCaptureState:
  assumes E: "env_guar R E"
  shows "commits R (applyNonCaptureState E e AttemptExpired)"
proof -
  have "commits R (attempt (TransitionStateTx E i AttemptPending AttemptExpired)
      (\<lambda>x. if x = EPayment ErrStateConflict then ret () else fail (HFault x)) (\<lambda>_. ret ()))" for i
    by (rule commits_recover) (use transition_conflict in \<open>auto intro!: inbox_steps R_expire E\<close>)
  then show ?thesis
    unfolding applyNonCaptureState_def
    by (auto split: option.split intro!: commits_fail commits_ret commits_recover commits_GetAttemptTx)
      metis
qed

lemma commits_processClaimed: "env_guar R E \<Longrightarrow> commits R (processClaimed E e)"
  unfolding processClaimed_def markProcessedTx_def recordWebhookAudit_def
  by (auto split: sum.split intro!: inbox_steps commits_applyNonCaptureState)

lemma top_markTerminal: "env_guar R E \<Longrightarrow> top_guar R (markTerminal E e reason)"
  unfolding markTerminal_def recordWebhookAudit_def
  by (intro top_in_tx_commits inbox_steps)

lemma top_ProcessOne: "env_guar R E \<Longrightarrow> top_guar R (ProcessOne E busy P)"
  unfolding ProcessOne_def process_claim_def reclaimStaleProcessing_def
  by (auto split: option.split hook_error.split intro!: top_attempt top_ret top_fail top_andthen
      top_in_tx_commits top_markTerminal inbox_steps commits_claimNext commits_processClaimed)

lemma top_StartInbox: "env_guar R E \<Longrightarrow> top_guar R (StartInbox n E busy W choices)"
proof (induction n arbitrary: choices)
  case (Suc n)
  then show ?case
    by (auto simp: Let_def split: list.split
        intro!: top_attempt top_ctx_check top_ret top_ProcessOne Suc.IH)
qed (simp add: top_ret)

end

text \<open>The three invariants of the payment tables, the outbox and the inbox are such relations.\<close>

interpretation payments: inbox_relation payments_safe
proof unfold_locales
  show "payments_safe d (snd (update_events p f d))" for d p f
    by (cases "update_events p f d") (auto simp: update_events_def split: list.splits intro!: payments_same)
  show "payments_safe d (snd (insert_event e d))" for d e
    by (auto simp: insert_event_def split: option.split intro!: payments_same)
qed (auto intro: guar_commits guar_payments_audit commits_TransitionStateTx)

interpretation outbox_safety: inbox_relation outbox_safe
proof unfold_locales
  have same: "outbox_safe d d'" if "commands d' = commands d" "cancellations d' = cancellations d" for d d'
    using that by (simp add: outbox_safe_def outbox_order_commands outbox_wf_commands tombstones_same)
  show "outbox_safe d (snd (update_events p f d))" for d p f
    by (cases "update_events p f d") (auto simp: update_events_def split: list.splits intro!: same)
  show "outbox_safe d (snd (insert_event e d))" for d e
    by (auto simp: insert_event_def split: option.split intro!: same)
qed (auto intro: outbox_safety.R_audit outbox_safety.R_transition)

interpretation inbox: other_tables inbox_safe
  by unfold_locales (simp add: inbox_same)

interpretation inbox: inbox_relation inbox_safe
  by unfold_locales
    (auto intro: inbox_safe_update inbox_safe_insert guar_commits inbox.guar_audit inbox.guar_transition)

end
