(* ===== verification/JsonTokens.thy ===== *)
theory JsonTokens
  imports Prelude Complex_Main
begin

text \<open>
  The structural limits of a webhook body: \<open>validateJSONStructure\<close> and \<open>countJSONValue\<close> of
  \<^verbatim>\<open>internal/paymentwebhooks/service.go\<close>, over the token stream of Go's \<open>encoding/json\<close>
  decoder, which is the standard library part of the model. The validator is equivalent to
  reading the tokens as JSON values and measuring them.
\<close>

subsection \<open>The decoder of the standard library\<close>

datatype delim = OpenObject | CloseObject | OpenArray | CloseArray

text \<open>A token is a delimiter, a string, or another scalar.\<close>

datatype json_token = TDelim delim | TString | TScalar

datatype token_state =
    TopValue | ArrayStart | ArrayValue | ArrayComma | ObjectStart | ObjectKey | ObjectColon
  | ObjectValue | ObjectComma

definition value_allowed :: "token_state \<Rightarrow> bool" where
  "value_allowed s \<longleftrightarrow> s \<in> {TopValue, ArrayStart, ArrayValue, ObjectValue}"

fun value_end :: "token_state \<Rightarrow> token_state" where
  "value_end ArrayStart = ArrayComma"
| "value_end ArrayValue = ArrayComma"
| "value_end ObjectValue = ObjectComma"
| "value_end s = s"

definition json_space :: "char \<Rightarrow> bool" where
  "json_space c \<longleftrightarrow> of_char c \<in> {32, 9, 13, 10 :: nat}"

definition is_digit :: "char \<Rightarrow> bool" where
  "is_digit c \<longleftrightarrow> CHR ''0'' \<le> c \<and> c \<le> CHR ''9''"

definition digits_value :: "string \<Rightarrow> nat" where
  "digits_value ds = foldl (\<lambda>n c. 10 * n + (of_char c - 48)) 0 ds"

text \<open>The scanners read a literal from the front and return what follows it.\<close>

fun scan_string :: "string \<Rightarrow> string option" where
  "scan_string [] = None"
| "scan_string (c # cs) =
    (if of_char c = (34 :: nat) then Some cs
     else if of_char c < (32 :: nat) then None
     else if of_char c = (92 :: nat) then
       (case cs of [] \<Rightarrow> None
        | d # ds \<Rightarrow>
           if of_char d \<in> {98, 102, 110, 114, 116, 92, 47, 34 :: nat} then scan_string ds
           else if d = CHR ''u'' then
             (case ds of a # b # e # f # es \<Rightarrow>
                if list_all (\<lambda>h. is_lower_hex h \<or> CHR ''A'' \<le> h \<and> h \<le> CHR ''F'') [a, b, e, f]
                  then scan_string es else None
              | _ \<Rightarrow> None)
           else None)
     else scan_string cs)"

definition scan_integer :: "string \<Rightarrow> (string \<times> string) option" where
  "scan_integer cs =
    (case cs of [] \<Rightarrow> None
     | c # ds \<Rightarrow> if c = CHR ''0'' then Some ([c], ds)
                 else if is_digit c then Some (takeWhile is_digit cs, dropWhile is_digit cs) else None)"

definition scan_fraction :: "string \<Rightarrow> (string \<times> string) option" where
  "scan_fraction cs =
    (case cs of c # ds \<Rightarrow>
       if c = CHR ''.'' then
         (if takeWhile is_digit ds = [] then None else Some (takeWhile is_digit ds, dropWhile is_digit ds))
       else Some ([], cs)
     | [] \<Rightarrow> Some ([], []))"

text \<open>\<open>strconv\<close> stops adding digits to an exponent that has reached 10000.\<close>

definition exponent_value :: "string \<Rightarrow> nat" where
  "exponent_value ds = foldl (\<lambda>e c. if e < 10000 then 10 * e + (of_char c - 48) else e) 0 ds"

definition scan_exponent :: "string \<Rightarrow> (int \<times> string) option" where
  "scan_exponent cs =
    (case cs of c # ds \<Rightarrow>
       if c = CHR ''e'' \<or> c = CHR ''E'' then
         (let (sign, es) = (case ds of s # r \<Rightarrow>
                if s = CHR ''-'' then (-1, r) else if s = CHR ''+'' then (1, r) else (1, ds) | [] \<Rightarrow> (1, ds))
          in if takeWhile is_digit es = [] then None
             else Some (sign * int (exponent_value (takeWhile is_digit es)), dropWhile is_digit es))
       else Some (0, cs)
     | [] \<Rightarrow> Some (0, []))"

definition power_ten :: "int \<Rightarrow> rat" where
  "power_ten k = (if k < 0 then 1 / 10 ^ nat (- k) else 10 ^ nat k)"

text \<open>A number that does not fit a \<open>float64\<close> is an error of the decoder.\<close>

definition float64_in_range :: "nat \<Rightarrow> int \<Rightarrow> bool" where
  "float64_in_range m e \<longleftrightarrow> rat_of_nat m * power_ten e < 2 ^ 1024 - 2 ^ 970"

definition scan_number :: "string \<Rightarrow> string option" where
  "scan_number cs =
    (let ds = (case cs of c # r \<Rightarrow> if c = CHR ''-'' then r else cs | [] \<Rightarrow> cs) in
     case scan_integer ds of None \<Rightarrow> None
     | Some (i, r1) \<Rightarrow>
    (case scan_fraction r1 of None \<Rightarrow> None
     | Some (f, r2) \<Rightarrow>
    (case scan_exponent r2 of None \<Rightarrow> None
     | Some (e, r3) \<Rightarrow>
        if float64_in_range (digits_value (i @ f)) (e - int (length f)) then Some r3 else None)))"

definition scan_scalar :: "string \<Rightarrow> (json_token \<times> string) option" where
  "scan_scalar cs =
    (case cs of [] \<Rightarrow> None
     | c # r \<Rightarrow>
        if of_char c = (34 :: nat) then map_option (Pair TString) (scan_string r)
        else if strip_prefix ''true'' cs \<noteq> None then map_option (Pair TScalar) (strip_prefix ''true'' cs)
        else if strip_prefix ''false'' cs \<noteq> None then map_option (Pair TScalar) (strip_prefix ''false'' cs)
        else if strip_prefix ''null'' cs \<noteq> None then map_option (Pair TScalar) (strip_prefix ''null'' cs)
        else map_option (Pair TScalar) (scan_number cs))"

text \<open>
  \<open>Decoder.Token\<close> called until it fails: the tokens read, and whether the error at the
  end was \<open>io.EOF\<close>. \<open>st\<close> is the token state and \<open>stack\<close> the states outside. Every step
  consumes a byte, so the length of the input is enough fuel.
\<close>

fun decode_tokens :: "nat \<Rightarrow> token_state \<Rightarrow> token_state list \<Rightarrow> string \<Rightarrow> json_token list \<times> bool" where
  "decode_tokens 0 st stack cs = ([], cs = [])"
| "decode_tokens (Suc n) st stack [] = ([], True)"
| "decode_tokens (Suc n) st stack (c # cs) =
    (if json_space c then decode_tokens n st stack cs
     else if c = CHR ''['' then
       (if \<not> value_allowed st then ([], False)
        else map_prod ((#) (TDelim OpenArray)) id (decode_tokens n ArrayStart (st # stack) cs))
     else if c = CHR '']'' then
       (case stack of s # rest \<Rightarrow>
          if st \<noteq> ArrayStart \<and> st \<noteq> ArrayComma then ([], False)
          else map_prod ((#) (TDelim CloseArray)) id (decode_tokens n (value_end s) rest cs)
        | [] \<Rightarrow> ([], False))
     else if of_char c = (123 :: nat) then
       (if \<not> value_allowed st then ([], False)
        else map_prod ((#) (TDelim OpenObject)) id (decode_tokens n ObjectStart (st # stack) cs))
     else if of_char c = (125 :: nat) then
       (case stack of s # rest \<Rightarrow>
          if st \<noteq> ObjectStart \<and> st \<noteq> ObjectComma then ([], False)
          else map_prod ((#) (TDelim CloseObject)) id (decode_tokens n (value_end s) rest cs)
        | [] \<Rightarrow> ([], False))
     else if c = CHR '':'' then
       (if st \<noteq> ObjectColon then ([], False) else decode_tokens n ObjectValue stack cs)
     else if c = CHR '','' then
       (if st = ArrayComma then decode_tokens n ArrayValue stack cs
        else if st = ObjectComma then decode_tokens n ObjectKey stack cs else ([], False))
     else if of_char c = (34 :: nat) \<and> (st = ObjectStart \<or> st = ObjectKey) then
       (case scan_string cs of None \<Rightarrow> ([], False)
        | Some r \<Rightarrow> map_prod ((#) TString) id (decode_tokens n ObjectColon stack r))
     else if \<not> value_allowed st then ([], False)
     else (case scan_scalar (c # cs) of None \<Rightarrow> ([], False)
        | Some (t, r) \<Rightarrow> map_prod ((#) t) id (decode_tokens n (value_end st) stack r)))"

definition json_tokens :: "string \<Rightarrow> json_token list \<times> bool" where
  "json_tokens body = decode_tokens (length body) TopValue [] body"

subsection \<open>The validator\<close>

definition maxJSONDepth :: nat where "maxJSONDepth = 16"
definition maxJSONMembers :: nat where "maxJSONMembers = 128"

record json_frame =
  jf_kind :: delim
  jf_members :: nat
  jf_expecting_key :: bool

text \<open>The stack has its top at the head. \<open>None\<close> is \<open>ErrInvalidIngressInput\<close>.\<close>

definition expect_key :: "json_frame list \<Rightarrow> json_frame list" where
  "expect_key st =
    (case st of [] \<Rightarrow> []
     | f # fs \<Rightarrow> (if jf_kind f = OpenObject then f\<lparr>jf_expecting_key := True\<rparr> else f) # fs)"

definition count_value :: "json_frame list \<Rightarrow> json_token \<Rightarrow> json_frame list option" where
  "count_value st tok =
    (case tok of TDelim d \<Rightarrow>
        if length st + 1 > maxJSONDepth then None
        else Some (\<lparr>jf_kind = d, jf_members = 0, jf_expecting_key = (d = OpenObject)\<rparr> # expect_key st)
     | _ \<Rightarrow> Some (expect_key st))"

definition countJSONValue :: "json_frame list \<Rightarrow> json_token \<Rightarrow> json_frame list option" where
  "countJSONValue st tok =
    (if tok = TDelim CloseObject \<or> tok = TDelim CloseArray then
       (case st of [] \<Rightarrow> None
        | frame # rest \<Rightarrow>
           if tok = TDelim CloseObject \<and> jf_kind frame \<noteq> OpenObject
              \<or> tok = TDelim CloseArray \<and> jf_kind frame \<noteq> OpenArray
              \<or> jf_kind frame = OpenObject \<and> \<not> jf_expecting_key frame then None
           else Some (expect_key rest))
     else
       (case st of [] \<Rightarrow> count_value [] tok
        | parent # rest \<Rightarrow>
           let grown = parent\<lparr>jf_members := jf_members parent + 1\<rparr> in
           if jf_kind parent = OpenObject \<and> jf_expecting_key parent then
             (if tok \<noteq> TString then None
              else if jf_members grown > maxJSONMembers then None
              else Some (grown\<lparr>jf_expecting_key := False\<rparr> # rest))
           else if jf_kind parent = OpenArray then
             (if jf_members grown > maxJSONMembers then None else count_value (grown # rest) tok)
           else count_value st tok))"

fun count_tokens :: "json_frame list \<Rightarrow> json_token list \<Rightarrow> json_frame list option" where
  "count_tokens st [] = Some st"
| "count_tokens st (t # ts) =
    (case countJSONValue st t of None \<Rightarrow> None | Some st' \<Rightarrow> count_tokens st' ts)"

definition validateJSONStructure :: "string \<Rightarrow> bool" where
  "validateJSONStructure body =
    (let (toks, eof) = json_tokens body
     in case count_tokens [] toks of None \<Rightarrow> False | Some st \<Rightarrow> eof \<and> st = [])"

subsection \<open>The reference\<close>

text \<open>JSON values up to the contents of their scalars; an object is the list of its members' values.\<close>

datatype json_value = JString | JScalar | JArray "json_value list" | JObject "json_value list"

fun value_tokens :: "json_value \<Rightarrow> json_token list" where
  "value_tokens JString = [TString]"
| "value_tokens JScalar = [TScalar]"
| "value_tokens (JArray vs) = TDelim OpenArray # concat (map value_tokens vs) @ [TDelim CloseArray]"
| "value_tokens (JObject vs) =
     TDelim OpenObject # concat (map (\<lambda>v. TString # value_tokens v) vs) @ [TDelim CloseObject]"

text \<open>At most 16 containers inside each other and 128 members in each of them.\<close>

fun within_limits :: "nat \<Rightarrow> json_value \<Rightarrow> bool" where
  "within_limits d (JArray vs) \<longleftrightarrow> d < maxJSONDepth \<and> length vs \<le> maxJSONMembers \<and> list_all (within_limits (Suc d)) vs"
| "within_limits d (JObject vs) \<longleftrightarrow> d < maxJSONDepth \<and> length vs \<le> maxJSONMembers \<and> list_all (within_limits (Suc d)) vs"
| "within_limits d _ \<longleftrightarrow> True"

subsection \<open>Every document within the limits is accepted\<close>

lemma count_tokens_append:
  "count_tokens st (ts @ us) = (case count_tokens st ts of None \<Rightarrow> None | Some st' \<Rightarrow> count_tokens st' us)"
  by (induction ts arbitrary: st) (auto split: option.split)

text \<open>A stack that waits for a value, and the stack once the value has been read.\<close>

fun ready :: "json_frame list \<Rightarrow> bool" where
  "ready [] = True"
| "ready (f # fs) = (jf_kind f = OpenArray \<and> \<not> jf_expecting_key f \<and> jf_members f < maxJSONMembers
     \<or> jf_kind f = OpenObject \<and> \<not> jf_expecting_key f)"

fun after_value :: "json_frame list \<Rightarrow> json_frame list" where
  "after_value [] = []"
| "after_value (f # fs) =
     (if jf_kind f = OpenArray then f\<lparr>jf_members := jf_members f + 1\<rparr> else f\<lparr>jf_expecting_key := True\<rparr>) # fs"

lemma count_scalar: "ready st \<Longrightarrow> tok = TString \<or> tok = TScalar \<Longrightarrow> countJSONValue st tok = Some (after_value st)"
  by (cases st) (auto simp: countJSONValue_def count_value_def expect_key_def Let_def)

lemma count_open:
  "ready st \<Longrightarrow> length st < maxJSONDepth \<Longrightarrow> d = OpenArray \<or> d = OpenObject \<Longrightarrow>
   countJSONValue st (TDelim d) = Some (\<lparr>jf_kind = d, jf_members = 0, jf_expecting_key = (d = OpenObject)\<rparr> # after_value st)"
  by (cases st) (auto simp: countJSONValue_def count_value_def expect_key_def Let_def)

lemma expect_key_after: "ready st \<Longrightarrow> expect_key (after_value st) = after_value st"
  by (cases st) (auto simp: expect_key_def)

lemma count_close:
  "ready st \<Longrightarrow> countJSONValue (\<lparr>jf_kind = OpenArray, jf_members = m, jf_expecting_key = False\<rparr> # after_value st)
     (TDelim CloseArray) = Some (after_value st)"
  "ready st \<Longrightarrow> countJSONValue (\<lparr>jf_kind = OpenObject, jf_members = m, jf_expecting_key = True\<rparr> # after_value st)
     (TDelim CloseObject) = Some (after_value st)"
  by (simp_all add: countJSONValue_def expect_key_after)

lemma length_after_value [simp]: "length (after_value st) = length st"
  by (cases st) auto

lemma count_key:
  "m < maxJSONMembers \<Longrightarrow> countJSONValue (\<lparr>jf_kind = OpenObject, jf_members = m, jf_expecting_key = True\<rparr> # st) TString
     = Some (\<lparr>jf_kind = OpenObject, jf_members = Suc m, jf_expecting_key = False\<rparr> # st)"
  by (simp add: countJSONValue_def Let_def)

lemma count_within:
  "ready st \<Longrightarrow> within_limits (length st) v \<Longrightarrow> count_tokens st (value_tokens v) = Some (after_value st)"
proof (induction v arbitrary: st)
  case (JArray vs)
  let ?f = "\<lambda>m. \<lparr>jf_kind = OpenArray, jf_members = m, jf_expecting_key = False\<rparr>"
  have members: "count_tokens (?f m # st') (concat (map value_tokens us)) = Some (?f (m + length us) # st')"
    if "set us \<subseteq> set vs" "m + length us \<le> maxJSONMembers" "list_all (within_limits (Suc (length st'))) us" for us m st'
    using that
  proof (induction us arbitrary: m)
    case (Cons u us)
    have "count_tokens (?f m # st') (value_tokens u) = Some (?f (Suc m) # st')"
      using JArray.IH [of u "?f m # st'"] Cons.prems by simp
    then show ?case using Cons by (simp add: count_tokens_append)
  qed simp
  show ?case
    using JArray.prems members [of vs 0 "after_value st"] by (simp add: count_open count_tokens_append count_close)
next
  case (JObject vs)
  let ?f = "\<lambda>m. \<lparr>jf_kind = OpenObject, jf_members = m, jf_expecting_key = True\<rparr>"
  have members: "count_tokens (?f m # st') (concat (map (\<lambda>v. TString # value_tokens v) us)) = Some (?f (m + length us) # st')"
    if "set us \<subseteq> set vs" "m + length us \<le> maxJSONMembers" "list_all (within_limits (Suc (length st'))) us" for us m st'
    using that
  proof (induction us arbitrary: m)
    case (Cons u us)
    have "count_tokens (\<lparr>jf_kind = OpenObject, jf_members = Suc m, jf_expecting_key = False\<rparr> # st') (value_tokens u)
        = Some (?f (Suc m) # st')"
      using JObject.IH [of u "\<lparr>jf_kind = OpenObject, jf_members = Suc m, jf_expecting_key = False\<rparr> # st'"] Cons.prems
      by simp
    then show ?case using Cons by (simp add: count_tokens_append count_key)
  qed simp
  show ?case
    using JObject.prems members [of vs 0 "after_value st"] by (simp add: count_open count_tokens_append count_close)
qed (simp_all add: count_scalar)

lemma count_documents: "list_all (within_limits 0) vs \<Longrightarrow> count_tokens [] (concat (map value_tokens vs)) = Some []"
  by (induction vs) (simp_all add: count_tokens_append count_within)

subsection \<open>Nothing else is accepted\<close>

text \<open>A container that is still open, with the values of its members so far; a key may have been read.\<close>

datatype partial = PArray "json_value list" | PObject "json_value list" | PKey "json_value list"

fun partial_tokens :: "partial \<Rightarrow> json_token list" where
  "partial_tokens (PArray vs) = TDelim OpenArray # concat (map value_tokens vs)"
| "partial_tokens (PObject vs) = TDelim OpenObject # concat (map (\<lambda>v. TString # value_tokens v) vs)"
| "partial_tokens (PKey vs) = TDelim OpenObject # concat (map (\<lambda>v. TString # value_tokens v) vs) @ [TString]"

text \<open>Its frame, when a container inside it is open (\<open>inner\<close>) and when it is the top.\<close>

fun frame_of :: "bool \<Rightarrow> partial \<Rightarrow> json_frame" where
  "frame_of inner (PArray vs) =
     \<lparr>jf_kind = OpenArray, jf_members = length vs + (if inner then 1 else 0), jf_expecting_key = False\<rparr>"
| "frame_of inner (PObject vs) = \<lparr>jf_kind = OpenObject, jf_members = length vs, jf_expecting_key = True\<rparr>"
| "frame_of inner (PKey vs) = \<lparr>jf_kind = OpenObject, jf_members = Suc (length vs), jf_expecting_key = inner\<rparr>"

fun frames :: "bool \<Rightarrow> partial list \<Rightarrow> json_frame list" where
  "frames inner [] = []"
| "frames inner (p # ps) = frame_of inner p # frames True ps"

fun members :: "partial \<Rightarrow> json_value list" where
  "members (PArray vs) = vs" | "members (PObject vs) = vs" | "members (PKey vs) = vs"

fun open_ok :: "bool \<Rightarrow> partial list \<Rightarrow> bool" where
  "open_ok inner [] = True"
| "open_ok inner (p # ps) = (length ps < maxJSONDepth \<and> jf_members (frame_of inner p) \<le> maxJSONMembers
     \<and> list_all (within_limits (Suc (length ps))) (members p) \<and> (inner \<longrightarrow> (\<nexists>vs. p = PObject vs))
     \<and> open_ok True ps)"

definition reads :: "json_frame list \<Rightarrow> json_token list \<Rightarrow> bool" where
  "reads st toks \<longleftrightarrow> (\<exists>vs ps. st = frames False ps \<and> open_ok False ps \<and> list_all (within_limits 0) vs
     \<and> toks = concat (map value_tokens vs) @ concat (map partial_tokens (rev ps)))"

lemma frames_length [simp]: "length (frames b ps) = length ps"
  by (induction ps arbitrary: b) auto

text \<open>Adding a finished value to what surrounds it.\<close>

lemma reads_value:
  assumes "open_ok True ps" and "list_all (within_limits 0) vs" and "within_limits (length ps) v"
    and "toks = concat (map value_tokens vs) @ concat (map partial_tokens (rev ps)) @ value_tokens v"
  shows "reads (expect_key (frames True ps)) toks"
proof (cases ps)
  case Nil
  with assms show ?thesis
    by (auto simp: reads_def expect_key_def intro!: exI [of _ "vs @ [v]"] exI [of _ "[] :: partial list"])
next
  case (Cons p qs)
  then show ?thesis
  proof (cases p)
    case (PArray us)
    with assms Cons show ?thesis
      by (auto simp: reads_def expect_key_def intro!: exI [of _ vs] exI [of _ "PArray (us @ [v]) # qs"])
  next
    case (PKey us)
    with assms Cons show ?thesis
      by (auto simp: reads_def expect_key_def intro!: exI [of _ vs] exI [of _ "PObject (us @ [v]) # qs"])
  qed (use assms Cons in auto)
qed

text \<open>Where the grown frame of an open container appears, it is ready for a member.\<close>

lemma reads_open:
  assumes "open_ok True ps" and "list_all (within_limits 0) vs" and "length ps < maxJSONDepth"
    and "toks = concat (map value_tokens vs) @ concat (map partial_tokens (rev ps))"
    and "d = OpenArray \<or> d = OpenObject"
  shows "reads (\<lparr>jf_kind = d, jf_members = 0, jf_expecting_key = (d = OpenObject)\<rparr> # frames True ps) (toks @ [TDelim d])"
  unfolding reads_def
  using assms
  by (intro exI [of _ vs] exI [of _ "(if d = OpenArray then PArray [] else PObject []) # ps"]) auto

lemma expect_key_frames: "open_ok True ps \<Longrightarrow> expect_key (frames True ps) = frames True ps"
  by (cases ps; cases "hd ps") (auto simp: expect_key_def)

text \<open>Outside an object that waits for a key, a value enters the surrounding container.\<close>

lemma count_inner:
  assumes "open_ok False ps" and "\<nexists>us qs. ps = PObject us # qs"
    and "tok \<noteq> TDelim CloseObject" and "tok \<noteq> TDelim CloseArray"
    and "countJSONValue (frames False ps) tok = Some st'"
  shows "open_ok True ps \<and> (case tok of TDelim d \<Rightarrow> length ps < maxJSONDepth
      \<and> st' = \<lparr>jf_kind = d, jf_members = 0, jf_expecting_key = (d = OpenObject)\<rparr> # frames True ps
    | _ \<Rightarrow> st' = expect_key (frames True ps))"
proof (cases ps)
  case Nil
  with assms show ?thesis
    by (auto simp: countJSONValue_def count_value_def expect_key_def split: json_token.splits if_splits)
next
  case (Cons p qs)
  then show ?thesis
  proof (cases p)
    case (PArray us)
    with assms Cons show ?thesis
      by (auto simp: countJSONValue_def count_value_def expect_key_def Let_def
          split: json_token.splits if_splits)
  next
    case (PKey us)
    with assms Cons show ?thesis
      by (auto simp: countJSONValue_def count_value_def expect_key_def Let_def
          split: json_token.splits if_splits)
  qed (use assms Cons in auto)
qed

lemma reads_step:
  assumes r: "reads st toks" and c: "countJSONValue st tok = Some st'"
  shows "reads st' (toks @ [tok])"
proof -
  obtain vs ps where st: "st = frames False ps" and ok: "open_ok False ps" and vs: "list_all (within_limits 0) vs"
    and toks: "toks = concat (map value_tokens vs) @ concat (map partial_tokens (rev ps))"
    using r by (auto simp: reads_def)
  consider (close) "tok = TDelim CloseObject \<or> tok = TDelim CloseArray"
    | (key) us qs where "ps = PObject us # qs" "tok \<noteq> TDelim CloseObject" "tok \<noteq> TDelim CloseArray"
    | (inner) "tok \<noteq> TDelim CloseObject" "tok \<noteq> TDelim CloseArray" "\<nexists>us qs. ps = PObject us # qs"
    by blast
  then show ?thesis
  proof cases
    case close
    then obtain p qs where ps: "ps = p # qs" using c st by (cases ps) (auto simp: countJSONValue_def)
    have st': "st' = expect_key (frames True qs)"
      and p: "tok = TDelim CloseObject \<and> (\<exists>us. p = PObject us) \<or> tok = TDelim CloseArray \<and> (\<exists>us. p = PArray us)"
      using c close by (cases p; auto simp: st ps countJSONValue_def split: if_splits)+
    have "reads (expect_key (frames True qs)) (toks @ [tok])" if "p = PObject us" "tok = TDelim CloseObject" for us
      by (rule reads_value [of qs vs "JObject us"]) (use ok vs that in \<open>auto simp: ps toks\<close>)
    moreover have "reads (expect_key (frames True qs)) (toks @ [tok])" if "p = PArray us" "tok = TDelim CloseArray" for us
      by (rule reads_value [of qs vs "JArray us"]) (use ok vs that in \<open>auto simp: ps toks\<close>)
    ultimately show ?thesis using p st' by blast
  next
    case key
    have "tok = TString" "length us < maxJSONMembers" "st' = frames False (PKey us # qs)"
      using c key by (auto simp: st countJSONValue_def Let_def split: if_splits)
    then show ?thesis
      using ok vs key toks by (auto simp: reads_def intro!: exI [of _ vs] exI [of _ "PKey us # qs"])
  next
    case inner
    note run = count_inner [OF ok inner(3, 1, 2) c [unfolded st]]
    show ?thesis
    proof (cases tok)
      case (TDelim d)
      then have "d = OpenArray \<or> d = OpenObject" using inner by (cases d) auto
      then show ?thesis using reads_open [OF _ vs _ toks] run TDelim by auto
    next
      case TString
      then show ?thesis using reads_value [of ps vs JString] vs run toks by auto
    next
      case TScalar
      then show ?thesis using reads_value [of ps vs JScalar] vs run toks by auto
    qed
  qed
qed

lemma reads_all: "reads st toks \<Longrightarrow> count_tokens st ts = Some st' \<Longrightarrow> reads st' (toks @ ts)"
proof (induction ts arbitrary: st toks)
  case (Cons t ts)
  then obtain st1 where "countJSONValue st t = Some st1" "count_tokens st1 ts = Some st'"
    by (auto split: option.splits)
  then show ?case using Cons.IH [of st1 "toks @ [t]"] reads_step [OF Cons.prems(1)] by simp
qed simp

lemma count_tokens_iff:
  "count_tokens [] toks = Some [] \<longleftrightarrow> (\<exists>vs. toks = concat (map value_tokens vs) \<and> list_all (within_limits 0) vs)"
proof
  assume run: "count_tokens [] toks = Some []"
  have "reads [] []" by (auto simp: reads_def intro!: exI [of _ "[] :: json_value list"] exI [of _ "[] :: partial list"])
  from reads_all [OF this run] obtain vs ps where ps: "frames False ps = []" and
    "list_all (within_limits 0) vs" "toks = concat (map value_tokens vs) @ concat (map partial_tokens (rev ps))"
    unfolding reads_def by (metis append_Nil)
  moreover have "ps = []" using ps by (cases ps) auto
  ultimately show "\<exists>vs. toks = concat (map value_tokens vs) \<and> list_all (within_limits 0) vs" by auto
qed (use count_documents in blast)

text \<open>
  C30. The structural check of a webhook body is exact. The one-pass frame counter accepts
  a body if and only if the decoder reads it to its end and its tokens are those of a sequence of
  complete JSON values, none nested deeper than 16 containers and none with more than 128
  members in a container.
\<close>

theorem validateJSONStructure_iff:
  "validateJSONStructure body \<longleftrightarrow>
    (\<exists>vs. json_tokens body = (concat (map value_tokens vs), True) \<and> list_all (within_limits 0) vs)"
proof -
  have "validateJSONStructure body \<longleftrightarrow> snd (json_tokens body) \<and> count_tokens [] (fst (json_tokens body)) = Some []"
    by (auto simp: validateJSONStructure_def split: option.split prod.split)
  then show ?thesis unfolding count_tokens_iff by (cases "json_tokens body") auto
qed

end
