(* ===== verification/WebhookService.thy ===== *)
theory WebhookService
  imports WebhookSafety JsonTokens Sha256
begin

text \<open>
  \<^verbatim>\<open>internal/paymentwebhooks/service.go\<close>: what an HTTP delivery goes through before it reaches the
  inbox, for any implementation of the \<open>Verifier\<close> interface. The five second deadline of the
  request is the request context of the environment.
\<close>

datatype webhook_code =
    WebhookTokenMissing | WebhookTokenInvalid | WebhookBodyEmpty | WebhookBodyTooLarge
  | WebhookJSONMalformed | WebhookEventUnsupported | WebhookSchemaUnsupported
  | WebhookPrimaryIDMissing | WebhookEventKeyInvalid | WebhookFutureEventTime | WebhookDuplicate
  | WebhookReplayConflict | WebhookAmountInvalid | WebhookCurrencyMismatch
  | WebhookReferenceMismatch | WebhookEventTimeInvalid

text \<open>The errors of a verifier: a \<open>WebhookError\<close>, the deadline, or any other error.\<close>

datatype verifier_error = WebhookError webhook_code | VerifierDeadline | VerifierOther app_error

record verify_request =
  vr_body :: string
  vr_headers :: "string \<rightharpoonup> string"
  vr_received_at :: time
  vr_max_body :: int

record webhook_verified =
  wv_verified :: bool
  wv_payload_hash :: string
  wv_received_at :: time
  wv_contract :: string

record parse_request =
  pq_body :: string
  pq_headers :: "string \<rightharpoonup> string"
  pq_observed_at :: time
  pq_max_body :: int
  pq_amount :: int
  pq_currency :: string
  pq_payment_req_id :: string
  pq_payment_id :: string

record verifier =
  VerifyWebhook :: "verify_request \<Rightarrow> verifier_error + webhook_verified"
  ParseWebhook :: "parse_request \<Rightarrow> verifier_error + hook_event"

record service =
  sv_verifier :: verifier
  sv_contract :: string

definition NewServiceWithContract :: "verifier option \<Rightarrow> bool \<Rightarrow> string \<Rightarrow> app_error + service" where
  "NewServiceWithContract v has_repository contract =
    (case v of None \<Rightarrow> Inl EInvalidIngressInput
     | Some V \<Rightarrow>
    if \<not> has_repository then Inl EInvalidIngressInput
    else if \<not> IsXenditWebhookContractVersion contract then Inl EInvalidIngressInput
    else Inr \<lparr>sv_verifier = V, sv_contract = contract\<rparr>)"

definition NewService :: "verifier option \<Rightarrow> bool \<Rightarrow> app_error + service" where
  "NewService v has_repository = NewServiceWithContract v has_repository provisional_contract"

record receive_request =
  rr_family :: string
  rr_body :: string
  rr_headers :: "string \<rightharpoonup> string"
  rr_received_at :: time
  rr_correlation_id :: string

record receive_result =
  rs_accepted :: bool
  rs_category :: string
  rs_status :: int

definition response :: "bool \<Rightarrow> string \<Rightarrow> int \<Rightarrow> receive_result" where
  "response a c s = \<lparr>rs_accepted = a, rs_category = c, rs_status = s\<rparr>"

definition isValidReceiveRequest :: "receive_request \<Rightarrow> bool" where
  "isValidReceiveRequest q \<longleftrightarrow> rr_correlation_id q \<noteq> []
     \<and> rr_family q \<in> {RoutePaymentSession, RoutePayment, RouteRefund}"

text \<open>The result comes with an error or without.\<close>

definition receiveVerificationError :: "verifier_error \<Rightarrow> receive_result \<times> verifier_error option" where
  "receiveVerificationError e =
    (case e of
       WebhookError c \<Rightarrow>
         if c = WebhookTokenMissing \<or> c = WebhookTokenInvalid then (response False ''unauthorized'' 401, None)
         else if c = WebhookBodyTooLarge then (response False ''payload_too_large'' 413, None)
         else if c = WebhookBodyEmpty then (response False ''invalid_request'' 400, None)
         else (response False ''invalid_request'' 400, Some e)
     | _ \<Rightarrow> (response False ''invalid_request'' 400, Some e))"

definition receiveParseError :: "verifier_error \<Rightarrow> receive_result" where
  "receiveParseError e =
    (case e of
       WebhookError c \<Rightarrow>
         if c = WebhookEventUnsupported \<or> c = WebhookSchemaUnsupported then response True ''accepted'' 200
         else if c = WebhookBodyTooLarge then response False ''payload_too_large'' 413
         else response False ''invalid_request'' 400
     | _ \<Rightarrow> response False ''invalid_request'' 400)"

definition isUnsupportedParseError :: "verifier_error \<Rightarrow> bool" where
  "isUnsupportedParseError e \<longleftrightarrow> e = WebhookError WebhookEventUnsupported \<or> e = WebhookError WebhookSchemaUnsupported"

definition quarantine :: "hook_event \<Rightarrow> string \<Rightarrow> hook_event" where
  "quarantine e reason = e\<lparr>he_verification := ''QUARANTINED'', he_reason := reason\<rparr>"

definition rawBodyHash :: "string \<Rightarrow> string" where
  "rawBodyHash body = sha256_hex body"

definition unavailable :: receive_result where
  "unavailable = response False ''temporarily_unavailable'' 503"

definition parse_with :: "receive_request \<Rightarrow> time \<Rightarrow> attempt_context option \<Rightarrow> parse_request" where
  "parse_with q received context =
    \<lparr>pq_body = rr_body q, pq_headers = rr_headers q, pq_observed_at = received, pq_max_body = 256 * 1024,
     pq_amount = (case context of None \<Rightarrow> 0 | Some a \<Rightarrow> ac_amount a),
     pq_currency = (case context of None \<Rightarrow> [] | Some a \<Rightarrow> ac_currency a),
     pq_payment_req_id = (case context of None \<Rightarrow> [] | Some a \<Rightarrow> ac_payment_req_id a),
     pq_payment_id = (case context of None \<Rightarrow> [] | Some a \<Rightarrow> ac_payment_id a)\<rparr>"

definition promote :: "service \<Rightarrow> hook_event \<Rightarrow> hook_event" where
  "promote S e =
    (if sv_contract S = verified_contract \<and> IsXenditWebhookEventEligibleForVerifiedContract (he_type e)
        \<and> he_verification e = ''DIAGNOSTIC''
     then e\<lparr>he_verification := ''VERIFIED''\<rparr> else e)"

text \<open>The last part: the promotion and the durable inbox.\<close>

definition store_event :: "env \<Rightarrow> service \<Rightarrow> receive_request \<Rightarrow> time \<Rightarrow> string option \<Rightarrow> hook_event
    \<Rightarrow> receive_result app" where
  "store_event E S q received aid e =
    attempt (Accept E \<lparr>ap_event = promote S e, ap_contract = sv_contract S, ap_correlation_id = rr_correlation_id q,
                       ap_family = rr_family q, ap_received_at = received, ap_attempt_id = aid\<rparr>)
     (\<lambda>_. ret unavailable) (\<lambda>_. ret (response True ''accepted'' 200))"

text \<open>The second parse, with the amounts and references of the one attempt the event matches.\<close>

definition match_event :: "env \<Rightarrow> service \<Rightarrow> receive_request \<Rightarrow> time \<Rightarrow> hook_event \<Rightarrow> receive_result app" where
  "match_event E S q received e =
    (if he_verification e = ''QUARANTINED'' then store_event E S q received None e
     else
     attempt (FindAttemptContext E e) (\<lambda>_. ret unavailable)
      (\<lambda>context. case context of None \<Rightarrow> store_event E S q received None e
       | Some a \<Rightarrow>
          (case ParseWebhook (sv_verifier S) (parse_with q received (Some a)) of
             Inl err \<Rightarrow> ret (receiveParseError err)
           | Inr e' \<Rightarrow> store_event E S q received (Some (ac_id a)) e')))"

text \<open>The body of an authenticated delivery.\<close>

definition receive_body :: "env \<Rightarrow> service \<Rightarrow> receive_request \<Rightarrow> time \<Rightarrow> webhook_verified \<Rightarrow> receive_result app" where
  "receive_body E S q received v =
    (if \<not> validateJSONStructure (rr_body q) then ret (response False ''invalid_request'' 400)
     else case ParseWebhook (sv_verifier S) (parse_with q received None) of
       Inl err \<Rightarrow>
         if isUnsupportedParseError err then
           attempt (RecordUnsupported E (rr_family q) (rr_correlation_id q) (wv_payload_hash v))
             (\<lambda>_. ret unavailable) (\<lambda>_. ret (receiveParseError err))
         else ret (receiveParseError err)
     | Inr e \<Rightarrow>
         match_event E S q received (if \<not> Accepts (rr_family q) (he_type e) then quarantine e ''INVALID_REQUEST'' else e))"

text \<open>
  The whole of \<open>Receive\<close>. The error that accompanies a result is what the caller logs; the
  response is the result, so every path returns one.
\<close>

definition receive_at :: "env \<Rightarrow> service \<Rightarrow> receive_request \<Rightarrow> time \<Rightarrow> receive_result app" where
  "receive_at E S q received =
    (case VerifyWebhook (sv_verifier S) \<lparr>vr_body = rr_body q, vr_headers = rr_headers q,
           vr_received_at = received, vr_max_body = 256 * 1024\<rparr> of
       Inl err \<Rightarrow>
         attempt (ctx_check E EContext) (\<lambda>_. ret unavailable) (\<lambda>_.
         if err = VerifierDeadline then ret unavailable
         else
           let res = fst (receiveVerificationError err) in
           if rs_status res = 401 then
             attempt (RecordAuthFailure E (rr_family q) (rr_correlation_id q) (rawBodyHash (rr_body q)))
               (\<lambda>_. ret res) (\<lambda>_. ret res)
           else ret res)
     | Inr v \<Rightarrow>
         if \<not> wv_verified v then ret (response False ''unauthorized'' 401)
         else receive_body E S q received v)"

definition Receive :: "env \<Rightarrow> service \<Rightarrow> receive_request \<Rightarrow> receive_result app" where
  "Receive E S q =
    (if \<not> isValidReceiveRequest q then ret (response False ''invalid_request'' 400)
     else andthen (if is_zero (rr_received_at q) then read_clock E else ret (rr_received_at q))
            (receive_at E S q))"

lemma Receive_run:
  assumes "isValidReceiveRequest q"
  obtains received w1 where "Receive E S q w = receive_at E S q received w1" and "db w1 = db w"
    and "base w1 = base w"
  using assms by (cases "is_zero (rr_received_at q)") (auto simp: Receive_def andthen_def attempt_def ret_def)

context inbox_relation begin

lemma top_store_event: "env_guar R E \<Longrightarrow> top_guar R (store_event E S q received aid e)"
  unfolding store_event_def by (intro top_attempt top_ret top_Accept)

lemma top_match_event: "env_guar R E \<Longrightarrow> top_guar R (match_event E S q received e)"
  unfolding match_event_def
  by (auto split: option.split sum.split intro!: top_attempt top_ret top_receipts top_store_event)

lemma top_Receive: "env_guar R E \<Longrightarrow> top_guar R (Receive E S q)"
  unfolding Receive_def receive_at_def receive_body_def Let_def
  by (auto split: sum.split intro!: top_andthen top_attempt top_ret top_read_clock top_ctx_check
      top_receipts top_match_event)

end

end
