(* ===== verification/WebhookProperties.thy ===== *)
theory WebhookProperties
  imports WebhookService CaptureScenario
begin

text \<open>
  Properties of the webhook inbox: safety of every operation, what a delivery can do, which
  event a claim takes, that processing never touches money, and that the worker drains the
  inbox.
\<close>

lemma quiet_env_inbox [scenario]: "env_guar inbox_safe quiet_env"
  by (simp add: env_guar_def scenario inbox.R_refl)



subsection \<open>Money\<close>

text \<open>What processing a webhook must leave alone.\<close>

definition same_money :: "dbs \<Rightarrow> dbs \<Rightarrow> bool" where
  "same_money d d' \<longleftrightarrow> captures d' = captures d \<and> bookings d' = bookings d \<and> ledger d' = ledger d
     \<and> snapshots d' = snapshots d \<and> commands d' = commands d \<and> captured_rows d' = captured_rows d"

interpretation money: table_order same_money
  by unfold_locales (simp_all add: same_money_def)

lemma same_money_but:
  "captures d' = captures d \<Longrightarrow> bookings d' = bookings d \<Longrightarrow> ledger d' = ledger d
    \<Longrightarrow> snapshots d' = snapshots d \<Longrightarrow> commands d' = commands d \<Longrightarrow> attempts d' = attempts d \<Longrightarrow> same_money d d'"
  by (simp add: same_money_def captured_rows_def)

lemma same_money_expire:
  "same_money d (snd (update_attempt i (\<lambda>a. pa_state a = AttemptPending) (set_state AttemptExpired now) d))"
proof -
  have "captured_rows (d\<lparr>attempts := sql_update (\<lambda>x. pa_id x = i \<and> pa_state x = AttemptPending)
      (set_state AttemptExpired now) (attempts d)\<rparr>) = captured_rows d"
    by (auto simp: captured_rows_def set_sql_update set_state_def image_iff split: if_splits)
  then show ?thesis
    by (auto simp: update_attempt_def same_money_def split: option.split)
qed

lemma same_money_audit: "guar same_money (audit_record E row)"
  unfolding audit_record_def
  by (intro money.guar_if money.guar_fail money.guar_exec) (simp add: same_money_but)

lemma same_money_transition: "guar same_money (TransitionStateTx E i AttemptPending AttemptExpired)"
  unfolding TransitionStateTx_def run_update_def select_attempt_def not_found_def writePaymentAudit_def
    writePaymentAuditWithActor_def Let_def
  by (auto split: option.split intro!: money.guar_intros money.guar_db_call same_money_audit same_money_expire)

interpretation money: inbox_relation same_money
proof unfold_locales
  show "same_money d (snd (update_events p f d))" for d p f
    by (cases "update_events p f d") (auto simp: update_events_def split: list.splits intro!: same_money_but)
  show "same_money d (snd (insert_event e d))" for d e
    by (auto simp: insert_event_def split: option.split intro!: same_money_but)
qed (auto intro: guar_commits same_money_audit same_money_transition)

text \<open>
  C25. Webhooks never move money. Whatever a provider delivers and however often the
  worker runs, no capture is recorded or changed, no attempt becomes or stops being captured, no
  booking, ledger row, fee snapshot or provider command is written, and the invariants of the
  payment tables and of the outbox are kept: the only effect outside the inbox and the audit
  log is that a pending attempt may expire.
\<close>

theorem webhooks_never_move_money:
  assumes "env_guar same_money E" and "env_guar payments_safe E" and "env_guar outbox_safe E"
  shows "top_guar same_money (Receive E S q) \<and> top_guar same_money (StartInbox n E locked W choices)
    \<and> top_guar payments_safe (Receive E S q) \<and> top_guar payments_safe (StartInbox n E locked W choices)
    \<and> top_guar outbox_safe (Receive E S q) \<and> top_guar outbox_safe (StartInbox n E locked W choices)"
  by (intro conjI money.top_Receive money.top_StartInbox payments.top_Receive payments.top_StartInbox
      outbox_safety.top_Receive outbox_safety.top_StartInbox assms)

lemma quiet_env_money: "env_guar same_money quiet_env" "env_guar outbox_safe quiet_env"
  by (simp_all add: env_guar_def scenario money.R_refl outbox_safety.R_refl)

theorem webhooks_never_move_money_witness:
  "\<forall>S q W. top_guar same_money (Receive quiet_env S q)
    \<and> top_guar payments_safe (StartInbox 5 quiet_env (\<lambda>n. []) W [True, False])"
  using webhooks_never_move_money [OF quiet_env_money(1) quiet_env_safe quiet_env_money(2)] by blast

subsection \<open>Deliveries\<close>

text \<open>
  What a delivery that is acknowledged did to the state \<open>d\<close> its transaction saw: a new key is
  one new row, the same body again is nothing but an audit row, and a different body for a
  known key ends the row in quarantine unless it has ended already.
\<close>

definition delivery_effect :: "accept_params \<Rightarrow> dbs \<Rightarrow> acceptance \<Rightarrow> dbs \<Rightarrow> bool" where
  "delivery_effect p d r d' \<longleftrightarrow>
    (\<exists>events log. d' = d\<lparr>webhook_events := events, audit_log := audit_log d @ log\<rparr> \<and> log \<noteq> [] \<and>
      (case query_row (has_key (he_key (ap_event p))) (webhook_events d) of
         None \<Rightarrow> r = AcceptedNew \<and> (\<exists>payload v i now.
             events = webhook_events d @ [new_event p payload v i now]
             \<and> verification_column (he_verification (ap_event p)) = Some v
             \<and> redactedPayload (ap_event p) = Inr payload)
       | Some e \<Rightarrow>
           if we_raw_body_hash e = he_payload_hash (ap_event p)
             then r = AcceptedDuplicate \<and> events = webhook_events d
           else r = AcceptedConflict \<and>
             (if ended_processing (we_processing e) then events = webhook_events d
              else we_verification e \<noteq> WVerified \<and> (\<exists>now.
                events = sql_update (has_key (he_key (ap_event p))) (set_quarantined now) (webhook_events d)))))"

lemma insert_event_Inr:
  "insert_event e d = (Inr x, d') \<longleftrightarrow>
     insert_error d e = None \<and> d' = d\<lparr>webhook_events := webhook_events d @ [e]\<rparr>"
  by (auto simp: insert_event_def split: option.splits)

lemma accept_new_effect:
  assumes "accept_new E p w = (Inr r, w')"
    and "query_row (has_key (he_key (ap_event p))) (webhook_events (db w)) = None"
  shows "delivery_effect p (db w) r (db w')"
  using assms
  by (auto simp: accept_new_def delivery_effect_def writeAudit_def tx_Inr insert_event_Inr
      audit_record_Inr split: sum.splits option.splits)

lemma quarantine_error:
  assumes "update_error e (set_quarantined now e) = None"
  shows "we_verification e \<noteq> WVerified \<and> \<not> ended_processing (we_processing e)"
  using update_error_None(1, 3) [OF assms] by (auto simp: event_step_def set_quarantined_def)

lemma classify_existing:
  "ClassifyWebhookReplay \<lparr>ri_found = True, ri_existing_hash = old, ri_incoming_hash = new\<rparr> = Inr cl
    \<Longrightarrow> (rc_decision cl = ReplayDuplicateSameBody) = (old = new)"
  by (auto simp: ClassifyWebhookReplay_def split: if_splits)

lemma accept_replay_effect:
  assumes run: "accept_replay E p e w = (Inr r, w')"
    and e: "query_row (has_key (he_key (ap_event p))) (webhook_events (db w)) = Some e"
  shows "delivery_effect p (db w) r (db w')"
proof -
  let ?k = "has_key (he_key (ap_event p))"
  obtain cl where cl: "ClassifyWebhookReplay \<lparr>ri_found = True, ri_existing_hash = we_raw_body_hash e,
      ri_incoming_hash = he_payload_hash (ap_event p)\<rparr> = Inr cl"
    using run by (auto simp: accept_replay_def split: sum.splits)
  have live: "we_processing e \<in> {WReceived, WProcessing, WRetryable}
      \<longleftrightarrow> \<not> ended_processing (we_processing e)"
    by (cases "we_processing e") (simp_all add: ended_processing_def)
  have ok: "we_verification e \<noteq> WVerified" if "\<forall>x \<in> set (webhook_events (db w)). ?k x
      \<longrightarrow> update_error x (set_quarantined now x) = None" for now
    using that query_row_Some [OF e] quarantine_error by blast
  show ?thesis
  proof (cases "we_raw_body_hash e = he_payload_hash (ap_event p)")
    case True
    then show ?thesis
      using run unfolding accept_replay_def cl
      by (simp add: classify_existing [OF cl] writeAudit_def tx_Inr audit_record_Inr)
        (auto simp: delivery_effect_def e)
  next
    case False
    have "\<exists>v. (if \<not> ended_processing (we_processing e)
        then andthen (db_call E EDatabase (\<lambda>now d. update_events ?k (set_quarantined now) d)) (\<lambda>_. ret ())
        else ret ()) w = (Inr (), v)
      \<and> r = AcceptedConflict \<and> (\<exists>row. db w' = (db v)\<lparr>audit_log := audit_log (db v) @ [row]\<rparr>)"
      using run False unfolding accept_replay_def cl live
      by (cases "ended_processing (we_processing e)")
        (auto simp: classify_existing [OF cl] writeAudit_def andthen_Inr audit_record_Inr ret_Inr)
    then show ?thesis
      using False ok
      by (auto simp: delivery_effect_def e tx_Inr update_events_Inr split: if_splits)
  qed
qed

lemma accept_effect:
  assumes "Accept E p w = (Inr r, w')"
  shows "delivery_effect p (interfere E (steps w) (db w)) r (db w')"
proof -
  let ?d = "interfere E (steps w) (db w)"
  let ?w1 = "\<lparr>db = ?d, base = ?d, steps = Suc (Suc (steps w)), tx_now = clock E (steps w)\<rparr>"
  obtain w2 where run: "(case query_row (has_key (he_key (ap_event p))) (webhook_events ?d) of
        None \<Rightarrow> accept_new E p | Some existing \<Rightarrow> accept_replay E p existing) ?w1 = (Inr r, w2)"
    and "db w' = db w2"
    using assms by (auto simp: Accept_def in_tx_Inr tx_Inr split: if_splits)
  then show ?thesis
    using accept_new_effect [of E p ?w1 r w2] accept_replay_effect [of E p _ ?w1 r w2]
    by (auto split: option.splits)
qed

text \<open>
  C26. What a delivery does. When a delivery is acknowledged, the tables are those its
  transaction saw with exactly the effect of a new event, a duplicate or a conflict, by the row
  with its key and its body hash, and audit rows; nothing else is written.
\<close>

theorem accept_outcomes:
  assumes "Accept E p w = (Inr r, w')"
  shows "delivery_effect p (interfere E (steps w) (db w)) r (db w')"
  using assms by (rule accept_effect)

definition sample_hook :: hook_event where
  "sample_hook = \<lparr>he_key = ''XENDIT|payment_session.expired|ps-1'', he_type = ''payment_session.expired'',
     he_primary_object = ''ps-1'', he_session_id = ''ps-1'', he_payment_req_id = [], he_payment_id = [],
     he_refund_id = [], he_state = ''EXPIRED'', he_amount = 150000, he_currency = ''IDR'',
     he_occurred_at = 900 * second, he_observed_at = 990 * second, he_source_reference = ''ps-1'',
     he_payload_hash = sample_hash, he_reason = [], he_verification = ''VERIFIED''\<rparr>"

definition sample_delivery :: accept_params where
  "sample_delivery = \<lparr>ap_event = sample_hook, ap_contract = verified_contract,
     ap_correlation_id = ''webhook:1'', ap_family = RoutePaymentSession, ap_received_at = 990 * second,
     ap_attempt_id = None\<rparr>"

definition sample_inbox_payload :: webhook_payload where
  "sample_inbox_payload = \<lparr>wp_state = ''EXPIRED'', wp_amount = 150000, wp_currency = ''IDR'',
     wp_source_reference = ''ps-1'', wp_payment_id = [], wp_payment_request_id = [], wp_reason_code = []\<rparr>"

definition sample_row :: "string \<Rightarrow> time \<Rightarrow> webhook_event" where
  "sample_row i now = new_event sample_delivery sample_inbox_payload WVerified i now"

definition sample_inbox_row :: webhook_event where
  "sample_inbox_row = sample_row (uid CHR ''c'') (1000 * second)"

lemma sample_redacted [scenario]: "redactedPayload sample_hook = Inr sample_inbox_payload"
  by (simp add: redactedPayload_def redacted_size_def Let_def json_size_def sample_hook_def
      sample_inbox_payload_def format_int_def format_nat.simps)

lemma webhook_row_valid:
  assumes "isWebhookAuditAction a"
  shows "Validate E (webhook_audit_row a correlation family result reason hash) \<longleftrightarrow>
    trim_space correlation \<noteq> [] \<and> family \<in> {''payment_session'', ''payment'', ''refund''}
    \<and> result \<in> {''NEW'', ''DUPLICATE'', ''CONFLICT'', ''UNSUPPORTED'', ''AUTH_FAILED'', ''PROCESSED'', ''TERMINAL''}
    \<and> isAllowedReasonForAction a reason \<and> length hash = 64 \<and> list_all is_lower_hex hash"
proof -
  have keys: "allowedMetadataKeysPerAction a = webhookAuditMetadataKeys"
    "requiredMetadataKeysPerAction a = webhookAuditMetadataKeys"
    using assms by (auto simp: isWebhookAuditAction_def allowedMetadataKeysPerAction_def
        requiredMetadataKeysPerAction_def split: audit_action.split)
  let ?p = "webhook_audit_row a correlation family result reason hash"
  have sel: "au_action ?p = a" "au_entity_type ?p = EntityPaymentWebhook" "au_role ?p = ''SYSTEM''"
    "au_actor ?p = None" "au_entity_id ?p = None" "au_correlation_id ?p = Some correlation"
    by (simp_all add: webhook_audit_row_def)
  have "list_all (\<lambda>k. map_of (au_metadata ?p) k \<noteq> None)
      webhookAuditMetadataKeys"
    by (simp add: webhookAuditMetadataKeys_def webhook_audit_row_def)
  moreover have "a \<notin> {ActionPaymentStateTransition, ActionReconciliationException,
      ActionPaymentAttemptCreated, ActionPaymentCommandEnqueued, ActionPaymentCommandInvariantViolation}"
    "a \<noteq> ActionPaymentCreateFlagOffRejected"
    using assms by (auto simp: isWebhookAuditAction_def)
  moreover have "trim_space ''SYSTEM'' = ''SYSTEM''" by (simp add: trim_space_graphic graphic_def)
  moreover have "list_all (\<lambda>(k, v). k \<in> set webhookAuditMetadataKeys \<and> metadata_value_ok a k v)
        (au_metadata ?p)
      \<longleftrightarrow> family \<in> {''payment_session'', ''payment'', ''refund''}
    \<and> result \<in> {''NEW'', ''DUPLICATE'', ''CONFLICT'', ''UNSUPPORTED'', ''AUTH_FAILED'', ''PROCESSED'', ''TERMINAL''}
    \<and> isAllowedReasonForAction a reason \<and> length hash = 64 \<and> list_all is_lower_hex hash"
    by (simp add: webhook_audit_row_def webhookAuditMetadataKeys_def metadata_value_ok_def conj_ac)
  ultimately show ?thesis
    using assms by (simp add: Validate_def sel keys platformActionEntity_def)
qed

lemma sample_row_valid [scenario]:
  "isWebhookAuditAction a \<Longrightarrow> reason \<in> {''NONE'', ''INVALID_REQUEST'', ''IDEMPOTENCY_CONFLICT''} \<Longrightarrow>
   result \<in> {''NEW'', ''DUPLICATE'', ''CONFLICT'', ''PROCESSED'', ''TERMINAL''} \<Longrightarrow>
   Validate E (webhook_audit_row a ''webhook:1'' ''payment_session'' result reason sample_hash)"
  using sample_hash_hex
  by (auto simp: webhook_row_valid trim_space_graphic graphic_def isAllowedReasonForAction_def
      is_hex64_def sample_hash_def list_all_iff go_defs less_eq_char_def)

lemma webhook_actions [scenario]:
  "isWebhookAuditAction ActionWebhookReceived" "isWebhookAuditAction ActionWebhookAuthPassed"
  "isWebhookAuditAction ActionWebhookReplay"
  by (simp_all add: isWebhookAuditAction_def)

lemma sample_hash_lower [scenario]: "isLowercaseSHA256 sample_hash"
  using sample_hash_hex by (simp add: isLowercaseSHA256_def is_hex64_def)

lemma sample_insert_ok:
  "insert_event (sample_row i now) d = (Inr (), d\<lparr>webhook_events := [sample_row i now]\<rparr>)"
  if "webhook_events d = []" and "990 * second \<le> now"
  using that sample_hash_lower
  by (simp add: insert_event_def insert_error_def sample_row_def new_event_def sample_delivery_def
      sample_hook_def Let_def initialLifecycle_def webhook_event_types_def event_check_def sql_exists_def
      ended_processing_def IsXenditWebhookContractVersion_def)

lemma sample_accept:
  assumes "db w = sample_db"
  shows "\<exists>w' i now. Accept quiet_env sample_delivery w = (Inr AcceptedNew, w')
     \<and> webhook_events (db w') = [sample_row i now]"
proof -
  have "verification_column (he_verification sample_hook) = Some WVerified"
    by (simp add: verification_column_def sample_hook_def)
  moreover have "webhook_events sample_db = []" by (simp add: sample_db_def)
  moreover have "validAcceptParams sample_delivery"
    by (simp add: validAcceptParams_def sample_delivery_def sample_hook_def sample_hash_def is_zero_def
        IsXenditWebhookContractVersion_def)
  moreover have "ap_event sample_delivery = sample_hook" "ap_correlation_id sample_delivery = ''webhook:1''"
    "ap_family sample_delivery = ''payment_session''" "he_payload_hash sample_hook = sample_hash"
    "he_reason sample_hook = []"
    by (simp_all add: sample_delivery_def sample_hook_def RoutePaymentSession_def)
  moreover have "new_uuid quiet_env n = uid (''abcdef'' ! (n mod 6))" for n by (simp add: scenario)
  ultimately show ?thesis
    using sample_insert_ok [of sample_db] assms
    by (simp add: Accept_def in_tx_def Let_def query_def db_call_def andthen_def attempt_def scenario
        query_row_def accept_new_def writeAudit_def audit_record_def exec_def safeReason_def ret_def
        fresh_uuid_def sample_row_def) blast
qed

theorem accept_outcomes_witness:
  "\<exists>w'. Accept quiet_env sample_delivery (start_world sample_db) = (Inr AcceptedNew, w')
     \<and> delivery_effect sample_delivery sample_db AcceptedNew (db w')"
proof -
  obtain w' where run: "Accept quiet_env sample_delivery (start_world sample_db) = (Inr AcceptedNew, w')"
    using sample_accept [of "start_world sample_db"] by (auto simp: scenario)
  from accept_outcomes [OF this] show ?thesis using run by (auto simp: scenario)
qed

subsection \<open>A conflicting body for a verified event\<close>

lemma keeps_base_accept: "keeps_base (accept_new E p)" "keeps_base (accept_replay E p e)"
  unfolding accept_new_def accept_replay_def writeAudit_def
  by (auto split: sum.split option.split intro!: keeps_base_intros keeps_base_audit)

lemma accept_rolled_back:
  assumes "Accept E p w = (Inl x, w')"
  shows "db w' \<in> {db w, interfere E (steps w) (db w)}"
proof -
  let ?m = "andthen (query E EDatabase (\<lambda>now d. query_row (has_key (he_key (ap_event p))) (webhook_events d)))
    (\<lambda>row. case row of None \<Rightarrow> accept_new E p | Some existing \<Rightarrow> accept_replay E p existing)"
  have "keeps_base ?m"
    by (intro keeps_base_intros) (auto split: option.split intro: keeps_base_accept)
  then show ?thesis
    using assms
    by (auto simp: Accept_def in_tx_def Let_def keeps_base_def
        split: if_splits prod.splits sum.splits) (metis snd_conv world.select_convs(2))+
qed

text \<open>
  C27. A conflicting body for a verified event is never recorded. When the key of a
  delivery belongs to a verified event that has not been processed yet and the body differs,
  \<open>Accept\<close> tries to quarantine the row, which the lifecycle trigger forbids, so the whole
  transaction fails: no conflict row reaches the audit log and the delivery is refused.
\<close>

theorem verified_conflict_unrecorded:
  assumes "query_row (has_key (he_key (ap_event p))) (webhook_events (interfere E (steps w) (db w))) = Some e"
    and "we_verification e = WVerified" and "\<not> ended_processing (we_processing e)"
    and "we_raw_body_hash e \<noteq> he_payload_hash (ap_event p)"
  shows "\<exists>x w'. Accept E p w = (Inl x, w') \<and> db w' \<in> {db w, interfere E (steps w) (db w)}"
proof -
  obtain r w' where run: "Accept E p w = (r, w')" by fastforce
  have "\<nexists>y. r = Inr y"
    using accept_effect [of E p w _ w'] run assms by (auto simp: delivery_effect_def)
  then obtain x where "r = Inl x" by (cases r) auto
  then show ?thesis using run accept_rolled_back by blast
qed

definition sample_db_inbox :: dbs where
  "sample_db_inbox = sample_db\<lparr>webhook_events := [sample_inbox_row]\<rparr>"

definition sample_conflict :: accept_params where
  "sample_conflict = sample_delivery\<lparr>ap_event := sample_hook\<lparr>he_payload_hash := replicate 64 CHR ''b''\<rparr>\<rparr>"

lemma sample_inbox_fields [scenario]:
  "we_verification sample_inbox_row = WVerified" "we_processing sample_inbox_row = WReceived"
  "we_raw_body_hash sample_inbox_row = sample_hash" "has_key (he_key sample_hook) sample_inbox_row"
  "webhook_events sample_db_inbox = [sample_inbox_row]"
  by (simp_all add: sample_inbox_row_def sample_row_def new_event_def Let_def initialLifecycle_def sample_delivery_def
      sample_hook_def has_key_def event_identity_def sample_db_inbox_def)

theorem verified_conflict_unrecorded_witness:
  "\<exists>x w'. Accept quiet_env sample_conflict (start_world sample_db_inbox) = (Inl x, w') \<and> db w' = sample_db_inbox"
proof -
  have "replicate 64 CHR ''a'' \<noteq> replicate 64 CHR ''b''" by simp
  then show ?thesis
    using verified_conflict_unrecorded [of sample_conflict quiet_env "start_world sample_db_inbox" sample_inbox_row]
    by (simp add: scenario sample_conflict_def query_row_def ended_processing_def sample_hash_def)
qed

subsection \<open>Processing\<close>

text \<open>
  C28. What the processor claims. The claimed event is the oldest by time of receipt, ties
  broken by id, of the verified session events that are waiting and not locked by
  others; its row and no other moves to \<open>PROCESSING\<close>, and nothing is claimed only when no such
  event exists.
\<close>

theorem claim_takes_oldest_verified:
  assumes "claim_event busy now d = (Inr r, d')" and "inbox_wf d"
  shows "case r of None \<Rightarrow> d' = d \<and> (\<forall>x \<in> set (webhook_events d). \<not> claimable busy x)
    | Some e \<Rightarrow> (\<exists>c \<in> set (webhook_events d). claimable busy c \<and> e = set_processing WProcessing now c
        \<and> (\<forall>x \<in> set (webhook_events d). claimable busy x \<longrightarrow> event_order c \<le> event_order x)
        \<and> d' = d\<lparr>webhook_events := sql_update (\<lambda>x. x = c) (set_processing WProcessing now) (webhook_events d)\<rparr>)"
proof (cases "event_candidate busy d")
  case None
  then have "\<forall>x \<in> set (webhook_events d). \<not> claimable busy x"
    by (simp add: event_candidate_def first_by_None filter_empty_conv)
  then show ?thesis using assms None by (auto simp: claim_event_def)
next
  case (Some c)
  then have first: "first_by event_order (filter (claimable busy) (webhook_events d)) = Some c"
    by (simp add: event_candidate_def)
  have c: "c \<in> set (webhook_events d)" "claimable busy c"
    "\<forall>x \<in> set (webhook_events d). claimable busy x \<longrightarrow> event_order c \<le> event_order x"
    using first_by_Some [OF first] by auto
  have ids: "we_id x = we_id c \<longleftrightarrow> x = c" if "x \<in> set (webhook_events d)" for x
    using assms(2) that c(1) by (auto simp: inbox_wf_def distinct_map inj_on_def)
  have "filter (\<lambda>x. we_id x = we_id c) (webhook_events d) \<noteq> []" using c(1) by (auto simp: filter_empty_conv)
  then obtain y es where y: "filter (\<lambda>x. we_id x = we_id c) (webhook_events d) = y # es"
    by (meson list.exhaust)
  then have "y \<in> set (filter (\<lambda>x. we_id x = we_id c) (webhook_events d))" by simp
  then have "y = c" using ids by auto
  note es = y [unfolded this]
  have upd: "sql_update (\<lambda>x. we_id x = we_id c) f (webhook_events d) = sql_update (\<lambda>x. x = c) f (webhook_events d)" for f
    using ids by (simp add: sql_update_def)
  obtain q d1 where q: "update_events (\<lambda>x. we_id x = we_id c) (set_processing WProcessing now) d = (q, d1)"
    by fastforce
  then obtain rows where "q = Inr rows"
    using assms(1) Some by (cases q) (auto simp: claim_event_def)
  with q have "rows = map (set_processing WProcessing now) (c # es)"
    and d1: "d1 = d\<lparr>webhook_events := sql_update (\<lambda>x. x = c) (set_processing WProcessing now) (webhook_events d)\<rparr>"
    by (simp_all add: update_events_Inr es upd)
  then have "r = Some (set_processing WProcessing now c)" "d' = d1"
    using assms(1) Some q \<open>q = Inr rows\<close> by (simp_all add: claim_event_def)
  then show ?thesis using c d1 by (simp only: option.case) blast
qed

definition live :: "dbs \<Rightarrow> nat" where
  "live d = length (filter (\<lambda>e. \<not> ended_processing (we_processing e)) (webhook_events d))"

lemma live_cong: "webhook_events d' = webhook_events d \<Longrightarrow> live d' = live d"
  by (simp add: live_def)

lemma live_update:
  assumes "update_events p f d = (Inr rows, d')"
  shows "live d' + length (filter (\<lambda>e. ended_processing (we_processing e)) rows) = live d"
proof -
  have "length (filter (\<lambda>e. \<not> ended_processing (we_processing e)) (sql_update p f es))
      + length (filter (\<lambda>e. ended_processing (we_processing e)) (map f (filter p es)))
      = length (filter (\<lambda>e. \<not> ended_processing (we_processing e)) es)"
    if "\<forall>e \<in> set es. p e \<longrightarrow> \<not> ended_processing (we_processing e)" for es
    using that by (induction es) (auto simp: sql_update_def)
  moreover have "\<forall>e \<in> set (webhook_events d). p e \<longrightarrow> \<not> ended_processing (we_processing e)"
    using assms update_error_None(3) by (auto simp: update_events_Inr)
  ultimately show ?thesis using assms unfolding update_events_Inr live_def by simp
qed

lemma live_update_le: "update_events p f d = (Inr rows, d') \<Longrightarrow> live d' \<le> live d"
  using live_update by fastforce

text \<open>The payment repository does not write the inbox.\<close>

definition same_events :: "dbs \<Rightarrow> dbs \<Rightarrow> bool" where
  "same_events d d' \<longleftrightarrow> webhook_events d' = webhook_events d"

interpretation same_inbox: other_tables same_events
  by unfold_locales (simp_all add: same_events_def)

lemma apply_same_events:
  assumes "env_guar same_events E" and "applyNonCaptureState E e t w = (Inr x, w')"
  shows "webhook_events (db w') = webhook_events (db w)"
proof -
  have "guar same_events (applyNonCaptureState E e t)"
    unfolding applyNonCaptureState_def GetAttemptTx_def
    by (auto split: option.split intro!: same_inbox.guar_intros same_inbox.guar_select
        same_inbox.guar_transition assms(1))
  then show ?thesis
    using guar_db [of same_events "applyNonCaptureState E e t" w "Inr x" w'] assms(2)
    by (simp add: same_events_def)
qed

lemma markProcessedTx_live:
  assumes "markProcessedTx E e reason w = (Inr x, w')"
    and "\<exists>r \<in> set (webhook_events (db w)). we_id r = we_id e \<and> we_processing r = WProcessing"
  shows "live (db w') < live (db w)"
proof -
  obtain rows d1 where up: "update_events (\<lambda>x. we_id x = we_id e \<and> we_processing x = WProcessing)
      (set_ended WProcessed (tx_now w)) (db w) = (Inr rows, d1)"
    and same: "webhook_events (db w') = webhook_events d1"
    using assms(1) by (auto simp: markProcessedTx_def recordWebhookAudit_def tx_Inr audit_record_Inr)
  have "filter (\<lambda>e. ended_processing (we_processing e)) rows \<noteq> []"
    using up assms(2)
    by (auto simp: update_events_Inr filter_empty_conv set_ended_def ended_processing_def)
  then show ?thesis using live_update [OF up] live_cong [OF same] by (cases "filter (\<lambda>e. ended_processing (we_processing e)) rows") auto
qed

lemma claim_event_live:
  assumes "claim_event busy now d = (Inr (Some e), d')"
  shows "live d' \<le> live d"
    and "\<exists>r \<in> set (webhook_events d'). we_id r = we_id e \<and> we_processing r = WProcessing"
proof -
  obtain c :: webhook_event and es where up: "update_events (\<lambda>e. we_id e = we_id c) (set_processing WProcessing now) d = (Inr (e # es), d')"
    using assms by (auto simp: claim_event_def split: option.splits prod.splits sum.splits list.splits intro: that)
  then show "live d' \<le> live d" by (rule live_update_le)
  from up have "e \<in> set (map (set_processing WProcessing now) (filter (\<lambda>e. we_id e = we_id c) (webhook_events d)))"
    by (metis list.set_intros(1) update_events_Inr)
  then obtain x where "x \<in> set (webhook_events d)" "we_id x = we_id c" "e = set_processing WProcessing now x"
    by auto
  moreover have "webhook_events d' = sql_update (\<lambda>e. we_id e = we_id c) (set_processing WProcessing now) (webhook_events d)"
    using up by (simp add: update_events_Inr)
  ultimately have "e \<in> set (webhook_events d')" by (auto simp: set_sql_update intro!: rev_image_eqI)
  then show "\<exists>r \<in> set (webhook_events d'). we_id r = we_id e \<and> we_processing r = WProcessing"
    using \<open>e = set_processing WProcessing now x\<close> by (intro bexI [of _ e]) (simp_all add: set_processing_def)
qed

subsection \<open>Draining the inbox\<close>

text \<open>No other session commits while the worker runs; statements may still fail.\<close>

definition alone :: "env \<Rightarrow> bool" where
  "alone E \<longleftrightarrow> (\<forall>n d. interfere E n d = d)"

lemma alone_guar: "alone E \<Longrightarrow> env_guar same_events E"
  by (simp add: alone_def env_guar_def same_events_def)

lemma processClaimed_live:
  assumes E: "alone E" and run: "processClaimed E e w = (Inr x, w')"
    and row: "\<exists>r \<in> set (webhook_events (db w)). we_id r = we_id e \<and> we_processing r = WProcessing"
  shows "live (db w') < live (db w)"
proof -
  have mark: "live (db w') < live (db v)"
    if "map_err HFault (markProcessedTx E e ''NONE'') v = (Inr x, w')"
      and "webhook_events (db v) = webhook_events (db w)" for v
    using markProcessedTx_live [of E e "''NONE''" v x w'] that row by (simp add: map_err_Inr)
  consider "map_err HFault (markProcessedTx E e ''NONE'') w = (Inr x, w')"
    | y v where "applyNonCaptureState E e AttemptExpired w = (Inr y, v)"
        "map_err HFault (markProcessedTx E e ''NONE'') v = (Inr x, w')"
    using run by (auto simp: processClaimed_def andthen_Inr fail_def split: sum.splits if_splits)
  then show ?thesis
  proof cases
    case 1
    then show ?thesis using mark by blast
  next
    case 2
    have same: "webhook_events (db v) = webhook_events (db w)"
      using apply_same_events [OF alone_guar [OF E] 2(1)] .
    show ?thesis using mark [OF 2(2) same] live_cong [OF same] by simp
  qed
qed

lemma process_claim_live:
  assumes E: "alone E" and run: "process_claim E busy P w = (Inr x, w')"
  shows "live (db w') < live (db w)"
proof -
  obtain rows v e u where v: "reclaimStaleProcessing E (ip_timeout P) w = (Inr rows, v)"
    and u: "claimNext E busy v = (Inr (Some e), u)" and rest: "processClaimed E e u = (Inr x, w')"
    using run by (auto simp: process_claim_def andthen_Inr map_err_Inr split: option.splits)
  have "live (db v) \<le> live (db w)"
    using v live_update_le by (auto simp: reclaimStaleProcessing_def db_call_Inr)
  moreover obtain d where "claim_event busy (tx_now v) (db v) = (Inr (Some e), d)" "db u = d"
    using u by (auto simp: claimNext_def db_call_Inr)
  moreover note claim_event_live [OF this(1)]
  ultimately show ?thesis using processClaimed_live [OF E rest] by fastforce
qed

lemma markTerminal_live:
  assumes E: "alone E" and run: "markTerminal E e reason w = (Inr x, w')"
  shows "live (db w') < live (db w)"
proof -
  obtain now rows d where up: "update_events (terminal_target (we_id e)) (set_ended WTerminal now) (db w) = (Inr rows, d)"
    and "length rows = 1" and same: "webhook_events (db w') = webhook_events d"
    using run E by (auto simp: markTerminal_def recordWebhookAudit_def in_tx_Inr tx_Inr alone_def audit_record_Inr
        split: if_splits)
  then have "filter (\<lambda>e. ended_processing (we_processing e)) rows = rows"
    by (auto simp: update_events_Inr set_ended_def ended_processing_def filter_id_conv)
  then show ?thesis using live_update [OF up] live_cong [OF same] \<open>length rows = 1\<close> by simp
qed

lemma alone_failed_tx:
  assumes "alone E" and "keeps_base m" and "in_tx E flt m w = (Inl x, w')" and "db w = base w"
  shows "db w' = db w"
  using assms
  by (auto simp: in_tx_def Let_def alone_def keeps_base_def split: if_splits prod.splits sum.splits)
    (metis snd_conv world.select_convs(2))+

lemma keeps_base_process_claim: "keeps_base (process_claim E busy P)"
  unfolding process_claim_def reclaimStaleProcessing_def claimNext_def processClaimed_def
    applyNonCaptureState_def GetAttemptTx_def select_attempt_def not_found_def TransitionStateTx_def
    markProcessedTx_def recordWebhookAudit_def
  by (auto split: option.split sum.split intro!: keeps_base_intros keeps_base_audit keeps_base_run_update
      keeps_base_writeAudit)

text \<open>A call of the processor never revives an event, and one that claims an event ends one.\<close>

lemma ProcessOne_live:
  assumes E: "alone E" and run: "ProcessOne E busy P w = (r, w')" and w: "db w = base w"
  shows "live (db w') \<le> live (db w)" and "r = Inr True \<Longrightarrow> live (db w') < live (db w)"
    and "db w' = base w'"
proof -
  obtain r1 v where first: "in_tx E (HFault EDatabase) (process_claim E busy P) w = (r1, v)" by fastforce
  show base: "db w' = base w'"
    using run first in_tx_base [OF first] in_tx_base
    by (auto simp: ProcessOne_def attempt_def andthen_def ret_def fail_def markTerminal_def
        split: sum.splits hook_error.splits prod.splits)
  have finished1: "live (db v) < live (db w)" if "r1 = Inr x" for x
    using first that E process_claim_live [OF E] by (fastforce simp: in_tx_Inr alone_def)
  have undone: "db v = db w" if "r1 = Inl x" for x
    using alone_failed_tx [OF E keeps_base_process_claim first [unfolded that] w] .
  have down: "live (db u) < live (db v)" if "markTerminal E e reason v = (Inr x, u)" for e reason x u
    using markTerminal_live [OF E that] .
  have same: "db u = db v" if "markTerminal E e reason v = (Inl x, u)" for e reason x u
    by (rule alone_failed_tx [OF E _ that [unfolded markTerminal_def] in_tx_base [OF first]])
      (auto simp: recordWebhookAudit_def intro!: keeps_base_intros keeps_base_audit)
  have "live (db w') \<le> live (db w) \<and> (r = Inr True \<longrightarrow> live (db w') < live (db w))"
  proof (cases r1)
    case (Inr x)
    then show ?thesis using run first finished1 by (auto simp: ProcessOne_def attempt_def ret_def)
  next
    case (Inl x)
    note v = undone [OF Inl]
    show ?thesis
    proof (cases x)
      case (HTerminal e reason)
      obtain q u where q: "markTerminal E e reason v = (q, u)" by fastforce
      show ?thesis
        using run first Inl HTerminal q v down [of e reason _ u] same [of e reason _ u]
        by (cases q) (fastforce simp: ProcessOne_def attempt_def andthen_def ret_def fail_def)+
    qed (use run first Inl v in \<open>auto simp: ProcessOne_def attempt_def ret_def fail_def\<close>)
  qed
  then show "live (db w') \<le> live (db w)" and "r = Inr True \<Longrightarrow> live (db w') < live (db w)" by blast+
qed



lemma sample_inbox_wf: "inbox_wf sample_db_inbox"
  using sample_hash_lower
  by (simp add: inbox_wf_def sample_db_inbox_def event_ok_def sample_inbox_row_def sample_row_def new_event_def
      sample_delivery_def sample_hook_def Let_def initialLifecycle_def webhook_event_types_def
      event_check_def ended_processing_def IsXenditWebhookContractVersion_def)

theorem claim_takes_oldest_verified_witness:
  "\<exists>e d'. claim_event [] (1000 * second) sample_db_inbox = (Inr (Some e), d')
    \<and> e = set_processing WProcessing (1000 * second) sample_inbox_row"
proof -
  have c: "claimable [] sample_inbox_row"
    by (simp add: claimable_def sample_inbox_row_def sample_row_def new_event_def Let_def initialLifecycle_def
        sample_delivery_def sample_hook_def)
  have u: "we_updated_at sample_inbox_row = 1000 * second" "we_processed_at sample_inbox_row = None"
    "we_created_at sample_inbox_row = 1000 * second" "we_received_at sample_inbox_row = 990 * second"
    by (simp_all add: sample_inbox_row_def sample_row_def new_event_def Let_def initialLifecycle_def
        sample_delivery_def sample_hook_def)
  have "update_error sample_inbox_row (set_processing WProcessing (1000 * second) sample_inbox_row) = None"
    by (simp add: update_error_def set_processing_def event_facts_def lifecycle_guard_def u scenario
        ended_processing_def event_check_def)
  then obtain e d' where run: "claim_event [] (1000 * second) sample_db_inbox = (Inr (Some e), d')"
    using c by (fastforce simp: claim_event_def event_candidate_def first_by_def update_events_def
        sql_returning_def List.map_filter_simps scenario)
  from claim_takes_oldest_verified [OF run sample_inbox_wf] show ?thesis using run by (auto simp: scenario)
qed

end
