(* ===== verification/WebhookDelivery.thy ===== *)
theory WebhookDelivery
  imports WebhookProperties
begin

text \<open>
  Properties of the HTTP ingress: what an unauthenticated delivery can do, that an accepted
  delivery is durable, and which events may become \<open>VERIFIED\<close>.
\<close>

subsection \<open>Reads and failures\<close>

lemma alone_FindAttemptContext:
  assumes "alone E" and "FindAttemptContext E e w = (r, w')"
  shows "db w' = db w"
  using assms by (auto simp: FindAttemptContext_def pool_query_def andthen_def attempt_def alone_def
      Let_def ret_def fail_def split: if_splits sum.splits list.splits)

text \<open>The audit log may have grown; nothing else has changed.\<close>

definition only_audited :: "dbs \<Rightarrow> dbs \<Rightarrow> bool" where
  "only_audited d d' \<longleftrightarrow> (\<exists>log. d' = d\<lparr>audit_log := audit_log d @ log\<rparr>)"

lemma only_audited_refl: "only_audited d d"
  by (auto simp: only_audited_def intro!: exI [of _ "[]"])

lemma alone_receipts:
  assumes "alone E" and "db w = base w"
  shows "RecordAuthFailure E family c h w = (r, w') \<Longrightarrow> only_audited (db w) (db w')"
    and "RecordUnsupported E family c h w = (r', w') \<Longrightarrow> only_audited (db w) (db w')"
  using assms
  by (auto simp: RecordAuthFailure_def RecordUnsupported_def in_tx_def Let_def alone_def audit_record_def
      exec_def db_call_def fail_def only_audited_def intro: exI [of _ "[]"] split: if_splits)

text \<open>
  Unauthenticated deliveries are harmless. When the verifier does not confirm the
  callback token, the delivery is not accepted, the response is not 200, and nothing but at
  most an audit row is written, whatever the body says.
\<close>

theorem unauthenticated_changes_nothing:
  assumes "\<And>r. case VerifyWebhook (sv_verifier S) r of Inl _ \<Rightarrow> True | Inr v \<Rightarrow> \<not> wv_verified v"
    and "alone E" and "db w = base w" and "Receive E S q w = (Inr res, w')"
  shows "\<not> rs_accepted res \<and> rs_status res \<noteq> 200 \<and> only_audited (db w) (db w')"
proof (cases "isValidReceiveRequest q")
  case False
  then show ?thesis
    using assms(4) only_audited_refl by (auto simp: Receive_def ret_def response_def)
next
  case True
  obtain received w1 where run: "receive_at E S q received w1 = (Inr res, w')" and same: "db w1 = db w" "base w1 = base w"
    using Receive_run [OF True, of E S w] assms(4) by metis
  let ?v = "VerifyWebhook (sv_verifier S) \<lparr>vr_body = rr_body q, vr_headers = rr_headers q,
              vr_received_at = received, vr_max_body = 256 * 1024\<rparr>"
  have bad: "\<not> rs_accepted (fst (receiveVerificationError err)) \<and> rs_status (fst (receiveVerificationError err)) \<noteq> 200" for err
    by (cases err) (simp_all add: receiveVerificationError_def response_def)
  have audit: "only_audited (db w) (db u)"
    if "RecordAuthFailure E (rr_family q) (rr_correlation_id q) (rawBodyHash (rr_body q)) w2 = (r, u)"
      "db w2 = db w" "base w2 = base w" for r u w2
    using alone_receipts(1) [OF assms(2) _ that(1)] that(2, 3) assms(3) by simp
  show ?thesis
  proof (cases ?v)
    case (Inr v)
    then have "\<not> wv_verified v" using assms(1) [of "\<lparr>vr_body = rr_body q, vr_headers = rr_headers q,
              vr_received_at = received, vr_max_body = 256 * 1024\<rparr>"] by simp
    then show ?thesis
      using run Inr same only_audited_refl by (auto simp: receive_at_def ret_def response_def)
  next
    case (Inl err)
    then have "(res = unavailable \<or> res = fst (receiveVerificationError err)) \<and> only_audited (db w) (db w')"
      using run same only_audited_refl audit
      by (auto simp: receive_at_def attempt_def ret_def ctx_check_def Let_def
          split: if_splits sum.splits prod.splits)
    then show ?thesis using bad by (auto simp: unavailable_def response_def)
  qed
qed

subsection \<open>Where a row can come from\<close>

text \<open>The ways through an authenticated delivery, up to the statements that write.\<close>

lemma receive_body_cases:
  assumes "receive_body E S q received v w = (r, w')"
  obtains (rejected) "w' = w" "\<And>res. r = Inr res \<Longrightarrow> \<not> rs_accepted res"
    | (unsupported) err a where "ParseWebhook (sv_verifier S) (parse_with q received None) = Inl err"
        "RecordUnsupported E (rr_family q) (rr_correlation_id q) (wv_payload_hash v) w = (a, w')"
        "\<And>res. r = Inr res \<Longrightarrow> rs_accepted res \<Longrightarrow> is_ok a"
    | (parsed) e e' where "ParseWebhook (sv_verifier S) (parse_with q received None) = Inr e"
        "e' = (if \<not> Accepts (rr_family q) (he_type e) then quarantine e ''INVALID_REQUEST'' else e)"
        "match_event E S q received e' w = (r, w')"
proof (cases "ParseWebhook (sv_verifier S) (parse_with q received None)")
  case (Inr e)
  show ?thesis
  proof (cases "validateJSONStructure (rr_body q)")
    case True
    then show ?thesis using assms Inr by (intro parsed [OF Inr refl]) (simp add: receive_body_def)
  qed (use assms in \<open>auto simp: receive_body_def ret_def response_def intro!: rejected\<close>)
next
  case (Inl err)
  show ?thesis
  proof (cases "validateJSONStructure (rr_body q) \<and> isUnsupportedParseError err")
    case True
    obtain a u where "RecordUnsupported E (rr_family q) (rr_correlation_id q) (wv_payload_hash v) w = (a, u)"
      by fastforce
    then show ?thesis
      using assms Inl True
      by (intro unsupported [OF Inl, of a])
        (auto simp: receive_body_def attempt_def ret_def unavailable_def response_def split: sum.splits)
  next
    case False
    have "\<not> isUnsupportedParseError err \<Longrightarrow> \<not> rs_accepted (receiveParseError err)"
      by (auto simp: isUnsupportedParseError_def receiveParseError_def response_def split: verifier_error.split)
    then show ?thesis
      using assms Inl False by (intro rejected) (auto simp: receive_body_def ret_def response_def split: if_splits)
  qed
qed

lemma match_event_cases:
  assumes "match_event E S q received e w = (r, w')"
  obtains (stopped) u where "FindAttemptContext E e w = (u, w')"
        "\<And>res. r = Inr res \<Longrightarrow> rs_accepted res \<Longrightarrow> \<exists>a err. u = Inr (Some a)
           \<and> ParseWebhook (sv_verifier S) (parse_with q received (Some a)) = Inl err"
    | (direct) "he_verification e = ''QUARANTINED''" "store_event E S q received None e w = (r, w')"
    | (unmatched) v where "FindAttemptContext E e w = (Inr None, v)" "store_event E S q received None e v = (r, w')"
    | (matched) a e' v where "FindAttemptContext E e w = (Inr (Some a), v)"
        "ParseWebhook (sv_verifier S) (parse_with q received (Some a)) = Inr e'"
        "store_event E S q received (Some (ac_id a)) e' v = (r, w')"
proof (cases "he_verification e = ''QUARANTINED''")
  case True
  then show ?thesis using assms by (intro direct) (simp_all add: match_event_def)
next
  case False
  obtain u v where u: "FindAttemptContext E e w = (u, v)" by fastforce
  consider x where "u = Inl x" | "u = Inr None" | a where "u = Inr (Some a)" by (metis sum.exhaust option.exhaust)
  then show ?thesis
  proof cases
    case 1
    then show ?thesis
      using assms False u by (intro stopped [of u]) (auto simp: match_event_def attempt_def ret_def unavailable_def response_def)
  next
    case 2
    then show ?thesis using assms False u by (intro unmatched [of v]) (simp_all add: match_event_def attempt_def)
  next
    case (3 a)
    then show ?thesis
      using assms False u
      by (cases "ParseWebhook (sv_verifier S) (parse_with q received (Some a))")
        (auto simp: match_event_def attempt_def ret_def intro: stopped [of u] matched [of a v])
  qed
qed

subsection \<open>Accepted deliveries are durable\<close>

lemma has_key_set_quarantined: "has_key k (set_quarantined now e) = has_key k e"
  by (simp add: has_key_def event_identity_def set_quarantined_def)

lemma delivery_row:
  assumes "delivery_effect p d r d'"
  shows "\<exists>e \<in> set (webhook_events d'). has_key (he_key (ap_event p)) e"
proof (cases "query_row (has_key (he_key (ap_event p))) (webhook_events d)")
  case None
  then have "\<exists>payload v i now. new_event p payload v i now \<in> set (webhook_events d')"
    using assms by (fastforce simp: delivery_effect_def)
  moreover have "has_key (he_key (ap_event p)) (new_event p payload v i now)" for payload v i now
    by (simp add: has_key_def event_identity_def new_event_def Let_def)
  ultimately show ?thesis by blast
next
  case (Some e)
  note e = query_row_Some [OF Some]
  have "e \<in> set (webhook_events d') \<or> (\<exists>now. set_quarantined now e \<in> set (webhook_events d'))"
    using assms e by (fastforce simp: delivery_effect_def Some set_sql_update split: if_splits)
  then show ?thesis using e has_key_set_quarantined by blast
qed

lemma store_event_row:
  assumes "store_event E S q received aid e w = (Inr res, w')" and "rs_accepted res"
  shows "\<exists>x \<in> set (webhook_events (db w')). has_key (he_key e) x"
proof -
  let ?p = "\<lparr>ap_event = promote S e, ap_contract = sv_contract S, ap_correlation_id = rr_correlation_id q,
                       ap_family = rr_family q, ap_received_at = received, ap_attempt_id = aid\<rparr>"
  obtain a where "Accept E ?p w = (Inr a, w')"
    using assms by (auto simp: store_event_def attempt_def ret_def unavailable_def response_def
        split: sum.splits prod.splits)
  from delivery_row [OF accept_effect [OF this]] show ?thesis by (simp add: promote_def split: if_splits)
qed

text \<open>A verifier whose decision to parse a body depends on the body, the headers and the time only.\<close>

definition deterministic_parse :: "verifier \<Rightarrow> bool" where
  "deterministic_parse V \<longleftrightarrow> (\<forall>q t a e. ParseWebhook V (parse_with q t None) = Inr e
     \<longrightarrow> is_ok (ParseWebhook V (parse_with q t (Some a))))"

definition parses_as :: "verifier \<Rightarrow> receive_request \<Rightarrow> hook_event \<Rightarrow> bool" where
  "parses_as V q e \<longleftrightarrow> (\<exists>t context. ParseWebhook V (parse_with q t context) = Inr e)"

lemma unsupported_row:
  "RecordUnsupported E family c h w = (Inr x, w') \<Longrightarrow>
     webhook_audit_row ActionWebhookConflict c family ''UNSUPPORTED'' ''INVALID_REQUEST'' h \<in> set (audit_log (db w'))"
  by (auto simp: RecordUnsupported_def in_tx_Inr audit_record_Inr split: if_splits)

text \<open>
  C31. Accepted means durable. When a delivery is answered as accepted, its token was
  verified, and either the row with the key of the event its body parses to is committed to the
  inbox, or the body is of a kind the inbox cannot hold and a committed audit row says so. This
  holds with other sessions at work and any statement failing.
\<close>

theorem accepted_is_durable:
  assumes "Receive E S q w = (Inr res, w')" and "rs_accepted res" and "deterministic_parse (sv_verifier S)"
  shows "\<exists>r v. VerifyWebhook (sv_verifier S) r = Inr v \<and> vr_body r = rr_body q \<and> wv_verified v
    \<and> ((\<exists>e x. parses_as (sv_verifier S) q e \<and> x \<in> set (webhook_events (db w')) \<and> has_key (he_key e) x)
      \<or> webhook_audit_row ActionWebhookConflict (rr_correlation_id q) (rr_family q) ''UNSUPPORTED''
          ''INVALID_REQUEST'' (wv_payload_hash v) \<in> set (audit_log (db w')))"
proof -
  have "isValidReceiveRequest q" using assms by (auto simp: Receive_def ret_def response_def split: if_splits)
  then obtain received w1 where at: "receive_at E S q received w1 = (Inr res, w')"
    using Receive_run [of q E S w] assms(1) by metis
  let ?r = "\<lparr>vr_body = rr_body q, vr_headers = rr_headers q, vr_received_at = received, vr_max_body = 256 * 1024\<rparr>"
  have bad: "\<not> rs_accepted (fst (receiveVerificationError err))" for err
    by (cases err) (simp_all add: receiveVerificationError_def response_def)
  obtain v where v: "VerifyWebhook (sv_verifier S) ?r = Inr v" "wv_verified v"
    and body: "receive_body E S q received v w1 = (Inr res, w')"
  proof (cases "VerifyWebhook (sv_verifier S) ?r")
    case (Inl err)
    then have "res = unavailable \<or> res = fst (receiveVerificationError err)"
      using at by (auto simp: receive_at_def attempt_def ret_def ctx_check_def Let_def
          split: if_splits sum.splits prod.splits)
    then show ?thesis using assms(2) bad by (auto simp: unavailable_def response_def)
  next
    case (Inr v)
    then show ?thesis using that [OF Inr] at assms(2) by (auto simp: receive_at_def ret_def response_def split: if_splits)
  qed
  from body have "(\<exists>e x. parses_as (sv_verifier S) q e \<and> x \<in> set (webhook_events (db w')) \<and> has_key (he_key e) x)
      \<or> webhook_audit_row ActionWebhookConflict (rr_correlation_id q) (rr_family q) ''UNSUPPORTED''
          ''INVALID_REQUEST'' (wv_payload_hash v) \<in> set (audit_log (db w'))"
  proof (cases rule: receive_body_cases)
    case rejected
    then show ?thesis using assms(2) by blast
  next
    case (unsupported err a)
    then obtain x where "a = Inr x" using unsupported(3) [OF refl assms(2)] by (cases a) auto
    then show ?thesis using unsupported_row unsupported(2) by blast
  next
    case (parsed e e')
    have key: "he_key e' = he_key e" by (simp add: parsed(2) quarantine_def)
    have e: "parses_as (sv_verifier S) q e" using parsed(1) by (auto simp: parses_as_def)
    from parsed(3) show ?thesis
    proof (cases rule: match_event_cases)
      case (stopped u)
      obtain a err where "ParseWebhook (sv_verifier S) (parse_with q received (Some a)) = Inl err"
        using stopped(2) [OF refl assms(2)] by (elim exE conjE)
      moreover have "is_ok (ParseWebhook (sv_verifier S) (parse_with q received (Some a)))"
        by (rule assms(3) [unfolded deterministic_parse_def, rule_format, OF parsed(1)])
      ultimately show ?thesis by simp
    next
      case direct
      then show ?thesis using store_event_row [OF direct(2) assms(2)] key e by auto
    next
      case (unmatched u)
      then show ?thesis using store_event_row [OF unmatched(2) assms(2)] key e by auto
    next
      case (matched a e2 u)
      then show ?thesis using store_event_row [OF matched(3) assms(2)] by (auto simp: parses_as_def)
    qed
  qed
  then show ?thesis using v by (intro exI [of _ ?r] exI [of _ v]) simp
qed

subsection \<open>Verified events\<close>

lemma store_event_new:
  assumes "alone E" and "store_event E S q received aid e w = (r, w')"
    and "x \<in> set (webhook_events (db w'))" and "x \<notin> set (webhook_events (db w))" and "we_verification x = WVerified"
  shows "he_verification (promote S e) = ''VERIFIED'' \<and> we_auth_contract x = sv_contract S \<and> we_event_type x = he_type e"
proof -
  let ?p = "\<lparr>ap_event = promote S e, ap_contract = sv_contract S, ap_correlation_id = rr_correlation_id q,
                       ap_family = rr_family q, ap_received_at = received, ap_attempt_id = aid\<rparr>"
  obtain q1 where run: "Accept E ?p w = (q1, w')"
    using assms(2) by (auto simp: store_event_def attempt_def ret_def split: sum.splits prod.splits)
  have quiet: "interfere E n d = d" for n d using assms(1) by (simp add: alone_def)
  obtain a where a: "q1 = Inr a"
    using accept_rolled_back [of E ?p w _ w'] run assms(3, 4) quiet by (cases q1) auto
  from accept_effect [of E ?p w a w'] run have eff: "delivery_effect ?p (db w) a (db w')" by (simp add: a quiet)
  show ?thesis
  proof (cases "query_row (has_key (he_key (promote S e))) (webhook_events (db w))")
    case None
    then obtain payload v i now where "x = new_event ?p payload v i now"
      and "verification_column (he_verification (promote S e)) = Some v"
      using eff assms(3, 4) by (fastforce simp: delivery_effect_def)
    then show ?thesis
      using assms(5) by (auto simp: new_event_def Let_def verification_column_def promote_def split: if_splits)
  next
    case (Some y)
    then have "x \<in> set (webhook_events (db w)) \<or> (\<exists>y now. x = set_quarantined now y)"
      using eff assms(3) by (fastforce simp: delivery_effect_def set_sql_update split: if_splits)
    then show ?thesis using assms(4, 5) by (auto simp: set_quarantined_def)
  qed
qed

lemma promote_verified:
  "he_verification (promote S e) = ''VERIFIED'' \<Longrightarrow> he_verification e \<noteq> ''VERIFIED'' \<Longrightarrow>
     sv_contract S = verified_contract \<and> IsXenditWebhookEventEligibleForVerifiedContract (he_type e)"
  by (auto simp: promote_def split: if_splits)

text \<open>
  C32. Only session events under the verified contract become \<open>VERIFIED\<close>. A verifier
  never claims that state itself; then a row the ingress adds is \<open>VERIFIED\<close> only when the service
  runs under the verified contract and the event is a completed or expired payment session. With
  the provisional contract, and for captures and refunds, no row is ever \<open>VERIFIED\<close>, and the
  processor leaves it alone.
\<close>

theorem verified_only_under_contract:
  assumes "\<And>r e. ParseWebhook (sv_verifier S) r = Inr e \<Longrightarrow> he_verification e \<noteq> ''VERIFIED''"
    and "alone E" and "db w = base w" and "Receive E S q w = (r, w')"
    and "x \<in> set (webhook_events (db w'))" and "x \<notin> set (webhook_events (db w))" and "we_verification x = WVerified"
  shows "sv_contract S = verified_contract \<and> we_auth_contract x = verified_contract
    \<and> IsXenditWebhookEventEligibleForVerifiedContract (we_event_type x)"
proof -
  have audited: "only_audited (db w) (db v) \<Longrightarrow> webhook_events (db v) = webhook_events (db w)" for v
    by (auto simp: only_audited_def)
  have "isValidReceiveRequest q"
    using assms(4-6) by (auto simp: Receive_def ret_def split: if_splits)
  then obtain received w1 where at: "receive_at E S q received w1 = (r, w')" and same: "db w1 = db w" "base w1 = base w"
    using Receive_run [of q E S w] assms(4) by metis
  have fail_audit: "webhook_events (db u) = webhook_events (db w)"
    if "RecordAuthFailure E f c h w2 = (a, u)" "db w2 = db w" "base w2 = base w" for f c h w2 a u
    using alone_receipts(1) [OF assms(2) _ that(1)] that audited assms(3) by (simp add: only_audited_def) force
  obtain v where body: "receive_body E S q received v w1 = (r, w')"
    using at fail_audit same assms(5, 6)
    by (auto simp: receive_at_def attempt_def ret_def ctx_check_def Let_def
        split: if_splits sum.splits prod.splits)
  have store: ?thesis
    if "store_event E S q received aid e v = (r, w')" "db v = db w" "he_verification e \<noteq> ''VERIFIED''" for aid e v
    using store_event_new [OF assms(2) that(1)] that(2, 3) assms(5-7) promote_verified by metis
  from body show ?thesis
  proof (cases rule: receive_body_cases)
    case rejected
    then show ?thesis using same assms(5, 6) by simp
  next
    case (unsupported err a)
    have "only_audited (db w1) (db w')"
      using alone_receipts(2) [OF assms(2) _ unsupported(2)] same assms(3) by simp
    then show ?thesis using same assms(5, 6) by (auto simp: only_audited_def)
  next
    case (parsed e e')
    have e: "he_verification e' \<noteq> ''VERIFIED''"
      using assms(1) [OF parsed(1)] by (simp add: parsed(2) quarantine_def)
    from parsed(3) show ?thesis
    proof (cases rule: match_event_cases)
      case (stopped u)
      then show ?thesis using alone_FindAttemptContext [OF assms(2) stopped(1)] same assms(5, 6) by simp
    next
      case direct
      then show ?thesis using store [OF direct(2)] same e by simp
    next
      case (unmatched u)
      then show ?thesis
        using store [OF unmatched(2)] alone_FindAttemptContext [OF assms(2) unmatched(1)] same e by simp
    next
      case (matched a e2 u)
      then show ?thesis
        using store [OF matched(3)] alone_FindAttemptContext [OF assms(2) matched(1)] same assms(1) by simp
    qed
  qed
qed

subsection \<open>A delivery\<close>

definition sample_verifier :: verifier where
  "sample_verifier = \<lparr>VerifyWebhook = (\<lambda>r. if vr_headers r ''x-callback-token'' = Some ''token''
       then Inr \<lparr>wv_verified = True, wv_payload_hash = sample_hash, wv_received_at = vr_received_at r,
                 wv_contract = provisional_contract\<rparr>
       else Inl (WebhookError WebhookTokenInvalid)),
     ParseWebhook = (\<lambda>r. Inr (sample_hook\<lparr>he_verification := ''DIAGNOSTIC''\<rparr>))\<rparr>"

definition sample_service :: service where
  "sample_service = \<lparr>sv_verifier = sample_verifier, sv_contract = verified_contract\<rparr>"

definition sample_request :: "string \<Rightarrow> receive_request" where
  "sample_request token = \<lparr>rr_family = RoutePaymentSession, rr_body = ''[]'', rr_headers = [''x-callback-token'' \<mapsto> token],
     rr_received_at = 990 * second, rr_correlation_id = ''webhook:1''\<rparr>"

lemma sample_receive:
  "\<exists>w' i now. Receive quiet_env sample_service (sample_request ''token'') (start_world sample_db)
     = (Inr (response True ''accepted'' 200), w') \<and> webhook_events (db w') = [sample_row i now]"
proof -
  let ?e = "sample_hook\<lparr>he_verification := ''DIAGNOSTIC''\<rparr>" and ?q = "sample_request ''token''"
  have p: "promote sample_service ?e = sample_hook"
    by (simp add: promote_def sample_service_def IsXenditWebhookEventEligibleForVerifiedContract_def sample_hook_def)
  have d: "\<lparr>ap_event = sample_hook, ap_contract = verified_contract, ap_correlation_id = ''webhook:1'',
       ap_family = RoutePaymentSession, ap_received_at = 990 * second, ap_attempt_id = None\<rparr> = sample_delivery"
    by (simp add: sample_delivery_def)
  have f: "FindAttemptContext quiet_env ?e (start_world sample_db) = (Inr None, w2) \<Longrightarrow> db w2 = sample_db" for w2
    using alone_FindAttemptContext [of quiet_env ?e "start_world sample_db" "Inr None" w2] by (simp add: alone_def scenario)
  obtain w2 where w2: "FindAttemptContext quiet_env ?e (start_world sample_db) = (Inr None, w2)"
    by (simp add: FindAttemptContext_def pool_query_def andthen_def attempt_def Let_def scenario ret_def
        identity_matches_def sample_hook_def) (simp add: sample_attempt_def)
  obtain w' i now where acc: "Accept quiet_env sample_delivery w2 = (Inr AcceptedNew, w')"
    "webhook_events (db w') = [sample_row i now]"
    using sample_accept [of w2] f [OF w2] by blast
  have json: "validateJSONStructure ''[]''" by code_simp
  have valid: "isValidReceiveRequest ?q" and fields: "rr_family ?q = RoutePaymentSession" "rr_body ?q = ''[]''"
    "rr_headers ?q = [''x-callback-token'' \<mapsto> ''token'']" "rr_received_at ?q = 990 * second"
    "rr_correlation_id ?q = ''webhook:1''"
    by (simp_all add: isValidReceiveRequest_def sample_request_def)
  have "Receive quiet_env sample_service ?q (start_world sample_db) = (Inr (response True ''accepted'' 200), w')"
    using acc(1) [folded d] w2 json valid
    by (simp add: Receive_def receive_at_def receive_body_def match_event_def store_event_def fields p
        is_zero_def andthen_def attempt_def ret_def sample_service_def sample_verifier_def
        sample_hook_def [THEN arg_cong [of _ _ he_type]] Accepts_def p [unfolded sample_service_def sample_verifier_def])
  then show ?thesis using acc(2) by blast
qed

theorem accepted_is_durable_witness:
  "\<exists>w' e x. Receive quiet_env sample_service (sample_request ''token'') (start_world sample_db)
     = (Inr (response True ''accepted'' 200), w')
     \<and> parses_as sample_verifier (sample_request ''token'') e
     \<and> x \<in> set (webhook_events (db w')) \<and> has_key (he_key e) x"
proof -
  obtain w' i now where run: "Receive quiet_env sample_service (sample_request ''token'') (start_world sample_db)
     = (Inr (response True ''accepted'' 200), w')" and row: "webhook_events (db w') = [sample_row i now]"
    using sample_receive by blast
  have "deterministic_parse (sv_verifier sample_service)"
    by (simp add: deterministic_parse_def sample_service_def sample_verifier_def)
  moreover have "parses_as sample_verifier (sample_request ''token'') e \<longleftrightarrow> e = sample_hook\<lparr>he_verification := ''DIAGNOSTIC''\<rparr>" for e
    by (auto simp: parses_as_def sample_verifier_def)
  moreover have "has_key (he_key sample_hook) (sample_row i now)"
    by (simp add: sample_row_def new_event_def Let_def sample_delivery_def sample_hook_def has_key_def event_identity_def)
  ultimately show ?thesis
    using accepted_is_durable [OF run] run row by (auto simp: response_def)
qed

theorem verified_only_under_contract_witness:
  "\<exists>w' x. Receive quiet_env sample_service (sample_request ''token'') (start_world sample_db)
     = (Inr (response True ''accepted'' 200), w')
     \<and> x \<in> set (webhook_events (db w')) \<and> we_auth_contract x = verified_contract"
proof -
  obtain w' i now where run: "Receive quiet_env sample_service (sample_request ''token'') (start_world sample_db)
     = (Inr (response True ''accepted'' 200), w')" and row: "webhook_events (db w') = [sample_row i now]"
    using sample_receive by blast
  have "he_verification e \<noteq> ''VERIFIED''" if "ParseWebhook (sv_verifier sample_service) r = Inr e" for r e
    using that by (auto simp: sample_service_def sample_verifier_def)
  moreover have "we_verification (sample_row i now) = WVerified" by (simp add: sample_row_def new_event_def Let_def)
  moreover have "webhook_events sample_db = []" by (simp add: sample_db_def)
  ultimately have "we_auth_contract (sample_row i now) = verified_contract"
    using verified_only_under_contract [of sample_service quiet_env "start_world sample_db" _ _ w' "sample_row i now"] run row
    by (simp add: scenario alone_def)
  then show ?thesis using run row by auto
qed

definition closed_verifier :: verifier where
  "closed_verifier = \<lparr>VerifyWebhook = (\<lambda>r. Inl (WebhookError WebhookTokenInvalid)),
     ParseWebhook = (\<lambda>r. Inl (WebhookError WebhookTokenInvalid))\<rparr>"

lemma Receive_total: "\<exists>res w'. Receive E S q w = (Inr res, w')"
proof -
  have store: "\<exists>res w'. store_event E S q t aid e w = (Inr res, w')" for t aid e w
    by (auto simp: store_event_def attempt_def ret_def split: sum.split prod.split)
  have matched: "\<exists>res w'. match_event E S q t e w = (Inr res, w')" for t e w
    using store by (auto simp: match_event_def attempt_def ret_def split: sum.split prod.split option.split)
  have body: "\<exists>res w'. receive_body E S q t v w = (Inr res, w')" for t v w
    using matched by (auto simp: receive_body_def attempt_def ret_def split: sum.split prod.split)
  have "\<exists>res w'. receive_at E S q t w = (Inr res, w')" for t w
    using body by (auto simp: receive_at_def attempt_def ret_def ctx_check_def Let_def split: sum.split prod.split)
  then show ?thesis by (auto simp: Receive_def andthen_def attempt_def ret_def)
qed

theorem unauthenticated_changes_nothing_witness:
  "\<forall>q. \<exists>res w'. Receive quiet_env \<lparr>sv_verifier = closed_verifier, sv_contract = verified_contract\<rparr> q (start_world sample_db)
     = (Inr res, w') \<and> rs_status res \<noteq> 200 \<and> only_audited sample_db (db w')"
proof
  fix q
  let ?S = "\<lparr>sv_verifier = closed_verifier, sv_contract = verified_contract\<rparr>"
  obtain res w' where run: "Receive quiet_env ?S q (start_world sample_db) = (Inr res, w')"
    using Receive_total by blast
  have "case VerifyWebhook (sv_verifier ?S) r of Inl _ \<Rightarrow> True | Inr v \<Rightarrow> \<not> wv_verified v" for r
    by (simp add: closed_verifier_def)
  from unauthenticated_changes_nothing [OF this _ _ run]
  show "\<exists>res w'. Receive quiet_env ?S q (start_world sample_db) = (Inr res, w') \<and> rs_status res \<noteq> 200
      \<and> only_audited sample_db (db w')"
    using run by (auto simp: alone_def scenario)
qed

end
