(* ===== verification/Float64.thy ===== *)
theory Float64
  imports Complex_Main Int64
begin

text \<open>
  Go's \<^verbatim>\<open>float64\<close> as the bookings and promos packages use it: a finite IEEE double is the
  rational number it stands for (the sign of zero is not kept: nothing here divides by a
  computed value), and an operation rounds the exact result to the nearest double, ties
  to even. Divisions in the code are by positive constants.
\<close>

datatype float64 = Finite64 rat | Inf64 (negative: bool) | NaN64

subsection \<open>Rounding\<close>

fun log2n :: "nat \<Rightarrow> nat" where
  "log2n n = (if n \<le> 1 then 0 else Suc (log2n (n div 2)))"

declare log2n.simps [simp del]

definition pow2 :: "int \<Rightarrow> rat" where
  "pow2 e = (if 0 \<le> e then 2 ^ nat e else 1 / 2 ^ nat (- e))"

text \<open>The exponent of a positive rational: \<open>2\<^sup>e \<le> x < 2\<^sup>e\<^sup>+\<^sup>1\<close>.\<close>

definition ilog2 :: "rat \<Rightarrow> int" where
  "ilog2 x = (case quotient_of x of (p, q) \<Rightarrow>
     let k = int (log2n (nat p)) - int (log2n (nat q)) in if pow2 k \<le> x then k else k - 1)"

definition round_even :: "rat \<Rightarrow> int" where
  "round_even y = (let f = floor y; d = y - of_int f in
     if d < 1 / 2 then f else if 1 / 2 < d then f + 1 else if even f then f else f + 1)"

text \<open>53 bits of significand, and no finer than \<open>2\<^sup>-\<^sup>1\<^sup>0\<^sup>7\<^sup>4\<close>.\<close>

definition round64 :: "rat \<Rightarrow> float64" where
  "round64 x = (if x = 0 then Finite64 0 else
     let e = max (ilog2 \<bar>x\<bar> - 52) (- 1074); y = of_int (round_even (x / pow2 e)) * pow2 e in
     if pow2 1024 \<le> \<bar>y\<bar> then Inf64 (x < 0) else Finite64 y)"

subsection \<open>Operations\<close>

fun fadd :: "float64 \<Rightarrow> float64 \<Rightarrow> float64" where
  "fadd (Finite64 a) (Finite64 b) = round64 (a + b)"
| "fadd (Inf64 s) (Inf64 t) = (if s = t then Inf64 s else NaN64)"
| "fadd (Inf64 s) (Finite64 b) = Inf64 s"
| "fadd (Finite64 a) (Inf64 t) = Inf64 t"
| "fadd NaN64 y = NaN64"
| "fadd x NaN64 = NaN64"

fun fneg :: "float64 \<Rightarrow> float64" where
  "fneg (Finite64 a) = Finite64 (- a)"
| "fneg (Inf64 s) = Inf64 (\<not> s)"
| "fneg NaN64 = NaN64"

definition fsub :: "float64 \<Rightarrow> float64 \<Rightarrow> float64" where
  "fsub x y = fadd x (fneg y)"

fun fmul :: "float64 \<Rightarrow> float64 \<Rightarrow> float64" where
  "fmul (Finite64 a) (Finite64 b) = round64 (a * b)"
| "fmul (Inf64 s) (Inf64 t) = Inf64 (s \<noteq> t)"
| "fmul (Inf64 s) (Finite64 b) = (if b = 0 then NaN64 else Inf64 (s \<noteq> (b < 0)))"
| "fmul (Finite64 a) (Inf64 t) = (if a = 0 then NaN64 else Inf64 ((a < 0) \<noteq> t))"
| "fmul NaN64 y = NaN64"
| "fmul x NaN64 = NaN64"

text \<open>Division by a positive constant.\<close>

fun fdivc :: "float64 \<Rightarrow> rat \<Rightarrow> float64" where
  "fdivc (Finite64 a) c = round64 (a / c)"
| "fdivc (Inf64 s) c = Inf64 s"
| "fdivc NaN64 c = NaN64"

fun flt64 :: "float64 \<Rightarrow> float64 \<Rightarrow> bool" where
  "flt64 (Finite64 a) (Finite64 b) = (a < b)"
| "flt64 (Inf64 s) (Inf64 t) = (s \<and> \<not> t)"
| "flt64 (Inf64 s) (Finite64 b) = s"
| "flt64 (Finite64 a) (Inf64 t) = (\<not> t)"
| "flt64 NaN64 y = False"
| "flt64 x NaN64 = False"

definition feq :: "float64 \<Rightarrow> float64 \<Rightarrow> bool" where
  "feq x y \<longleftrightarrow> x = y \<and> x \<noteq> NaN64"

definition fle :: "float64 \<Rightarrow> float64 \<Rightarrow> bool" where
  "fle x y \<longleftrightarrow> flt64 x y \<or> feq x y"

text \<open>\<open>math.Round\<close> (half away from zero), \<open>math.Trunc\<close>, \<open>math.IsNaN\<close>, \<open>math.IsInf(x, 0)\<close>.\<close>

definition round_away :: "rat \<Rightarrow> int" where
  "round_away x = (if x < 0 then - floor (1 / 2 - x) else floor (x + 1 / 2))"

definition trunc_int :: "rat \<Rightarrow> int" where
  "trunc_int x = (if x < 0 then - floor (- x) else floor x)"

fun math_Round :: "float64 \<Rightarrow> float64" where
  "math_Round (Finite64 a) = Finite64 (of_int (round_away a))"
| "math_Round x = x"

fun math_Trunc :: "float64 \<Rightarrow> float64" where
  "math_Trunc (Finite64 a) = Finite64 (of_int (trunc_int a))"
| "math_Trunc x = x"

definition math_IsNaN :: "float64 \<Rightarrow> bool" where "math_IsNaN x \<longleftrightarrow> x = NaN64"
definition math_IsInf :: "float64 \<Rightarrow> bool" where "math_IsInf x \<longleftrightarrow> x = Inf64 True \<or> x = Inf64 False"

text \<open>\<open>float64(n)\<close>, and \<open>int64(x)\<close> of a value in the range of \<open>int64\<close>.\<close>

definition float_of_i64 :: "i64 \<Rightarrow> float64" where
  "float_of_i64 n = round64 (of_int (sint n))"

fun i64_of_float :: "float64 \<Rightarrow> i64" where
  "i64_of_float (Finite64 a) = word_of_int (trunc_int a)"
| "i64_of_float x = min_int64"

subsection \<open>Powers of two\<close>

lemma pow2_powi: "pow2 e = 2 powi e"
  by (simp add: pow2_def power_int_def power_inverse inverse_eq_divide power_one_over)

lemma pow2_pos [simp]: "0 < pow2 e"
  by (simp add: pow2_def)

lemma pow2_nonneg [simp]: "0 \<le> pow2 e"
  by (simp add: pow2_def)

lemma pow2_nz [simp]: "pow2 e \<noteq> 0"
  by (simp add: pow2_def)

lemma pow2_add: "pow2 (a + b) = pow2 a * pow2 b"
  by (simp add: pow2_powi power_int_add)

lemma pow2_less: "pow2 a < pow2 b \<longleftrightarrow> a < b"
proof -
  have up: "pow2 a < pow2 b" if "a < b" for a b
    using that by (simp add: pow2_powi power_int_strict_increasing)
  show ?thesis using up [of a b] up [of b a] by (cases a b rule: linorder_cases) auto
qed

lemma pow2_nat: "pow2 (int n) = 2 ^ n"
  by (simp add: pow2_def)

lemma log2n_bounds: "0 < n \<Longrightarrow> 2 ^ log2n n \<le> n \<and> n < 2 * 2 ^ log2n n"
proof (induction n rule: log2n.induct)
  case (1 n)
  show ?case
  proof (cases "n \<le> 1")
    case True
    with 1 have "n = 1" by simp
    then show ?thesis by (simp add: log2n.simps [of "Suc 0"])
  next
    case False
    define k :: nat where "k = 2 ^ log2n (n div 2)"
    have "k \<le> n div 2 \<and> n div 2 < 2 * k" using 1 False by (simp add: k_def)
    then have "2 * k \<le> n \<and> n < 2 * (2 * k)" by linarith
    then show ?thesis using False by (simp add: log2n.simps [of n] k_def)
  qed
qed

lemma of_nat_bounds:
  "(2 ^ a \<le> (of_nat n :: rat)) = (2 ^ a \<le> n)" "((of_nat n :: rat) < 2 * 2 ^ a) = (n < 2 * 2 ^ a)"
  by (metis of_nat_le_iff of_nat_numeral of_nat_power)
     (metis of_nat_less_iff of_nat_mult of_nat_numeral of_nat_power)

lemma ilog2_bounds:
  assumes "0 < x"
  shows "pow2 (ilog2 x) \<le> x \<and> x < pow2 (ilog2 x + 1)"
proof -
  obtain p q where pq: "quotient_of x = (p, q)" by (cases "quotient_of x")
  then have q: "0 < q" and x: "x = of_int p / of_int q"
    using quotient_of_denom_pos [OF pq] quotient_of_div [OF pq] by auto
  with assms have p: "0 < p" by (simp add: zero_less_divide_iff)
  define a where "a = log2n (nat p)"
  define b where "b = log2n (nat q)"
  have conv: "(of_nat (nat z) :: rat) = of_int z" if "0 < z" for z using that by simp
  have P: "2 ^ a \<le> (of_int p :: rat)" "(of_int p :: rat) < 2 * 2 ^ a"
    using log2n_bounds [of "nat p"] p unfolding a_def conv [OF p, symmetric]
    by (metis of_nat_le_iff of_nat_numeral of_nat_power zero_less_nat_eq,
        metis of_nat_less_iff of_nat_mult of_nat_numeral of_nat_power zero_less_nat_eq)
  have Q: "2 ^ b \<le> (of_int q :: rat)" "(of_int q :: rat) < 2 * 2 ^ b"
    using log2n_bounds [of "nat q"] q unfolding b_def conv [OF q, symmetric]
    by (metis of_nat_le_iff of_nat_numeral of_nat_power zero_less_nat_eq,
        metis of_nat_less_iff of_nat_mult of_nat_numeral of_nat_power zero_less_nat_eq)
  have k: "pow2 (int a - int b) = 2 ^ a / 2 ^ b"
    by (simp add: pow2_powi power_int_diff)
  have q': "(0 :: rat) < of_int q" using q by simp
  have up: "x < 2 * pow2 (int a - int b)"
  proof -
    have "x < (2 * 2 ^ a) / of_int q" unfolding x using P(2) q' by (simp add: divide_strict_right_mono)
    also have "\<dots> \<le> (2 * 2 ^ a) / 2 ^ b" using Q(1) q' by (intro divide_left_mono) auto
    finally show ?thesis by (simp add: k)
  qed
  have lo: "pow2 (int a - int b) / 2 \<le> x"
  proof -
    have "pow2 (int a - int b) / 2 = 2 ^ a / (2 * 2 ^ b)" by (simp add: k)
    also have "\<dots> \<le> 2 ^ a / of_int q" using Q(2) q' by (intro divide_left_mono) auto
    also have "\<dots> \<le> x" unfolding x using P(1) q' by (simp add: divide_right_mono)
    finally show ?thesis .
  qed
  have one: "pow2 (e + 1) = 2 * pow2 e" "pow2 (e - 1) = pow2 e / 2" for e
    by (simp_all add: pow2_powi power_int_add power_int_diff)
  show ?thesis
    using up lo by (simp add: ilog2_def pq Let_def one flip: a_def b_def)
qed

lemma ilog2_le: "0 < x \<Longrightarrow> x < pow2 e \<Longrightarrow> ilog2 x < e"
  using ilog2_bounds [of x] by (metis le_less_trans pow2_less)

lemma le_ilog2: "pow2 e \<le> x \<Longrightarrow> e \<le> ilog2 x"
proof -
  assume "pow2 e \<le> x"
  then have "pow2 e < pow2 (ilog2 x + 1)"
    using ilog2_bounds [of x] pow2_pos [of e] by (meson le_less_trans less_le_trans)
  then show ?thesis by (simp add: pow2_less)
qed

subsection \<open>Rounding error and exact values\<close>

lemma round_even_error: "\<bar>of_int (round_even y) - y\<bar> \<le> 1 / 2"
proof -
  define d where "d = y - of_int \<lfloor>y\<rfloor>"
  then have "0 \<le> d" "d < 1" "y = of_int \<lfloor>y\<rfloor> + d" by linarith+
  moreover have "round_even y = (if d < 1 / 2 then \<lfloor>y\<rfloor> else if 1 / 2 < d then \<lfloor>y\<rfloor> + 1
      else if even \<lfloor>y\<rfloor> then \<lfloor>y\<rfloor> else \<lfloor>y\<rfloor> + 1)"
    by (simp add: round_even_def d_def Let_def)
  ultimately show ?thesis by (simp add: abs_le_iff split: if_splits)
qed

lemma round_even_int [simp]: "round_even (of_int n) = n"
  by (simp add: round_even_def)

lemma round64_error:
  assumes lo: "pow2 (- 1022) \<le> \<bar>x\<bar>" and hi: "\<bar>x\<bar> < pow2 1023"
  shows "\<exists>y. round64 x = Finite64 y \<and> \<bar>y - x\<bar> \<le> \<bar>x\<bar> * pow2 (- 53)"
proof -
  have x: "x \<noteq> 0" using lo pow2_pos [of "- 1022"] by fastforce
  define e where "e = ilog2 \<bar>x\<bar> - 52"
  have e: "max e (- 1074) = e" using le_ilog2 [OF lo] by (simp add: e_def)
  define y where "y = of_int (round_even (x / pow2 e)) * pow2 e"
  have "\<bar>y - x\<bar> = \<bar>of_int (round_even (x / pow2 e)) - x / pow2 e\<bar> * pow2 e"
    by (simp add: y_def left_diff_distrib flip: abs_mult [of _ "pow2 e", simplified])
  also have "\<dots> \<le> 1 / 2 * pow2 e"
    by (rule mult_right_mono [OF round_even_error]) simp
  also have "\<dots> = pow2 (ilog2 \<bar>x\<bar>) * pow2 (- 53)"
    using pow2_add [of "ilog2 \<bar>x\<bar>" "- 53"] pow2_add [of e "- 1"] by (simp add: e_def pow2_def)
  also have "\<dots> \<le> \<bar>x\<bar> * pow2 (- 53)"
    using ilog2_bounds [of "\<bar>x\<bar>"] x by (intro mult_right_mono) auto
  finally have err: "\<bar>y - x\<bar> \<le> \<bar>x\<bar> * pow2 (- 53)" .
  have "\<bar>x\<bar> * pow2 (- 53) \<le> \<bar>x\<bar> * 1"
    by (rule mult_left_mono) (simp_all add: pow2_def)
  then have "\<bar>y\<bar> < 2 * pow2 1023" using err hi by linarith
  also have "2 * pow2 1023 = pow2 1024" by (simp add: pow2_def)
  finally have "round64 x = Finite64 y"
    using x e by (simp add: round64_def Let_def flip: e_def y_def)
  with err show ?thesis by blast
qed

lemma round64_int:
  assumes "\<bar>n\<bar> < 2 ^ 53"
  shows "round64 (of_int n) = Finite64 (of_int n)"
proof (cases "n = 0")
  case False
  define e where "e = ilog2 \<bar>of_int n\<bar> - 52"
  have "\<bar>of_int n\<bar> < (2 ^ 53 :: rat)"
    using assms by (metis of_int_abs of_int_less_iff of_int_numeral of_int_power)
  then have "\<bar>of_int n :: rat\<bar> < pow2 53" by (simp add: pow2_def)
  then have up: "e \<le> 0" using ilog2_le [of "\<bar>of_int n\<bar>" 53] False by (simp add: e_def)
  have "pow2 0 \<le> \<bar>of_int n :: rat\<bar>" using False by (simp add: pow2_def)
  then have lo: "- 52 \<le> e" using le_ilog2 by (fastforce simp: e_def)
  then have e: "max e (- 1074) = e" by simp
  have "of_int n / pow2 e = (of_int (n * 2 ^ nat (- e)) :: rat)"
    using up by (simp add: pow2_def)
  then have "of_int (round_even (of_int n / pow2 e)) * pow2 e = (of_int n :: rat)"
    by (metis (no_types, lifting) nonzero_eq_divide_eq pow2_nz round_even_int)
  moreover have "\<bar>of_int n\<bar> < pow2 1024"
    using \<open>\<bar>of_int n\<bar> < pow2 53\<close> pow2_less [of 53 1024] by simp
  ultimately show ?thesis
    using False e by (simp add: round64_def Let_def flip: e_def)
qed (simp add: round64_def)

lemma float_of_small: "\<bar>sint n\<bar> < 2 ^ 53 \<Longrightarrow> float_of_i64 n = Finite64 (of_int (sint n))"
  unfolding float_of_i64_def by (rule round64_int)

lemma trunc_of_int [simp]: "trunc_int (of_int n) = n"
  by (simp add: trunc_int_def flip: of_int_minus)

lemma round_away_near: "\<bar>x - of_int n\<bar> < 1 / 2 \<Longrightarrow> 0 \<le> n \<Longrightarrow> round_away x = n"
proof -
  assume near: "\<bar>x - of_int n\<bar> < 1 / 2" and n: "0 \<le> n"
  show "round_away x = n"
  proof (cases "x < 0")
    case True
    then have "of_int n < (1 :: rat)" using near by linarith
    then have "n = 0" using n by simp
    moreover have "\<lfloor>1 / 2 - x\<rfloor> = 0" using True near \<open>n = 0\<close> by (simp add: floor_eq_iff)
    ultimately show ?thesis using True by (simp add: round_away_def)
  next
    case False
    then have "\<lfloor>x + 1 / 2\<rfloor> = n" using near unfolding floor_eq_iff by linarith
    with False show ?thesis by (simp add: round_away_def)
  qed
qed

end
