(* ===== verification/BookingPricing.thy ===== *)
theory BookingPricing
  imports Float64 Database
begin

text \<open>
  The price of a slot: \<open>time.Duration.Hours\<close>, the legacy computation in \<^verbatim>\<open>float64\<close> that
  \<open>CreateBooking\<close> and \<open>OwnerCreateOfflineBooking\<close> share (rounded to cents), and the
  conversion to whole rupiah of bookings/finance_helpers.go. The last section relates them to
  exact arithmetic: the floating-point price is accepted exactly when the exact price is a
  whole number of rupiah, and it is that number.
\<close>

definition Hours :: "duration \<Rightarrow> float64" where
  "Hours d = (let h = d sdiv hour; nsec = d smod hour in
     fadd (round64 (of_int h)) (fdivc (round64 (of_int nsec)) (of_int hour)))"

definition legacyPrice :: "float64 \<Rightarrow> float64 \<Rightarrow> float64" where
  "legacyPrice durationHours pricePerHour =
     fdivc (math_Round (fmul (fmul durationHours pricePerHour) (Finite64 100))) 100"

definition maxLegacyBookingRupiah :: int where
  "maxLegacyBookingRupiah = 9999999999"

definition exactFloat64ToRupiah :: "float64 \<Rightarrow> app_error + i64" where
  "exactFloat64ToRupiah value =
    (if math_IsNaN value then Inl (EText ''cannot convert NaN to exact rupiah'')
     else if math_IsInf value then Inl (EText ''cannot convert Infinity to exact rupiah'')
     else if flt64 value (Finite64 0) then Inl (EText ''cannot convert negative value to exact rupiah'')
     else if flt64 (round64 (of_int maxLegacyBookingRupiah)) value
       then Inl (EText ''value exceeds maximum allowed legacy booking rupiah'')
     else if \<not> feq (math_Trunc value) value
       then Inl (EText ''cannot convert fractional value to exact rupiah'')
     else let result = i64_of_float value in
       if \<not> feq (float_of_i64 result) value then Inl (EText ''round-trip exact check failed'')
       else Inr result)"

text \<open>A NUMERIC column scanned into a \<^verbatim>\<open>float64\<close>.\<close>

definition scan_numeric :: "rat \<Rightarrow> float64" where
  "scan_numeric r = round64 r"

subsection \<open>The conversion to rupiah\<close>

lemma exact_nonneg:
  assumes "exactFloat64ToRupiah v = Inr k"
  shows "v = Finite64 (of_int (sint k)) \<and> 0 \<le> sint k \<and> sint k \<le> maxLegacyBookingRupiah"
proof -
  obtain r where r: "v = Finite64 r"
    using assms by (cases v) (auto simp: exactFloat64ToRupiah_def math_IsNaN_def math_IsInf_def split: if_splits)
  have max: "round64 (of_int maxLegacyBookingRupiah) = Finite64 (of_int maxLegacyBookingRupiah)"
    by (rule round64_int) (simp add: maxLegacyBookingRupiah_def)
  have bounds: "0 \<le> r" "r \<le> of_int maxLegacyBookingRupiah" "of_int (trunc_int r) = r"
    and k: "k = word_of_int (trunc_int r)"
    using assms by (auto simp: exactFloat64ToRupiah_def r max feq_def Let_def split: if_splits)
  then have t: "0 \<le> trunc_int r" "trunc_int r \<le> maxLegacyBookingRupiah"
    by (metis of_int_0_le_iff, metis of_int_le_iff)
  then have "sint k = trunc_int r"
    unfolding k by (intro sint_of_int64) (simp add: in64_def maxLegacyBookingRupiah_def)
  with bounds t r show ?thesis by simp
qed

lemma exact_whole:
  assumes "0 \<le> n" "n \<le> maxLegacyBookingRupiah"
  shows "exactFloat64ToRupiah (Finite64 (of_int n)) = Inr (word_of_int n)"
proof -
  have s: "sint (word_of_int n :: i64) = n"
    using assms by (intro sint_of_int64) (simp add: in64_def maxLegacyBookingRupiah_def)
  have small: "round64 (of_int k) = Finite64 (of_int k)" if "0 \<le> k" "k \<le> maxLegacyBookingRupiah" for k
    using that by (intro round64_int) (simp add: maxLegacyBookingRupiah_def)
  have f: "float_of_i64 (word_of_int n) = Finite64 (of_int n)"
    unfolding float_of_i64_def s using assms by (rule small)
  have m: "round64 (of_int maxLegacyBookingRupiah) = Finite64 (of_int maxLegacyBookingRupiah)"
    by (rule small) (simp_all add: maxLegacyBookingRupiah_def)
  show ?thesis
    using assms by (simp add: exactFloat64ToRupiah_def math_IsNaN_def math_IsInf_def m feq_def f Let_def)
qed

subsection \<open>The error of the computed price\<close>

definition unit_roundoff :: rat where "unit_roundoff = pow2 (- 53)"

lemma roundoff_pos: "0 < unit_roundoff"
  by (simp add: unit_roundoff_def)

lemma roundoff_small: "unit_roundoff \<le> 1 / 9000000000000000"
  by (simp add: unit_roundoff_def pow2_def)

lemma round64_near:
  assumes "x = 0 \<or> 1 / 1000000 \<le> x" "x \<le> 10 ^ 18"
  shows "\<exists>y. round64 x = Finite64 y \<and> \<bar>y - x\<bar> \<le> x * unit_roundoff"
proof (cases "x = 0")
  case True
  then show ?thesis by (simp add: round64_def)
next
  case False
  have "pow2 (- 1022) < pow2 (- 20)" "pow2 60 < pow2 1023" by (simp_all add: pow2_less)
  moreover have "pow2 (- 20) \<le> 1 / 1000000" "(10 :: rat) ^ 18 < pow2 60" by (simp_all add: pow2_def)
  ultimately have "pow2 (- 1022) \<le> \<bar>x\<bar>" "\<bar>x\<bar> < pow2 1023" using assms False by linarith+
  from round64_error [OF this] show ?thesis using assms False by (auto simp: unit_roundoff_def)
qed

text \<open>The computed number of hours of a slot of \<open>m\<close> minutes.\<close>

lemma Hours_near:
  assumes "0 < m" "m < 1440"
  shows "\<exists>t. Hours (m * minute) = Finite64 t \<and> \<bar>t - of_int m / 60\<bar> \<le> of_int m / 60 * (3 * unit_roundoff)
    \<and> 1 / 1000 \<le> t"
proof -
  define h where "h = m div 60"
  define r where "r = m mod 60"
  have m: "m = 60 * h + r" and h: "0 \<le> h" "h < 24" and r: "0 \<le> r" "r < 60"
    using assms by (simp_all add: h_def r_def)
  define u where "u = unit_roundoff"
  have u: "0 < u" "u \<le> 1 / 9000000000000000" using roundoff_pos roundoff_small by (simp_all add: u_def)
  have "m * minute sdiv hour = h" "m * minute smod hour = r * minute"
    using h r assms unfolding m by (simp_all add: signed_divide_int_def signed_modulo_int_def sgn_if)
  moreover have "round64 (of_int h) = Finite64 (of_int h)"
    using h by (intro round64_int) simp
  moreover have "round64 (of_int (r * minute)) = Finite64 (of_int (r * minute))"
    using r by (intro round64_int) simp
  ultimately have H: "Hours (m * minute) = fadd (Finite64 (of_int h)) (round64 (of_int r / 60))"
    by (simp add: Hours_def Let_def)
  have "of_int r / 60 = (0 :: rat) \<or> 1 / 1000000 \<le> (of_int r / 60 :: rat)"
  proof (cases "r = 0")
    case False
    then have "1 \<le> (of_int r :: rat)" using r by simp
    then show ?thesis by simp
  qed simp
  moreover have "(of_int r / 60 :: rat) \<le> 10 ^ 18" using r by simp
  ultimately obtain y where y: "round64 (of_int r / 60) = Finite64 y"
    and ye: "\<bar>y - of_int r / 60\<bar> \<le> of_int r / 60 * u"
    using round64_near unfolding u_def by blast
  define x :: rat where "x = of_int h + y"
  have mq: "(of_int m :: rat) / 60 = of_int h + of_int r / 60" unfolding m by simp
  have rq: "0 \<le> (of_int r :: rat)" "(of_int r :: rat) / 60 \<le> of_int m / 60" "(1 :: rat) \<le> of_int m"
    "(of_int m :: rat) \<le> 1440"
    using r h assms unfolding mq by simp_all
  have "x - of_int m / 60 = y - of_int r / 60" unfolding x_def mq by simp
  then have xe: "\<bar>x - of_int m / 60\<bar> \<le> of_int m / 60 * u"
    using order_trans [OF ye mult_right_mono [OF rq(2) less_imp_le [OF u(1)]]] by simp
  have mu: "of_int m / 60 * u \<le> of_int m / 60 * (1 / 9000000000000000)"
    by (rule mult_left_mono [OF u(2)]) (use rq in simp)
  have M: "1 / 60 \<le> (of_int m :: rat) / 60" "(of_int m :: rat) / 60 \<le> 24" using rq by simp_all
  have xb: "1 / 1000000 \<le> x" "x \<le> 1000" using xe mu M by linarith+
  then have "x \<le> 10 ^ 18" by simp
  then obtain t where t: "round64 x = Finite64 t" and te: "\<bar>t - x\<bar> \<le> x * u"
    using round64_near [of x] xb(1) unfolding u_def by blast
  have "x \<le> 2 * (of_int m / 60)" using xe mu M by linarith
  then have "x * u \<le> 2 * (of_int m / 60) * u" using u by (intro mult_right_mono) simp_all
  then have err: "\<bar>t - of_int m / 60\<bar> \<le> of_int m / 60 * (3 * u)"
    using xe te by linarith
  moreover have "1 / 1000 \<le> t"
    using err mu M by linarith
  moreover have "Hours (m * minute) = Finite64 t" by (simp add: H y t flip: x_def)
  ultimately show ?thesis unfolding u_def by blast
qed

text \<open>One more operation on a value that is already close costs two more units.\<close>

lemma round_step:
  assumes near: "\<bar>x - a\<bar> \<le> a * (k * unit_roundoff)" and a: "0 \<le> a" "a \<le> 10 ^ 15"
    and k: "0 \<le> k" "k \<le> 100" and x: "x = 0 \<or> 1 / 1000000 \<le> x"
  shows "\<exists>y. round64 x = Finite64 y \<and> \<bar>y - a\<bar> \<le> a * ((k + 2) * unit_roundoff)"
proof -
  have ku: "k * unit_roundoff \<le> 1"
    using mult_mono [OF k(2) roundoff_small] k roundoff_pos by simp
  have "a * (k * unit_roundoff) \<le> a * 1" by (rule mult_left_mono [OF ku a(1)])
  then have x2: "x \<le> 2 * a" using near by (simp add: abs_le_iff)
  then have "x \<le> 10 ^ 18" using a(2) by simp
  then obtain y where y: "round64 x = Finite64 y" and ye: "\<bar>y - x\<bar> \<le> x * unit_roundoff"
    using round64_near [OF x] by blast
  have "x * unit_roundoff \<le> 2 * a * unit_roundoff"
    by (rule mult_right_mono [OF x2]) (use roundoff_pos in simp)
  then have "\<bar>y - a\<bar> \<le> a * (k * unit_roundoff) + 2 * a * unit_roundoff"
    using near ye by (simp add: abs_le_iff)
  also have "\<dots> = a * ((k + 2) * unit_roundoff)" by (simp add: algebra_simps)
  finally show ?thesis using y by blast
qed

lemma amount_near:
  assumes m: "0 < m" "m < 1440" and p: "0 \<le> p" "p \<le> maxLegacyBookingRupiah"
  shows "\<exists>w. fmul (fmul (Hours (m * minute)) (scan_numeric (of_int p))) (Finite64 100) = Finite64 w
    \<and> \<bar>w - of_int (5 * m * p) / 3\<bar> \<le> 1 / 10"
proof -
  obtain t where t: "Hours (m * minute) = Finite64 t"
    and te: "\<bar>t - of_int m / 60\<bar> \<le> of_int m / 60 * (3 * unit_roundoff)" and t0: "1 / 1000 \<le> t"
    using Hours_near [OF m] by blast
  have P: "scan_numeric (of_int p) = Finite64 (of_int p)"
    unfolding scan_numeric_def using p by (intro round64_int) (simp add: maxLegacyBookingRupiah_def)
  have p': "(0 :: rat) \<le> of_int p" "(of_int p :: rat) \<le> 9999999999"
    using p by (simp_all add: maxLegacyBookingRupiah_def)
  have m': "(1 :: rat) \<le> of_int m" "(of_int m :: rat) \<le> 1440" using m by simp_all
  define a :: rat where "a = of_int m / 60 * of_int p"
  have a: "0 \<le> a" "a \<le> 24 * 9999999999"
    unfolding a_def using p' m' mult_mono [of "of_int m / 60" "24 :: rat" "of_int p" 9999999999] by simp_all
  have pos: "p = 0 \<or> 1 / 1000 \<le> t * of_int p"
  proof (cases "p = 0")
    case False
    then have "(1 :: rat) \<le> of_int p" using p by simp
    then show ?thesis using t0 mult_mono [of "1 / 1000" t 1 "of_int p"] by simp
  qed simp
  have "\<bar>t * of_int p - a\<bar> = \<bar>t - of_int m / 60\<bar> * of_int p"
    unfolding a_def left_diff_distrib [symmetric] abs_mult using p' by simp
  also have "\<dots> \<le> (of_int m / 60 * (3 * unit_roundoff)) * of_int p"
    by (rule mult_right_mono [OF te p'(1)])
  finally have "\<bar>t * of_int p - a\<bar> \<le> a * (3 * unit_roundoff)" by (simp add: a_def mult_ac)
  then obtain s where s: "round64 (t * of_int p) = Finite64 s"
    and se: "\<bar>s - a\<bar> \<le> a * (5 * unit_roundoff)"
    using round_step [of "t * of_int p" a 3] a pos by fastforce
  have a_pos: "a = 0 \<or> 1 / 60 \<le> a"
  proof (cases "p = 0")
    case False
    then have "(1 :: rat) \<le> of_int p" using p by simp
    then show ?thesis
      using m' mult_mono [of "1 / 60 :: rat" "of_int m / 60" 1 "of_int p"] by (simp add: a_def)
  qed (simp add: a_def)
  have au: "a * (5 * unit_roundoff) \<le> a * (1 / 2)"
    by (rule mult_left_mono [OF _ a(1)]) (use roundoff_small in simp)
  have "\<bar>s * 100 - 100 * a\<bar> \<le> 100 * a * (5 * unit_roundoff)" using se by (simp add: abs_le_iff)
  moreover have "s * 100 = 0 \<or> 1 / 1000000 \<le> s * 100" proof (cases "a = 0")
    case True
    then show ?thesis using se by simp
  next
    case False
    then have "1 / 60 \<le> a" using a_pos by simp
    then have "1 / 1000 \<le> s" using se au by linarith
    then show ?thesis by simp
  qed
  ultimately obtain w where w: "round64 (s * 100) = Finite64 w"
    and we: "\<bar>w - 100 * a\<bar> \<le> 100 * a * (7 * unit_roundoff)"
    using round_step [of "s * 100" "100 * a" 5] a by fastforce
  have "100 * a * (7 * unit_roundoff) \<le> 100 * (24 * 9999999999) * (7 * (1 / 9000000000000000))"
    by (rule mult_mono) (use a roundoff_small roundoff_pos in simp_all)
  then have "\<bar>w - 100 * a\<bar> \<le> 1 / 10" using we by linarith
  moreover have "100 * a = of_int (5 * m * p) / 3" by (simp add: a_def)
  ultimately show ?thesis using w by (simp add: t P s)
qed

subsection \<open>The price is exact\<close>

definition bookingPrice :: "int \<Rightarrow> rat \<Rightarrow> float64" where
  "bookingPrice m p = legacyPrice (Hours (m * minute)) (scan_numeric p)"

lemma bookingPrice_cents:
  assumes m: "0 < m" "m < 1440" and p: "0 \<le> p" "p \<le> maxLegacyBookingRupiah"
  defines "n \<equiv> (10 * m * p + 3) div 6"
  shows "bookingPrice m (of_int p) = round64 (of_int n / 100)"
    and "\<bar>3 * n - 5 * m * p\<bar> \<le> 1" and "0 \<le> n" and "n \<le> 23999999997600"
proof -
  obtain w where w: "fmul (fmul (Hours (m * minute)) (scan_numeric (of_int p))) (Finite64 100) = Finite64 w"
    and we: "\<bar>w - of_int (5 * m * p) / 3\<bar> \<le> 1 / 10"
    using amount_near [OF m p] by blast
  have mp: "0 \<le> m * p" "m * p \<le> 1439 * 9999999999"
    using m p mult_mono [of m 1439 p 9999999999] by (simp_all add: maxLegacyBookingRupiah_def)
  show near: "\<bar>3 * n - 5 * m * p\<bar> \<le> 1" unfolding n_def mult.assoc by linarith
  show n0: "0 \<le> n" using mp(1) unfolding n_def mult.assoc by linarith
  show "n \<le> 23999999997600" using mp(2) unfolding n_def mult.assoc by linarith
  have "\<bar>of_int n - of_int (5 * m * p) / 3\<bar> \<le> (1 / 3 :: rat)"
  proof -
    have "of_int (3 * n - 5 * m * p) \<le> (1 :: rat)" "- of_int (3 * n - 5 * m * p) \<le> (1 :: rat)"
      using near by linarith+
    then show ?thesis unfolding abs_le_iff by simp
  qed
  then have "round_away w = n" using we by (intro round_away_near [OF _ n0]) linarith
  then show "bookingPrice m (of_int p) = round64 (of_int n / 100)"
    by (simp add: bookingPrice_def legacyPrice_def w)
qed

text \<open>A number of cents that is not whole stays visibly fractional after rounding.\<close>

lemma cents_exact:
  assumes n: "0 \<le> n" "n \<le> 23999999997600"
  shows "exactFloat64ToRupiah (round64 (of_int n / 100)) = Inr k
     \<longleftrightarrow> 100 * sint k = n \<and> sint k \<le> maxLegacyBookingRupiah"
proof
  assume k: "exactFloat64ToRupiah (round64 (of_int n / 100)) = Inr k"
  have n': "(0 :: rat) \<le> of_int n" "(of_int n :: rat) \<le> 23999999997600" using n by simp_all
  have "(of_int n / 100 :: rat) = 0 \<or> 1 / 1000000 \<le> (of_int n / 100 :: rat)"
  proof (cases "n = 0")
    case False
    then have "(1 :: rat) \<le> of_int n" using n by simp
    then show ?thesis by simp
  qed simp
  then obtain y where y: "round64 (of_int n / 100) = Finite64 y"
    and ye: "\<bar>y - of_int n / 100\<bar> \<le> of_int n / 100 * unit_roundoff"
    using round64_near [of "of_int n / 100"] n' by auto
  have "of_int n / 100 * unit_roundoff \<le> 239999999976 * (1 / 9000000000000000)"
    by (rule mult_mono) (use n' roundoff_small roundoff_pos in simp_all)
  then have ye': "\<bar>y - of_int n / 100\<bar> < 1 / 100" using ye by linarith
  have s: "y = of_int (sint k)" "sint k \<le> maxLegacyBookingRupiah"
    using exact_nonneg [OF k] y by auto
  have "\<bar>of_int (100 * sint k - n)\<bar> < (1 :: rat)"
    using ye' unfolding s(1) of_int_diff of_int_mult of_int_numeral by linarith
  then have "\<bar>100 * sint k - n\<bar> < 1" by linarith
  with s show "100 * sint k = n \<and> sint k \<le> maxLegacyBookingRupiah" by simp
next
  assume k: "100 * sint k = n \<and> sint k \<le> maxLegacyBookingRupiah"
  then have c: "(of_int n / 100 :: rat) = of_int (sint k)" and k0: "0 \<le> sint k"
    using n by auto
  have "round64 (of_int (sint k)) = Finite64 (of_int (sint k))"
    using k k0 by (intro round64_int) (simp add: maxLegacyBookingRupiah_def)
  then show "exactFloat64ToRupiah (round64 (of_int n / 100)) = Inr k"
    using exact_whole [OF k0] k by (simp add: c)
qed

lemma price_exact_iff:
  assumes m: "0 < m" "m < 1440" and p: "0 \<le> p" "p \<le> maxLegacyBookingRupiah"
  shows "exactFloat64ToRupiah (bookingPrice m (of_int p)) = Inr k
     \<longleftrightarrow> 60 * sint k = m * p \<and> sint k \<le> maxLegacyBookingRupiah"
proof -
  define n where "n = (10 * m * p + 3) div 6"
  note cents = bookingPrice_cents [OF m p, folded n_def]
  have "100 * sint k = n \<longleftrightarrow> 60 * sint k = m * p"
    using cents(2) unfolding n_def mult.assoc by linarith
  then show ?thesis using cents_exact [OF cents(3,4)] by (simp add: cents(1))
qed

end
