(* ===== verification/Calendar.thy ===== *)
theory Calendar
  imports Prelude
begin

text \<open>
  Dates and times of day. A date is its number of days since Go's zero time (1 January of
  year 1, a Monday), a time of day a number of minutes. Asia/Jakarta is UTC+7, the fixed zone the code
  falls back to. \<open>parse_date\<close> and \<open>parse_clock\<close> are \<open>time.Parse\<close> with the layouts
  \<^verbatim>\<open>2006-01-02\<close> and \<^verbatim>\<open>15:04\<close>; \<open>format_clock\<close> is \<open>Format("15:04")\<close>.
\<close>

abbreviation day :: duration where "day \<equiv> 86400000000000"

definition leap_year :: "int \<Rightarrow> bool" where
  "leap_year y \<longleftrightarrow> y mod 4 = 0 \<and> (y mod 100 \<noteq> 0 \<or> y mod 400 = 0)"

definition month_lengths :: "int \<Rightarrow> int list" where
  "month_lengths y = [31, if leap_year y then 29 else 28, 31, 30, 31, 30, 31, 31, 30, 31, 30, 31]"

definition days_before_year :: "int \<Rightarrow> int" where
  "days_before_year y = 365 * (y - 1) + (y - 1) div 4 - (y - 1) div 100 + (y - 1) div 400"

text \<open>Month and day count from 1.\<close>

definition date_number :: "int \<Rightarrow> int \<Rightarrow> int \<Rightarrow> int" where
  "date_number y m d = days_before_year y + sum_list (take (nat (m - 1)) (month_lengths y)) + (d - 1)"

definition number :: "string \<Rightarrow> int" where
  "number s = foldl (\<lambda>n c. 10 * n + (of_char c - 48)) 0 s"

definition parse_date :: "string \<Rightarrow> int option" where
  "parse_date s =
    (if length s = 10 \<and> s ! 4 = CHR ''-'' \<and> s ! 7 = CHR ''-''
        \<and> list_all is_digit (take 4 s @ take 2 (drop 5 s) @ drop 8 s)
     then let y = number (take 4 s); m = number (take 2 (drop 5 s)); d = number (drop 8 s) in
       if 1 \<le> m \<and> m \<le> 12 \<and> 1 \<le> d \<and> d \<le> month_lengths y ! nat (m - 1)
       then Some (date_number y m d) else None
     else None)"

text \<open>The hour may have one digit, the minute has two.\<close>

definition clock_of :: "string \<Rightarrow> string \<Rightarrow> int option" where
  "clock_of h m = (if list_all is_digit (h @ m) \<and> number h < 24 \<and> number m < 60
                   then Some (60 * number h + number m) else None)"

fun parse_clock :: "string \<Rightarrow> int option" where
  "parse_clock [a, b, c, d, e] = (if c = CHR '':'' then clock_of [a, b] [d, e] else None)"
| "parse_clock [a, c, d, e] = (if c = CHR '':'' then clock_of [a] [d, e] else None)"
| "parse_clock _ = None"

definition two_digits :: "int \<Rightarrow> string" where
  "two_digits n = [char_of (48 + n div 10), char_of (48 + n mod 10)]"

definition format_clock :: "int \<Rightarrow> string" where
  "format_clock m = two_digits (m div 60) @ '':'' @ two_digits (m mod 60)"

text \<open>\<open>Weekday\<close>, with Sunday as 0.\<close>

definition weekday :: "int \<Rightarrow> int" where
  "weekday d = (d + 1) mod 7"

text \<open>The calendar in Jakarta: date and time of day of an instant, and the instant of a local time.\<close>

definition jakarta_date :: "time \<Rightarrow> int" where
  "jakarta_date t = (t + 7 * hour) div day"

definition jakarta_clock :: "time \<Rightarrow> duration" where
  "jakarta_clock t = (t + 7 * hour) mod day"

definition jakarta_instant :: "int \<Rightarrow> int \<Rightarrow> time" where
  "jakarta_instant d m = d * day + m * minute - 7 * hour"

lemma digit_range: "is_digit c \<Longrightarrow> 0 \<le> (of_char c - 48 :: int) \<and> (of_char c - 48 :: int) \<le> 9"
proof -
  have "(of_char c :: int) = int (of_char c)" by (simp add: of_nat_of_char)
  then show "is_digit c \<Longrightarrow> ?thesis" by (simp add: is_digit_def less_eq_char_def)
qed

lemma number_digits: "list_all is_digit s \<Longrightarrow> 0 \<le> number s"
proof (induction s rule: rev_induct)
  case (snoc c s)
  then show ?case using digit_range [of c] by (simp add: number_def)
qed (simp add: number_def)

lemma clock_of_range: "clock_of h m = Some n \<Longrightarrow> 0 \<le> n \<and> n < 1440"
  using number_digits [of h] number_digits [of m] by (auto simp: clock_of_def split: if_splits)

lemma parse_clock_range: "parse_clock s = Some m \<Longrightarrow> 0 \<le> m \<and> m < 1440"
  by (induction s rule: parse_clock.induct)
     (auto split: if_splits dest: clock_of_range)

lemma number_two_digits:
  assumes "0 \<le> n" "n < 100"
  shows "number (two_digits n) = n \<and> list_all is_digit (two_digits n)"
proof -
  have d: "(of_char (char_of (48 + k) :: char) :: int) = 48 + k \<and> is_digit (char_of (48 + k))"
    if "0 \<le> k" "k \<le> 9" for k :: int
  proof -
    have "\<forall>k \<in> set [0..9]. (of_char (char_of (48 + k) :: char) :: int) = 48 + k \<and> is_digit (char_of (48 + k))"
      by code_simp
    then show ?thesis using that by simp
  qed
  show ?thesis
    using d [of "n div 10"] d [of "n mod 10"] assms by (simp add: two_digits_def number_def)
qed

lemma parse_format_clock:
  assumes "0 \<le> m" "m < 1440"
  shows "parse_clock (format_clock m) = Some m"
proof -
  have "number (two_digits (m div 60)) = m div 60" "number (two_digits (m mod 60)) = m mod 60"
    "list_all is_digit (two_digits (m div 60) @ two_digits (m mod 60))"
    using number_two_digits [of "m div 60"] number_two_digits [of "m mod 60"] assms by simp_all
  moreover have "parse_clock (format_clock m) = clock_of (two_digits (m div 60)) (two_digits (m mod 60))"
    by (simp add: format_clock_def two_digits_def)
  ultimately show ?thesis using assms by (simp add: clock_of_def)
qed

lemma jakarta_instant_order:
  "jakarta_instant d m < jakarta_instant d' m' \<longleftrightarrow> d * day + m * minute < d' * day + m' * minute"
  by (simp add: jakarta_instant_def)

end
