(* ===== verification/Promos.thy ===== *)
theory Promos
  imports BookingPricing Calendar Commits
begin

text \<open>
  Promo codes (promos/service.go, promos/repository.go): the lookup of an active code, the
  rules and the discount a booking applies, and the preview \<open>ValidatePromo\<close> shows to the customer before.
\<close>

subsection \<open>Lookup\<close>

text \<open>\<open>strings.ToUpper\<close> has an ASCII fast path; PostgreSQL's \<^verbatim>\<open>UPPER\<close> is the database's.\<close>

definition ascii_upper :: "char \<Rightarrow> char" where
  "ascii_upper c = (if is_lower c then char_of (of_char c - 32 :: nat) else c)"

definition ToUpper :: "env \<Rightarrow> string \<Rightarrow> string" where
  "ToUpper E s = (if list_all (\<lambda>c. (of_char c :: nat) < 128) s then map ascii_upper s else upper_case E s)"

definition venue_usable :: "dbs \<Rightarrow> string option \<Rightarrow> bool" where
  "venue_usable d v \<longleftrightarrow> (case v of None \<Rightarrow> True
     | Some vid \<Rightarrow> sql_exists (\<lambda>x. vn_id x = vid \<and> vn_status x \<noteq> ''SUSPENDED'') (venues d))"

definition active_promo :: "env \<Rightarrow> string \<Rightarrow> string \<Rightarrow> dbs \<Rightarrow> promo option" where
  "active_promo E ownerID code d =
     query_row (\<lambda>p. pr_owner_id p = ownerID \<and> sql_upper E (pr_code p) = sql_upper E code
        \<and> pr_status p = ''ACTIVE'' \<and> venue_usable d (pr_venue_id p)) (promos d)"

text \<open>A statement on the pool while the session's own transaction is open: it sees what is
  committed.\<close>

definition side_query :: "'d environment \<Rightarrow> 'e \<Rightarrow> ('d \<Rightarrow> 'a) \<Rightarrow> ('e, 'd, 'a) tx" where
  "side_query E e f = (\<lambda>w. (if db_fault E (steps w) then Inl e else Inr (f (base w)),
     w\<lparr>steps := Suc (steps w)\<rparr>))"

definition FindActivePromoByCode :: "env \<Rightarrow> string \<Rightarrow> string \<Rightarrow> promo app" where
  "FindActivePromoByCode E ownerID code =
     andthen (side_query E EDatabase (active_promo E ownerID code)) (deref ENoRows)"

subsection \<open>The discount\<close>

definition discount_value :: "promo \<Rightarrow> float64" where
  "discount_value p = scan_numeric (pr_discount_value p)"

definition roundMoney :: "float64 \<Rightarrow> float64" where
  "roundMoney v = fdivc (math_Round (fmul v (Finite64 100))) 100"

definition CalculateDiscount :: "promo \<Rightarrow> float64 \<Rightarrow> float64" where
  "CalculateDiscount p originalPrice = (case pr_discount_type p of
     PERCENTAGE \<Rightarrow> roundMoney (fdivc (fmul originalPrice (discount_value p)) 100)
   | FIXED_AMOUNT \<Rightarrow> roundMoney (discount_value p))"

definition dateOnly :: "time \<Rightarrow> int" where
  "dateOnly t = jakarta_date t"

definition ValidatePromoRules :: "promo \<Rightarrow> string \<Rightarrow> float64 \<Rightarrow> time \<Rightarrow> app_error + unit" where
  "ValidatePromoRules p venueID originalPrice bookingDate =
    (if pr_status p \<noteq> ''ACTIVE'' then Inl (EPromo ErrPromoNotActive)
     else if pr_venue_id p \<noteq> None \<and> pr_venue_id p \<noteq> Some venueID then Inl (EPromo ErrPromoVenueMismatch)
     else if dateOnly bookingDate < dateOnly (pr_starts_at p) then Inl (EPromo ErrPromoNotStarted)
     else if dateOnly (pr_ends_at p) < dateOnly bookingDate then Inl (EPromo ErrPromoExpired)
     else if fle (fsub originalPrice (CalculateDiscount p originalPrice)) (Finite64 0)
       then Inl (EPromo PErrInvalidPrice)
     else Inr ())"

subsection \<open>The preview\<close>

record promo_request =
  vq_venue_id :: string
  vq_court_id :: string
  vq_booking_date :: string
  vq_start_time :: string
  vq_end_time :: string
  vq_promo_code :: string

record promo_quote =
  pq_promo_id :: string
  pq_promo_code :: string
  pq_original_price :: float64
  pq_discount_amount :: float64
  pq_final_price :: float64

record promo_court =
  pc_price_per_hour :: float64
  pc_owner_user_id :: string
  pc_venue_id :: string

text \<open>The join of a court with its venue and the venue's owner profile.\<close>

definition court_join :: "dbs \<Rightarrow> (court \<Rightarrow> bool) \<Rightarrow> (venue \<Rightarrow> bool) \<Rightarrow> (court \<times> venue \<times> owner_profile) option" where
  "court_join d p q =
     query_row (\<lambda>(c, v, op). p c \<and> q v \<and> vn_id v = ct_venue_id c \<and> op_id op = vn_owner_profile_id v)
       (List.product (courts d) (List.product (venues d) (owner_profiles d)))"

definition GetCourtValidationInfo :: "env \<Rightarrow> string \<Rightarrow> promo_court app" where
  "GetCourtValidationInfo E courtID =
     andthen (pool_query E EDatabase (\<lambda>now d.
        map_option (\<lambda>(c, v, op). \<lparr>pc_price_per_hour = scan_numeric (ct_price_per_hour c),
            pc_owner_user_id = op_user_id op, pc_venue_id = vn_id v\<rparr>)
          (court_join d (\<lambda>c. ct_id c = courtID) (\<lambda>v. vn_status v \<noteq> ''SUSPENDED''))))
     (deref ENoRows)"

definition preview_discount :: "promo \<Rightarrow> float64 \<Rightarrow> float64" where
  "preview_discount p originalPrice =
    (let amount = (case pr_discount_type p of
           PERCENTAGE \<Rightarrow> math_Round (fdivc (fmul originalPrice (discount_value p)) 100)
         | FIXED_AMOUNT \<Rightarrow> discount_value p)
     in if flt64 originalPrice amount then originalPrice else amount)"

definition quote_price :: "promo \<Rightarrow> float64 \<Rightarrow> app_error + promo_quote" where
  "quote_price p originalPrice =
    (let amount = preview_discount p originalPrice; final = fsub originalPrice amount in
     if fle final (Finite64 0) then Inl (EPromo PErrInvalidPrice)
     else Inr \<lparr>pq_promo_id = pr_id p, pq_promo_code = pr_code p, pq_original_price = originalPrice,
               pq_discount_amount = amount, pq_final_price = final\<rparr>)"

definition not_found_as :: "app_error \<Rightarrow> app_error \<Rightarrow> app_error" where
  "not_found_as e x = (if x = ENoRows then e else x)"

definition parse_time :: "string \<Rightarrow> int app" where
  "parse_time s = deref EParse (parse_clock s)"

definition ValidatePromo :: "env \<Rightarrow> promo_request \<Rightarrow> promo_quote app" where
  "ValidatePromo E req =
    andthen (map_err (not_found_as (EText ''court not found'')) (GetCourtValidationInfo E (vq_court_id req)))
      (\<lambda>info.
    if pc_venue_id info \<noteq> vq_venue_id req
      then fail (EText ''court does not belong to the requested venue'')
    else andthen (parse_time (vq_start_time req)) (\<lambda>start.
    andthen (parse_time (vq_end_time req)) (\<lambda>endt.
    let hours = Hours ((endt - start) * minute) in
    if fle hours (Finite64 0) then fail (EText ''invalid time range'')
    else
    andthen (map_err (not_found_as (EPromo ErrPromoNotFound))
        (andthen (pool_query E EDatabase (\<lambda>now. active_promo E (pc_owner_user_id info)
            (ToUpper E (trim_space (vq_promo_code req))))) (deref ENoRows))) (\<lambda>p.
    if pr_status p \<noteq> ''ACTIVE'' then fail (EPromo ErrPromoNotActive)
    else andthen (deref (EPromo ErrInvalidBookingDate) (parse_date (vq_booking_date req))) (\<lambda>date.
    if dateOnly (date * day) < dateOnly (pr_starts_at p) then fail (EPromo ErrPromoNotStarted)
    else if dateOnly (pr_ends_at p) < dateOnly (date * day) then fail (EPromo ErrPromoExpired)
    else if pr_venue_id p \<noteq> None \<and> pr_venue_id p \<noteq> Some (vq_venue_id req)
      then fail (EPromo ErrPromoVenueMismatch)
    else lift_res (quote_price p (fmul (pc_price_per_hour info) hours)))))))"

lemma side_query_Inr: "side_query E e f w = (Inr x, w') \<longleftrightarrow>
  \<not> db_fault E (steps w) \<and> x = f (base w) \<and> w' = w\<lparr>steps := Suc (steps w)\<rparr>"
  by (auto simp: side_query_def)

lemma keeps_base_side: "keeps_base (side_query E e f)"
  by (simp add: keeps_base_def side_query_def)

lemma keeps_now_side: "keeps_now (side_query E e f)"
  by (simp add: keeps_now_def side_query_def)

context table_order begin

lemma guar_side: "guar R (side_query E e f)"
  by (simp add: guar_def side_query_def R_refl)

end

lemma court_join_Some:
  assumes "court_join d p q = Some (c, v, op)"
  shows "c \<in> set (courts d) \<and> p c \<and> v \<in> set (venues d) \<and> q v \<and> op \<in> set (owner_profiles d)
    \<and> vn_id v = ct_venue_id c \<and> op_id op = vn_owner_profile_id v"
  using query_row_Some [OF assms [unfolded court_join_def]] by auto

end
