(* ===== verification/BookingSnapshots.thy ===== *)
theory BookingSnapshots
  imports Promos
begin

text \<open>
  The fee snapshot every new booking gets: the commercial term in force
  (platformfinance/commercial_term_resolver.go), the snapshot row and its checks
  (booking_fee_snapshot_repository.go, migration 020), and the orchestrator that prices the
  booking, inserts it through a callback and records the snapshot
  (bookings/snapshot_orchestrator.go).
\<close>

subsection \<open>The commercial term\<close>

definition term_in_force :: "string \<Rightarrow> time \<Rightarrow> commercial_term \<Rightarrow> bool" where
  "term_in_force owner bt t \<longleftrightarrow> (tm_owner_profile_id t = Some owner \<or> tm_owner_profile_id t = None)
     \<and> tm_valid_from t \<le> bt \<and> (case tm_valid_until t of None \<Rightarrow> True | Some u \<Rightarrow> bt < u)"

definition term_valid :: "commercial_term \<Rightarrow> bool" where
  "term_valid t \<longleftrightarrow> tm_collection_method t = ''NONE''
     \<and> tm_phase t \<in> set [''TRIAL'', ''INTRODUCTORY'', ''STANDARD'', ''CUSTOM'']
     \<and> 0 \<le> tm_commission_bps t \<and> tm_commission_bps t \<le> 3000
     \<and> (case tm_valid_until t of None \<Rightarrow> True | Some u \<Rightarrow> tm_valid_from t < u)"

definition pick_term :: "string \<Rightarrow> commercial_term list \<Rightarrow> app_error + commercial_term" where
  "pick_term ownerProfileID rows =
    (let own = filter (\<lambda>t. tm_owner_profile_id t = Some ownerProfileID) rows;
         glob = filter (\<lambda>t. tm_owner_profile_id t = None) rows
     in if 1 < length own \<or> 1 < length glob then Inl (ETerm ErrDuplicateCommercialTerm)
        else case own @ glob of [] \<Rightarrow> Inl (ETerm ErrMissingEffectiveCommercialTerm)
        | winner # _ \<Rightarrow>
            if tm_finance_mode winner \<noteq> ''SIMULATION'' then Inl (ETerm ErrUnsupportedCommercialTermFinanceMode)
            else if \<not> term_valid winner then Inl (ETerm ErrInvalidResolvedCommercialTerm)
            else Inr winner)"

definition ResolveEffectiveTerm :: "env \<Rightarrow> string \<Rightarrow> time \<Rightarrow> commercial_term app" where
  "ResolveEffectiveTerm E ownerProfileID bookingAt =
    (case uuid_parse E ownerProfileID of None \<Rightarrow> fail (ETerm ErrInvalidCommercialTermOwner)
     | Some oid \<Rightarrow>
        if is_zero bookingAt then fail (ETerm ErrInvalidCommercialTermTimestamp)
        else andthen (query E EDatabase (\<lambda>now d. filter (term_in_force oid bookingAt) (commercial_terms d)))
          (\<lambda>rows. lift_res (pick_term ownerProfileID rows)))"

subsection \<open>The snapshot row\<close>

definition validateSnapshotParams :: "env \<Rightarrow> fee_snapshot \<Rightarrow> app_error + unit" where
  "validateSnapshotParams E p =
    (let bad = Inl (ESnapshot ErrInvalidBookingFeeSnapshot);
         uuid_ok = (\<lambda>s. uuid_parse E s \<noteq> None);
         no_fee = (fs_commission_bps p = 0 \<and> fs_commission_amount p = 0)
     in if \<not> uuid_ok (fs_booking_id p) \<or> \<not> uuid_ok (fs_owner_profile_id p) \<or> \<not> uuid_ok (fs_venue_id p) then bad
        else if fs_channel p \<noteq> BookingChannelMarketplaceOnline \<and> fs_channel p \<noteq> BookingChannelOwnerWalkIn
          then bad
        else if fs_finance_mode p \<noteq> ''SIMULATION'' then Inl (ESnapshot ErrUnsupportedSnapshotFinanceMode)
        else if fs_channel p = BookingChannelOwnerWalkIn \<and> \<not> no_fee then bad
        else if fs_owner_price_adjustment p \<noteq> 0
            \<and> (case fs_price_adjustment_reason p of None \<Rightarrow> True | Some r \<Rightarrow> trim_space r = []) then bad
        else if fs_terms_source p = ''POLICY'' then
          (case fs_commercial_term_id p of None \<Rightarrow> bad
           | Some t \<Rightarrow> if \<not> uuid_ok t \<or> fs_calculation_version p \<noteq> ''booking-fee-v1'' then bad else Inr ())
        else if fs_terms_source p = ''LEGACY_NO_COMMISSION'' then
          (if fs_commercial_term_id p \<noteq> None \<or> fs_calculation_version p \<noteq> ''legacy-backfill-v1'' \<or> \<not> no_fee
           then bad else Inr ())
        else bad)"

text \<open>The arithmetic CHECK constraints of migration 020; SQL's \<^verbatim>\<open>ROUND\<close> of a non-negative
  NUMERIC is half up.\<close>

definition snapshot_checks :: "fee_snapshot \<Rightarrow> bool" where
  "snapshot_checks p \<longleftrightarrow> 0 \<le> fs_original_price p \<and> 0 \<le> fs_final_booking_price p
     \<and> 0 \<le> fs_commission_bps p \<and> fs_commission_bps p \<le> 3000
     \<and> 0 \<le> fs_commission_amount p \<and> 0 \<le> fs_owner_net p
     \<and> fs_commission_amount p \<le> fs_commission_basis p
     \<and> fs_final_booking_price p = fs_original_price p + fs_owner_price_adjustment p
     \<and> fs_customer_charge p = fs_final_booking_price p
     \<and> fs_commission_basis p = fs_final_booking_price p
     \<and> fs_owner_net p = fs_commission_basis p - fs_commission_amount p
     \<and> fs_commission_amount p
         = floor (of_int (fs_commission_basis p * fs_commission_bps p) / (10000 :: rat) + 1 / 2)"

definition InsertSnapshot :: "env \<Rightarrow> fee_snapshot \<Rightarrow> fee_snapshot app" where
  "InsertSnapshot E p =
    andthen (lift_res (validateSnapshotParams E p)) (\<lambda>_.
    db_call E EDatabase (\<lambda>now d.
      if sql_exists (\<lambda>s. fs_booking_id s = fs_booking_id p) (snapshots d)
        then (Inl (ESnapshot ErrBookingFeeSnapshotAlreadyExists), d)
      else if \<not> snapshot_checks p then (Inl (ECheck ''booking_fee_snapshots''), d)
      else (Inr p, d\<lparr>snapshots := snapshots d @ [p]\<rparr>)))"

definition GetSnapshot :: "env \<Rightarrow> string \<Rightarrow> fee_snapshot app" where
  "GetSnapshot E bookingID =
    andthen (query E EDatabase (\<lambda>now d. query_row (\<lambda>s. fs_booking_id s = bookingID) (snapshots d)))
      (deref (ESnapshot ErrBookingFeeSnapshotNotFound))"

subsection \<open>The orchestrator\<close>

record orchestration_request =
  rq_owner_profile_id :: string
  rq_venue_id :: string
  rq_effective_at :: time
  rq_channel :: booking_channel
  rq_original_price :: i64
  rq_adjustment :: i64
  rq_reason :: string

record canonical_pricing =
  cp_original_price :: i64
  cp_final_price :: i64

definition calc_params :: "orchestration_request \<Rightarrow> string \<Rightarrow> commercial_term \<Rightarrow> CalculatorParams" where
  "calc_params req reason t =
    \<lparr>OriginalPriceRupiah = rq_original_price req, OwnerPriceAdjustmentRupiah = rq_adjustment req,
     PriceAdjustmentReason = reason, CommissionBps = word_of_int (tm_commission_bps t),
     BookingChannel = rq_channel req, CustomerServiceFeeRupiah = 0\<rparr>"

definition snapshot_params :: "orchestration_request \<Rightarrow> string \<Rightarrow> commercial_term \<Rightarrow> CalculatorResult
    \<Rightarrow> string \<Rightarrow> fee_snapshot" where
  "snapshot_params req reason t r bookingID =
    \<lparr>fs_booking_id = bookingID, fs_channel = rq_channel req, fs_finance_mode = tm_finance_mode t,
     fs_currency = ''IDR'', fs_customer_charge = sint (CustomerChargeAmountRupiah r),
     fs_owner_profile_id = rq_owner_profile_id req, fs_venue_id = rq_venue_id req,
     fs_commercial_term_id = Some (tm_id t), fs_terms_source = ''POLICY'',
     fs_original_price = sint (rq_original_price req), fs_owner_price_adjustment = sint (rq_adjustment req),
     fs_price_adjustment_reason = (if reason = [] then None else Some reason),
     fs_final_booking_price = sint (FinalBookingPriceRupiah r),
     fs_commission_basis = sint (CommissionBasisAmountRupiah r),
     fs_commission_bps = sint (ResultCommissionBps r),
     fs_commission_amount = sint (CommissionAmountRupiah r),
     fs_owner_net = sint (OwnerNetAmountRupiah r), fs_calculation_version = ''booking-fee-v1''\<rparr>"

definition CreateBookingWithSnapshot :: "env \<Rightarrow> orchestration_request \<Rightarrow> (canonical_pricing \<Rightarrow> booking app)
    \<Rightarrow> (booking \<times> fee_snapshot) app" where
  "CreateBookingWithSnapshot E req insertBooking =
    (if is_zero (rq_effective_at req) then fail (EText ''invalid request: zero EffectiveAt'')
     else if rq_channel req \<noteq> BookingChannelMarketplaceOnline \<and> rq_channel req \<noteq> BookingChannelOwnerWalkIn
       then fail (EText ''invalid request: unsupported channel'')
     else let reason = trim_space (rq_reason req) in
     andthen (ResolveEffectiveTerm E (rq_owner_profile_id req) (rq_effective_at req)) (\<lambda>t.
     if tm_id t = [] then fail (EText ''resolved commercial term ID is missing'')
     else andthen (lift_res (case CalculateBookingFees (calc_params req reason t) of
         Inl e \<Rightarrow> Inl (EFee e) | Inr r \<Rightarrow> Inr r)) (\<lambda>r.
     andthen (insertBooking \<lparr>cp_original_price = rq_original_price req,
         cp_final_price = FinalBookingPriceRupiah r\<rparr>) (\<lambda>b.
     andthen (InsertSnapshot E (snapshot_params req reason t r (bk_id b))) (\<lambda>s. ret (b, s))))))"

lemma pick_term_Inr:
  assumes "pick_term ow rows = Inr t"
  shows "t \<in> set rows \<and> term_valid t \<and> tm_finance_mode t = ''SIMULATION''"
proof -
  let ?own = "filter (\<lambda>t. tm_owner_profile_id t = Some ow) rows"
  let ?glob = "filter (\<lambda>t. tm_owner_profile_id t = None) rows"
  obtain ts where ts: "?own @ ?glob = t # ts" and ok: "term_valid t" "tm_finance_mode t = ''SIMULATION''"
    using assms by (auto simp: pick_term_def Let_def split: if_splits list.splits)
  have "t \<in> set (?own @ ?glob)" unfolding ts by simp
  with ok show ?thesis by auto
qed

end
