(* ===== verification/Bookings.thy ===== *)
theory Bookings
  imports BookingSnapshots PaymentAttempts "HOL-Library.Product_Lexorder" "HOL-Library.List_Lexorder"
    "HOL-Library.Char_ord"
begin

text \<open>
  \<^verbatim>\<open>internal/bookings/repository.go\<close>: the court lock and the checks a new booking runs under it,
  the two inserts, the legacy payment flow of a booking (proof, verification, payment at the
  venue), its completion, its cancellations and the refund. UPDATEs of bookings
  run through the trigger of FlowGuards; inserts into the owner's ledger through the
  owner-cash trigger and the unique indexes of migrations 009 and 010.
\<close>

subsection \<open>The slot\<close>

record validation_info =
  vi_price_per_hour :: float64
  vi_court_status :: string
  vi_venue_status :: string
  vi_venue_id :: string
  vi_owner_user_id :: string
  vi_owner_profile_id :: string

fun validation_info_of :: "court \<times> venue \<times> owner_profile \<Rightarrow> validation_info" where
  "validation_info_of (c, v, op) =
     \<lparr>vi_price_per_hour = scan_numeric (ct_price_per_hour c), vi_court_status = ct_status c,
      vi_venue_status = vn_status v, vi_venue_id = vn_id v, vi_owner_user_id = op_user_id op,
      vi_owner_profile_id = op_id op\<rparr>"

text \<open>\<^verbatim>\<open>SELECT .. FOR UPDATE\<close>: the statement waits for the row locks, then reads.\<close>

definition LockCourtValidationInfo :: "env \<Rightarrow> string \<Rightarrow> validation_info app" where
  "LockCourtValidationInfo E courtID =
    andthen (lock_wait E EDatabase) (\<lambda>_.
    andthen (query E EDatabase (\<lambda>now d. court_join d (\<lambda>c. ct_id c = courtID) (\<lambda>v. True))) (\<lambda>r.
    andthen (deref (EBooking ErrCourtNotFound) r) (\<lambda>x. ret (validation_info_of x))))"

definition LockOwnerCourtValidationInfo :: "env \<Rightarrow> string \<Rightarrow> string \<Rightarrow> string \<Rightarrow> validation_info app" where
  "LockOwnerCourtValidationInfo E courtID venueID ownerProfileID =
    andthen (lock_wait E EDatabase) (\<lambda>_.
    andthen (query E EDatabase (\<lambda>now d. court_join d (\<lambda>c. ct_id c = courtID)
        (\<lambda>v. vn_id v = venueID \<and> vn_owner_profile_id v = ownerProfileID))) (\<lambda>r.
    andthen (deref (EBooking ErrCourtNotFound) r) (\<lambda>x. ret (validation_info_of x))))"

definition closed_day :: operating_hour where
  "closed_day = \<lparr>oh_court = [], oh_day = 0, oh_open = None, oh_close = None, oh_closed = True\<rparr>"

definition FindOperatingHours :: "env \<Rightarrow> string \<Rightarrow> int \<Rightarrow> operating_hour app" where
  "FindOperatingHours E courtID dayOfWeek =
    query E EDatabase (\<lambda>now d. case query_row (\<lambda>h. oh_court h = courtID \<and> oh_day h = dayOfWeek)
        (operating_hours d) of None \<Rightarrow> closed_day | Some h \<Rightarrow> h)"

definition CheckBlockedSlots :: "env \<Rightarrow> string \<Rightarrow> time \<Rightarrow> time \<Rightarrow> bool app" where
  "CheckBlockedSlots E courtID startTz endTz =
    query E EDatabase (\<lambda>now d. 0 < length (filter (\<lambda>s. bs_court s = courtID \<and> bs_start_at s < endTz
        \<and> startTz < bs_end_at s) (blocked_slots d)))"

definition overlaps :: "string \<Rightarrow> int \<Rightarrow> int \<Rightarrow> int \<Rightarrow> booking \<Rightarrow> bool" where
  "overlaps courtID date s e b \<longleftrightarrow> bk_court b = courtID \<and> bk_date b = date
     \<and> bk_start b < e \<and> s < bk_end b"

text \<open>A booking keeps its slot unless it is cancelled or an unpaid one that has expired.\<close>

definition holds_slot :: "time \<Rightarrow> booking \<Rightarrow> bool" where
  "holds_slot now b \<longleftrightarrow> bk_status b \<noteq> CANCELLED
     \<and> \<not> (bk_status b = PENDING_PAYMENT
          \<and> (case bk_expires_at b of None \<Rightarrow> True | Some t \<Rightarrow> t \<le> now))"

text \<open>PostgreSQL has no dates before year 1: the text of such a date fails the statement.\<close>

definition CheckExistingBookings :: "env \<Rightarrow> string \<Rightarrow> int \<Rightarrow> int \<Rightarrow> int \<Rightarrow> bool app" where
  "CheckExistingBookings E courtID date startTime endTime =
    db_call E EDatabase (\<lambda>now d. if date < 0 then (Inl EDatabase, d)
      else (Inr (0 < length (filter (\<lambda>b. overlaps courtID date startTime endTime b \<and> holds_slot now b)
                  (bookings d))), d))"

subsection \<open>Inserts\<close>

text \<open>A \<^verbatim>\<open>float64\<close> parameter of a NUMERIC(12,2) column.\<close>

definition to_numeric :: "float64 \<Rightarrow> app_error + rat" where
  "to_numeric v = (case v of
     Finite64 r \<Rightarrow> let c = round_away (r * 100) in
       if 10 ^ 12 \<le> \<bar>c\<bar> then Inl EDatabase else Inr (of_int c / 100)
   | _ \<Rightarrow> Inl EDatabase)"

definition insert_booking :: "booking \<Rightarrow> dbs \<Rightarrow> (app_error + booking) \<times> dbs" where
  "insert_booking b d =
    (if sql_exists (\<lambda>x. bk_id x = bk_id b) (bookings d) then (Inl (EUnique ''bookings_pkey''), d)
     else if bk_end b \<le> bk_start b then (Inl (ECheck ''bookings_time_valid''), d)
     else if bk_total_price b < 0 then (Inl (ECheck ''bookings_total_price_non_negative''), d)
     else (Inr b, d\<lparr>bookings := bookings d @ [b]\<rparr>))"

record booking_params =
  bp_customer_id :: string
  bp_court_id :: string
  bp_date :: int
  bp_start_time :: int
  bp_end_time :: int
  bp_original_price :: float64
  bp_discount_amount :: float64
  bp_final_price :: float64
  bp_promo_id :: "string option"
  bp_promo_code :: "string option"
  bp_total_price :: float64
  bp_expires_at :: time

definition new_row :: "booking_params \<Rightarrow> rat \<Rightarrow> rat \<Rightarrow> rat \<Rightarrow> rat \<Rightarrow> string \<Rightarrow> time \<Rightarrow> booking" where
  "new_row p original discount final tot i now =
    \<lparr>bk_id = i, bk_customer = bp_customer_id p, bk_court = bp_court_id p, bk_date = bp_date p,
     bk_start = bp_start_time p, bk_end = bp_end_time p, bk_original_price = Some original,
     bk_discount = discount, bk_final_price = Some final, bk_promo_id = bp_promo_id p,
     bk_promo_code = bp_promo_code p, bk_total_price = tot, bk_status = PENDING_PAYMENT,
     bk_payment_reference = None, bk_expires_at = Some (truncate_us (bp_expires_at p)),
     bk_created_at = now, bk_updated_at = now\<rparr>"

definition InsertBooking :: "env \<Rightarrow> booking_params \<Rightarrow> booking app" where
  "InsertBooking E p =
    andthen (lift_res (to_numeric (bp_original_price p))) (\<lambda>original.
    andthen (lift_res (to_numeric (bp_discount_amount p))) (\<lambda>discount.
    andthen (lift_res (to_numeric (bp_final_price p))) (\<lambda>final.
    andthen (lift_res (to_numeric (bp_total_price p))) (\<lambda>tot.
    andthen (fresh_uuid E) (\<lambda>i.
    db_call E EDatabase (\<lambda>now. insert_booking (new_row p original discount final tot i now)))))))"

text \<open>An insert into the owner's ledger; \<open>skip\<close> is \<^verbatim>\<open>ON CONFLICT .. DO NOTHING\<close> on the index of
  booking incomes.\<close>

definition ledger_insert :: "bool \<Rightarrow> ledger_row \<Rightarrow> dbs \<Rightarrow> (app_error + unit) \<times> dbs" where
  "ledger_insert skip r d =
    (case guard_sandbox_owner_cash_isolation d r of Some m \<Rightarrow> (Inl (ERaised m), d)
     | None \<Rightarrow>
      if lg_amount r \<le> 0 then (Inl (ECheck ''owner_finance_transactions_amount_check''), d)
      else if lg_source r = BOOKING \<and> lg_booking r \<noteq> None
          \<and> sql_exists (\<lambda>x. lg_source x = BOOKING \<and> lg_booking x = lg_booking r) (ledger d)
        then (if skip then (Inr (), d)
              else (Inl (EUnique ''idx_owner_finance_transactions_unique_booking''), d))
      else if lg_source r = REFUND \<and> lg_booking r \<noteq> None
          \<and> sql_exists (\<lambda>x. lg_source x = REFUND \<and> lg_booking x = lg_booking r) (ledger d)
        then (Inl (EUnique ''idx_owner_finance_transactions_unique_refund_booking''), d)
      else (Inr (), d\<lparr>ledger := ledger d @ [r]\<rparr>))"

record offline_params =
  of_venue_id :: string
  of_court_id :: string
  of_date :: int
  of_start_time :: int
  of_end_time :: int
  of_system_price :: float64
  of_final_price :: float64
  of_status :: booking_status
  of_owner_user :: string
  of_created_by :: string
  of_customer_name :: string
  of_customer_phone :: "string option"
  of_customer_email :: "string option"
  of_note :: "string option"
  of_override_reason :: "string option"

text \<open>\<open>fmt.Sprintf("%.2f", x)\<close>.\<close>

definition sprintf_2f :: "float64 \<Rightarrow> string" where
  "sprintf_2f v = (case v of
     Finite64 r \<Rightarrow> let c = round_even (\<bar>r\<bar> * 100) in
       (if r < 0 then ''-'' else []) @ format_int (c div 100) @ ''.'' @ two_digits (c mod 100)
   | Inf64 s \<Rightarrow> (if s then ''-Inf'' else ''+Inf'')
   | NaN64 \<Rightarrow> ''NaN'')"

definition offline_description :: "offline_params \<Rightarrow> string" where
  "offline_description p = ''Offline booking payment'' @
    (case of_override_reason p of None \<Rightarrow> []
     | Some r \<Rightarrow> if r = [] then []
        else ''. Price adjusted from Rp'' @ sprintf_2f (of_system_price p) @ '' to Rp''
             @ sprintf_2f (of_final_price p) @ '': '' @ r)"

definition offline_row :: "offline_params \<Rightarrow> rat \<Rightarrow> rat \<Rightarrow> rat \<Rightarrow> string \<Rightarrow> time \<Rightarrow> booking" where
  "offline_row p system discount final i now =
    \<lparr>bk_id = i, bk_customer = of_owner_user p, bk_court = of_court_id p, bk_date = of_date p,
     bk_start = of_start_time p, bk_end = of_end_time p, bk_original_price = Some system,
     bk_discount = discount, bk_final_price = Some final, bk_promo_id = None, bk_promo_code = None,
     bk_total_price = final, bk_status = of_status p, bk_payment_reference = None,
     bk_expires_at = None, bk_created_at = now, bk_updated_at = now\<rparr>"

definition offline_customer_row :: "offline_params \<Rightarrow> rat \<Rightarrow> rat \<Rightarrow> string \<Rightarrow> offline_customer" where
  "offline_customer_row p system final bid =
    \<lparr>oc_booking = bid, oc_name = of_customer_name p, oc_phone = of_customer_phone p,
     oc_email = of_customer_email p, oc_notes = of_note p, oc_system_price = system,
     oc_final_price = final, oc_override_reason = of_override_reason p\<rparr>"

definition offline_income :: "offline_params \<Rightarrow> rat \<Rightarrow> string \<Rightarrow> ledger_row" where
  "offline_income p final bid =
    \<lparr>lg_owner = of_owner_user p, lg_venue = of_venue_id p, lg_booking = Some bid,
     lg_created_by = of_created_by p, lg_type = INCOME, lg_source = BOOKING, lg_amount = final,
     lg_description = offline_description p\<rparr>"

definition InsertOfflineBookingTx :: "env \<Rightarrow> offline_params \<Rightarrow> booking app" where
  "InsertOfflineBookingTx E p =
    (let discountAmount = (if flt64 (of_final_price p) (of_system_price p)
           then fsub (of_system_price p) (of_final_price p) else Finite64 0) in
    andthen (lift_res (to_numeric (of_system_price p))) (\<lambda>system.
    andthen (lift_res (to_numeric discountAmount)) (\<lambda>discount.
    andthen (lift_res (to_numeric (of_final_price p))) (\<lambda>final.
    andthen (fresh_uuid E) (\<lambda>i.
    andthen (db_call E EDatabase (\<lambda>now. insert_booking (offline_row p system discount final i now))) (\<lambda>b.
    andthen (db_call E EDatabase (\<lambda>now d.
       if sql_exists (\<lambda>x. oc_booking x = bk_id b) (offline_customers d)
         then (Inl (EUnique ''offline_booking_customers_pkey''), d)
       else (Inr (), d\<lparr>offline_customers := offline_customers d @ [offline_customer_row p system final (bk_id b)]\<rparr>)))
      (\<lambda>_.
    andthen (db_call E EDatabase (\<lambda>now. ledger_insert False (offline_income p final (bk_id b))))
      (\<lambda>_. ret b))))))))"

subsection \<open>Reads\<close>

definition FindByIDAndCustomerID :: "env \<Rightarrow> string \<Rightarrow> string \<Rightarrow> booking app" where
  "FindByIDAndCustomerID E i customerID =
    andthen (pool_query E EDatabase (\<lambda>now d.
        query_row (\<lambda>b. bk_id b = i \<and> bk_customer b = customerID) (bookings d))) (deref ENoRows)"

definition FindVenueByIDAndOwnerProfileID :: "env \<Rightarrow> string \<Rightarrow> string \<Rightarrow> venue app" where
  "FindVenueByIDAndOwnerProfileID E venueID ownerProfileID =
    andthen (pool_query E EDatabase (\<lambda>now d.
        query_row (\<lambda>v. vn_id v = venueID \<and> vn_owner_profile_id v = ownerProfileID) (venues d))) (deref ENoRows)"

text \<open>The join of a booking with its court and venue, and with the owner profile.\<close>

definition booking_join :: "dbs \<Rightarrow> string \<Rightarrow> (booking \<times> venue \<times> owner_profile) option" where
  "booking_join d bookingID =
    (case query_row (\<lambda>b. bk_id b = bookingID) (bookings d) of None \<Rightarrow> None
     | Some b \<Rightarrow> map_option (\<lambda>(c, v, op). (b, v, op))
         (court_join d (\<lambda>c. ct_id c = bk_court b) (\<lambda>v. True)))"

definition booking_venue :: "dbs \<Rightarrow> string \<Rightarrow> venue option" where
  "booking_venue d bookingID =
    (case query_row (\<lambda>b. bk_id b = bookingID) (bookings d) of None \<Rightarrow> None
     | Some b \<Rightarrow>
       (case query_row (\<lambda>c. ct_id c = bk_court b) (courts d) of None \<Rightarrow> None
        | Some c \<Rightarrow> query_row (\<lambda>v. vn_id v = ct_venue_id c) (venues d)))"

definition GetBookingOwnerProfileAndVenueID :: "env \<Rightarrow> string \<Rightarrow> (string \<times> string) app" where
  "GetBookingOwnerProfileAndVenueID E bookingID =
    andthen (pool_query E EDatabase (\<lambda>now d.
        map_option (\<lambda>v. (vn_owner_profile_id v, vn_id v)) (booking_venue d bookingID)))
      (deref ENoRows)"

definition GetBookingsExpiringSoon :: "env \<Rightarrow> time \<Rightarrow> booking list app" where
  "GetBookingsExpiringSoon E cutoff =
    pool_query E EDatabase (\<lambda>now d. filter (\<lambda>b. bk_status b = PENDING_PAYMENT
      \<and> (case bk_expires_at b of None \<Rightarrow> False | Some t \<Rightarrow> now < t \<and> t \<le> cutoff)) (bookings d))"

end
