(* ===== verification/BookingFlow.thy ===== *)
theory BookingFlow
  imports Bookings
begin

text \<open>
  The operations of \<^verbatim>\<open>internal/bookings/repository.go\<close> that move a booking through its states:
  cancellation of a pending booking with its undispatched payment attempts, the legacy
  payment flow, completion, and the refund of a paid booking.
\<close>

definition set_status :: "booking_status \<Rightarrow> time \<Rightarrow> booking \<Rightarrow> booking" where
  "set_status s now b = b\<lparr>bk_status := s, bk_updated_at := now\<rparr>"

definition mapSandboxPaymentFlowError :: "app_error \<Rightarrow> app_error" where
  "mapSandboxPaymentFlowError e =
    (case e of ERaised m \<Rightarrow> if m = legacy_blocked_message \<or> m = owner_cash_message
       then EBooking ErrSandboxPaymentFlowConflict else e | _ \<Rightarrow> e)"

text \<open>\<^verbatim>\<open>UPDATE .. RETURNING\<close> of one booking.\<close>

definition one_row :: "booking list \<Rightarrow> booking app" where
  "one_row rs = (case rs of [] \<Rightarrow> fail ENoRows | b # _ \<Rightarrow> ret b)"

definition update_booking :: "env \<Rightarrow> (time \<Rightarrow> booking \<Rightarrow> bool) \<Rightarrow> (time \<Rightarrow> booking \<Rightarrow> booking) \<Rightarrow> booking app" where
  "update_booking E p f =
    andthen (db_call E EDatabase (\<lambda>now. booking_update (p now) (f now))) one_row"

subsection \<open>Cancelling a pending booking\<close>

definition lockUndispatchedPaymentAttemptsTx :: "env \<Rightarrow> string \<Rightarrow> payment_attempt list app" where
  "lockUndispatchedPaymentAttemptsTx E bookingID =
    query E EDatabase (\<lambda>now d. sort_key pa_attempt_no
      (filter (\<lambda>a. pa_state a = AttemptCreated) (attempts_of d bookingID)))"

text \<open>The insert trigger \<open>guard_payment_create_cancellation\<close> and the keys of the table.\<close>

definition cancellation_message :: string where
  "cancellation_message =
     ''payment create cancellation requires a cancellable command and cancelled attempt''"

definition insert_cancellation :: "create_cancellation \<Rightarrow> dbs \<Rightarrow> (app_error + unit) \<times> dbs" where
  "insert_cancellation x d =
    (if \<not> sql_exists (\<lambda>c. cm_id c = cx_command_id x \<and> cm_type c = PAYMENT_CREATE
          \<and> cm_aggregate_type c = PAYMENT_ATTEMPT \<and> cm_aggregate_id c = cx_attempt_id x
          \<and> cm_attempt_id c = Some (cx_attempt_id x) \<and> cm_state c = StatePending \<and> cm_attempt_count c = 0
          \<and> sql_exists (\<lambda>a. pa_id a = cx_attempt_id x \<and> pa_state a = AttemptCancelled) (attempts d))
        (commands d) then (Inl (ERaised cancellation_message), d)
     else if sql_exists (\<lambda>y. cx_attempt_id y = cx_attempt_id x) (cancellations d)
       then (Inl (EUnique ''payment_create_cancellations_pkey''), d)
     else if sql_exists (\<lambda>y. cx_command_id y = cx_command_id x) (cancellations d)
       then (Inl (EUnique ''payment_create_cancellations_command_id_key''), d)
     else (Inr (), d\<lparr>cancellations := cancellations d @ [x]\<rparr>))"

definition withdraw_attempt :: "time \<Rightarrow> payment_attempt \<Rightarrow> payment_attempt" where
  "withdraw_attempt now a = a\<lparr>pa_state := AttemptCancelled, pa_updated_at := now\<rparr>"

definition withdrawal_row :: "payment_attempt \<Rightarrow> string option \<Rightarrow> string \<Rightarrow> audit_params" where
  "withdrawal_row a actor role =
    \<lparr>au_actor = actor, au_role = role, au_action = ActionPaymentStateTransition,
     au_entity_type = EntityPaymentAttempt, au_entity_id = Some (pa_id a),
     au_correlation_id = Some (pa_local_reference a),
     au_metadata = [(''from_state'', MString ''CREATED''), (''to_state'', MString ''CANCELLED''),
       (''attempt_no'', MInt (pa_attempt_no a)), (''late_capture'', MBool False)]\<rparr>"

definition cancel_attempt :: "env \<Rightarrow> string option \<Rightarrow> string \<Rightarrow> payment_attempt \<Rightarrow> unit app" where
  "cancel_attempt E actor role a =
    andthen (query E EDatabase (\<lambda>now d. query_row (\<lambda>c. cm_type c = PAYMENT_CREATE
        \<and> cm_attempt_id c = Some (pa_id a)) (commands d))) (\<lambda>found.
    andthen (deref (EBooking ErrSandboxPaymentCancelUnavailable) found) (\<lambda>c.
    if cm_state c \<noteq> StatePending \<or> cm_attempt_count c \<noteq> 0
      then fail (EBooking ErrSandboxPaymentCancelUnavailable)
    else
    andthen (db_call E EDatabase (\<lambda>now.
        update_attempt (pa_id a) (\<lambda>x. pa_state x = AttemptCreated) (withdraw_attempt now))) (\<lambda>updated.
    andthen (guard (updated \<noteq> None) (EBooking ErrSandboxPaymentCancelUnavailable)) (\<lambda>_.
    andthen (db_call E EDatabase (\<lambda>now. insert_cancellation
        \<lparr>cx_attempt_id = pa_id a, cx_command_id = cm_id c, cx_actor = actor\<rparr>)) (\<lambda>_.
    audit_record E (withdrawal_row a actor role))))))"

fun cancelUndispatchedPaymentAttemptsTx :: "env \<Rightarrow> payment_attempt list \<Rightarrow> string option \<Rightarrow> string \<Rightarrow> unit app"
  where
  "cancelUndispatchedPaymentAttemptsTx E [] actor role = ret ()"
| "cancelUndispatchedPaymentAttemptsTx E (a # as) actor role =
    andthen (cancel_attempt E actor role a) (\<lambda>_. cancelUndispatchedPaymentAttemptsTx E as actor role)"

definition cancellable :: "string \<Rightarrow> string \<Rightarrow> bool \<Rightarrow> time \<Rightarrow> booking \<Rightarrow> bool" where
  "cancellable bookingID customerID requireExpired now b \<longleftrightarrow>
     bk_id b = bookingID \<and> bk_customer b = customerID \<and> bk_status b = PENDING_PAYMENT
     \<and> (\<not> requireExpired \<or> (case bk_expires_at b of None \<Rightarrow> False | Some t \<Rightarrow> t \<le> now))"

definition cancelPending :: "env \<Rightarrow> string \<Rightarrow> string \<Rightarrow> string option \<Rightarrow> string \<Rightarrow> bool \<Rightarrow> booking app" where
  "cancelPending E bookingID customerID actor role requireExpired =
    in_tx E EDatabase
    (andthen (LockBooking E bookingID) (\<lambda>_.
     andthen (lockUndispatchedPaymentAttemptsTx E bookingID) (\<lambda>as.
     andthen (cancelUndispatchedPaymentAttemptsTx E as actor role) (\<lambda>_.
     update_booking E (cancellable bookingID customerID requireExpired) (set_status CANCELLED)))))"

definition CancelPendingByIDAndCustomerID :: "env \<Rightarrow> string \<Rightarrow> string \<Rightarrow> booking app" where
  "CancelPendingByIDAndCustomerID E bookingID customerID =
     cancelPending E bookingID customerID (Some customerID) ''CUSTOMER'' False"

text \<open>The sweep over expired bookings: each in its own transaction, errors counted.\<close>

definition expired_pending :: "time \<Rightarrow> booking \<Rightarrow> bool" where
  "expired_pending now b \<longleftrightarrow> bk_status b = PENDING_PAYMENT
     \<and> (case bk_expires_at b of None \<Rightarrow> False | Some t \<Rightarrow> t \<le> now)"

record sweep =
  sw_cancelled :: int
  sw_failed :: int
  sw_first_error :: "app_error option"

definition count_failure :: "app_error \<Rightarrow> sweep \<Rightarrow> sweep" where
  "count_failure e s =
    (if e = ENoRows then s
     else s\<lparr>sw_failed := sw_failed s + 1,
            sw_first_error := (case sw_first_error s of None \<Rightarrow> Some e | Some x \<Rightarrow> Some x)\<rparr>)"

fun cancel_each :: "env \<Rightarrow> booking list \<Rightarrow> sweep \<Rightarrow> sweep app" where
  "cancel_each E [] s = ret s"
| "cancel_each E (b # bs) s =
    attempt (cancelPending E (bk_id b) (bk_customer b) None ''SYSTEM'' True)
      (\<lambda>e. cancel_each E bs (count_failure e s))
      (\<lambda>_. cancel_each E bs (s\<lparr>sw_cancelled := sw_cancelled s + 1\<rparr>))"

definition expiry_order :: "booking \<Rightarrow> time \<times> string" where
  "expiry_order b = (case bk_expires_at b of None \<Rightarrow> (0, bk_id b) | Some t \<Rightarrow> (t, bk_id b))"

definition CancelExpiredPendingBookings :: "env \<Rightarrow> sweep app" where
  "CancelExpiredPendingBookings E =
    andthen (pool_query E EDatabase (\<lambda>now d. sort_key expiry_order (filter (expired_pending now) (bookings d))))
      (\<lambda>bs. cancel_each E bs \<lparr>sw_cancelled = 0, sw_failed = 0, sw_first_error = None\<rparr>)"

subsection \<open>The legacy payment flow\<close>

definition owned_pending :: "string \<Rightarrow> string \<Rightarrow> booking \<Rightarrow> bool" where
  "owned_pending bookingID customerID b \<longleftrightarrow>
     bk_id b = bookingID \<and> bk_customer b = customerID \<and> bk_status b = PENDING_PAYMENT"

definition ConfirmPendingByIDAndCustomerID :: "env \<Rightarrow> string \<Rightarrow> string \<Rightarrow> booking app" where
  "ConfirmPendingByIDAndCustomerID E bookingID customerID =
    map_err mapSandboxPaymentFlowError (in_tx E EDatabase
      (update_booking E (\<lambda>now. owned_pending bookingID customerID) (set_status CONFIRMED)))"

definition UpdatePaymentReference :: "env \<Rightarrow> string \<Rightarrow> string \<Rightarrow> string \<Rightarrow> booking app" where
  "UpdatePaymentReference E bookingID customerID reference =
    map_err mapSandboxPaymentFlowError (in_tx E EDatabase
      (update_booking E (\<lambda>now. owned_pending bookingID customerID)
        (\<lambda>now b. set_status WAITING_VERIFICATION now (b\<lparr>bk_payment_reference := Some reference\<rparr>))))"

text \<open>\<^verbatim>\<open>INSERT INTO owner_finance_transactions .. SELECT .. ON CONFLICT DO NOTHING\<close>.\<close>

definition income_row :: "string \<Rightarrow> booking \<times> venue \<times> owner_profile \<Rightarrow> ledger_row" where
  "income_row actor x = (case x of (b, v, op) \<Rightarrow>
    \<lparr>lg_owner = op_user_id op, lg_venue = vn_id v, lg_booking = Some (bk_id b), lg_created_by = actor,
     lg_type = INCOME, lg_source = BOOKING, lg_amount = bk_total_price b,
     lg_description = ''Pembayaran booking '' @ bk_id b\<rparr>)"

definition record_income :: "env \<Rightarrow> string \<Rightarrow> string \<Rightarrow> unit app" where
  "record_income E actor bookingID =
    db_call E EDatabase (\<lambda>now d. case booking_join d bookingID of None \<Rightarrow> (Inr (), d)
      | Some x \<Rightarrow> ledger_insert True (income_row actor x) d)"

definition VerifyPayment :: "env \<Rightarrow> string \<Rightarrow> string \<Rightarrow> bool \<Rightarrow> booking app" where
  "VerifyPayment E actor bookingID isApproved =
    in_tx E EDatabase
    (andthen (map_err mapSandboxPaymentFlowError
        (update_booking E (\<lambda>now b. bk_id b = bookingID \<and> bk_status b = WAITING_VERIFICATION)
          (set_status (if isApproved then PAID else PENDING_PAYMENT)))) (\<lambda>b.
     if isApproved
       then andthen (map_err mapSandboxPaymentFlowError (record_income E actor bookingID)) (\<lambda>_. ret b)
     else ret b))"

definition MarkBookingPaid :: "env \<Rightarrow> string \<Rightarrow> string \<Rightarrow> booking app" where
  "MarkBookingPaid E actor bookingID =
    in_tx E EDatabase
    (andthen (map_err mapSandboxPaymentFlowError
        (update_booking E (\<lambda>now b. bk_id b = bookingID \<and> bk_status b = CONFIRMED) (set_status PAID))) (\<lambda>b.
     andthen (map_err mapSandboxPaymentFlowError (record_income E actor bookingID)) (\<lambda>_. ret b)))"

subsection \<open>Completion\<close>

definition played :: "time \<Rightarrow> booking \<Rightarrow> bool" where
  "played now b \<longleftrightarrow> bk_date b < jakarta_date now
     \<or> bk_date b = jakarta_date now \<and> bk_end b * minute \<le> jakarta_clock now"

definition CompleteBooking :: "env \<Rightarrow> string \<Rightarrow> booking app" where
  "CompleteBooking E bookingID =
    in_tx E EDatabase
      (update_booking E (\<lambda>now b. bk_id b = bookingID \<and> bk_status b = PAID \<and> played now b) (set_status COMPLETED))"

definition AutoCompleteFinishedBookings :: "env \<Rightarrow> booking list app" where
  "AutoCompleteFinishedBookings E =
    in_tx E EDatabase (db_call E EDatabase (\<lambda>now.
      booking_update (\<lambda>b. bk_status b = PAID \<and> played now b) (set_status COMPLETED now)))"

subsection \<open>Refund\<close>

definition refund_description :: "string \<Rightarrow> string \<Rightarrow> string" where
  "refund_description bookingID reason =
     ''Refund booking '' @ bookingID @ (if reason \<noteq> [] then '': '' @ reason else [])"

definition refund_row :: "string \<Rightarrow> string \<Rightarrow> string \<Rightarrow> string \<Rightarrow> string \<Rightarrow> rat \<Rightarrow> ledger_row" where
  "refund_row ownerUserID venueID actor bookingID reason amount =
    \<lparr>lg_owner = ownerUserID, lg_venue = venueID, lg_booking = Some bookingID, lg_created_by = actor,
     lg_type = EXPENSE, lg_source = REFUND, lg_amount = amount,
     lg_description = refund_description bookingID reason\<rparr>"

definition ledger_has :: "ledger_source \<Rightarrow> ledger_type \<Rightarrow> string \<Rightarrow> dbs \<Rightarrow> bool" where
  "ledger_has s t bookingID d \<longleftrightarrow>
     sql_exists (\<lambda>r. lg_booking r = Some bookingID \<and> lg_source r = s \<and> lg_type r = t) (ledger d)"

definition CancelPaidBookingWithRefund :: "env \<Rightarrow> string \<Rightarrow> string \<Rightarrow> string \<Rightarrow> string \<Rightarrow> booking app" where
  "CancelPaidBookingWithRefund E ownerUserID actorUserID bookingID reason =
    in_tx E EDatabase
    (andthen (lock_wait E EDatabase) (\<lambda>_.
     andthen (query E EDatabase (\<lambda>now d. booking_join d bookingID)) (\<lambda>found.
     andthen (deref ENoRows found) (\<lambda>(b, v, op).
     if op_user_id op \<noteq> ownerUserID then fail (EBooking ErrForbidden)
     else if bk_status b \<noteq> PAID then fail (EBooking ErrBookingCannotBeRefunded)
     else andthen (query E EDatabase (\<lambda>now d. ledger_has BOOKING INCOME bookingID d)) (\<lambda>hasIncome.
     if \<not> hasIncome then fail (EBooking ErrBookingIncomeLedgerNotFound)
     else andthen (query E EDatabase (\<lambda>now d. ledger_has REFUND EXPENSE bookingID d)) (\<lambda>hasRefund.
     if hasRefund then fail (EBooking ErrBookingRefundAlreadyExists)
     else andthen (update_booking E (\<lambda>now b. bk_id b = bookingID \<and> bk_status b = PAID)
         (set_status CANCELLED)) (\<lambda>b'.
     andthen (db_call E EDatabase (\<lambda>now. ledger_insert False
         (refund_row ownerUserID (vn_id v) actorUserID bookingID reason (bk_total_price b')))) (\<lambda>_.
     ret b'))))))))"

end
