(* ===== verification/BookingService.thy ===== *)
theory BookingService
  imports BookingFlow
begin

text \<open>
  \<^verbatim>\<open>internal/bookings/service.go\<close>: creating a booking online and at the counter, the
  customer's and the owner's operations with their authorisation, and the sweeps. The
  notifications a successful operation sends are best effort in the code (their errors are dropped or logged) and
  left out; \<open>toBookingResponse\<close> copies the row, so the row is the result here.
\<close>

record booking_service =
  sv_ttl_minutes :: int
  sv_orchestrator :: bool

record owner_context =
  ow_actor_user_id :: string
  ow_effective_owner_user_id :: string
  ow_owner_profile_id :: string
  ow_is_owner :: bool
  ow_allowed_venue_ids :: "string list"

record booking_request =
  cr_court_id :: string
  cr_booking_date :: string
  cr_start_time :: string
  cr_end_time :: string
  cr_promo_code :: "string option"

subsection \<open>Booking online\<close>

definition slot_price :: "validation_info \<Rightarrow> int \<Rightarrow> int \<Rightarrow> float64" where
  "slot_price info s e = legacyPrice (Hours ((e - s) * minute)) (vi_price_per_hour info)"

record promo_choice =
  ch_final_price :: float64
  ch_promo_id :: "string option"
  ch_promo_code :: "string option"
  ch_reason :: string

definition apply_promo :: "env \<Rightarrow> validation_info \<Rightarrow> string option \<Rightarrow> float64 \<Rightarrow> int \<Rightarrow> promo_choice app" where
  "apply_promo E info promoCode originalPrice date =
    (case promoCode of
       None \<Rightarrow> ret \<lparr>ch_final_price = originalPrice, ch_promo_id = None, ch_promo_code = None, ch_reason = []\<rparr>
     | Some pc \<Rightarrow>
        andthen (map_err (not_found_as (EBooking BErrPromoNotFound))
            (FindActivePromoByCode E (vi_owner_user_id info) (ToUpper E (trim_space pc)))) (\<lambda>p.
        andthen (lift_res (ValidatePromoRules p (vi_venue_id info) originalPrice (date * day))) (\<lambda>_.
        let finalPrice = fsub originalPrice (CalculateDiscount p originalPrice);
            normalized = ToUpper E (trim_space (pr_code p)) in
        if fle finalPrice (Finite64 0) then fail (EBooking ErrInvalidPromoPrice)
        else if normalized = [] then fail (EBooking ErrInvalidPromoCode)
        else ret \<lparr>ch_final_price = finalPrice, ch_promo_id = Some (pr_id p), ch_promo_code = Some (pr_code p),
                  ch_reason = ''PROMO:'' @ normalized\<rparr>)))"

definition online_params :: "string \<Rightarrow> booking_request \<Rightarrow> int \<Rightarrow> int \<Rightarrow> int \<Rightarrow> promo_choice \<Rightarrow> time
    \<Rightarrow> canonical_pricing \<Rightarrow> booking_params" where
  "online_params customerID req date s e ch expiresAt pricing =
    (let fp = float_of_i64 (cp_final_price pricing) in
     \<lparr>bp_customer_id = customerID, bp_court_id = cr_court_id req, bp_date = date, bp_start_time = s,
      bp_end_time = e, bp_original_price = float_of_i64 (cp_original_price pricing),
      bp_discount_amount = float_of_i64 (cp_original_price pricing - cp_final_price pricing),
      bp_final_price = fp, bp_promo_id = ch_promo_id ch, bp_promo_code = ch_promo_code ch,
      bp_total_price = fp, bp_expires_at = expiresAt\<rparr>)"

definition online_request :: "validation_info \<Rightarrow> time \<Rightarrow> i64 \<Rightarrow> i64 \<Rightarrow> string \<Rightarrow> orchestration_request" where
  "online_request info effectiveAt original adjustment reason =
    \<lparr>rq_owner_profile_id = vi_owner_profile_id info, rq_venue_id = vi_venue_id info,
     rq_effective_at = effectiveAt, rq_channel = BookingChannelMarketplaceOnline,
     rq_original_price = original, rq_adjustment = adjustment, rq_reason = reason\<rparr>"

text \<open>The slot is free: no blocked slot and no booking that holds it.\<close>

definition check_free :: "env \<Rightarrow> string \<Rightarrow> int \<Rightarrow> int \<Rightarrow> int \<Rightarrow> unit app" where
  "check_free E courtID date s e =
    andthen (CheckBlockedSlots E courtID (jakarta_instant date s) (jakarta_instant date e)) (\<lambda>isBlocked.
    if isBlocked then fail (EBooking ErrOverlapBlockedSlot)
    else andthen (CheckExistingBookings E courtID date s e) (\<lambda>isOverlap.
    if isOverlap then fail (EBooking ErrOverlapBooking) else ret ()))"

definition check_open :: "validation_info \<Rightarrow> app_error + unit" where
  "check_open info =
    (if vi_court_status info \<noteq> ''ACTIVE'' then Inl (EBooking ErrCourtInactive)
     else if vi_venue_status info \<noteq> ''ACTIVE'' then Inl (EBooking ErrVenueInactive)
     else Inr ())"

definition within_hours :: "operating_hour \<Rightarrow> int \<Rightarrow> int \<Rightarrow> bool" where
  "within_hours oh s e \<longleftrightarrow> \<not> oh_closed oh
     \<and> (case (oh_open oh, oh_close oh) of (Some op, Some cl) \<Rightarrow> op \<le> s \<and> e \<le> cl | _ \<Rightarrow> False)"

definition price_online :: "env \<Rightarrow> booking_service \<Rightarrow> string \<Rightarrow> booking_request \<Rightarrow> int \<Rightarrow> int \<Rightarrow> int \<Rightarrow> time
    \<Rightarrow> validation_info \<Rightarrow> float64 \<Rightarrow> promo_choice \<Rightarrow> booking app" where
  "price_online E sv customerID req date s e nowTz info originalPrice ch =
    andthen (read_clock E) (\<lambda>effectiveAt.
    andthen (lift_res (exactFloat64ToRupiah originalPrice)) (\<lambda>oi.
    andthen (lift_res (exactFloat64ToRupiah (ch_final_price ch))) (\<lambda>fi.
    let adjustment = fi - oi; discount = oi - fi in
    if ch_promo_id ch \<noteq> None \<and> (0 \<le> sint adjustment \<or> sint discount \<le> 0)
      then fail (EBooking ErrInvalidPromoPrice)
    else andthen (CreateBookingWithSnapshot E (online_request info effectiveAt oi adjustment (ch_reason ch))
        (\<lambda>pricing. InsertBooking E (online_params customerID req date s e ch
            (nowTz + sv_ttl_minutes sv * minute) pricing))) (\<lambda>(b, _). ret b))))"

definition create_online :: "env \<Rightarrow> booking_service \<Rightarrow> string \<Rightarrow> booking_request \<Rightarrow> int \<Rightarrow> int \<Rightarrow> int \<Rightarrow> time \<Rightarrow> booking app" where
  "create_online E sv customerID req date s e nowTz =
    andthen (LockCourtValidationInfo E (cr_court_id req)) (\<lambda>info.
    andthen (lift_res (check_open info)) (\<lambda>_.
    andthen (FindOperatingHours E (cr_court_id req) (weekday date)) (\<lambda>oh.
    if \<not> within_hours oh s e then fail (EBooking ErrOutsideOpHours)
    else let originalPrice = slot_price info s e in
    andthen (apply_promo E info (cr_promo_code req) originalPrice date) (\<lambda>ch.
    andthen (check_free E (cr_court_id req) date s e) (\<lambda>_.
    price_online E sv customerID req date s e nowTz info originalPrice ch)))))"

definition CreateBooking :: "env \<Rightarrow> booking_service \<Rightarrow> string \<Rightarrow> booking_request \<Rightarrow> booking app" where
  "CreateBooking E sv customerID req =
    (if \<not> sv_orchestrator sv then fail (EBooking ErrSnapshotOrchestratorUnavailable)
     else andthen (deref EParse (parse_date (cr_booking_date req))) (\<lambda>date.
     andthen (read_clock E) (\<lambda>nowTz.
     if date < jakarta_date nowTz then fail (EBooking ErrPastDate)
     else andthen (parse_time (cr_start_time req)) (\<lambda>s.
     andthen (parse_time (cr_end_time req)) (\<lambda>e.
     if \<not> s < e then fail (EBooking ErrInvalidTimeRange)
     else in_tx E EDatabase (create_online E sv customerID req date s e nowTz))))))"

subsection \<open>Booking at the counter\<close>

record offline_request =
  or_venue_id :: string
  or_court_id :: string
  or_booking_date :: string
  or_start_time :: string
  or_end_time :: string
  or_customer_name :: string
  or_customer_phone :: string
  or_customer_email :: string
  or_total_price :: float64
  or_status :: booking_status
  or_price_override_reason :: string
  or_note :: string

definition containsID :: "string list \<Rightarrow> string \<Rightarrow> bool" where
  "containsID ids i = list_ex (\<lambda>v. v = i) ids"

definition nonempty :: "string \<Rightarrow> string option" where
  "nonempty s = (if s = [] then None else Some s)"

text \<open>\<open>len([]rune(s))\<close>; the strings of a decoded JSON body are valid UTF-8.\<close>

definition rune_count :: "string \<Rightarrow> nat" where
  "rune_count s = (case runes s of None \<Rightarrow> length s | Some rs \<Rightarrow> length rs)"

definition offline_params_of :: "owner_context \<Rightarrow> offline_request \<Rightarrow> validation_info \<Rightarrow> int \<Rightarrow> int \<Rightarrow> int
    \<Rightarrow> string option \<Rightarrow> canonical_pricing \<Rightarrow> offline_params" where
  "offline_params_of ow req info date s e overrideReason pricing =
    \<lparr>of_venue_id = vi_venue_id info, of_court_id = or_court_id req, of_date = date, of_start_time = s,
     of_end_time = e, of_system_price = float_of_i64 (cp_original_price pricing),
     of_final_price = float_of_i64 (cp_final_price pricing), of_status = or_status req,
     of_owner_user = ow_effective_owner_user_id ow, of_created_by = ow_actor_user_id ow,
     of_customer_name = or_customer_name req, of_customer_phone = nonempty (or_customer_phone req),
     of_customer_email = nonempty (or_customer_email req), of_note = nonempty (or_note req),
     of_override_reason = overrideReason\<rparr>"

definition within_hours_if_set :: "operating_hour \<Rightarrow> int \<Rightarrow> int \<Rightarrow> bool" where
  "within_hours_if_set oh s e \<longleftrightarrow> \<not> oh_closed oh
     \<and> (case (oh_open oh, oh_close oh) of (Some op, Some cl) \<Rightarrow> op \<le> s \<and> e \<le> cl | _ \<Rightarrow> True)"

definition price_offline :: "env \<Rightarrow> owner_context \<Rightarrow> offline_request \<Rightarrow> int \<Rightarrow> int \<Rightarrow> int \<Rightarrow> validation_info
    \<Rightarrow> booking app" where
  "price_offline E ow req date s e info =
    andthen (lift_res (exactFloat64ToRupiah (slot_price info s e))) (\<lambda>systemPrice.
    andthen (lift_res (exactFloat64ToRupiah (or_total_price req))) (\<lambda>finalPrice.
    if sint finalPrice \<le> 0 then fail (EBooking ErrInvalidPrice)
    else let adjustment = finalPrice - systemPrice; isOverride = (adjustment \<noteq> 0);
             reason = trim_space (or_price_override_reason req) in
    if isOverride \<and> reason = [] then fail (EBooking ErrPriceOverrideReasonRequired)
    else if isOverride \<and> 500 < rune_count reason then fail (EBooking ErrPriceOverrideReasonTooLong)
    else andthen (read_clock E) (\<lambda>effectiveAt.
    andthen (CreateBookingWithSnapshot E
        \<lparr>rq_owner_profile_id = vi_owner_profile_id info, rq_venue_id = vi_venue_id info,
         rq_effective_at = effectiveAt, rq_channel = BookingChannelOwnerWalkIn,
         rq_original_price = systemPrice, rq_adjustment = adjustment,
         rq_reason = (if isOverride then reason else [])\<rparr>
        (\<lambda>pricing. InsertOfflineBookingTx E (offline_params_of ow req info date s e
            (if isOverride then Some reason else None) pricing))) (\<lambda>(b, _). ret b))))"

definition create_offline :: "env \<Rightarrow> owner_context \<Rightarrow> offline_request \<Rightarrow> int \<Rightarrow> int \<Rightarrow> int \<Rightarrow> booking app" where
  "create_offline E ow req date s e =
    andthen (LockOwnerCourtValidationInfo E (or_court_id req) (or_venue_id req) (ow_owner_profile_id ow)) (\<lambda>info.
    andthen (lift_res (check_open info)) (\<lambda>_.
    andthen (FindOperatingHours E (or_court_id req) (weekday date)) (\<lambda>oh.
    if \<not> within_hours_if_set oh s e then fail (EBooking ErrOutsideOpHours)
    else andthen (check_free E (or_court_id req) date s e) (\<lambda>_.
    price_offline E ow req date s e info))))"

definition OwnerCreateOfflineBooking :: "env \<Rightarrow> booking_service \<Rightarrow> owner_context \<Rightarrow> offline_request \<Rightarrow> booking app" where
  "OwnerCreateOfflineBooking E sv ow req =
    (if \<not> sv_orchestrator sv then fail (EBooking ErrSnapshotOrchestratorUnavailable)
     else andthen (map_err (not_found_as (EBooking ErrForbidden))
         (FindVenueByIDAndOwnerProfileID E (or_venue_id req) (ow_owner_profile_id ow))) (\<lambda>_.
     if \<not> ow_is_owner ow \<and> \<not> containsID (ow_allowed_venue_ids ow) (or_venue_id req)
       then fail (EBooking ErrForbidden)
     else andthen (deref EParse (parse_date (or_booking_date req))) (\<lambda>date.
     andthen (parse_time (or_start_time req)) (\<lambda>s.
     andthen (parse_time (or_end_time req)) (\<lambda>e.
     if \<not> s < e then fail (EBooking ErrInvalidTimeRange)
     else in_tx E EDatabase (create_offline E ow req date s e))))))"

subsection \<open>The customer's operations\<close>

definition SubmitPaymentProof :: "env \<Rightarrow> string \<Rightarrow> string \<Rightarrow> string \<Rightarrow> booking app" where
  "SubmitPaymentProof E customerID bookingID reference =
    map_err (not_found_as (EBooking BErrBookingNotFound)) (UpdatePaymentReference E bookingID customerID reference)"

definition find_own :: "env \<Rightarrow> string \<Rightarrow> string \<Rightarrow> booking app" where
  "find_own E bookingID customerID =
    map_err (not_found_as (EBooking BErrBookingNotFound)) (FindByIDAndCustomerID E bookingID customerID)"

definition cancel_status_error :: "booking_status \<Rightarrow> booking_error option" where
  "cancel_status_error s = (if s = CANCELLED then Some ErrBookingAlreadyCancelled
     else if s \<noteq> PENDING_PAYMENT then Some ErrBookingCannotBeCancelled else None)"

definition confirm_status_error :: "booking_status \<Rightarrow> booking_error option" where
  "confirm_status_error s = (if s = CANCELLED then Some ErrBookingAlreadyCancelled
     else if s = CONFIRMED then Some ErrBookingAlreadyConfirmed
     else if s \<noteq> PENDING_PAYMENT then Some ErrBookingCannotBeConfirmed else None)"

text \<open>Check the status, run the update, and explain a lost race by the row found afterwards.\<close>

definition guarded_update :: "env \<Rightarrow> (booking_status \<Rightarrow> booking_error option) \<Rightarrow> booking_error \<Rightarrow> string \<Rightarrow> string
    \<Rightarrow> booking app \<Rightarrow> booking app" where
  "guarded_update E status_error otherwise bookingID customerID update =
    andthen (find_own E bookingID customerID) (\<lambda>b.
    case status_error (bk_status b) of Some x \<Rightarrow> fail (EBooking x)
    | None \<Rightarrow>
      attempt update
        (\<lambda>e. if e \<noteq> ENoRows then fail e
          else andthen (find_own E bookingID customerID) (\<lambda>latest.
            case status_error (bk_status latest) of Some x \<Rightarrow> fail (EBooking x)
            | None \<Rightarrow> fail (EBooking otherwise)))
        ret)"

definition CancelBooking :: "env \<Rightarrow> string \<Rightarrow> string \<Rightarrow> booking app" where
  "CancelBooking E customerID bookingID =
    guarded_update E cancel_status_error ErrBookingCannotBeCancelled bookingID customerID
      (CancelPendingByIDAndCustomerID E bookingID customerID)"

definition ConfirmBookingPayment :: "env \<Rightarrow> string \<Rightarrow> string \<Rightarrow> booking app" where
  "ConfirmBookingPayment E customerID bookingID =
    guarded_update E confirm_status_error ErrBookingCannotBeConfirmed bookingID customerID
      (ConfirmPendingByIDAndCustomerID E bookingID customerID)"

subsection \<open>The owner's operations\<close>

definition authorize :: "env \<Rightarrow> owner_context \<Rightarrow> string \<Rightarrow> unit app" where
  "authorize E ow bookingID =
    andthen (map_err (not_found_as (EBooking BErrBookingNotFound))
        (GetBookingOwnerProfileAndVenueID E bookingID)) (\<lambda>(ownerProfileID, venueID).
    if ownerProfileID \<noteq> ow_owner_profile_id ow then fail (EBooking ErrForbidden)
    else if \<not> ow_is_owner ow \<and> \<not> containsID (ow_allowed_venue_ids ow) venueID
      then fail (EBooking ErrForbidden)
    else ret ())"

definition OwnerVerifyPayment :: "env \<Rightarrow> owner_context \<Rightarrow> string \<Rightarrow> bool \<Rightarrow> booking app" where
  "OwnerVerifyPayment E ow bookingID isApproved =
    andthen (authorize E ow bookingID) (\<lambda>_.
    map_err (not_found_as (EBooking BErrBookingNotFound))
      (VerifyPayment E (ow_actor_user_id ow) bookingID isApproved))"

definition OwnerMarkBookingPaid :: "env \<Rightarrow> owner_context \<Rightarrow> string \<Rightarrow> booking app" where
  "OwnerMarkBookingPaid E ow bookingID =
    andthen (authorize E ow bookingID) (\<lambda>_.
    map_err (not_found_as (EBooking ErrBookingCannotBeMarkedPaid))
      (MarkBookingPaid E (ow_actor_user_id ow) bookingID))"

definition OwnerCompleteBooking :: "env \<Rightarrow> owner_context \<Rightarrow> string \<Rightarrow> booking app" where
  "OwnerCompleteBooking E ow bookingID =
    andthen (authorize E ow bookingID) (\<lambda>_.
    map_err (not_found_as (EBooking ErrBookingCannotBeCompleted)) (CompleteBooking E bookingID))"

definition OwnerCancelPaidBookingWithRefund :: "env \<Rightarrow> owner_context \<Rightarrow> string \<Rightarrow> string \<Rightarrow> booking app" where
  "OwnerCancelPaidBookingWithRefund E ow bookingID reason =
    andthen (authorize E ow bookingID) (\<lambda>_.
    map_err (not_found_as (EBooking BErrBookingNotFound))
      (CancelPaidBookingWithRefund E (ow_effective_owner_user_id ow) (ow_actor_user_id ow) bookingID
        (trim_space reason)))"

subsection \<open>The sweeps\<close>

definition SweepExpiredBookings :: "env \<Rightarrow> sweep app" where
  "SweepExpiredBookings E = CancelExpiredPendingBookings E"

definition SweepPaymentExpiringSoonNotifications :: "env \<Rightarrow> int app" where
  "SweepPaymentExpiringSoonNotifications E =
    andthen (read_clock E) (\<lambda>now.
    andthen (GetBookingsExpiringSoon E (now + 5 * minute)) (\<lambda>bs. ret (int (length bs))))"

definition SweepCompletedBookings :: "env \<Rightarrow> int app" where
  "SweepCompletedBookings E =
    andthen (AutoCompleteFinishedBookings E) (\<lambda>bs. ret (int (length bs)))"

end
