(* ===== verification/BookingCreation.thy ===== *)
theory BookingCreation
  imports BookingService
begin

text \<open>
  What a successful creation has done, online and at the counter: the statements before the
  insert only read, so the slot checked is the slot booked; the price stored is the price
  computed; and the booking and its fee snapshot are written together.
\<close>

subsection \<open>Statements that only read\<close>

definition reads :: "('e, 'd, 'a) tx \<Rightarrow> bool" where
  "reads m \<longleftrightarrow> (\<forall>w. db (snd (m w)) = db w \<and> base (snd (m w)) = base w \<and> tx_now (snd (m w)) = tx_now w)"

lemma readsD: "reads m \<Longrightarrow> m w = (r, w') \<Longrightarrow> db w' = db w \<and> base w' = base w \<and> tx_now w' = tx_now w"
  by (metis reads_def snd_conv)

lemma reads_stmt:
  "reads (ret x)" "reads (fail e)" "reads (query E e f)" "reads (deref e v)" "reads (guard b e)"
  "reads (lift_res r)" "reads (read_clock E)" "reads (fresh_uuid E)" "reads (side_query E e g)"
  by (simp_all add: reads_def tx_defs side_query_def split: prod.splits sum.splits option.splits)

lemma reads_db_call: "(\<And>now d. snd (f now d) = d) \<Longrightarrow> reads (db_call E e f)"
  by (simp add: reads_def db_call_def Let_def split_beta)

lemma reads_attempt:
  "reads m \<Longrightarrow> (\<And>e. reads (h e)) \<Longrightarrow> (\<And>x. reads (k x)) \<Longrightarrow> reads (attempt m h k)"
  unfolding reads_def attempt_def by (auto split: prod.split sum.split) (metis snd_conv)+

lemma reads_andthen: "reads m \<Longrightarrow> (\<And>x. reads (k x)) \<Longrightarrow> reads (andthen m k)"
  unfolding andthen_def by (intro reads_attempt reads_stmt)

lemma reads_map_err: "reads m \<Longrightarrow> reads (map_err g m)"
  unfolding map_err_def by (intro reads_attempt reads_stmt)

lemma reads_if: "reads m \<Longrightarrow> reads m' \<Longrightarrow> reads (if b then m else m')"
  by simp

lemmas reads_intros = reads_stmt reads_andthen reads_map_err reads_if

lemma reads_apply_promo: "reads (apply_promo E info pc price date)"
  unfolding apply_promo_def FindActivePromoByCode_def Let_def
  by (cases pc) (auto intro!: reads_intros)

lemma reads_term: "reads (ResolveEffectiveTerm E owner bt)"
  unfolding ResolveEffectiveTerm_def by (cases "uuid_parse E owner") (auto intro!: reads_intros)

lemma reads_hours: "reads (FindOperatingHours E c dw)"
  unfolding FindOperatingHours_def by (rule reads_stmt)

text \<open>\<open>m\<close> reads, and on success \<open>P\<close> holds of the value and the tables.\<close>

lemma check_free_Inr:
  assumes "check_free E court date s e w = (Inr u, w')"
  shows "db w' = db w \<and> base w' = base w \<and> tx_now w' = tx_now w
    \<and> (\<forall>b \<in> set (bookings (db w)). overlaps court date s e b \<longrightarrow> \<not> holds_slot (tx_now w) b)
    \<and> (\<forall>x \<in> set (blocked_slots (db w)). bs_court x = court \<longrightarrow>
         jakarta_instant date e \<le> bs_start_at x \<or> bs_end_at x \<le> jakarta_instant date s)"
  using assms
  by (auto simp: check_free_def CheckBlockedSlots_def CheckExistingBookings_def tx_Inr filter_empty_conv
      not_less split: if_splits)

subsection \<open>Inserting\<close>

lemma insert_booking_Inr:
  "insert_booking b d = (Inr x, d') \<longleftrightarrow> x = b \<and> d' = d\<lparr>bookings := bookings d @ [b]\<rparr>
     \<and> bk_id b \<notin> bk_id ` set (bookings d) \<and> bk_start b < bk_end b \<and> 0 \<le> bk_total_price b"
  by (auto simp: insert_booking_def sql_exists_iff not_le not_less image_iff dest: sym)

lemma to_numeric_whole:
  assumes "0 \<le> n" "n \<le> maxLegacyBookingRupiah"
  shows "to_numeric (Finite64 (of_int n)) = Inr (of_int n)"
proof -
  have "round_away (of_int n * 100) = n * 100"
    using round_away_near [of "of_int (n * 100)" "n * 100"] assms by simp
  then show ?thesis using assms by (simp add: to_numeric_def maxLegacyBookingRupiah_def Let_def)
qed

lemma to_numeric_i64:
  "0 \<le> sint k \<Longrightarrow> sint k \<le> maxLegacyBookingRupiah \<Longrightarrow> to_numeric (float_of_i64 k) = Inr (of_int (sint k))"
  using to_numeric_whole [of "sint k"] float_of_small [of k] by (simp only: maxLegacyBookingRupiah_def) simp

lemma InsertBooking_Inr:
  assumes "InsertBooking E p w = (Inr b, w')"
  shows "\<exists>original discount final tot i. b = new_row p original discount final tot i (tx_now w)
    \<and> to_numeric (bp_total_price p) = Inr tot
    \<and> db w' = (db w)\<lparr>bookings := bookings (db w) @ [b]\<rparr> \<and> base w' = base w \<and> tx_now w' = tx_now w
    \<and> bk_id b \<notin> bk_id ` set (bookings (db w)) \<and> bk_start b < bk_end b"
  using assms by (auto simp: InsertBooking_def tx_Inr insert_booking_Inr) blast

lemma ledger_insert_Inr:
  assumes "ledger_insert skip r d = (Inr u, d')"
  shows "(d' = d\<lparr>ledger := ledger d @ [r]\<rparr> \<and> 0 < lg_amount r
      \<and> (lg_source r = BOOKING \<and> lg_booking r \<noteq> None \<longrightarrow>
          (\<forall>x \<in> set (ledger d). lg_source x = BOOKING \<longrightarrow> lg_booking x \<noteq> lg_booking r))
      \<and> (lg_source r = REFUND \<and> lg_booking r \<noteq> None \<longrightarrow>
          (\<forall>x \<in> set (ledger d). lg_source x = REFUND \<longrightarrow> lg_booking x \<noteq> lg_booking r)))
    \<or> skip \<and> d' = d \<and> (\<exists>x \<in> set (ledger d). lg_source x = BOOKING \<and> lg_booking x = lg_booking r)"
  using assms by (auto simp: ledger_insert_def sql_exists_iff split: option.splits if_splits)

lemma InsertOfflineBookingTx_Inr:
  assumes "InsertOfflineBookingTx E p w = (Inr b, w')"
  shows "\<exists>system discount final i r c. b = offline_row p system discount final i (tx_now w)
    \<and> to_numeric (of_final_price p) = Inr final
    \<and> db w' = (db w)\<lparr>bookings := bookings (db w) @ [b],
         offline_customers := offline_customers (db w) @ [c], ledger := ledger (db w) @ [r]\<rparr>
    \<and> lg_booking r = Some (bk_id b) \<and> lg_type r = INCOME \<and> lg_source r = BOOKING
    \<and> lg_amount r = bk_total_price b \<and> 0 < lg_amount r
    \<and> (\<forall>x \<in> set (ledger (db w)). lg_source x = BOOKING \<longrightarrow> lg_booking x \<noteq> lg_booking r)
    \<and> base w' = base w \<and> tx_now w' = tx_now w
    \<and> bk_id b \<notin> bk_id ` set (bookings (db w)) \<and> bk_start b < bk_end b"
proof -
  obtain system discount final v where tn: "to_numeric (of_final_price p) = Inr final"
    and ins: "insert_booking (offline_row p system discount final (new_uuid E (steps w)) (tx_now w)) (db w)
      = (Inr b, v)" and w': "base w' = base w" "tx_now w' = tx_now w"
    and led: "ledger_insert False (offline_income p final (bk_id b))
      (v\<lparr>offline_customers := offline_customers v @ [offline_customer_row p system final (bk_id b)]\<rparr>)
      = (Inr (), db w')"
    using assms by (auto simp: InsertOfflineBookingTx_def Let_def tx_Inr split: if_splits)
  have b: "b = offline_row p system discount final (new_uuid E (steps w)) (tx_now w)"
    "v = (db w)\<lparr>bookings := bookings (db w) @ [b]\<rparr>" "bk_id b \<notin> bk_id ` set (bookings (db w))"
    "bk_start b < bk_end b"
    using ins by (auto simp: insert_booking_Inr)
  have "bk_total_price b = final" unfolding b(1) by (simp add: offline_row_def)
  define r where "r = offline_income p final (bk_id b)"
  have r: "lg_booking r = Some (bk_id b)" "lg_type r = INCOME" "lg_source r = BOOKING" "lg_amount r = bk_total_price b"
    using \<open>bk_total_price b = final\<close> by (simp_all add: r_def offline_income_def)
  have "db w' = (db w)\<lparr>bookings := bookings (db w) @ [b],
      offline_customers := offline_customers (db w) @ [offline_customer_row p system final (bk_id b)],
      ledger := ledger (db w) @ [r]\<rparr> \<and> 0 < lg_amount r
      \<and> (\<forall>x \<in> set (ledger (db w)). lg_source x = BOOKING \<longrightarrow> lg_booking x \<noteq> lg_booking r)"
    using ledger_insert_Inr [OF led [folded r_def]] r(1,3) unfolding b(2) by simp
  then show ?thesis using r b w' tn by blast
qed

subsection \<open>The orchestrator\<close>

lemma sint_sum_word: "sint x = sint a + sint b \<Longrightarrow> x = (a + b :: i64)"
  by (metis plus_i64 word_of_int_sint64)

lemma CreateBookingWithSnapshot_Inr:
  assumes "CreateBookingWithSnapshot E req ins w = (Inr (b, s), w')"
  shows "\<exists>w1 w2. ins \<lparr>cp_original_price = rq_original_price req,
        cp_final_price = rq_original_price req + rq_adjustment req\<rparr> w1 = (Inr b, w2)
    \<and> db w1 = db w \<and> base w1 = base w \<and> tx_now w1 = tx_now w
    \<and> fs_booking_id s = bk_id b \<and> snapshot_checks s
    \<and> fs_customer_charge s = sint (rq_original_price req + rq_adjustment req)
    \<and> db w' = (db w2)\<lparr>snapshots := snapshots (db w2) @ [s]\<rparr> \<and> base w' = base w2 \<and> tx_now w' = tx_now w2"
proof -
  define reason where "reason = trim_space (rq_reason req)"
  obtain t w1 r w2 where t: "ResolveEffectiveTerm E (rq_owner_profile_id req) (rq_effective_at req) w = (Inr t, w1)"
    and r: "CalculateBookingFees (calc_params req reason t) = Inr r"
    and i: "ins \<lparr>cp_original_price = rq_original_price req, cp_final_price = FinalBookingPriceRupiah r\<rparr> w1 = (Inr b, w2)"
    and s: "InsertSnapshot E (snapshot_params req reason t r (bk_id b)) w2 = (Inr s, w')"
    using assms unfolding CreateBookingWithSnapshot_def Let_def
    by (auto simp: tx_Inr reason_def split: if_splits sum.splits)
  note spec = fee_spec_Inr [OF calculator_Inr [OF r]]
  have "sint (FinalBookingPriceRupiah r) = sint (rq_original_price req) + sint (rq_adjustment req)"
    using spec(1) by (simp add: fee_view_def calc_params_def)
  then have final: "FinalBookingPriceRupiah r = rq_original_price req + rq_adjustment req"
    by (rule sint_sum_word)
  have charge: "sint (CustomerChargeAmountRupiah r) = sint (FinalBookingPriceRupiah r)"
    using spec(3) by (simp add: fee_view_def)
  have row: "s = snapshot_params req reason t r (bk_id b)" and stored: "snapshot_checks s
      \<and> db w' = (db w2)\<lparr>snapshots := snapshots (db w2) @ [s]\<rparr> \<and> base w' = base w2 \<and> tx_now w' = tx_now w2"
    using s by (auto simp: InsertSnapshot_def tx_Inr split: if_splits)
  have "fs_booking_id s = bk_id b \<and> fs_customer_charge s = sint (rq_original_price req + rq_adjustment req)"
    using charge final by (simp add: row snapshot_params_def)
  moreover have "db w1 = db w \<and> base w1 = base w \<and> tx_now w1 = tx_now w"
    using readsD [OF reads_term t] .
  ultimately show ?thesis using i stored unfolding final by blast
qed


subsection \<open>The slot is the new booking's\<close>

text \<open>
  \<open>reserved now d d' b\<close>: the tables \<open>d'\<close> are \<open>d\<close> with the new booking \<open>b\<close>, which overlaps no
  booking of \<open>d\<close> that holds its slot and no blocked slot, and with its fee snapshot,
  for the price of the booking.
\<close>

definition slot_free :: "time \<Rightarrow> dbs \<Rightarrow> booking \<Rightarrow> bool" where
  "slot_free now d b \<longleftrightarrow>
     (\<forall>x \<in> set (bookings d). overlaps (bk_court b) (bk_date b) (bk_start b) (bk_end b) x \<longrightarrow> \<not> holds_slot now x)
     \<and> (\<forall>x \<in> set (blocked_slots d). bs_court x = bk_court b \<longrightarrow>
          jakarta_instant (bk_date b) (bk_end b) \<le> bs_start_at x
          \<or> bs_end_at x \<le> jakarta_instant (bk_date b) (bk_start b))"

definition same_other_tables :: "dbs \<Rightarrow> dbs \<Rightarrow> bool" where
  "same_other_tables d d' \<longleftrightarrow> courts d' = courts d \<and> venues d' = venues d
     \<and> owner_profiles d' = owner_profiles d \<and> promos d' = promos d
     \<and> commercial_terms d' = commercial_terms d \<and> operating_hours d' = operating_hours d
     \<and> blocked_slots d' = blocked_slots d \<and> attempts d' = attempts d \<and> contracts d' = contracts d
     \<and> captures d' = captures d \<and> commands d' = commands d \<and> cancellations d' = cancellations d
     \<and> webhook_events d' = webhook_events d \<and> audit_log d' = audit_log d"

text \<open>The court of a booking, with its venue and the venue's owner.\<close>

definition joined :: "dbs \<Rightarrow> booking \<Rightarrow> bool" where
  "joined d b \<longleftrightarrow> court_join d (\<lambda>c. ct_id c = bk_court b) (\<lambda>v. True) \<noteq> None"

definition reserved :: "time \<Rightarrow> dbs \<Rightarrow> dbs \<Rightarrow> booking \<Rightarrow> bool" where
  "reserved now d d' b \<longleftrightarrow> bookings d' = bookings d @ [b] \<and> bk_id b \<notin> bk_id ` set (bookings d)
     \<and> bk_start b < bk_end b \<and> slot_free now d b \<and> same_other_tables d d'
     \<and> (\<exists>s. snapshots d' = snapshots d @ [s] \<and> fs_booking_id s = bk_id b \<and> snapshot_checks s
          \<and> of_int (fs_customer_charge s) = bk_total_price b)"

lemma price_word:
  assumes "exactFloat64ToRupiah x = Inr (k :: i64)" "to_numeric (float_of_i64 k) = Inr r"
  shows "r = of_int (sint k)"
  using assms(2) exact_nonneg [OF assms(1)] to_numeric_i64 [of k] by simp

lemma price_online_reserves:
  assumes run: "price_online E sv c req date s e nowTz info price ch w = (Inr b, w')"
    and free: "\<forall>x \<in> set (bookings (db w)). overlaps (cr_court_id req) date s e x \<longrightarrow> \<not> holds_slot (tx_now w) x"
      "\<forall>x \<in> set (blocked_slots (db w)). bs_court x = cr_court_id req \<longrightarrow>
         jakarta_instant date e \<le> bs_start_at x \<or> bs_end_at x \<le> jakarta_instant date s"
  shows "reserved (tx_now w) (db w) (db w') b \<and> base w' = base w \<and> tx_now w' = tx_now w
    \<and> bk_customer b = c \<and> bk_court b = cr_court_id req \<and> bk_date b = date \<and> bk_start b = s \<and> bk_end b = e
    \<and> bk_status b = PENDING_PAYMENT \<and> ledger (db w') = ledger (db w)"
proof -
  define v where "v = w\<lparr>steps := Suc (steps w)\<rparr>"
  then have v: "db v = db w" "base v = base w" "tx_now v = tx_now w" by simp_all
  obtain oi fi snap where fi: "exactFloat64ToRupiah (ch_final_price ch) = Inr fi"
    and orch: "CreateBookingWithSnapshot E (online_request info (clock E (steps w)) oi (fi - oi) (ch_reason ch))
        (\<lambda>pricing. InsertBooking E (online_params c req date s e ch (nowTz + sv_ttl_minutes sv * minute) pricing)) v
        = (Inr (b, snap), w')"
    using run unfolding price_online_def Let_def v_def
    by (auto simp: andthen_Inr lift_res_Inr split: if_splits)
  define p where "p = online_params c req date s e ch (nowTz + sv_ttl_minutes sv * minute)
    \<lparr>cp_original_price = oi, cp_final_price = fi\<rparr>"
  obtain w1 w2 where ins: "InsertBooking E p w1 = (Inr b, w2)" and w1: "db w1 = db w" "base w1 = base w" "tx_now w1 = tx_now w"
    and snap: "fs_booking_id snap = bk_id b" "snapshot_checks snap" "fs_customer_charge snap = sint fi"
    and w': "db w' = (db w2)\<lparr>snapshots := snapshots (db w2) @ [snap]\<rparr>" "base w' = base w2" "tx_now w' = tx_now w2"
    using CreateBookingWithSnapshot_Inr [OF orch] v unfolding p_def by (auto simp: online_request_def)
  obtain original discount final tot i where b: "b = new_row p original discount final tot i (tx_now w)"
    and tot: "to_numeric (bp_total_price p) = Inr tot"
    and w2: "db w2 = (db w)\<lparr>bookings := bookings (db w) @ [b]\<rparr>" "base w2 = base w" "tx_now w2 = tx_now w"
    and new: "bk_id b \<notin> bk_id ` set (bookings (db w))" "bk_start b < bk_end b"
    using InsertBooking_Inr [OF ins] w1 by auto
  have "tot = of_int (sint fi)"
    using price_word [OF fi] tot by (simp add: p_def online_params_def Let_def)
  then have "bk_total_price b = of_int (sint fi)" by (simp add: b new_row_def)
  moreover have fields: "bk_customer b = c" "bk_court b = cr_court_id req" "bk_date b = date" "bk_start b = s"
    "bk_end b = e" "bk_status b = PENDING_PAYMENT"
    by (simp_all add: b new_row_def p_def online_params_def Let_def)
  moreover have "slot_free (tx_now w) (db w) b" using free by (simp add: slot_free_def fields)
  ultimately show ?thesis using new snap by (simp add: reserved_def same_other_tables_def w' w2)
qed

lemma price_offline_reserves:
  assumes run: "price_offline E ow req date s e info w = (Inr b, w')"
    and free: "\<forall>x \<in> set (bookings (db w)). overlaps (or_court_id req) date s e x \<longrightarrow> \<not> holds_slot (tx_now w) x"
      "\<forall>x \<in> set (blocked_slots (db w)). bs_court x = or_court_id req \<longrightarrow>
         jakarta_instant date e \<le> bs_start_at x \<or> bs_end_at x \<le> jakarta_instant date s"
  shows "reserved (tx_now w) (db w) (db w') b \<and> base w' = base w \<and> tx_now w' = tx_now w
    \<and> bk_customer b = ow_effective_owner_user_id ow \<and> bk_court b = or_court_id req \<and> bk_date b = date
    \<and> bk_start b = s \<and> bk_end b = e \<and> bk_status b = or_status req
    \<and> (\<exists>r. ledger (db w') = ledger (db w) @ [r] \<and> lg_booking r = Some (bk_id b) \<and> lg_type r = INCOME
         \<and> lg_source r = BOOKING \<and> lg_amount r = bk_total_price b \<and> 0 < lg_amount r
         \<and> (\<forall>x \<in> set (ledger (db w)). lg_source x = BOOKING \<longrightarrow> lg_booking x \<noteq> lg_booking r))"
proof -
  define v where "v = w\<lparr>steps := Suc (steps w)\<rparr>"
  then have v: "db v = db w" "base v = base w" "tx_now v = tx_now w" by simp_all
  obtain si fi adj snap reason override where fi: "exactFloat64ToRupiah (or_total_price req) = Inr fi"
    and adj: "si + adj = fi"
    and orch: "CreateBookingWithSnapshot E
        \<lparr>rq_owner_profile_id = vi_owner_profile_id info, rq_venue_id = vi_venue_id info,
         rq_effective_at = clock E (steps w), rq_channel = BookingChannelOwnerWalkIn,
         rq_original_price = si, rq_adjustment = adj, rq_reason = reason\<rparr>
        (\<lambda>pricing. InsertOfflineBookingTx E (offline_params_of ow req info date s e override pricing)) v
        = (Inr (b, snap), w')"
    using run unfolding price_offline_def Let_def v_def
    by (force simp: andthen_Inr lift_res_Inr split: if_splits)
  define p where "p = offline_params_of ow req info date s e override
    \<lparr>cp_original_price = si, cp_final_price = fi\<rparr>"
  obtain w1 w2 where ins: "InsertOfflineBookingTx E p w1 = (Inr b, w2)"
    and w1: "db w1 = db w" "base w1 = base w" "tx_now w1 = tx_now w"
    and snap: "fs_booking_id snap = bk_id b" "snapshot_checks snap" "fs_customer_charge snap = sint fi"
    and w': "db w' = (db w2)\<lparr>snapshots := snapshots (db w2) @ [snap]\<rparr>" "base w' = base w2" "tx_now w' = tx_now w2"
    using CreateBookingWithSnapshot_Inr [OF orch] v unfolding p_def by (auto simp: adj)
  obtain system discount final i r c where b: "b = offline_row p system discount final i (tx_now w)"
    and tot: "to_numeric (of_final_price p) = Inr final"
    and w2: "db w2 = (db w)\<lparr>bookings := bookings (db w) @ [b],
         offline_customers := offline_customers (db w) @ [c], ledger := ledger (db w) @ [r]\<rparr>"
      "base w2 = base w" "tx_now w2 = tx_now w"
    and r: "lg_booking r = Some (bk_id b)" "lg_type r = INCOME" "lg_source r = BOOKING"
      "lg_amount r = bk_total_price b" "0 < lg_amount r"
      "\<forall>x \<in> set (ledger (db w)). lg_source x = BOOKING \<longrightarrow> lg_booking x \<noteq> lg_booking r"
    and new: "bk_id b \<notin> bk_id ` set (bookings (db w))" "bk_start b < bk_end b"
    using InsertOfflineBookingTx_Inr [OF ins] unfolding w1 by blast
  have "final = of_int (sint fi)"
    using price_word [OF fi] tot by (simp add: p_def offline_params_of_def)
  then have "bk_total_price b = of_int (sint fi)" by (simp add: b offline_row_def)
  moreover have fields: "bk_customer b = ow_effective_owner_user_id ow" "bk_court b = or_court_id req"
    "bk_date b = date" "bk_start b = s" "bk_end b = e" "bk_status b = or_status req"
    by (simp_all add: b offline_row_def p_def offline_params_of_def)
  moreover have "slot_free (tx_now w) (db w) b" using free by (simp add: slot_free_def fields)
  ultimately show ?thesis using new snap r by (simp add: reserved_def same_other_tables_def w' w2)
qed

text \<open>From the lock to the commit. \<open>new_booking\<close> collects what both ways of booking do to the tables.\<close>

definition counter_income :: "dbs \<Rightarrow> dbs \<Rightarrow> booking \<Rightarrow> bool" where
  "counter_income d d' b \<longleftrightarrow>
     (\<exists>r. ledger d' = ledger d @ [r] \<and> lg_booking r = Some (bk_id b) \<and> lg_type r = INCOME
        \<and> lg_source r = BOOKING \<and> lg_amount r = bk_total_price b \<and> 0 < lg_amount r
        \<and> (\<forall>x \<in> set (ledger d). lg_source x = BOOKING \<longrightarrow> lg_booking x \<noteq> lg_booking r))"

definition new_booking :: "time \<Rightarrow> dbs \<Rightarrow> dbs \<Rightarrow> booking \<Rightarrow> bool" where
  "new_booking now d d' b \<longleftrightarrow> reserved now d d' b \<and> joined d b
     \<and> (bk_status b = PENDING_PAYMENT \<and> ledger d' = ledger d \<or> counter_income d d' b)"

lemma court_join_weaken:
  assumes "court_join d p q = Some x"
  shows "court_join d p (\<lambda>v. True) \<noteq> None"
  using query_row_Some [OF assms [unfolded court_join_def]]
  by (cases x) (auto simp: court_join_def query_row_None simp del: not_None_eq)

lemma lock_court_Inr:
  "LockCourtValidationInfo E c w = (Inr info, w') \<Longrightarrow>
     db w' = interfere E (steps w) (db w) \<and> base w' = interfere E (steps w) (base w) \<and> tx_now w' = tx_now w
     \<and> court_join (db w') (\<lambda>x. ct_id x = c) (\<lambda>v. True) \<noteq> None"
  "LockOwnerCourtValidationInfo E c v ow w = (Inr info, w') \<Longrightarrow>
     db w' = interfere E (steps w) (db w) \<and> base w' = interfere E (steps w) (base w) \<and> tx_now w' = tx_now w
     \<and> court_join (db w') (\<lambda>x. ct_id x = c) (\<lambda>v. True) \<noteq> None"
  by (auto simp: LockCourtValidationInfo_def LockOwnerCourtValidationInfo_def tx_Inr
      simp del: not_None_eq split_paired_Ex dest: court_join_weaken)

lemma create_online_new:
  assumes "create_online E sv c req date s e nowTz w = (Inr b, w')"
  shows "new_booking (tx_now w) (interfere E (steps w) (db w)) (db w') b \<and> tx_now w' = tx_now w
    \<and> base w' = interfere E (steps w) (base w)
    \<and> bk_customer b = c \<and> bk_court b = cr_court_id req \<and> bk_date b = date \<and> bk_start b = s \<and> bk_end b = e
    \<and> bk_status b = PENDING_PAYMENT \<and> ledger (db w') = ledger (interfere E (steps w) (db w))"
proof -
  obtain info w1 oh w2 ch w3 w4 where
    1: "LockCourtValidationInfo E (cr_court_id req) w = (Inr info, w1)" and
    2: "FindOperatingHours E (cr_court_id req) (weekday date) w1 = (Inr oh, w2)" and
    3: "apply_promo E info (cr_promo_code req) (slot_price info s e) date w2 = (Inr ch, w3)" and
    4: "check_free E (cr_court_id req) date s e w3 = (Inr (), w4)" and
    5: "price_online E sv c req date s e nowTz info (slot_price info s e) ch w4 = (Inr b, w')"
    using assms unfolding create_online_def Let_def
    by (auto simp: andthen_Inr lift_res_Inr split: if_splits)
  have w3: "db w3 = interfere E (steps w) (db w)" "base w3 = interfere E (steps w) (base w)" "tx_now w3 = tx_now w"
    using lock_court_Inr(1) [OF 1] readsD [OF reads_hours 2] readsD [OF reads_apply_promo 3] by simp_all
  have known: "court_join (db w3) (\<lambda>x. ct_id x = cr_court_id req) (\<lambda>v. True) \<noteq> None"
    using lock_court_Inr(1) [OF 1] w3(1) by metis
  from check_free_Inr [OF 4] have w4: "db w4 = db w3" "base w4 = base w3" "tx_now w4 = tx_now w3" by simp_all
  show ?thesis
    using price_online_reserves [OF 5] check_free_Inr [OF 4] known unfolding w4 w3 by (simp add: new_booking_def joined_def)
qed

lemma create_offline_new:
  assumes "create_offline E ow req date s e w = (Inr b, w')"
  shows "new_booking (tx_now w) (interfere E (steps w) (db w)) (db w') b \<and> tx_now w' = tx_now w
    \<and> base w' = interfere E (steps w) (base w)
    \<and> bk_customer b = ow_effective_owner_user_id ow \<and> bk_court b = or_court_id req
    \<and> bk_date b = date \<and> bk_start b = s \<and> bk_end b = e \<and> bk_status b = or_status req
    \<and> counter_income (interfere E (steps w) (db w)) (db w') b"
proof -
  obtain info w1 oh w3 w4 where
    1: "LockOwnerCourtValidationInfo E (or_court_id req) (or_venue_id req) (ow_owner_profile_id ow) w = (Inr info, w1)" and
    2: "FindOperatingHours E (or_court_id req) (weekday date) w1 = (Inr oh, w3)" and
    4: "check_free E (or_court_id req) date s e w3 = (Inr (), w4)" and
    5: "price_offline E ow req date s e info w4 = (Inr b, w')"
    using assms unfolding create_offline_def
    by (auto simp: andthen_Inr lift_res_Inr split: if_splits)
  have w3: "db w3 = interfere E (steps w) (db w)" "base w3 = interfere E (steps w) (base w)" "tx_now w3 = tx_now w"
    using lock_court_Inr(2) [OF 1] readsD [OF reads_hours 2] by simp_all
  have known: "court_join (db w3) (\<lambda>x. ct_id x = or_court_id req) (\<lambda>v. True) \<noteq> None"
    using lock_court_Inr(2) [OF 1] w3(1) by metis
  from check_free_Inr [OF 4] have w4: "db w4 = db w3" "base w4 = base w3" "tx_now w4 = tx_now w3" by simp_all
  show ?thesis
    using price_offline_reserves [OF 5] check_free_Inr [OF 4] known unfolding w4 w3 by (simp add: new_booking_def counter_income_def joined_def)
qed

lemma reads_parse: "reads (parse_time s)"
  by (simp add: parse_time_def reads_stmt)

lemma CreateBooking_Inr:
  assumes "CreateBooking E sv c req w = (Inr b, w')"
  shows "\<exists>d. new_booking (tx_now w') d (db w') b \<and> db w' = base w' \<and> bk_status b = PENDING_PAYMENT
    \<and> ledger (db w') = ledger d
    \<and> bk_customer b = c \<and> bk_court b = cr_court_id req
    \<and> parse_date (cr_booking_date req) = Some (bk_date b)
    \<and> parse_clock (cr_start_time req) = Some (bk_start b) \<and> parse_clock (cr_end_time req) = Some (bk_end b)"
  using assms unfolding CreateBooking_def parse_time_def
  by (auto simp: andthen_Inr deref_Inr in_tx_Inr split: if_splits dest!: create_online_new)

lemma OwnerCreateOfflineBooking_Inr:
  assumes "OwnerCreateOfflineBooking E sv ow req w = (Inr b, w')"
  shows "\<exists>d. new_booking (tx_now w') d (db w') b \<and> db w' = base w' \<and> bk_status b = or_status req
    \<and> counter_income d (db w') b
    \<and> bk_customer b = ow_effective_owner_user_id ow \<and> bk_court b = or_court_id req
    \<and> parse_date (or_booking_date req) = Some (bk_date b)
    \<and> parse_clock (or_start_time req) = Some (bk_start b) \<and> parse_clock (or_end_time req) = Some (bk_end b)"
  using assms unfolding OwnerCreateOfflineBooking_def parse_time_def
  by (auto simp: andthen_Inr deref_Inr in_tx_Inr split: if_splits dest!: create_offline_new)

end
