(* ===== verification/BookingSafety.thy ===== *)
theory BookingSafety
  imports BookingCreation
begin

text \<open>
  Two invariants of the bookings component. The books: the ledger has at most one income and
  one refund per booking, each for its price, a refund only of a cancelled booking with an
  income, and an income for every booking paid outside the gateway. The slots: no two
  bookings that hold their slots overlap. Both are relations between the tables before and
  after, so the rules of \<open>table_order\<close> carry them through the transactions.
\<close>

subsection \<open>The books\<close>

definition rows_of :: "ledger_source \<Rightarrow> dbs \<Rightarrow> ledger_row list" where
  "rows_of s d = filter (\<lambda>r. lg_source r = s \<and> lg_booking r \<noteq> None) (ledger d)"

definition booked_in :: "ledger_source \<Rightarrow> dbs \<Rightarrow> string option set" where
  "booked_in s d = lg_booking ` set (rows_of s d)"

definition ledger_entry :: "dbs \<Rightarrow> ledger_type \<Rightarrow> (booking \<Rightarrow> bool) \<Rightarrow> ledger_row \<Rightarrow> bool" where
  "ledger_entry d t p r \<longleftrightarrow> lg_type r = t
     \<and> (\<exists>b \<in> set (bookings d). lg_booking r = Some (bk_id b) \<and> lg_amount r = bk_total_price b \<and> p b)"

definition paid_in_legacy_flow :: "dbs \<Rightarrow> booking \<Rightarrow> bool" where
  "paid_in_legacy_flow d b \<longleftrightarrow> (bk_status b = PAID \<or> bk_status b = COMPLETED) \<and> attempts_of d (bk_id b) = []"

text \<open>\<open>books_except X\<close> leaves the incomes of the bookings in \<open>X\<close> open.\<close>

definition books_except :: "string set \<Rightarrow> dbs \<Rightarrow> bool" where
  "books_except X d \<longleftrightarrow>
     distinct (map bk_id (bookings d)) \<and> (\<forall>b \<in> set (bookings d). joined d b)
     \<and> distinct (map lg_booking (rows_of BOOKING d)) \<and> distinct (map lg_booking (rows_of REFUND d))
     \<and> (\<forall>r \<in> set (rows_of BOOKING d). ledger_entry d INCOME (\<lambda>b. True) r)
     \<and> (\<forall>r \<in> set (rows_of REFUND d). ledger_entry d EXPENSE (\<lambda>b. bk_status b = CANCELLED) r)
     \<and> booked_in REFUND d \<subseteq> booked_in BOOKING d
     \<and> (\<forall>b \<in> set (bookings d). paid_in_legacy_flow d b \<and> bk_id b \<notin> X \<longrightarrow>
          Some (bk_id b) \<in> booked_in BOOKING d)"

definition books_balanced :: "dbs \<Rightarrow> bool" where
  "books_balanced d \<longleftrightarrow> books_except {} d"

lemmas books_defs = books_balanced_def books_except_def

lemma books_refunds:
  "books_balanced d \<Longrightarrow> \<forall>r \<in> set (rows_of REFUND d). ledger_entry d EXPENSE (\<lambda>b. bk_status b = CANCELLED) r"
  by (simp add: books_defs)

lemma books_paid:
  "books_balanced d \<Longrightarrow> b \<in> set (bookings d) \<Longrightarrow> paid_in_legacy_flow d b \<Longrightarrow> Some (bk_id b) \<in> booked_in BOOKING d"
  by (simp add: books_defs)

definition books_kept :: "dbs \<Rightarrow> dbs \<Rightarrow> bool" where
  "books_kept d d' \<longleftrightarrow> (books_balanced d \<longrightarrow> books_balanced d')"

text \<open>Adding a row to the ledger.\<close>

lemma rows_of_append:
  "rows_of s (d\<lparr>ledger := ledger d @ [r]\<rparr>)
     = rows_of s d @ (if lg_source r = s \<and> lg_booking r \<noteq> None then [r] else [])"
  by (simp add: rows_of_def)

lemma ledger_entry_ledger [simp]: "ledger_entry (d\<lparr>ledger := l\<rparr>) t p r = ledger_entry d t p r"
  by (simp add: ledger_entry_def)

lemma joined_ledger [simp]: "joined (d\<lparr>ledger := l\<rparr>) b = joined d b"
  by (simp add: joined_def court_join_def)

text \<open>Tables the books do not depend on.\<close>

lemma books_same:
  assumes "bookings d' = bookings d" "ledger d' = ledger d" "courts d' = courts d" "venues d' = venues d"
    "owner_profiles d' = owner_profiles d" "\<And>i. attempts_of d' i = [] \<longleftrightarrow> attempts_of d i = []"
  shows "books_kept d d'"
  using assms by (simp add: books_kept_def books_defs rows_of_def booked_in_def joined_def
      court_join_def ledger_entry_def paid_in_legacy_flow_def)

text \<open>A change of status: never out of \<open>CANCELLED\<close>, and into \<open>PAID\<close> or \<open>COMPLETED\<close> only with an income.\<close>

definition same_booking :: "booking \<Rightarrow> booking \<Rightarrow> bool" where
  "same_booking b b' \<longleftrightarrow> bk_id b' = bk_id b \<and> bk_court b' = bk_court b \<and> bk_date b' = bk_date b
     \<and> bk_start b' = bk_start b \<and> bk_end b' = bk_end b \<and> bk_total_price b' = bk_total_price b
     \<and> bk_expires_at b' = bk_expires_at b"

lemma same_booking_status: "same_booking b (set_status s now b)"
  by (simp add: same_booking_def set_status_def)

lemma joined_same: "same_booking b b' \<Longrightarrow> joined (d\<lparr>bookings := x\<rparr>) b' = joined d b"
  by (simp add: joined_def court_join_def same_booking_def)

lemma books_update:
  assumes inv: "books_balanced d" and same: "\<And>b. p b \<Longrightarrow> same_booking b (f b)"
    and live: "\<And>b. p b \<Longrightarrow> bk_status b \<noteq> CANCELLED"
    and paid: "\<And>b. b \<in> set (bookings d) \<Longrightarrow> p b \<Longrightarrow> bk_id b \<notin> X \<Longrightarrow> paid_in_legacy_flow d (f b)
      \<Longrightarrow> Some (bk_id b) \<in> booked_in BOOKING d"
  shows "books_except X (d\<lparr>bookings := sql_update p f (bookings d)\<rparr>)"
proof -
  define g where "g = (\<lambda>b. if p b then f b else b)"
  let ?d = "d\<lparr>bookings := sql_update p f (bookings d)\<rparr>"
  have g: "same_booking b (g b)" for b using same by (simp add: same_booking_def g_def)
  then have ids: "bk_id (g b) = bk_id b" "bk_total_price (g b) = bk_total_price b" for b
    by (simp_all add: same_booking_def)
  have bs: "bookings ?d = map g (bookings d)" by (simp add: sql_update_def g_def)
  have rows: "rows_of s ?d = rows_of s d" "booked_in s ?d = booked_in s d" for s
    by (simp_all add: rows_of_def booked_in_def)
  have "map bk_id (bookings ?d) = map bk_id (bookings d)" unfolding bs by (simp add: ids)
  moreover have "\<forall>b \<in> set (bookings ?d). joined ?d b"
    unfolding bs using inv joined_same [OF g] by (simp add: books_defs)
  moreover have entry: "ledger_entry ?d t q' r"
    if "ledger_entry d t q r" "\<And>b. q b \<Longrightarrow> q' (g b)" for t q q' r
    using that unfolding ledger_entry_def bs by (auto simp: ids)
  moreover have "\<forall>r \<in> set (rows_of BOOKING d). ledger_entry ?d INCOME (\<lambda>b. True) r"
    using inv entry [of INCOME "\<lambda>b. True" _ "\<lambda>b. True"] by (simp add: books_defs)
  moreover have "\<forall>r \<in> set (rows_of REFUND d). ledger_entry ?d EXPENSE (\<lambda>b. bk_status b = CANCELLED) r"
  proof -
    have kept: "bk_status (g b) = CANCELLED" if "bk_status b = CANCELLED" for b
      using that live by (auto simp: g_def)
    show ?thesis
      using books_refunds [OF inv] kept
        entry [of EXPENSE "\<lambda>b. bk_status b = CANCELLED" _ "\<lambda>b. bk_status b = CANCELLED"] by simp
  qed
  moreover have "\<forall>b \<in> set (bookings ?d). paid_in_legacy_flow ?d b \<and> bk_id b \<notin> X \<longrightarrow>
      Some (bk_id b) \<in> booked_in BOOKING d"
  proof -
    have "Some (bk_id b) \<in> booked_in BOOKING d"
      if "b \<in> set (bookings d)" "paid_in_legacy_flow d (g b)" "bk_id b \<notin> X" for b
      using that inv paid by (cases "p b") (auto simp: books_defs g_def)
    then show ?thesis unfolding bs by (auto simp: ids paid_in_legacy_flow_def attempts_of_def)
  qed
  ultimately show ?thesis using inv by (simp add: books_defs rows)
qed

lemma books_append:
  assumes inv: "books_balanced d" and new: "new_booking now d d' b"
  shows "books_balanced d'"
proof -
  have b: "joined d b" and tables: "courts d' = courts d" "venues d' = venues d"
    "owner_profiles d' = owner_profiles d" "attempts d' = attempts d"
    using new by (simp_all add: new_booking_def reserved_def same_other_tables_def)
  have bs: "bookings d' = bookings d @ [b]" "bk_id b \<notin> bk_id ` set (bookings d)"
    using new by (simp_all add: new_booking_def reserved_def)
  have entry: "ledger_entry d t q r \<Longrightarrow> ledger_entry d' t q r" for t q r
    by (auto simp: ledger_entry_def bs)
  have join: "joined d' x = joined d x" for x by (simp add: joined_def court_join_def tables)
  have no_refund: "Some (bk_id b) \<notin> booked_in s d" if "s = BOOKING \<or> s = REFUND" for s
    using inv bs(2) that by (auto simp: booked_in_def books_defs ledger_entry_def image_iff)
  consider (pending) "bk_status b = PENDING_PAYMENT" "ledger d' = ledger d"
    | (counter) r where "ledger d' = ledger d @ [r]" "lg_booking r = Some (bk_id b)" "lg_type r = INCOME"
        "lg_source r = BOOKING" "lg_amount r = bk_total_price b"
    using new by (auto simp: new_booking_def counter_income_def)
  then show ?thesis
  proof cases
    case pending
    then have "rows_of s d' = rows_of s d" "booked_in s d' = booked_in s d" for s
      by (simp_all add: rows_of_def booked_in_def)
    then show ?thesis
      using inv entry pending b join bs tables
      by (auto simp: books_defs paid_in_legacy_flow_def attempts_of_def)
  next
    case counter
    have rows: "rows_of BOOKING d' = rows_of BOOKING d @ [r]" "rows_of REFUND d' = rows_of REFUND d"
      "booked_in BOOKING d' = insert (Some (bk_id b)) (booked_in BOOKING d)" "booked_in REFUND d' = booked_in REFUND d"
      using counter by (simp_all add: rows_of_def booked_in_def)
    have "ledger_entry d' INCOME (\<lambda>b. True) r" using counter by (auto simp: ledger_entry_def bs)
    moreover have "Some (bk_id b) \<notin> lg_booking ` set (rows_of BOOKING d)"
      using no_refund [of BOOKING] by (simp add: booked_in_def)
    ultimately show ?thesis
      using inv entry counter b join bs tables
      by (auto simp: books_defs rows paid_in_legacy_flow_def attempts_of_def)
  qed
qed

subsection \<open>Operations that keep the books\<close>

lemma update_booking_Inr:
  assumes "update_booking E p f w = (Inr b', w')"
  shows "(\<forall>b \<in> set (bookings (db w)). p (tx_now w) b \<longrightarrow>
        guard_sandbox_booking_payment_isolation (db w) b (bk_status (f (tx_now w) b)) = None)
    \<and> (\<exists>b \<in> set (bookings (db w)). p (tx_now w) b \<and> b' = f (tx_now w) b)
    \<and> db w' = (db w)\<lparr>bookings := sql_update (p (tx_now w)) (f (tx_now w)) (bookings (db w))\<rparr>
    \<and> base w' = base w \<and> tx_now w' = tx_now w"
proof -
  obtain rs v where up: "db_call E EDatabase (\<lambda>now. booking_update (p now) (f now)) w = (Inr rs, v)"
    and one: "one_row rs v = (Inr b', w')"
    using assms by (auto simp: update_booking_def andthen_Inr)
  from one have "rs \<noteq> [] \<and> b' = hd rs \<and> w' = v" by (cases rs) (auto simp: one_row_def)
  moreover from this have "b' \<in> set rs" by simp
  moreover have "rs = sql_returning (p (tx_now w)) (f (tx_now w)) (bookings (db w))"
    using up by (auto simp: db_call_Inr booking_update_Inr)
  ultimately have "\<exists>b \<in> set (bookings (db w)). p (tx_now w) b \<and> b' = f (tx_now w) b"
    by (auto simp: sql_returning_def)
  then show ?thesis
    using up \<open>rs \<noteq> [] \<and> b' = hd rs \<and> w' = v\<close> by (auto simp: db_call_Inr booking_update_Inr)
qed

lemma keeps_update_booking: "keeps_base (update_booking E p f)" "keeps_now (update_booking E p f)"
  unfolding update_booking_def one_row_def list.case_eq_if
  by (intro keeps_base_intros keeps_now_intros)+

text \<open>Paying outside the gateway: the status and the income together.\<close>

lemma booking_join_Some:
  assumes "distinct (map bk_id (bookings d))" "b \<in> set (bookings d)" "joined d b"
  shows "\<exists>v op. booking_join d (bk_id b) = Some (b, v, op)"
  using assms query_row_unique [of bk_id "bookings d" b "bk_id b"]
  by (auto simp: booking_join_def joined_def)

lemma books_income:
  assumes inv: "books_except {i} d" and join: "booking_join d i = Some (b, v, op)"
    and led: "ledger_insert True (income_row actor (b, v, op)) d = (Inr u, d')"
  shows "books_balanced d'"
proof -
  define r where "r = income_row actor (b, v, op)"
  have b: "b \<in> set (bookings d)" "bk_id b = i"
    using join by (auto simp: booking_join_def split: option.splits dest!: query_row_Some)
  have r: "lg_booking r = Some i" "lg_type r = INCOME" "lg_source r = BOOKING" "lg_amount r = bk_total_price b"
    using b by (simp_all add: r_def income_row_def)
  have entry: "ledger_entry d INCOME (\<lambda>b. True) r"
    using r b by (auto simp: ledger_entry_def)
  have booked: "Some i \<in> booked_in BOOKING d
      \<longleftrightarrow> (\<exists>x \<in> set (ledger d). lg_source x = BOOKING \<and> lg_booking x = Some i)"
    by (auto simp: booked_in_def rows_of_def image_iff)
  have "d' = d\<lparr>ledger := ledger d @ [r]\<rparr> \<and> Some i \<notin> booked_in BOOKING d \<or> d' = d \<and> Some i \<in> booked_in BOOKING d"
    using ledger_insert_Inr [OF led [folded r_def]] r(1,3) unfolding booked by simp blast
  then consider
    (new) "d' = d\<lparr>ledger := ledger d @ [r]\<rparr>" "Some i \<notin> booked_in BOOKING d"
    | (old) "d' = d" "Some i \<in> booked_in BOOKING d"
    by blast
  then show ?thesis
  proof cases
    case new
    have rows: "rows_of BOOKING d' = rows_of BOOKING d @ [r]" "rows_of REFUND d' = rows_of REFUND d"
      "booked_in BOOKING d' = insert (Some i) (booked_in BOOKING d)" "booked_in REFUND d' = booked_in REFUND d"
      using r by (simp_all add: new rows_of_append booked_in_def)
    have "Some i \<notin> lg_booking ` set (rows_of BOOKING d)" using new(2) by (simp add: booked_in_def)
    then show ?thesis
      using inv entry r b unfolding books_defs rows
      by (auto simp: new paid_in_legacy_flow_def attempts_of_def)
  next
    case old
    then show ?thesis using inv b by (auto simp: books_defs)
  qed
qed

lemma pay_outside_gateway:
  assumes up: "update_booking E (\<lambda>now b. bk_id b = i \<and> bk_status b = s) (set_status PAID) w = (Inr b', v)"
    and inc: "record_income E actor i v = (Inr u, w')" and s: "s \<noteq> CANCELLED"
  shows "books_kept (db w) (db w') \<and> base w' = base w"
proof -
  note v = update_booking_Inr [OF up]
  obtain b where b: "b \<in> set (bookings (db w))" "bk_id b = i" "b' = set_status PAID (tx_now w) b" using v by auto
  have "books_balanced (db w')" if inv: "books_balanced (db w)"
  proof -
    have open_books: "books_except {i} (db v)"
    proof -
      have "books_except {i} ((db w)\<lparr>bookings := sql_update (\<lambda>b. bk_id b = i \<and> bk_status b = s)
          (set_status PAID (tx_now w)) (bookings (db w))\<rparr>)"
        by (rule books_update [OF inv]) (simp_all add: same_booking_status s)
      then show ?thesis using v by simp
    qed
    have "map bk_id (bookings (db v)) = map bk_id (bookings (db w))"
      using v by (simp add: map_sql_update set_status_def)
    then have "i \<in> bk_id ` set (bookings (db v))" using b(1,2) by (metis imageI image_set)
    then obtain x where x: "x \<in> set (bookings (db v))" "bk_id x = i" by blast
    moreover have "distinct (map bk_id (bookings (db v)))" "joined (db v) x"
      using open_books x(1) by (simp_all add: books_except_def)
    ultimately obtain vn op where join: "booking_join (db v) i = Some (x, vn, op)"
      using booking_join_Some by metis
    have "\<exists>u. ledger_insert True (income_row actor (x, vn, op)) (db v) = (Inr u, db w')"
      using inc by (auto simp: record_income_def db_call_Inr join)
    then show ?thesis using books_income [OF open_books join] by blast
  qed
  moreover have "base w' = base v" using inc by (auto simp: record_income_def db_call_Inr)
  ultimately show ?thesis using v by (simp add: books_kept_def)
qed


text \<open>A refund: the status and the expense together. The update selects the booking by its id, with or
  without a look at the status.\<close>

definition refund_entry :: "booking \<Rightarrow> ledger_row \<Rightarrow> bool" where
  "refund_entry b r \<longleftrightarrow> lg_booking r = Some (bk_id b) \<and> lg_type r = EXPENSE \<and> lg_source r = REFUND
     \<and> lg_amount r = bk_total_price b"

lemma cancel_one:
  assumes "distinct (map bk_id (bookings d))" "b \<in> set (bookings d)" "p b" "\<And>x. p x \<Longrightarrow> bk_id x = bk_id b"
  shows "sql_update p f (bookings d) = sql_update (\<lambda>x. x = b) f (bookings d)"
proof -
  have "p x \<longleftrightarrow> x = b" if "x \<in> set (bookings d)" for x
  proof
    assume "p x"
    then have "bk_id x = bk_id b" by (rule assms(4))
    then show "x = b" using assms(1,2) that inj_onD [of bk_id "set (bookings d)" x b] by (simp add: distinct_map)
  qed (simp add: assms(3))
  then show ?thesis unfolding sql_update_def by (intro map_cong) simp_all
qed

lemma refund_keeps_books:
  assumes b: "b \<in> set (bookings d)" "bk_status b = PAID" and p: "p b" "\<And>x. p x \<Longrightarrow> bk_id x = bk_id b"
    and r: "refund_entry b r" and income: "ledger_has BOOKING INCOME (bk_id b) d"
    and led: "ledger_insert False r (d\<lparr>bookings := sql_update p (set_status CANCELLED now) (bookings d)\<rparr>) = (Inr u, d')"
  shows "books_kept d d'"
  unfolding books_kept_def
proof
  assume inv: "books_balanced d"
  define v where "v = d\<lparr>bookings := sql_update (\<lambda>x. x = b) (set_status CANCELLED now) (bookings d)\<rparr>"
  have "sql_update p (set_status CANCELLED now) (bookings d) = sql_update (\<lambda>x. x = b) (set_status CANCELLED now) (bookings d)"
  proof (rule cancel_one [of d b p])
    show "distinct (map bk_id (bookings d))" using inv by (simp add: books_defs)
  qed (rule b(1), rule p(1), rule p(2))
  with led have led: "ledger_insert False r v = (Inr u, d')" by (simp add: v_def)
  have mid: "books_balanced v"
  proof -
    have "books_except {} v" unfolding v_def
      by (rule books_update [OF inv], simp add: same_booking_status, use b(2) in simp)
         (simp add: paid_in_legacy_flow_def set_status_def)
    then show ?thesis by (simp add: books_balanced_def)
  qed
  note r = r [unfolded refund_entry_def]
  have d': "d' = v\<lparr>ledger := ledger v @ [r]\<rparr>" and new: "Some (bk_id b) \<notin> booked_in REFUND v"
    using ledger_insert_Inr [OF led] r by (auto simp: booked_in_def rows_of_def)
  have b': "set_status CANCELLED now b \<in> set (bookings v)"
    using b(1) by (auto simp: v_def sql_update_def image_iff intro!: bexI [of _ b])
  have entry: "ledger_entry v EXPENSE (\<lambda>b. bk_status b = CANCELLED) r"
    using r b' unfolding ledger_entry_def by (auto simp: set_status_def intro!: bexI [OF _ b'])
  have inc: "Some (bk_id b) \<in> booked_in BOOKING v"
    using income by (force simp: v_def ledger_has_def sql_exists_iff booked_in_def rows_of_def image_iff)
  have rows: "rows_of REFUND d' = rows_of REFUND v @ [r]" "rows_of BOOKING d' = rows_of BOOKING v"
    "booked_in REFUND d' = insert (Some (bk_id b)) (booked_in REFUND v)" "booked_in BOOKING d' = booked_in BOOKING v"
    using r by (simp_all add: d' rows_of_append booked_in_def)
  have "Some (bk_id b) \<notin> lg_booking ` set (rows_of REFUND v)" using new by (simp add: booked_in_def)
  then show "books_balanced d'"
    using mid entry inc r unfolding books_defs rows
    by (auto simp: d' paid_in_legacy_flow_def attempts_of_def)
qed

subsection \<open>The slots\<close>

text \<open>At time \<open>t\<close> no two bookings that hold their slots have a minute of a court in common.\<close>

definition shares_minute :: "booking \<Rightarrow> booking \<Rightarrow> bool" where
  "shares_minute a b \<longleftrightarrow> bk_court a = bk_court b \<and> bk_date a = bk_date b
     \<and> (\<exists>m. bk_start a \<le> m \<and> m < bk_end a \<and> bk_start b \<le> m \<and> m < bk_end b)"

lemma shares_minute_overlaps: "shares_minute a b \<Longrightarrow> overlaps (bk_court a) (bk_date a) (bk_start a) (bk_end a) b"
  by (auto simp: shares_minute_def overlaps_def)

lemma slot_free_unshared: "slot_free now d b \<Longrightarrow> x \<in> set (bookings d) \<Longrightarrow> holds_slot now x \<Longrightarrow> \<not> shares_minute b x"
  using shares_minute_overlaps [of b x] by (auto simp: slot_free_def)

definition clash :: "time \<Rightarrow> booking \<Rightarrow> booking \<Rightarrow> bool" where
  "clash t a b \<longleftrightarrow> holds_slot t a \<and> holds_slot t b \<and> shares_minute a b"

definition clash_free :: "time \<Rightarrow> dbs \<Rightarrow> bool" where
  "clash_free t d \<longleftrightarrow> pairwise (\<lambda>a b. \<not> clash t a b) (set (bookings d))"

definition clash_kept :: "time \<Rightarrow> dbs \<Rightarrow> dbs \<Rightarrow> bool" where
  "clash_kept t d d' \<longleftrightarrow> (distinct (map bk_id (bookings d)) \<and> clash_free t d
     \<longrightarrow> distinct (map bk_id (bookings d')) \<and> clash_free t d')"

lemma holds_slot_later: "holds_slot t b \<Longrightarrow> now \<le> t \<Longrightarrow> holds_slot now b"
  by (auto simp: holds_slot_def split: option.splits)

lemma clash_sym: "clash t a b \<Longrightarrow> clash t b a"
  by (auto simp: clash_def shares_minute_def)

lemma clash_update:
  assumes free: "distinct (map bk_id (bookings d))" "clash_free t d" and same: "\<And>b. p b \<Longrightarrow> same_booking b (f b)"
    and holds: "\<And>b. p b \<Longrightarrow> holds_slot t (f b) \<Longrightarrow> holds_slot t b"
  shows "distinct (map bk_id (sql_update p f (bookings d)))
    \<and> clash_free t (d\<lparr>bookings := sql_update p f (bookings d)\<rparr>)"
proof -
  define g where "g = (\<lambda>b. if p b then f b else b)"
  have g: "same_booking b (g b)" "holds_slot t (g b) \<Longrightarrow> holds_slot t b" for b
    using same holds by (cases "p b"; simp add: g_def same_booking_def)+
  have bs: "sql_update p f (bookings d) = map g (bookings d)" by (simp add: sql_update_def g_def)
  have fields: "bk_id (g b) = bk_id b" "bk_court (g b) = bk_court b" "bk_date (g b) = bk_date b"
    "bk_start (g b) = bk_start b" "bk_end (g b) = bk_end b" for b
    using g(1) [of b] by (simp_all add: same_booking_def)
  then have ids: "map bk_id (map g (bookings d)) = map bk_id (bookings d)" by simp
  have "clash t (g a) (g b) \<Longrightarrow> clash t a b" for a b
    unfolding clash_def shares_minute_def fields using g(2) by blast
  then have "\<not> clash t (g a) (g b)" if "a \<in> set (bookings d)" "b \<in> set (bookings d)" "g a \<noteq> g b" for a b
    using free(2) that pairwiseD [of "\<lambda>a b. \<not> clash t a b" "set (bookings d)" a b]
    unfolding clash_free_def by metis
  then have "pairwise (\<lambda>a b. \<not> clash t a b) (g ` set (bookings d))"
    by (simp add: pairwise_image pairwise_def)
  then show ?thesis using free(1) unfolding bs ids by (simp add: clash_free_def)
qed

lemma clash_new:
  assumes "new_booking now d d' b" and "now \<le> t"
  shows "clash_kept t d d'"
  unfolding clash_kept_def
proof
  assume inv: "distinct (map bk_id (bookings d)) \<and> clash_free t d"
  have bs: "bookings d' = bookings d @ [b]" "bk_id b \<notin> bk_id ` set (bookings d)" "slot_free now d b"
    using assms(1) by (simp_all add: new_booking_def reserved_def)
  have "\<not> clash t b x" if "x \<in> set (bookings d)" for x
    using slot_free_unshared [OF bs(3) that] holds_slot_later [OF _ assms(2)] by (auto simp: clash_def)
  moreover from this have "\<not> clash t x b" if "x \<in> set (bookings d)" for x
    using that clash_sym by blast
  ultimately show "distinct (map bk_id (bookings d')) \<and> clash_free t d'"
    using inv by (auto simp: bs clash_free_def pairwise_insert)
qed

end
