(* ===== verification/BookingGuarantees.thy ===== *)
theory BookingGuarantees
  imports BookingSafety
begin

text \<open>
  The interface between the invariants and the operations: a relation on the tables that
  the single steps of the bookings package respect is respected by every operation of the
  service, whatever fails and whatever other sessions that respect it do. The books and the
  slots are two instances; the slots exclude the two operations that take an unpaid
  booking out of its expiry.
\<close>

text \<open>A change of status that never gives a slot back to an expired booking.\<close>

definition tame_move :: "booking \<Rightarrow> booking \<Rightarrow> bool" where
  "tame_move b b' \<longleftrightarrow> same_booking b b' \<and> bk_status b \<noteq> CANCELLED
     \<and> (bk_status b' = PAID \<or> bk_status b' = COMPLETED \<longrightarrow> bk_status b = PAID)
     \<and> (bk_status b = PENDING_PAYMENT \<longrightarrow> bk_status b' = CANCELLED)"

lemma tame_holds: "tame_move b b' \<Longrightarrow> holds_slot t b' \<Longrightarrow> holds_slot t b"
  by (cases "bk_status b") (auto simp: tame_move_def same_booking_def holds_slot_def)

lemma tame_paid:
  assumes "tame_move b b'" and paid: "paid_in_legacy_flow d b'"
  shows "paid_in_legacy_flow d b"
proof -
  have "bk_id b' = bk_id b" using assms(1) unfolding tame_move_def same_booking_def by blast
  moreover have "bk_status b = PAID"
    using assms unfolding tame_move_def paid_in_legacy_flow_def by blast
  ultimately show ?thesis using paid by (simp add: paid_in_legacy_flow_def)
qed

lemma tame_same: "tame_move b b' \<Longrightarrow> same_booking b b' \<and> bk_status b \<noteq> CANCELLED"
  unfolding tame_move_def by blast

lemma attempts_of_empty: "attempts_of d i = [] \<longleftrightarrow> i \<notin> set (map pa_booking_id (attempts d))"
  by (auto simp: attempts_of_def filter_empty_conv)

lemma attempts_of_update:
  assumes "\<And>x. pa_booking_id (f x) = pa_booking_id x"
  shows "attempts_of (d\<lparr>attempts := sql_update p f (attempts d)\<rparr>) i = [] \<longleftrightarrow> attempts_of d i = []"
  using map_sql_update [of pa_booking_id f p "attempts d"] assms by (simp add: attempts_of_empty del: set_map)

text \<open>After the lock, creating a booking waits for nobody.\<close>

lemma keeps_base_reads: "reads m \<Longrightarrow> keeps_base m"
  by (simp add: reads_def keeps_base_def)

lemma keeps_base_orchestrator:
  "(\<And>p. keeps_base (ins p)) \<Longrightarrow> keeps_base (CreateBookingWithSnapshot E req ins)"
  unfolding CreateBookingWithSnapshot_def InsertSnapshot_def Let_def
  by (intro keeps_base_intros keeps_base_reads [OF reads_term])

lemma keeps_base_create:
  "keeps_base (FindOperatingHours E c dw)" "keeps_base (apply_promo E info pc price date)"
  "keeps_base (check_free E court date s e)"
  "keeps_base (price_online E sv c req date s e nowTz info price ch)"
  "keeps_base (price_offline E ow req' date s e info)"
  unfolding check_free_def CheckBlockedSlots_def CheckExistingBookings_def price_online_def price_offline_def
    InsertBooking_def InsertOfflineBookingTx_def Let_def prod.case_eq_if
  by (rule keeps_base_reads [OF reads_hours], rule keeps_base_reads [OF reads_apply_promo])
     (intro keeps_base_intros keeps_base_orchestrator)+

locale booking_relation = table_order R for R :: "dbs \<Rightarrow> dbs \<Rightarrow> bool" +
  fixes timely :: "time \<Rightarrow> bool"
  assumes R_other: "bookings d' = bookings d \<Longrightarrow> ledger d' = ledger d \<Longrightarrow> courts d' = courts d
      \<Longrightarrow> venues d' = venues d \<Longrightarrow> owner_profiles d' = owner_profiles d
      \<Longrightarrow> (\<And>i. attempts_of d' i = [] \<longleftrightarrow> attempts_of d i = []) \<Longrightarrow> R d d'"
    and R_move: "(\<And>b. p b \<Longrightarrow> tame_move b (f b)) \<Longrightarrow> R d (d\<lparr>bookings := sql_update p f (bookings d)\<rparr>)"
    and R_new: "timely now \<Longrightarrow> new_booking now d d' b \<Longrightarrow> R d d'"
    and R_pay: "update_booking E (\<lambda>now b. bk_id b = i \<and> bk_status b = s) (set_status PAID) w = (Inr b', v)
      \<Longrightarrow> record_income E actor i v = (Inr u, w') \<Longrightarrow> s = WAITING_VERIFICATION \<or> s = CONFIRMED
      \<Longrightarrow> R (db w) (db w')"
    and R_refund: "b \<in> set (bookings d) \<Longrightarrow> bk_status b = PAID \<Longrightarrow> p b \<Longrightarrow> (\<And>x. p x \<Longrightarrow> bk_id x = bk_id b)
      \<Longrightarrow> refund_entry b r \<Longrightarrow> ledger_has BOOKING INCOME (bk_id b) d
      \<Longrightarrow> ledger_insert False r (d\<lparr>bookings := sql_update p (set_status CANCELLED now) (bookings d)\<rparr>) = (Inr u, d')
      \<Longrightarrow> R d d'"
begin

lemma commits_move:
  assumes "\<And>now b. p now b \<Longrightarrow> tame_move b (f now b)"
  shows "commits R (update_booking E p f)"
proof (rule guar_commits)
  show "guar R (update_booking E p f)"
    unfolding update_booking_def one_row_def list.case_eq_if
    by (intro guar_intros guar_db_call)
       (auto simp: booking_update_def R_refl split: list.split intro!: R_move assms)
qed

text \<open>Cancelling the undispatched attempts leaves the bookings alone.\<close>

lemma guar_cancel_attempt: "guar R (cancel_attempt E actor role a)"
proof -
  have up: "R d (snd (update_attempt i p f d))" if "\<And>x. pa_booking_id (f x) = pa_booking_id x" for i p f d
    by (auto simp: update_attempt_def R_refl attempts_of_update [OF that] split: option.split intro!: R_other)
  have ins: "R d (snd (insert_cancellation x d))" for x d
    by (auto simp: insert_cancellation_def R_refl attempts_of_def intro!: R_other)
  have "R d (snd (update_attempt (pa_id a) (\<lambda>x. pa_state x = AttemptCreated) (withdraw_attempt now) d))" for now d
    by (rule up) (simp add: withdraw_attempt_def)
  then show ?thesis
    unfolding cancel_attempt_def audit_record_def
    by (intro guar_intros guar_db_call guar_exec ins) (auto intro!: R_other simp: attempts_of_def)
qed

lemma guar_cancel_attempts: "guar R (cancelUndispatchedPaymentAttemptsTx E as actor role)"
  by (induction as) (auto intro: guar_ret guar_andthen guar_cancel_attempt)


lemma commits_guar:
  "env_guar R E \<Longrightarrow> commits R (LockBooking E i)" "commits R (lockUndispatchedPaymentAttemptsTx E i)"
  "commits R (cancelUndispatchedPaymentAttemptsTx E as actor role)" "commits R (query E flt q)"
  "commits R (deref e v)" "env_guar R E \<Longrightarrow> commits R (lock_wait E flt)"
  by (auto simp: LockBooking_def lockUndispatchedPaymentAttemptsTx_def
      intro!: guar_commits guar_lock_wait guar_query guar_cancel_attempts guar_deref)

lemma commits_cancelPending_body:
  assumes "env_guar R E"
  shows "commits R (andthen (LockBooking E i) (\<lambda>_. andthen (lockUndispatchedPaymentAttemptsTx E i) (\<lambda>as.
     andthen (cancelUndispatchedPaymentAttemptsTx E as actor role) (\<lambda>_.
     update_booking E (cancellable i c ex) (set_status CANCELLED)))))"
proof -
  have "commits R (update_booking E (cancellable i c ex) (set_status CANCELLED))"
    by (rule commits_move) (auto simp: tame_move_def cancellable_def same_booking_def set_status_def)
  then show ?thesis by (intro commits_andthen commits_guar assms)
qed

lemma top_cancelPending: "env_guar R E \<Longrightarrow> top_guar R (cancelPending E i c actor role ex)"
  unfolding cancelPending_def by (intro top_in_tx_commits commits_cancelPending_body)

lemma top_map_err: "top_guar R m \<Longrightarrow> top_guar R (map_err g m)"
  unfolding map_err_def by (intro top_attempt top_fail top_ret)

lemma top_cancel_each: "env_guar R E \<Longrightarrow> top_guar R (cancel_each E bs s)"
  by (induction bs arbitrary: s) (auto intro: top_ret top_attempt top_cancelPending)

lemma top_find_own: "env_guar R E \<Longrightarrow> top_guar R (find_own E i c)"
  unfolding find_own_def FindByIDAndCustomerID_def by (intro top_map_err top_intros)

lemma top_guarded_update:
  assumes "env_guar R E" and "top_guar R m"
  shows "top_guar R (guarded_update E f x i c m)"
  unfolding guarded_update_def option.case_eq_if using assms
  by (intro top_intros top_find_own)

lemma top_authorize: "env_guar R E \<Longrightarrow> top_guar R (authorize E ow i)"
  unfolding authorize_def GetBookingOwnerProfileAndVenueID_def prod.case_eq_if
  by (intro top_map_err top_intros)

subsection \<open>Payment outside the gateway, completion and refund\<close>

lemma commits_pay:
  assumes "s = WAITING_VERIFICATION \<or> s = CONFIRMED"
  shows "commits R (andthen (map_err g (update_booking E (\<lambda>now b. bk_id b = i \<and> bk_status b = s) (set_status PAID)))
      (\<lambda>b. andthen (map_err h (record_income E actor i)) (\<lambda>_. ret b)))"
    (is "commits R ?m")
proof (rule commitsI)
  have keep: "keeps_base ?m"
    unfolding record_income_def by (intro keeps_base_intros keeps_update_booking)
  show "R (base w) (base w')" if "?m w = (r, w')" for w r w'
  proof -
    have "base (snd (?m w)) = base w" using keep unfolding keeps_base_def by (rule spec)
    then show ?thesis unfolding that by (simp add: R_refl)
  qed
  show "R (db w) (db w')" if "?m w = (Inr x, w')" for w x w'
  proof -
    from that obtain v u where
      "update_booking E (\<lambda>now b. bk_id b = i \<and> bk_status b = s) (set_status PAID) w = (Inr x, v)"
      "record_income E actor i v = (Inr u, w')"
      by (auto simp: andthen_Inr map_err_Inr)
    then show ?thesis by (rule R_pay [OF _ _ assms])
  qed
qed

lemma top_VerifyPayment: "env_guar R E \<Longrightarrow> top_guar R (VerifyPayment E actor i ok)"
proof (cases ok)
  case True
  then show "env_guar R E \<Longrightarrow> top_guar R (VerifyPayment E actor i ok)"
    unfolding VerifyPayment_def by (simp, intro top_in_tx_commits commits_pay) simp
next
  case False
  have "commits R (update_booking E (\<lambda>now b. bk_id b = i \<and> bk_status b = WAITING_VERIFICATION)
      (set_status PENDING_PAYMENT))"
    by (rule commits_move) (auto simp: tame_move_def same_booking_def set_status_def)
  with False show "env_guar R E \<Longrightarrow> top_guar R (VerifyPayment E actor i ok)"
    unfolding VerifyPayment_def by (simp, intro top_in_tx_commits commits_andthen commits_map_err commits_ret)
qed

lemma top_MarkBookingPaid: "env_guar R E \<Longrightarrow> top_guar R (MarkBookingPaid E actor i)"
  unfolding MarkBookingPaid_def by (intro top_in_tx_commits commits_pay) simp_all

lemma top_CompleteBooking: "env_guar R E \<Longrightarrow> top_guar R (CompleteBooking E i)"
  unfolding CompleteBooking_def
  by (intro top_in_tx_commits commits_move) (auto simp: tame_move_def same_booking_def set_status_def)

lemma top_AutoComplete: "env_guar R E \<Longrightarrow> top_guar R (AutoCompleteFinishedBookings E)"
  unfolding AutoCompleteFinishedBookings_def
  by (intro top_in_tx guar_db_call)
     (auto simp: booking_update_def R_refl tame_move_def same_booking_def set_status_def
       split: list.split intro!: R_move)

lemma commits_at_refund:
  assumes income: "ledger_has BOOKING INCOME i (db w)"
  shows "commits_at R w (andthen (update_booking E (\<lambda>now b. bk_id b = i \<and> bk_status b = PAID) (set_status CANCELLED))
      (\<lambda>b'. andthen (db_call E EDatabase (\<lambda>now. ledger_insert False
          (refund_row ow venue actor i reason (bk_total_price b')))) (\<lambda>_. ret b')))"
proof (rule commits_at_local, intro keeps_base_intros keeps_update_booking)
  fix b' w' assume "andthen (update_booking E (\<lambda>now b. bk_id b = i \<and> bk_status b = PAID) (set_status CANCELLED))
      (\<lambda>b'. andthen (db_call E EDatabase (\<lambda>now. ledger_insert False
          (refund_row ow venue actor i reason (bk_total_price b')))) (\<lambda>_. ret b')) w = (Inr b', w')"
  then obtain v u where up: "update_booking E (\<lambda>now b. bk_id b = i \<and> bk_status b = PAID) (set_status CANCELLED) w = (Inr b', v)"
    and led: "ledger_insert False (refund_row ow venue actor i reason (bk_total_price b')) (db v) = (Inr u, db w')"
    by (auto simp: andthen_Inr db_call_Inr)
  obtain b where b: "b \<in> set (bookings (db w))" "bk_id b = i" "bk_status b = PAID" "b' = set_status CANCELLED (tx_now w) b"
    and v: "db v = (db w)\<lparr>bookings := sql_update (\<lambda>b. bk_id b = i \<and> bk_status b = PAID) (set_status CANCELLED (tx_now w))
      (bookings (db w))\<rparr>"
    using update_booking_Inr [OF up] by blast
  show "R (db w) (db w')"
    by (rule R_refund [OF b(1,3) _ _ _ _ led [unfolded v]])
       (use b income in \<open>simp_all add: refund_entry_def refund_row_def set_status_def\<close>)
qed

lemma commits_refund_body:
  "commits R (andthen (query E EDatabase (\<lambda>now d. ledger_has BOOKING INCOME i d)) (\<lambda>hasIncome.
     if \<not> hasIncome then fail e1
     else andthen (query E EDatabase (\<lambda>now d. ledger_has REFUND EXPENSE i d)) (\<lambda>hasRefund.
     if hasRefund then fail e2
     else andthen (update_booking E (\<lambda>now b. bk_id b = i \<and> bk_status b = PAID) (set_status CANCELLED)) (\<lambda>b'.
     andthen (db_call E EDatabase (\<lambda>now. ledger_insert False
         (refund_row ow venue actor i reason (bk_total_price b')))) (\<lambda>_. ret b')))))"
  unfolding commits_iff_at
proof
  fix w
  show "commits_at R w (andthen (query E EDatabase (\<lambda>now d. ledger_has BOOKING INCOME i d)) (\<lambda>hasIncome.
     if \<not> hasIncome then fail e1
     else andthen (query E EDatabase (\<lambda>now d. ledger_has REFUND EXPENSE i d)) (\<lambda>hasRefund.
     if hasRefund then fail e2
     else andthen (update_booking E (\<lambda>now b. bk_id b = i \<and> bk_status b = PAID) (set_status CANCELLED)) (\<lambda>b'.
     andthen (db_call E EDatabase (\<lambda>now. ledger_insert False
         (refund_row ow venue actor i reason (bk_total_price b')))) (\<lambda>_. ret b')))))"
    by (rule commits_at_andthen [OF commits_at_query], rule commits_at_if, rule commits_at_stop,
        rule commits_at_andthen [OF commits_at_query], rule commits_at_if, rule commits_at_stop,
        rule commits_at_refund) (simp add: query_Inr)
qed

lemma commits_refund:
  assumes "env_guar R E"
  shows "commits R (andthen (lock_wait E EDatabase) (\<lambda>_.
     andthen (query E EDatabase q) (\<lambda>found. andthen (deref ENoRows found) (\<lambda>y.
     if p1 y then fail e1 else if p2 y then fail e2
     else andthen (query E EDatabase (\<lambda>now d. ledger_has BOOKING INCOME i d)) (\<lambda>hasIncome.
     if \<not> hasIncome then fail e3
     else andthen (query E EDatabase (\<lambda>now d. ledger_has REFUND EXPENSE i d)) (\<lambda>hasRefund.
     if hasRefund then fail e4
     else andthen (update_booking E (\<lambda>now b. bk_id b = i \<and> bk_status b = PAID) (set_status CANCELLED)) (\<lambda>b'.
     andthen (db_call E EDatabase (\<lambda>now. ledger_insert False
         (refund_row ow (vn y) actor i reason (bk_total_price b')))) (\<lambda>_. ret b'))))))))"
  by (rule commits_andthen [OF commits_guar(6) [OF assms]], rule commits_andthen [OF commits_guar(4)],
      rule commits_andthen [OF commits_guar(5)], intro commits_if commits_fail commits_refund_body)

lemma top_refund: "env_guar R E \<Longrightarrow> top_guar R (CancelPaidBookingWithRefund E ow actor i reason)"
  unfolding CancelPaidBookingWithRefund_def prod.case_eq_if
  by (intro top_in_tx_commits commits_refund)

subsection \<open>New bookings\<close>

lemma guar_lock_court:
  "env_guar R E \<Longrightarrow> guar R (LockCourtValidationInfo E c)"
  "env_guar R E \<Longrightarrow> guar R (LockOwnerCourtValidationInfo E c v ow)"
  unfolding LockCourtValidationInfo_def LockOwnerCourtValidationInfo_def
  by (intro guar_andthen guar_lock_wait guar_query guar_deref guar_ret; assumption)+

text \<open>From the lock to the commit: the lock waits for other sessions, the rest does not wait,
  and a success has added one booking to the tables the lock has shown.\<close>

lemma commits_at_new:
  assumes E: "env_guar R E" and now: "timely (tx_now w)"
    and lock: "\<And>x v. l w = (x, v) \<Longrightarrow> R (base w) (base v)" and rest: "\<And>x. keeps_base (k x)"
    and new: "\<And>b w'. andthen l k w = (Inr b, w')
      \<Longrightarrow> new_booking (tx_now w) (interfere E (steps w) (db w)) (db w') b"
  shows "commits_at R w (andthen l k)"
proof (rule commits_atI)
  fix r w' assume run: "andthen l k w = (r, w')"
  obtain x v where l: "l w = (x, v)" by (cases "l w")
  have "base w' = base v"
  proof (cases x)
    case Inl
    then show ?thesis using run l by (auto simp: andthen_def attempt_def)
  next
    case (Inr y)
    then have "k y v = (r, w')" using run l by (auto simp: andthen_def attempt_def)
    then show ?thesis using rest [of y] by (auto simp: keeps_base_def dest: spec [of _ v])
  qed
  then show "R (base w) (base w')" using lock [OF l] by simp
next
  fix b w' assume "andthen l k w = (Inr b, w')"
  then have "R (interfere E (steps w) (db w)) (db w')" by (rule R_new [OF now new])
  moreover have "R (db w) (interfere E (steps w) (db w))" using E by (simp add: env_guar_def)
  ultimately show "R (db w) (db w')" using R_trans by blast
qed

lemma commits_at_create_online:
  assumes "env_guar R E" and "timely (tx_now w)"
  shows "commits_at R w (create_online E sv c req date s e nowTz)"
  unfolding create_online_def
proof (rule commits_at_new [OF assms])
  show "R (base w) (base v)"
    if "LockCourtValidationInfo E (cr_court_id req) w = (x, v)" for x v
    using guar_db [OF guar_lock_court(1) [OF assms(1)] that] by simp
qed (unfold Let_def, intro keeps_base_intros keeps_base_create,
     use create_online_new [unfolded create_online_def Let_def] in blast)

lemma commits_at_create_offline:
  assumes "env_guar R E" and "timely (tx_now w)"
  shows "commits_at R w (create_offline E ow req date s e)"
  unfolding create_offline_def
proof (rule commits_at_new [OF assms])
  show "R (base w) (base v)"
    if "LockOwnerCourtValidationInfo E (or_court_id req) (or_venue_id req) (ow_owner_profile_id ow) w = (x, v)" for x v
    using guar_db [OF guar_lock_court(2) [OF assms(1)] that] by simp
qed (intro keeps_base_intros keeps_base_create,
     use create_offline_new [unfolded create_offline_def] in blast)

lemma top_CreateBooking:
  assumes E: "env_guar R E" and now: "\<And>n. timely (clock E n)"
  shows "top_guar R (CreateBooking E sv c req)"
  unfolding CreateBooking_def parse_time_def
  by (intro top_if top_andthen top_fail top_deref top_read_clock top_in_tx_at commits_at_create_online E)
     (auto simp: now)

lemma top_OwnerCreateOfflineBooking:
  assumes E: "env_guar R E" and now: "\<And>n. timely (clock E n)"
  shows "top_guar R (OwnerCreateOfflineBooking E sv ow req)"
  unfolding OwnerCreateOfflineBooking_def parse_time_def FindVenueByIDAndOwnerProfileID_def
  by (intro top_if top_andthen top_fail top_deref top_map_err top_pool_query top_in_tx_at
      commits_at_create_offline E) (auto simp: now)

subsection \<open>The service\<close>

lemma top_service:
  assumes E: "env_guar R E"
  shows "top_guar R (CancelBooking E c i)" "top_guar R (SweepExpiredBookings E)"
    "top_guar R (SweepCompletedBookings E)" "top_guar R (SweepPaymentExpiringSoonNotifications E)"
    "top_guar R (OwnerVerifyPayment E ow i ok)" "top_guar R (OwnerMarkBookingPaid E ow i)"
    "top_guar R (OwnerCompleteBooking E ow i)" "top_guar R (OwnerCancelPaidBookingWithRefund E ow i reason)"
  unfolding CancelBooking_def CancelPendingByIDAndCustomerID_def SweepExpiredBookings_def
    CancelExpiredPendingBookings_def SweepCompletedBookings_def SweepPaymentExpiringSoonNotifications_def
    GetBookingsExpiringSoon_def OwnerVerifyPayment_def OwnerMarkBookingPaid_def OwnerCompleteBooking_def
    OwnerCancelPaidBookingWithRefund_def
  by (intro top_guarded_update top_cancelPending top_andthen top_pool_query top_cancel_each
      top_AutoComplete top_ret top_read_clock top_authorize top_map_err top_VerifyPayment
      top_MarkBookingPaid top_CompleteBooking top_refund E)+

end

subsection \<open>The two instances\<close>

interpretation books: booking_relation books_kept "\<lambda>_. True"
proof unfold_locales
  show "books_kept d d" for d by (simp add: books_kept_def)
next
  show "books_kept d1 d2 \<Longrightarrow> books_kept d2 d3 \<Longrightarrow> books_kept d1 d3" for d1 d2 d3 by (simp add: books_kept_def)
next
  show "books_kept d d'"
    if "bookings d' = bookings d" "ledger d' = ledger d" "courts d' = courts d" "venues d' = venues d"
      "owner_profiles d' = owner_profiles d" "\<And>i. attempts_of d' i = [] \<longleftrightarrow> attempts_of d i = []" for d d'
    by (rule books_same [OF that])
next
  show "books_kept d (d\<lparr>bookings := sql_update p f (bookings d)\<rparr>)" if "\<And>b. p b \<Longrightarrow> tame_move b (f b)" for p f d
    unfolding books_kept_def books_balanced_def
  proof
    assume "books_except {} d"
    then have inv: "books_balanced d" by (simp add: books_balanced_def)
    show "books_except {} (d\<lparr>bookings := sql_update p f (bookings d)\<rparr>)"
    proof (rule books_update [OF inv])
      fix b assume b: "b \<in> set (bookings d)" "p b" "paid_in_legacy_flow d (f b)"
      have "paid_in_legacy_flow d b" by (rule tame_paid [OF that [OF b(2)] b(3)])
      then show "Some (bk_id b) \<in> booked_in BOOKING d" by (rule books_paid [OF inv b(1)])
    next
      show "same_booking b (f b)" if "p b" for b
        using tame_same [OF \<open>\<And>b. p b \<Longrightarrow> tame_move b (f b)\<close>, OF that] by (rule conjunct1)
      show "bk_status b \<noteq> CANCELLED" if "p b" for b
        using tame_same [OF \<open>\<And>b. p b \<Longrightarrow> tame_move b (f b)\<close>, OF that] by (rule conjunct2)
    qed
  qed
next
  show "books_kept d d'" if "new_booking now d d' b" for now d d' b
    using books_append [OF _ that] by (simp add: books_kept_def)
next
  show "books_kept (db w) (db w')"
    if "update_booking E (\<lambda>now b. bk_id b = i \<and> bk_status b = s) (set_status PAID) w = (Inr b', v)"
      "record_income E actor i v = (Inr u, w')" "s = WAITING_VERIFICATION \<or> s = CONFIRMED" for E i s w b' v actor u w'
    using pay_outside_gateway [OF that(1,2)] that(3) by auto
next
  show "books_kept d d'"
    if "b \<in> set (bookings d)" "bk_status b = PAID" "p b" "\<And>x. p x \<Longrightarrow> bk_id x = bk_id b" "refund_entry b r"
      "ledger_has BOOKING INCOME (bk_id b) d"
      "ledger_insert False r (d\<lparr>bookings := sql_update p (set_status CANCELLED now) (bookings d)\<rparr>) = (Inr u, d')"
    for b d p r now u d'
    by (rule refund_keeps_books [OF that])
qed

lemma ledger_insert_bookings: "ledger_insert skip r d = (Inr u, d') \<Longrightarrow> bookings d' = bookings d"
  by (auto dest: ledger_insert_Inr)

lemma record_income_bookings: "record_income E actor i w = (Inr u, w') \<Longrightarrow> bookings (db w') = bookings (db w)"
  by (auto simp: record_income_def db_call_Inr split: option.splits dest: ledger_insert_bookings)

lemma slots_status:
  assumes "update_booking E (\<lambda>now b. bk_id b = i \<and> bk_status b = s) (set_status s') w = (Inr b', v)"
    and "s \<in> {WAITING_VERIFICATION, CONFIRMED, PAID}"
  shows "clash_kept t (db w) (db v)"
proof -
  have "clash_kept t (db w) ((db w)\<lparr>bookings := sql_update (\<lambda>b. bk_id b = i \<and> bk_status b = s)
      (set_status s' (tx_now w)) (bookings (db w))\<rparr>)"
    unfolding clash_kept_def using assms(2)
    by (auto intro!: clash_update [THEN conjunct1] clash_update [THEN conjunct2] simp: same_booking_status holds_slot_def)
  then show ?thesis using update_booking_Inr [OF assms(1)] by simp
qed

interpretation slots: booking_relation "clash_kept t" "\<lambda>now. now \<le> t" for t
proof unfold_locales
  show "clash_kept t d d" for d by (simp add: clash_kept_def)
next
  show "clash_kept t d1 d2 \<Longrightarrow> clash_kept t d2 d3 \<Longrightarrow> clash_kept t d1 d3" for d1 d2 d3 by (simp add: clash_kept_def)
next
  show "clash_kept t d d'" if "bookings d' = bookings d" for d d'
    using that by (simp add: clash_kept_def clash_free_def)
next
  show move: "clash_kept t d (d\<lparr>bookings := sql_update p f (bookings d)\<rparr>)" if "\<And>b. p b \<Longrightarrow> tame_move b (f b)" for p f d
    using clash_update [of d t p f] tame_holds [OF that] that by (auto simp: clash_kept_def tame_move_def)
next
  show "clash_kept t d d'" if "now \<le> t" "new_booking now d d' b" for now d d' b
    using clash_new that by blast
next
  show "clash_kept t (db w) (db w')"
    if "update_booking E (\<lambda>now b. bk_id b = i \<and> bk_status b = s) (set_status PAID) w = (Inr b', v)"
      "record_income E actor i v = (Inr u, w')" "s = WAITING_VERIFICATION \<or> s = CONFIRMED" for E i s w b' v actor u w'
    using slots_status [OF that(1)] that(3) record_income_bookings [OF that(2)]
    by (auto simp: clash_kept_def clash_free_def)
next
  show "clash_kept t d d'"
    if "ledger_insert False r (d\<lparr>bookings := sql_update p (set_status CANCELLED now) (bookings d)\<rparr>) = (Inr u, d')"
    for d p r now u d'
  proof -
    have "bookings d' = sql_update p (set_status CANCELLED now) (bookings d)"
      using ledger_insert_bookings [OF that] by simp
    moreover have "\<not> holds_slot t (set_status CANCELLED now b)" for b by (simp add: holds_slot_def set_status_def)
    ultimately show ?thesis
      using clash_update [of d t p "set_status CANCELLED now"] same_booking_status
      by (simp add: clash_kept_def clash_free_def)
  qed
qed

end
