(* ===== verification/BookingScenario.thy ===== *)
theory BookingScenario
  imports BookingGuarantees Scenario
begin

text \<open>
  A concrete court with its venue, opening hours and commercial term, and a customer who books
  an hour on it. The witnesses of the booking properties run the model on it.
\<close>

definition open_court :: court where
  "open_court = \<lparr>ct_id = uid CHR ''6'', ct_venue_id = uid CHR ''7'', ct_price_per_hour = 150000,
     ct_status = ''ACTIVE''\<rparr>"

definition open_venue :: venue where
  "open_venue = \<lparr>vn_id = uid CHR ''7'', vn_owner_profile_id = uid CHR ''8'', vn_status = ''ACTIVE''\<rparr>"

definition open_owner :: owner_profile where
  "open_owner = \<lparr>op_id = uid CHR ''8'', op_user_id = uid CHR ''9''\<rparr>"

definition open_term :: commercial_term where
  "open_term = \<lparr>tm_id = uid CHR ''0'', tm_owner_profile_id = None, tm_phase = ''STANDARD'',
     tm_finance_mode = ''SIMULATION'', tm_collection_method = ''NONE'', tm_commission_bps = 500,
     tm_valid_from = 0, tm_valid_until = None\<rparr>"

definition open_hours :: operating_hour where
  "open_hours = \<lparr>oh_court = uid CHR ''6'', oh_day = 2, oh_open = Some 480, oh_close = Some 1320,
     oh_closed = False\<rparr>"

definition open_db :: dbs where
  "open_db = sample_db\<lparr>bookings := [], attempts := [], contracts := [], courts := [open_court],
     venues := [open_venue], owner_profiles := [open_owner], commercial_terms := [open_term],
     operating_hours := [open_hours]\<rparr>"

definition open_service :: booking_service where
  "open_service = \<lparr>sv_ttl_minutes = 15, sv_orchestrator = True\<rparr>"

definition open_request :: booking_request where
  "open_request = \<lparr>cr_court_id = uid CHR ''6'', cr_booking_date = ''0001-01-02'',
     cr_start_time = ''10:00'', cr_end_time = ''11:00'', cr_promo_code = None\<rparr>"

lemmas open_defs = open_court_def open_venue_def open_owner_def open_term_def open_hours_def
  open_service_def open_request_def

lemma open_db_simps [scenario]:
  "bookings open_db = []" "attempts open_db = []" "courts open_db = [open_court]"
  "venues open_db = [open_venue]" "owner_profiles open_db = [open_owner]"
  "commercial_terms open_db = [open_term]" "operating_hours open_db = [open_hours]"
  "blocked_slots open_db = []" "snapshots open_db = []" "ledger open_db = []"
  by (simp_all add: open_db_def sample_db_def)

lemma open_parse:
  "parse_date ''0001-01-02'' = Some 1" "parse_clock ''10:00'' = Some 600" "parse_clock ''11:00'' = Some 660"
  by code_simp+

lemma open_price:
  "exactFloat64ToRupiah (slot_price (validation_info_of (open_court, v, op)) 600 660) = Inr 150000"
  using price_exact_iff [of 60 150000 150000]
  by (simp add: slot_price_def bookingPrice_def open_court_def maxLegacyBookingRupiah_def)

lemma open_numeric: "to_numeric (float_of_i64 150000) = Inr 150000" "to_numeric (float_of_i64 0) = Inr 0"
  using to_numeric_i64 [of 150000] to_numeric_i64 [of 0] by (simp_all add: maxLegacyBookingRupiah_def)

lemma open_fees:
  "CalculateBookingFees \<lparr>OriginalPriceRupiah = 150000, OwnerPriceAdjustmentRupiah = 0, PriceAdjustmentReason = [],
      CommissionBps = 500, BookingChannel = BookingChannelMarketplaceOnline, CustomerServiceFeeRupiah = 0\<rparr>
   = Inr \<lparr>FinalBookingPriceRupiah = 150000, CustomerChargeAmountRupiah = 150000,
      CommissionBasisAmountRupiah = 150000, ResultCommissionBps = 500, CommissionAmountRupiah = 7500,
      OwnerNetAmountRupiah = 142500\<rparr>"
  by code_simp


lemma open_term_resolved:
  "commercial_terms (db w) = [open_term] \<Longrightarrow> 0 < t \<Longrightarrow>
    ResolveEffectiveTerm quiet_env (uid CHR ''8'') t w = (Inr open_term, w\<lparr>steps := Suc (steps w)\<rparr>)"
  by (simp add: ResolveEffectiveTerm_def scenario hex_class_def less_eq_char_def tx_defs term_in_force_def
      open_term_def pick_term_def term_valid_def is_zero_def)

lemma open_validation:
  "LockCourtValidationInfo quiet_env (uid CHR ''6'') w =
     (Inr (validation_info_of (open_court, open_venue, open_owner)), w\<lparr>steps := Suc (Suc (steps w))\<rparr>)"
  if "db w = open_db"
  using that
  by (simp add: LockCourtValidationInfo_def tx_defs scenario court_join_def query_row_def open_court_def
      open_venue_def open_owner_def)

lemma open_request_simps [scenario]:
  "cr_court_id open_request = uid CHR ''6''" "cr_booking_date open_request = ''0001-01-02''"
  "cr_start_time open_request = ''10:00''" "cr_end_time open_request = ''11:00''"
  "cr_promo_code open_request = None" "sv_orchestrator open_service" "sv_ttl_minutes open_service = 15"
  by (simp_all add: open_request_def open_service_def)

lemma open_snapshot:
  assumes "snapshots (db w) = []" "hex_class (of_char c)"
  shows "\<exists>s w'. InsertSnapshot quiet_env (snapshot_params (online_request (validation_info_of
      (open_court, open_venue, open_owner)) t 150000 0 []) [] open_term
      \<lparr>FinalBookingPriceRupiah = 150000, CustomerChargeAmountRupiah = 150000,
      CommissionBasisAmountRupiah = 150000, ResultCommissionBps = 500, CommissionAmountRupiah = 7500,
      OwnerNetAmountRupiah = 142500\<rparr> (uid c)) w = (Inr s, w')"
  using assms
  by (simp add: InsertSnapshot_def tx_Inr scenario hex_class_def less_eq_char_def snapshot_params_def
      validateSnapshotParams_def online_request_def open_defs Let_def snapshot_checks_def sql_exists_def
      floor_eq_iff BookingChannelMarketplaceOnline_def BookingChannelOwnerWalkIn_def)

abbreviation open_choice :: "float64 \<Rightarrow> promo_choice" where
  "open_choice p \<equiv> \<lparr>ch_final_price = p, ch_promo_id = None, ch_promo_code = None, ch_reason = []\<rparr>"

lemma quiet_uuid_hex [scenario]: "hex_class (of_char (''abcdef'' ! (n mod 6)))"
proof -
  have "list_all (\<lambda>c. hex_class (of_char c)) ''abcdef''" by code_simp
  moreover have "n mod 6 < length ''abcdef''" by simp
  ultimately show ?thesis unfolding list_all_length by blast
qed

lemma open_insert:
  fixes w :: "dbs world" and c p ttl
  assumes "bookings (db w) = []"
  defines "q \<equiv> online_params c open_request 1 600 660 (open_choice p) ttl
    \<lparr>cp_original_price = 150000, cp_final_price = 150000\<rparr>"
  defines "b \<equiv> new_row q 150000 0 150000 150000 (uid (''abcdef'' ! (steps w mod 6))) (tx_now w)"
  shows "InsertBooking quiet_env q w = (Inr b, w\<lparr>steps := Suc (Suc (steps w)), db := (db w)\<lparr>bookings := [b]\<rparr>\<rparr>)"
proof -
  have "to_numeric (bp_original_price q) = Inr 150000" "to_numeric (bp_discount_amount q) = Inr 0"
    "to_numeric (bp_final_price q) = Inr 150000" "to_numeric (bp_total_price q) = Inr 150000"
    by (simp_all add: q_def online_params_def Let_def open_numeric)
  moreover have "bk_start b < bk_end b" "bk_total_price b = 150000"
    by (simp_all add: b_def new_row_def q_def online_params_def Let_def)
  ultimately show ?thesis
    using assms(1) by (simp add: InsertBooking_def andthen_def attempt_def lift_res_def ret_def db_call_def scenario
        insert_booking_def sql_exists_def b_def Let_def)
qed

lemma open_orchestrated:
  assumes "commercial_terms (db w) = [open_term]" "0 < t" "snapshots (db w) = []" "bookings (db w) = []"
  shows "\<exists>x w'. CreateBookingWithSnapshot quiet_env (online_request (validation_info_of
      (open_court, open_venue, open_owner)) t 150000 0 [])
      (\<lambda>pricing. InsertBooking quiet_env (online_params c open_request 1 600 660 (open_choice p) ttl pricing)) w = (Inr x, w')"
proof -
  define req where "req = online_request (validation_info_of (open_court, open_venue, open_owner)) t 150000 0 []"
  define w1 where "w1 = w\<lparr>steps := Suc (steps w)\<rparr>"
  have req: "rq_owner_profile_id req = uid CHR ''8''" "rq_effective_at req = t"
    "rq_channel req = BookingChannelMarketplaceOnline" "trim_space (rq_reason req) = []"
    "rq_original_price req = 150000"
    by (simp_all add: req_def online_request_def open_owner_def)
  have fees: "calc_params req [] open_term = \<lparr>OriginalPriceRupiah = 150000, OwnerPriceAdjustmentRupiah = 0,
      PriceAdjustmentReason = [], CommissionBps = 500, BookingChannel = BookingChannelMarketplaceOnline,
      CustomerServiceFeeRupiah = 0\<rparr>"
    by (simp add: calc_params_def req_def online_request_def open_term_def)
  obtain b w2 x where ins: "InsertBooking quiet_env (online_params c open_request 1 600 660 (open_choice p) ttl
       \<lparr>cp_original_price = 150000, cp_final_price = 150000\<rparr>) w1 = (Inr b, w2)"
    and w2: "snapshots (db w2) = []" "bk_id b = uid x" "hex_class (of_char x)"
    using assms open_insert [of w1 c p ttl] quiet_uuid_hex [of "steps w1"] by (force simp: w1_def new_row_def)
  have tid: "tm_id open_term \<noteq> []" by (simp add: open_term_def scenario)
  show ?thesis
    using assms open_term_resolved [of w t] ins w2 open_snapshot [of w2 x t]
    unfolding req_def [symmetric]
    by (simp add: CreateBookingWithSnapshot_def andthen_Inr is_zero_def req fees open_fees lift_res_Inr
        tid w1_def [symmetric])
qed

lemma open_day [scenario]: "weekday 1 = 2" "within_hours open_hours 600 660"
  by (simp_all add: weekday_def within_hours_def open_hours_def)

lemma open_hours_found:
  "db w = open_db \<Longrightarrow> FindOperatingHours quiet_env (uid CHR ''6'') 2 w
     = (Inr open_hours, w\<lparr>steps := Suc (steps w)\<rparr>)"
  by (simp add: FindOperatingHours_def tx_defs scenario query_row_def open_hours_def)

lemma open_check:
  "db w = open_db \<Longrightarrow> check_free quiet_env (uid CHR ''6'') 1 600 660 w = (Inr (), w\<lparr>steps := Suc (Suc (steps w))\<rparr>)"
  by (simp add: check_free_def CheckBlockedSlots_def CheckExistingBookings_def tx_defs scenario)

lemma open_priced:
  assumes "db w = open_db"
  defines "info \<equiv> validation_info_of (open_court, open_venue, open_owner)"
  shows "\<exists>b w'. price_online quiet_env open_service c open_request 1 600 660 nowTz info (slot_price info 600 660)
     (open_choice (slot_price info 600 660)) w = (Inr b, w')"
proof -
  have t: "0 < clock quiet_env (steps w)" by (simp add: scenario)
  have "\<exists>x w'. CreateBookingWithSnapshot quiet_env (online_request info (clock quiet_env (steps w)) 150000 0 [])
      (\<lambda>pricing. InsertBooking quiet_env (online_params c open_request 1 600 660 (open_choice (slot_price info 600 660))
        (nowTz + 15 * minute) pricing)) (w\<lparr>steps := Suc (steps w)\<rparr>) = (Inr x, w')"
    unfolding info_def by (rule open_orchestrated) (use t assms(1) in \<open>simp_all add: scenario\<close>)
  then obtain b s w' where "CreateBookingWithSnapshot quiet_env (online_request info (clock quiet_env (steps w)) 150000 0 [])
      (\<lambda>pricing. InsertBooking quiet_env (online_params c open_request 1 600 660 (open_choice (slot_price info 600 660))
        (nowTz + 15 * minute) pricing)) (w\<lparr>steps := Suc (steps w)\<rparr>) = (Inr (b, s), w')"
    by (metis prod.exhaust)
  moreover have "exactFloat64ToRupiah (slot_price info 600 660) = Inr 150000" unfolding info_def by (rule open_price)
  ultimately show ?thesis
    by (simp add: price_online_def andthen_Inr lift_res_Inr open_request_simps)
qed

lemma open_create:
  assumes "db w = open_db"
  shows "\<exists>b w'. create_online quiet_env open_service c open_request 1 600 660 nowTz w = (Inr b, w')"
  using assms open_priced [of "w\<lparr>steps := Suc (Suc (Suc (Suc (Suc (steps w)))))\<rparr>"]
  by (simp add: create_online_def andthen_Inr open_validation lift_res_Inr open_hours_found scenario apply_promo_def
      open_check check_open_def open_court_def open_venue_def Let_def)

lemma open_run:
  "\<exists>b w'. CreateBooking quiet_env open_service c open_request (start_world open_db) = (Inr b, w')"
  using open_create [of "\<lparr>db = open_db, base = open_db, steps = Suc (Suc 0), tx_now = 1001 * second\<rparr>" c]
  by (simp add: CreateBooking_def andthen_Inr deref_Inr in_tx_Inr scenario
      open_parse parse_time_def jakarta_date_def del: parse_clock.simps)

end
