(* ===== verification/Refunds.thy ===== *)
theory Refunds
  imports BookingGuarantees
begin

text \<open>
  \<^verbatim>\<open>internal/refunds/service.go\<close> and \<^verbatim>\<open>repository.go\<close>: a customer's request to get the money of a paid booking
  back, and the owner's answer. An approval cancels the booking and enters the refund in the owner's ledger
  in one transaction. A booking's price has at most twelve digits, which the \<^verbatim>\<open>float64\<close> it is scanned
  into carries exactly there and back, so the amount of the refund is the price. Notifications are left out.
\<close>

subsection \<open>Repository\<close>

definition FindBookingForRefundRequest :: "env \<Rightarrow> string \<Rightarrow> (booking \<times> venue \<times> owner_profile) app" where
  "FindBookingForRefundRequest E bookingID =
    andthen (pool_query E EDatabase (\<lambda>now d. booking_join d bookingID)) (deref ENoRows)"

definition pending_for :: "string \<Rightarrow> refund_request \<Rightarrow> bool" where
  "pending_for bookingID r \<longleftrightarrow> rr_booking r = bookingID \<and> rr_status r = RefundPending"

definition insert_request :: "refund_request \<Rightarrow> dbs \<Rightarrow> (app_error + refund_request) \<times> dbs" where
  "insert_request r d =
    (if sql_exists (\<lambda>x. rr_id x = rr_id r) (refund_requests d)
       then (Inl (EUnique ''booking_refund_requests_pkey''), d)
     else if rr_status r = RefundPending \<and> sql_exists (pending_for (rr_booking r)) (refund_requests d)
       then (Inl (EUnique ''idx_booking_refund_requests_one_pending_per_booking''), d)
     else (Inr r, d\<lparr>refund_requests := refund_requests d @ [r]\<rparr>))"

definition new_request :: "string \<Rightarrow> booking \<times> venue \<times> owner_profile \<Rightarrow> string \<Rightarrow> time \<Rightarrow> refund_request" where
  "new_request i x reason now = (case x of (b, v, op) \<Rightarrow>
    \<lparr>rr_id = i, rr_booking = bk_id b, rr_customer = bk_customer b, rr_owner = op_user_id op,
     rr_venue = Some (vn_id v), rr_reason = reason, rr_status = RefundPending, rr_owner_note = None,
     rr_requested_at = now, rr_reviewed_at = None, rr_reviewed_by = None, rr_updated_at = now\<rparr>)"

definition CreateRefundRequest :: "env \<Rightarrow> booking \<times> venue \<times> owner_profile \<Rightarrow> string \<Rightarrow> refund_request app" where
  "CreateRefundRequest E x reason =
    in_tx E EDatabase (andthen (fresh_uuid E) (\<lambda>i.
      db_call E EDatabase (\<lambda>now. insert_request (new_request i x reason now))))"

definition GetActiveRefundRequestByBookingID :: "env \<Rightarrow> string \<Rightarrow> refund_request option app" where
  "GetActiveRefundRequestByBookingID E bookingID =
    pool_query E EDatabase (\<lambda>now d. query_row (pending_for bookingID) (refund_requests d))"

text \<open>\<^verbatim>\<open>ORDER BY requested_at DESC LIMIT 1\<close>.\<close>

definition latest_request :: "string \<Rightarrow> dbs \<Rightarrow> refund_request option" where
  "latest_request bookingID d =
    (case rev (sort_key rr_requested_at (filter (\<lambda>r. rr_booking r = bookingID) (refund_requests d))) of
       [] \<Rightarrow> None | r # _ \<Rightarrow> Some r)"

definition GetLatestRefundRequestByBookingID :: "env \<Rightarrow> string \<Rightarrow> refund_request option app" where
  "GetLatestRefundRequestByBookingID E bookingID =
    pool_query E EDatabase (\<lambda>now. latest_request bookingID)"

definition LockRefundRequest :: "env \<Rightarrow> string \<Rightarrow> refund_request app" where
  "LockRefundRequest E i =
    andthen (lock_wait E EDatabase) (\<lambda>_.
    andthen (query E EDatabase (\<lambda>now d. query_row (\<lambda>r. rr_id r = i) (refund_requests d))) (deref ENoRows))"

definition LockRefundBooking :: "env \<Rightarrow> string \<Rightarrow> booking app" where
  "LockRefundBooking E bookingID =
    andthen (lock_wait E EDatabase) (\<lambda>_.
    andthen (query E EDatabase (\<lambda>now d. booking_join d bookingID)) (\<lambda>r.
    andthen (deref ENoRows r) (\<lambda>(b, v, op). ret b)))"

definition UpdateBookingStatus :: "env \<Rightarrow> string \<Rightarrow> booking_status \<Rightarrow> unit app" where
  "UpdateBookingStatus E bookingID s =
    andthen (db_call E EDatabase (\<lambda>now. booking_update (\<lambda>b. bk_id b = bookingID) (set_status s now))) (\<lambda>_. ret ())"

text \<open>An absent venue is the empty text, as in the code.\<close>

definition approval_row :: "string \<Rightarrow> string \<Rightarrow> string \<Rightarrow> string \<Rightarrow> rat \<Rightarrow> string \<Rightarrow> ledger_row" where
  "approval_row ownerID venueID bookingID actor amount description =
    \<lparr>lg_owner = ownerID, lg_venue = venueID, lg_booking = Some bookingID, lg_created_by = actor,
     lg_type = EXPENSE, lg_source = REFUND, lg_amount = amount, lg_description = description\<rparr>"

definition InsertRefundLedger :: "env \<Rightarrow> string \<Rightarrow> string \<Rightarrow> string \<Rightarrow> string \<Rightarrow> rat \<Rightarrow> string \<Rightarrow> unit app" where
  "InsertRefundLedger E ownerID venueID bookingID actor amount description =
    db_call E EDatabase (\<lambda>now. ledger_insert False
      (approval_row ownerID venueID bookingID actor amount description))"

definition review :: "refund_status \<Rightarrow> string \<Rightarrow> string \<Rightarrow> time \<Rightarrow> refund_request \<Rightarrow> refund_request" where
  "review s ownerNote actor now r = r\<lparr>rr_status := s, rr_owner_note := nonempty ownerNote,
     rr_reviewed_by := Some actor, rr_reviewed_at := Some now, rr_updated_at := now\<rparr>"

definition UpdateRefundRequest :: "env \<Rightarrow> string \<Rightarrow> refund_status \<Rightarrow> string \<Rightarrow> string \<Rightarrow> unit app" where
  "UpdateRefundRequest E i s ownerNote actor =
    exec E EDatabase (\<lambda>now d. d\<lparr>refund_requests :=
      sql_update (\<lambda>r. rr_id r = i) (review s ownerNote actor now) (refund_requests d)\<rparr>)"

subsection \<open>The customer's request\<close>

text \<open>One hour before the booking starts, at the latest.\<close>

definition canRequestRefund :: "time \<Rightarrow> booking \<Rightarrow> bool" where
  "canRequestRefund now b \<longleftrightarrow> now < jakarta_instant (bk_date b) (bk_start b) - hour"

definition RequestBookingRefund :: "env \<Rightarrow> string \<Rightarrow> string \<Rightarrow> string \<Rightarrow> refund_request app" where
  "RequestBookingRefund E customerID bookingID text =
    (let reason = trim_space text in
     if length reason < 10 \<or> 1000 < length reason then fail (ERefund ErrInvalidReason)
     else andthen (FindBookingForRefundRequest E bookingID) (\<lambda>(b, v, op).
     if bk_customer b \<noteq> customerID then fail (ERefund RErrForbidden)
     else if bk_status b \<noteq> PAID then fail (ERefund ErrRefundRequestNotAllowed)
     else andthen (read_clock E) (\<lambda>now.
     if \<not> canRequestRefund now b then fail (ERefund ErrBookingRefundCutoffExceeded)
     else andthen (GetActiveRefundRequestByBookingID E bookingID) (\<lambda>pending.
     if pending \<noteq> None then fail (ERefund ErrRefundRequestAlreadyExists)
     else CreateRefundRequest E (b, v, op) reason))))"

definition GetRefundRequestByBooking :: "env \<Rightarrow> string \<Rightarrow> string \<Rightarrow> refund_request option app" where
  "GetRefundRequestByBooking E customerID bookingID =
    andthen (FindBookingForRefundRequest E bookingID) (\<lambda>(b, v, op).
    if bk_customer b \<noteq> customerID then fail (ERefund RErrForbidden)
    else GetLatestRefundRequestByBookingID E bookingID)"

subsection \<open>The owner's answer\<close>

text \<open>What approval and rejection check before they look at the booking.\<close>

definition check_review :: "owner_context \<Rightarrow> refund_request \<Rightarrow> app_error + unit" where
  "check_review ow r =
    (if rr_owner r \<noteq> ow_effective_owner_user_id ow then Inl (ERefund RErrForbidden)
     else if \<not> ow_is_owner ow
        \<and> (case rr_venue r of None \<Rightarrow> True | Some v \<Rightarrow> \<not> containsID (ow_allowed_venue_ids ow) v)
       then Inl (ERefund RErrForbidden)
     else if rr_status r \<noteq> RefundPending then Inl (ERefund ErrRefundRequestAlreadyReviewed)
     else Inr ())"

definition refund_text :: "refund_request \<Rightarrow> string \<Rightarrow> string" where
  "refund_text r ownerNote =
     ''Refund approved for booking '' @ rr_booking r @ '': ''
     @ (if ownerNote \<noteq> [] then ownerNote else rr_reason r)"

definition refund_booking :: "env \<Rightarrow> owner_context \<Rightarrow> refund_request \<Rightarrow> string \<Rightarrow> unit app" where
  "refund_booking E ow r ownerNote =
    andthen (LockRefundBooking E (rr_booking r)) (\<lambda>b.
    if bk_status b \<noteq> PAID then fail (ERefund ErrRefundRequestNotAllowed)
    else andthen (query E EDatabase (\<lambda>now d. ledger_has BOOKING INCOME (rr_booking r) d)) (\<lambda>hasIncome.
    if \<not> hasIncome then fail (ERefund RErrBookingIncomeLedgerNotFound)
    else andthen (query E EDatabase (\<lambda>now d. ledger_has REFUND EXPENSE (rr_booking r) d)) (\<lambda>hasRefund.
    if hasRefund then fail (ERefund RErrBookingRefundAlreadyExists)
    else andthen (UpdateBookingStatus E (rr_booking r) CANCELLED) (\<lambda>_.
    InsertRefundLedger E (ow_effective_owner_user_id ow)
      (case rr_venue r of None \<Rightarrow> [] | Some v \<Rightarrow> v) (rr_booking r) (ow_actor_user_id ow)
      (bk_total_price b) (refund_text r ownerNote)))))"

text \<open>The response is the request as it was read, with the answer.\<close>

definition answered :: "env \<Rightarrow> refund_status \<Rightarrow> string \<Rightarrow> string \<Rightarrow> refund_request \<Rightarrow> refund_request app" where
  "answered E s ownerNote actor r =
    andthen (read_clock E) (\<lambda>now. ret (r\<lparr>rr_status := s, rr_owner_note :=
        (if ownerNote \<noteq> [] then Some ownerNote else rr_owner_note r),
        rr_reviewed_at := Some now, rr_reviewed_by := Some actor\<rparr>))"

definition ApproveRefundRequest :: "env \<Rightarrow> owner_context \<Rightarrow> string \<Rightarrow> string \<Rightarrow> refund_request app" where
  "ApproveRefundRequest E ow requestID ownerNote =
    andthen (in_tx E EDatabase
     (andthen (map_err (\<lambda>_. ERefund ErrRefundRequestNotFound) (LockRefundRequest E requestID)) (\<lambda>r.
      andthen (lift_res (check_review ow r)) (\<lambda>_.
      andthen (refund_booking E ow r ownerNote) (\<lambda>_.
      andthen (UpdateRefundRequest E requestID RefundApproved ownerNote (ow_actor_user_id ow)) (\<lambda>_. ret r))))))
     (answered E RefundApproved ownerNote (ow_actor_user_id ow))"

definition RejectRefundRequest :: "env \<Rightarrow> owner_context \<Rightarrow> string \<Rightarrow> string \<Rightarrow> refund_request app" where
  "RejectRefundRequest E ow requestID ownerNote =
    andthen (in_tx E EDatabase
     (andthen (map_err (\<lambda>_. ERefund ErrRefundRequestNotFound) (LockRefundRequest E requestID)) (\<lambda>r.
      andthen (lift_res (check_review ow r)) (\<lambda>_.
      andthen (UpdateRefundRequest E requestID RefundRejected ownerNote (ow_actor_user_id ow)) (\<lambda>_. ret r)))))
     (answered E RefundRejected ownerNote (ow_actor_user_id ow))"

subsection \<open>Guarantees\<close>

lemma LockRefundBooking_Inr:
  assumes "LockRefundBooking E i w = (Inr b, w')"
  shows "b \<in> set (bookings (db w')) \<and> bk_id b = i"
proof -
  obtain v op where "booking_join (db w') i = Some (b, v, op)"
    using assms by (auto simp: LockRefundBooking_def andthen_Inr query_Inr deref_Inr ret_def split: prod.splits)
  then show ?thesis by (auto simp: booking_join_def split: option.splits dest!: query_row_Some)
qed

lemma keeps_base_cancel: "keeps_base (UpdateBookingStatus E i s)"
  unfolding UpdateBookingStatus_def by (intro keeps_base_intros)

context booking_relation begin

text \<open>The status and the expense, from tables in which the booking is paid and has its income.\<close>

lemma commits_at_approval:
  assumes b: "b \<in> set (bookings (db w))" "bk_id b = i" "bk_status b = PAID"
    and income: "ledger_has BOOKING INCOME i (db w)"
  shows "commits_at R w (andthen (UpdateBookingStatus E i CANCELLED)
      (\<lambda>_. InsertRefundLedger E ow venue i actor (bk_total_price b) text))"
proof (rule commits_at_local)
  show "keeps_base (andthen (UpdateBookingStatus E i CANCELLED)
      (\<lambda>_. InsertRefundLedger E ow venue i actor (bk_total_price b) text))"
    unfolding InsertRefundLedger_def by (intro keeps_base_intros keeps_base_cancel)
  fix u w' assume "andthen (UpdateBookingStatus E i CANCELLED)
      (\<lambda>_. InsertRefundLedger E ow venue i actor (bk_total_price b) text) w = (Inr u, w')"
  then obtain v where up: "UpdateBookingStatus E i CANCELLED w = (Inr (), v)"
    and led: "ledger_insert False (approval_row ow venue i actor (bk_total_price b) text) (db v) = (Inr u, db w')"
    by (auto simp: andthen_Inr InsertRefundLedger_def db_call_Inr)
  have v: "db v = (db w)\<lparr>bookings := sql_update (\<lambda>b. bk_id b = i) (set_status CANCELLED (tx_now w)) (bookings (db w))\<rparr>"
    using up by (auto simp: UpdateBookingStatus_def andthen_Inr db_call_Inr booking_update_Inr ret_def)
  show "R (db w) (db w')"
    by (rule R_refund [OF b(1,3) _ _ _ _ led [unfolded v]])
       (use b income in \<open>simp_all add: refund_entry_def approval_row_def\<close>)
qed

lemma commits_refund_booking:
  assumes "env_guar R E"
  shows "commits R (refund_booking E ow r ownerNote)"
proof -
  have "guar R (LockRefundBooking E (rr_booking r))"
    unfolding LockRefundBooking_def prod.case_eq_if
    by (intro guar_andthen guar_lock_wait guar_query guar_deref guar_ret assms)
  then have lock: "commits_at R w (LockRefundBooking E (rr_booking r))" for w by (rule commits_at_guar)
  show ?thesis
    unfolding commits_iff_at refund_booking_def
    by (intro allI commits_at_andthen [OF lock] commits_at_if commits_at_stop commits_at_andthen [OF commits_at_query]
        commits_at_approval)
       (auto simp: query_Inr dest: LockRefundBooking_Inr)
qed

lemma guar_requests:
  "guar R (UpdateRefundRequest E i s ownerNote actor)"
  "env_guar R E \<Longrightarrow> guar R (LockRefundRequest E i)"
  unfolding UpdateRefundRequest_def LockRefundRequest_def
  by (intro guar_exec R_other, simp_all add: attempts_of_def)
     (intro guar_andthen guar_lock_wait guar_query guar_deref)

lemma guar_insert_request: "guar R (db_call E flt (\<lambda>now. insert_request (f now)))"
  by (rule guar_db_call) (auto simp: insert_request_def R_refl attempts_of_def intro!: R_other)

lemma top_answered: "top_guar R (answered E s ownerNote actor r)"
  unfolding answered_def by (intro top_andthen top_read_clock top_ret)

lemma top_Approve:
  assumes E: "env_guar R E"
  shows "top_guar R (ApproveRefundRequest E ow i ownerNote)"
  unfolding ApproveRefundRequest_def
  by (intro top_andthen top_answered top_in_tx_commits commits_andthen commits_map_err commits_refund_booking
      guar_commits [OF guar_requests(1)] guar_commits [OF guar_requests(2)] guar_commits [OF guar_lift_res]
      commits_ret E)

lemma top_Reject:
  assumes E: "env_guar R E"
  shows "top_guar R (RejectRefundRequest E ow i ownerNote)"
  unfolding RejectRefundRequest_def
  by (intro top_andthen top_answered top_in_tx_commits commits_andthen commits_map_err
      guar_commits [OF guar_requests(1)] guar_commits [OF guar_requests(2)] guar_commits [OF guar_lift_res]
      commits_ret E)

lemma top_RequestBookingRefund:
  assumes E: "env_guar R E"
  shows "top_guar R (RequestBookingRefund E c i txt)"
  unfolding RequestBookingRefund_def FindBookingForRefundRequest_def GetActiveRefundRequestByBookingID_def
    CreateRefundRequest_def Let_def prod.case_eq_if
  by (intro top_if top_fail top_andthen top_pool_query top_deref top_read_clock top_in_tx guar_andthen
      guar_fresh_uuid guar_insert_request E)

end

end
