(* ===== verification/BookingProperties.thy ===== *)
theory BookingProperties
  imports BookingScenario Refunds
begin

text \<open>
  Properties of the bookings component: the price charged, what a successful booking has
  reserved, and the two invariants over the whole service. The last lemma exhibits the operation
  that the slot invariant has to leave out.
\<close>

subsection \<open>The price\<close>

text \<open>
  C33. The floating-point price is exact. For a slot within one day and an hourly price in
  whole rupiah, the price computed in \<open>float64\<close> (hours times hourly price, rounded to cents) passes the
  conversion to rupiah exactly when the exact price, minutes times hourly price over 60, is a
  whole number within the limit, and then the conversion returns that number. No slot is charged a
  rounding error.
\<close>

theorem slot_price_exact:
  assumes "0 \<le> s" "s < e" "e < 1440"
    and "ct_price_per_hour c = of_int p" "0 \<le> p" "p \<le> maxLegacyBookingRupiah"
  shows "exactFloat64ToRupiah (slot_price (validation_info_of (c, v, op)) s e) = Inr k
    \<longleftrightarrow> 60 * sint k = (e - s) * p \<and> sint k \<le> maxLegacyBookingRupiah"
  using price_exact_iff [of "e - s" p k] assms by (simp add: slot_price_def bookingPrice_def)

theorem slot_price_exact_witness:
  "exactFloat64ToRupiah (slot_price (validation_info_of (open_court, open_venue, open_owner)) 600 611) = Inr 27500
   \<and> exactFloat64ToRupiah (slot_price (validation_info_of (open_court\<lparr>ct_price_per_hour := 100000\<rparr>, open_venue, open_owner))
     600 620) \<noteq> Inr 33333"
  using slot_price_exact [of 600 611 open_court 150000 open_venue open_owner 27500]
    slot_price_exact [of 600 620 "open_court\<lparr>ct_price_per_hour := 100000\<rparr>" 100000 open_venue open_owner 33333]
  by (simp_all add: open_court_def maxLegacyBookingRupiah_def)

subsection \<open>What a booking reserves\<close>



subsection \<open>The slots\<close>

text \<open>
  C35. No double booking. Booking online and at the counter, cancellation, the owner's verification,
  payment at the venue, completion and refund, the request for a refund and its approval, and the sweeps keep the
  slots disjoint: if no two bookings that hold
  their slots at \<open>t\<close> overlap before, none do afterwards, for every \<open>t\<close> not before the readings of the clock the
  operation makes, whatever fails and whatever other sessions with the same guarantee
  commit while the operation waits for its locks. The customer's payment proof and
  confirmation are not among them: see the last lemma of this theory.
\<close>

theorem slots_stay_disjoint:
  assumes "env_guar (clash_kept t) E" and "\<And>n. clock E n \<le> t"
  shows "top_guar (clash_kept t) (CreateBooking E sv c req)
    \<and> top_guar (clash_kept t) (OwnerCreateOfflineBooking E sv ow oreq)
    \<and> top_guar (clash_kept t) (CancelBooking E c i)
    \<and> top_guar (clash_kept t) (SweepExpiredBookings E)
    \<and> top_guar (clash_kept t) (SweepCompletedBookings E)
    \<and> top_guar (clash_kept t) (OwnerVerifyPayment E ow i ok)
    \<and> top_guar (clash_kept t) (OwnerMarkBookingPaid E ow i)
    \<and> top_guar (clash_kept t) (OwnerCompleteBooking E ow i)
    \<and> top_guar (clash_kept t) (OwnerCancelPaidBookingWithRefund E ow i reason)
    \<and> top_guar (clash_kept t) (RequestBookingRefund E c i reason)
    \<and> top_guar (clash_kept t) (ApproveRefundRequest E ow i reason)
    \<and> top_guar (clash_kept t) (RejectRefundRequest E ow i reason)"
  by (intro conjI slots.top_CreateBooking slots.top_OwnerCreateOfflineBooking slots.top_service
      slots.top_RequestBookingRefund slots.top_Approve slots.top_Reject assms)

text \<open>A clock that stands still, so that its readings are bounded.\<close>

definition still_env :: env where
  "still_env = quiet_env\<lparr>clock := \<lambda>n. 1000 * second\<rparr>"

theorem slots_stay_disjoint_witness:
  "\<forall>sv c req i. top_guar (clash_kept (1000 * second)) (CreateBooking still_env sv c req)
     \<and> top_guar (clash_kept (1000 * second)) (CancelBooking still_env c i)"
proof -
  have "env_guar (clash_kept (1000 * second)) still_env"
    by (simp add: env_guar_def still_env_def scenario slots.R_refl)
  moreover have "clock still_env n \<le> 1000 * second" for n by (simp add: still_env_def)
  ultimately show ?thesis using slots_stay_disjoint by blast
qed

subsection \<open>The books\<close>

text \<open>The two operations of the legacy flow that the slots leave out do keep the books.\<close>

lemma commits_legacy:
  assumes "\<And>now b. same_booking b (f now b)"
    and "\<And>now b. bk_status (f now b) \<noteq> PAID \<and> bk_status (f now b) \<noteq> COMPLETED"
  shows "commits books_kept (update_booking E (\<lambda>now. owned_pending i c) f)"
proof (rule commitsI)
  fix w r w' assume "update_booking E (\<lambda>now. owned_pending i c) f w = (r, w')"
  then have "base w' = base w"
    using keeps_update_booking(1) [of E "\<lambda>now. owned_pending i c" f] by (auto simp: keeps_base_def dest: spec [of _ w])
  then show "books_kept (base w) (base w')" by (simp add: books.R_refl)
next
  fix w x w' assume "update_booking E (\<lambda>now. owned_pending i c) f w = (Inr x, w')"
  note w' = update_booking_Inr [OF this]
  show "books_kept (db w) (db w')"
    unfolding books_kept_def
  proof
    assume "books_balanced (db w)"
    then have "books_except {} ((db w)\<lparr>bookings := sql_update (owned_pending i c) (f (tx_now w)) (bookings (db w))\<rparr>)"
      by (rule books_update) (use assms in \<open>auto simp: owned_pending_def paid_in_legacy_flow_def\<close>)
    then show "books_balanced (db w')" using w' by (simp add: books_balanced_def)
  qed
qed

lemma top_legacy:
  assumes "env_guar books_kept E"
  shows "top_guar books_kept (SubmitPaymentProof E c i ref)" "top_guar books_kept (ConfirmBookingPayment E c i)"
proof -
  have "top_guar books_kept (UpdatePaymentReference E i c ref)"
    unfolding UpdatePaymentReference_def
    by (intro books.top_map_err books.top_in_tx_commits commits_legacy assms)
       (simp_all add: same_booking_def set_status_def)
  then show "top_guar books_kept (SubmitPaymentProof E c i ref)"
    unfolding SubmitPaymentProof_def by (rule books.top_map_err)
  have "top_guar books_kept (ConfirmPendingByIDAndCustomerID E i c)"
    unfolding ConfirmPendingByIDAndCustomerID_def
    by (intro books.top_map_err books.top_in_tx_commits commits_legacy assms)
       (simp_all add: same_booking_def set_status_def)
  then show "top_guar books_kept (ConfirmBookingPayment E c i)"
    unfolding ConfirmBookingPayment_def by (rule books.top_guarded_update [OF assms])
qed

text \<open>
  C36. The books balance. Every operation of the booking service and of the refund service, under any failures
  and any other sessions with the same guarantee, keeps these facts: booking ids are unique and every
  booking has its court, venue and owner; the owner's ledger has at most one income and at most one refund per
  booking, each for exactly its price; a refund belongs to a cancelled booking with an
  income; and every booking paid or completed outside the gateway has its income.
\<close>

theorem books_stay_balanced:
  assumes "env_guar books_kept E"
  shows "top_guar books_kept (CreateBooking E sv c req)
    \<and> top_guar books_kept (OwnerCreateOfflineBooking E sv ow oreq)
    \<and> top_guar books_kept (SubmitPaymentProof E c i ref)
    \<and> top_guar books_kept (ConfirmBookingPayment E c i)
    \<and> top_guar books_kept (CancelBooking E c i)
    \<and> top_guar books_kept (SweepExpiredBookings E)
    \<and> top_guar books_kept (SweepCompletedBookings E)
    \<and> top_guar books_kept (OwnerVerifyPayment E ow i ok)
    \<and> top_guar books_kept (OwnerMarkBookingPaid E ow i)
    \<and> top_guar books_kept (OwnerCompleteBooking E ow i)
    \<and> top_guar books_kept (OwnerCancelPaidBookingWithRefund E ow i reason)
    \<and> top_guar books_kept (RequestBookingRefund E c i reason)
    \<and> top_guar books_kept (ApproveRefundRequest E ow i reason)
    \<and> top_guar books_kept (RejectRefundRequest E ow i reason)"
  by (intro conjI books.top_CreateBooking books.top_OwnerCreateOfflineBooking books.top_service top_legacy
      books.top_RequestBookingRefund books.top_Approve books.top_Reject assms TrueI)

theorem books_stay_balanced_witness:
  "books_balanced open_db \<and> (\<forall>sv c req ow i ok note. top_guar books_kept (CreateBooking quiet_env sv c req)
     \<and> top_guar books_kept (OwnerVerifyPayment quiet_env ow i ok)
     \<and> top_guar books_kept (ApproveRefundRequest quiet_env ow i note))"
proof -
  have "env_guar books_kept quiet_env" by (simp add: env_guar_def scenario books.R_refl)
  moreover have "books_balanced open_db" by (simp add: books_defs rows_of_def booked_in_def scenario)
  ultimately show ?thesis using books_stay_balanced by blast
qed

subsection \<open>An expired booking comes back\<close>

text \<open>
  Neither the payment proof nor the confirmation looks at \<open>expires_at\<close>. Until the sweep has run, a
  customer can revive an expired unpaid booking whose slot has meanwhile been booked by somebody
  else: both bookings then hold the slot.
\<close>

definition expired_booking :: booking where
  "expired_booking = sample_booking\<lparr>bk_id := uid CHR ''a'', bk_expires_at := Some (500 * second)\<rparr>"

definition rebooked_db :: dbs where
  "rebooked_db = open_db\<lparr>bookings := [expired_booking, sample_booking]\<rparr>"

text \<open>The tables after the revival, whatever its status \<open>f\<close> writes.\<close>

lemma rebooked_update:
  assumes "w = \<lparr>db = rebooked_db, base = rebooked_db, steps = n, tx_now = now\<rparr>"
    and "bk_status (f now expired_booking) \<in> {CONFIRMED, WAITING_VERIFICATION}"
  shows "update_booking quiet_env (\<lambda>now. owned_pending (uid CHR ''a'') (uid CHR ''5'')) f w
    = (Inr (f now expired_booking), w\<lparr>steps := Suc n, db := rebooked_db\<lparr>bookings := [f now expired_booking, sample_booking]\<rparr>\<rparr>)"
proof -
  have "attempts rebooked_db = []" "bookings rebooked_db = [expired_booking, sample_booking]"
    by (simp_all add: rebooked_db_def scenario)
  moreover have "owned_pending (uid CHR ''a'') (uid CHR ''5'') expired_booking"
    "\<not> owned_pending (uid CHR ''a'') (uid CHR ''5'') sample_booking" "bk_status expired_booking = PENDING_PAYMENT"
    by (simp_all add: owned_pending_def expired_booking_def sample_booking_def scenario)
  ultimately show ?thesis
    using assms
    by (auto simp: update_booking_def andthen_def attempt_def db_call_def scenario booking_update_def one_row_def ret_def
        guard_sandbox_booking_payment_isolation_def attempts_of_def sql_returning_def sql_update_def map_filter_simps)
qed

lemma rebooked_clash:
  assumes "same_booking expired_booking b" "bk_status b \<in> {CONFIRMED, WAITING_VERIFICATION}"
  shows "\<not> clash_free (1002 * second) (rebooked_db\<lparr>bookings := [b, sample_booking]\<rparr>)"
proof -
  have "clash (1002 * second) b sample_booking" "bk_id b \<noteq> bk_id sample_booking"
    using assms by (auto simp: clash_def holds_slot_def shares_minute_def same_booking_def expired_booking_def
        sample_booking_def scenario intro!: exI [of _ 600])
  then show ?thesis by (auto simp: clash_free_def pairwise_def)
qed

lemma expired_booking_revived:
  "clash_free (1000 * second) rebooked_db"
  "\<exists>b w'. SubmitPaymentProof quiet_env (uid CHR ''5'') (uid CHR ''a'') ''ref'' (start_world rebooked_db) = (Inr b, w')
     \<and> \<not> clash_free (1002 * second) (db w')"
  "\<exists>b w'. ConfirmBookingPayment quiet_env (uid CHR ''5'') (uid CHR ''a'') (start_world rebooked_db) = (Inr b, w')
     \<and> \<not> clash_free (1002 * second) (db w')"
proof -
  show "clash_free (1000 * second) rebooked_db"
    by (auto simp: clash_free_def pairwise_def clash_def holds_slot_def rebooked_db_def expired_booking_def sample_booking_def)
  have "\<not> clash_free (1002 * second) (rebooked_db\<lparr>bookings := [set_status WAITING_VERIFICATION t
      (expired_booking\<lparr>bk_payment_reference := Some ''ref''\<rparr>), sample_booking]\<rparr>)" for t
    by (rule rebooked_clash) (simp_all add: same_booking_def set_status_def)
  then show "\<exists>b w'. SubmitPaymentProof quiet_env (uid CHR ''5'') (uid CHR ''a'') ''ref'' (start_world rebooked_db) = (Inr b, w')
     \<and> \<not> clash_free (1002 * second) (db w')"
    by (simp add: SubmitPaymentProof_def UpdatePaymentReference_def map_err_Inr in_tx_Inr scenario rebooked_update set_status_def)
  have "\<not> clash_free (1002 * second) (rebooked_db\<lparr>bookings := [set_status CONFIRMED t expired_booking, sample_booking]\<rparr>)" for t
    by (rule rebooked_clash) (simp_all add: same_booking_def set_status_def)
  moreover have "bk_status expired_booking = PENDING_PAYMENT" by (simp add: expired_booking_def sample_booking_def)
  moreover have "find_own quiet_env (uid CHR ''a'') (uid CHR ''5'') (start_world rebooked_db)
      = (Inr expired_booking, (start_world rebooked_db)\<lparr>steps := 1\<rparr>)"
    by (simp add: find_own_def FindByIDAndCustomerID_def map_err_def tx_defs scenario query_row_def rebooked_db_def
        expired_booking_def sample_booking_def start_world_def)
  ultimately show "\<exists>b w'. ConfirmBookingPayment quiet_env (uid CHR ''5'') (uid CHR ''a'') (start_world rebooked_db) = (Inr b, w')
     \<and> \<not> clash_free (1002 * second) (db w')"
    by (simp add: ConfirmBookingPayment_def guarded_update_def andthen_Inr attempt_Inr confirm_status_error_def
        ConfirmPendingByIDAndCustomerID_def map_err_Inr in_tx_Inr scenario rebooked_update set_status_def)
qed

end
