(* ===== verification/Journal.thy ===== *)
theory Journal
  imports Commits Int64 Sha256 Calendar "HOL-Library.Multiset"
begin

text \<open>
  The platform's double-entry journal, \<^verbatim>\<open>internal/platformfinance\<close>: the requests, their validation and
  normalisation (\<^verbatim>\<open>journal_service.go\<close>), and the hash of a journal's canonical JSON
  (\<^verbatim>\<open>journal_hash.go\<close>). Amounts are 64-bit integers. A Go map of metadata is the list of its bindings in
  some order, with distinct keys.
\<close>

datatype journal_error =
    ErrInvalidJournalService | ErrJournalTransactionRequired | ErrInvalidJournalRequest
  | ErrJournalRequiresTwoEntries | ErrInvalidJournalAmount | ErrJournalAmountOverflow
  | ErrJournalUnbalanced | ErrUnknownJournalAccount | ErrInvalidJournalOwnerDimension
  | ErrInvalidJournalMetadata | ErrInvalidJournalReference | ErrJournalEventKeyConflict
  | ErrJournalIntegrity | ErrJournalPersistence | ErrJournalPayloadHash
  | ECommitRefused string \<comment> \<open>a deferred trigger refuses the commit\<close>

type_synonym metadata = "(string \<times> string) list"

record post_entry =
  pe_account :: string
  pe_owner :: "string option"
  pe_side :: string
  pe_amount :: i64

record post_params =
  pp_event_key :: string
  pp_event_type :: string
  pp_booking :: "string option"
  pp_owner :: "string option"
  pp_venue :: "string option"
  pp_effective_at :: time
  pp_created_by :: "string option"
  pp_description :: "string option"
  pp_metadata :: metadata
  pp_entries :: "post_entry list"

subsection \<open>Regular expressions\<close>

text \<open>\<open>journalEventKeyPattern\<close>. The separators are not in the classes of the segments, so the
  segments are found by splitting.\<close>

definition key_start :: "char \<Rightarrow> bool" where
  "key_start c \<longleftrightarrow> is_lower c \<or> is_digit c"

definition key_segment :: "char list \<Rightarrow> string \<Rightarrow> bool" where
  "key_segment cs s \<longleftrightarrow> (case s of [] \<Rightarrow> False
     | c # r \<Rightarrow> key_start c \<and> list_all (\<lambda>x. key_start x \<or> x \<in> set cs) r)"

definition until :: "char \<Rightarrow> string \<Rightarrow> string \<times> string" where
  "until c s = (takeWhile (\<lambda>x. x \<noteq> c) s, dropWhile (\<lambda>x. x \<noteq> c) s)"

definition key_tail :: "string \<Rightarrow> bool" where
  "key_tail s = (case until CHR '':'' s of (a, r) \<Rightarrow>
     key_segment ''._-'' a \<and> (r = [] \<or> key_segment ''._-'' (tl r)))"

definition matches_event_key :: "string \<Rightarrow> bool" where
  "matches_event_key s = (case until CHR ''.'' s of (a, r) \<Rightarrow>
     key_segment ''_-'' a \<and> r \<noteq> [] \<and>
     (case until CHR '':'' (tl r) of (b, q) \<Rightarrow> key_segment ''_-'' b \<and> q \<noteq> [] \<and> key_tail (tl q)))"

definition matches_event_type :: "string \<Rightarrow> bool" where
  "matches_event_type s = (case s of [] \<Rightarrow> False
     | c # r \<Rightarrow> is_upper c \<and> length r \<le> 79 \<and> list_all (\<lambda>x. is_upper x \<or> is_digit x \<or> x = CHR ''_'') r)"

text \<open>A case-insensitive search. Go folds the letters \<^verbatim>\<open>s\<close> and \<^verbatim>\<open>k\<close> with U+017F and U+212A.\<close>

definition ascii_cases :: "char \<Rightarrow> string list" where
  "ascii_cases c = [[c], [char_of (of_char c - 32 :: nat)]]"

definition go_cases :: "char \<Rightarrow> string list" where
  "go_cases c = ascii_cases c
     @ (if c = CHR ''s'' then [map char_of [197, 191 :: nat]] else [])
     @ (if c = CHR ''k'' then [map char_of [226, 132, 170 :: nat]] else [])"

fun match_cases :: "(char \<Rightarrow> string list) \<Rightarrow> string \<Rightarrow> string \<Rightarrow> bool" where
  "match_cases v [] s = True"
| "match_cases v (c # p) s =
    (case drop_first_match (v c) s of None \<Rightarrow> False | Some r \<Rightarrow> match_cases v p r)"

fun finds :: "(char \<Rightarrow> string list) \<Rightarrow> string \<Rightarrow> string \<Rightarrow> bool" where
  "finds v p [] = match_cases v p []"
| "finds v p (c # s) = (match_cases v p (c # s) \<or> finds v p s)"

definition sensitive_words :: "string list" where
  "sensitive_words = [''secret'', ''token'', ''password'', ''authorization'', ''credential'', ''payload'',
     ''pii'', ''bearer'']"

definition journalMetadataAllowlist :: "string list" where
  "journalMetadataAllowlist = [''source_type'', ''source_reference'', ''reason_code'', ''calculation_version'']"

fun validateJournalMetadata :: "metadata \<Rightarrow> journal_error + unit" where
  "validateJournalMetadata [] = Inr ()"
| "validateJournalMetadata ((k, v) # m) =
    (if k \<notin> set journalMetadataAllowlist then Inl ErrInvalidJournalMetadata
     else if v = [] \<or> trim_space v \<noteq> v \<or> 191 < length v \<or> list_ex (\<lambda>p. finds go_cases p v) sensitive_words
       then Inl ErrInvalidJournalMetadata
     else validateJournalMetadata m)"

subsection \<open>Validation and normalisation\<close>

definition DEBIT :: string where "DEBIT = ''DEBIT''"
definition CREDIT :: string where "CREDIT = ''CREDIT''"

definition checkedJournalAdd :: "i64 \<Rightarrow> i64 \<Rightarrow> journal_error + i64" where
  "checkedJournalAdd subtotal amount =
    (if sint amount \<le> 0 then Inl ErrInvalidJournalAmount
     else if sint subtotal > sint (max_int64 - amount) then Inl ErrJournalAmountOverflow
     else Inr (subtotal + amount))"

text \<open>\<open>uuid.Parse\<close> followed by \<open>String\<close>.\<close>

definition canonicalOptionalUUID :: "'d environment \<Rightarrow> string option \<Rightarrow> journal_error + string option" where
  "canonicalOptionalUUID E v =
    (case v of None \<Rightarrow> Inr None
     | Some s \<Rightarrow> (case uuid_parse E s of None \<Rightarrow> Inl ErrInvalidJournalReference | Some c \<Rightarrow> Inr (Some c)))"

text \<open>The loop over the entries with the two running totals.\<close>

definition add_entry :: "post_entry \<Rightarrow> i64 \<times> i64 \<Rightarrow> journal_error + i64 \<times> i64" where
  "add_entry e t = (case t of (debitTotal, creditTotal) \<Rightarrow>
    if pe_side e = DEBIT
      then rbind (checkedJournalAdd debitTotal (pe_amount e)) (\<lambda>d. Inr (d, creditTotal))
      else rbind (checkedJournalAdd creditTotal (pe_amount e)) (\<lambda>c. Inr (debitTotal, c)))"

fun normalize_entries :: "'d environment \<Rightarrow> post_entry list \<Rightarrow> i64 \<times> i64
    \<Rightarrow> journal_error + post_entry list \<times> i64 \<times> i64" where
  "normalize_entries E [] t = Inr ([], t)"
| "normalize_entries E (e # es) t =
    (if pe_account e = [] \<or> 80 < length (pe_account e) then Inl ErrUnknownJournalAccount
     else if pe_side e \<noteq> DEBIT \<and> pe_side e \<noteq> CREDIT then Inl ErrInvalidJournalRequest
     else if sint (pe_amount e) \<le> 0 then Inl ErrInvalidJournalAmount
     else rbind (canonicalOptionalUUID E (pe_owner e)) (\<lambda>owner.
          rbind (add_entry e t) (\<lambda>t'.
          rbind (normalize_entries E es t') (\<lambda>(es', u). Inr (e\<lparr>pe_owner := owner\<rparr> # es', u)))))"

definition reversal_prefix :: string where
  "reversal_prefix = ''journal.reversed:''"

definition account_codes :: "post_entry list \<Rightarrow> string list" where
  "account_codes es = sort (remdups (map pe_account es))"

definition validateAndNormalizeJournalInternal :: "'d environment \<Rightarrow> post_params \<Rightarrow> bool
    \<Rightarrow> journal_error + post_params \<times> string list" where
  "validateAndNormalizeJournalInternal E p allowReversalEventKey =
    (if length (pp_event_key p) = 0 \<or> 191 < length (pp_event_key p) \<or> \<not> matches_event_key (pp_event_key p)
        \<or> \<not> allowReversalEventKey \<and> strip_prefix reversal_prefix (pp_event_key p) \<noteq> None
       then Inl ErrInvalidJournalRequest
     else if \<not> matches_event_type (pp_event_type p) then Inl ErrInvalidJournalRequest
     else if is_zero (pp_effective_at p) then Inl ErrInvalidJournalRequest
     else if length (pp_entries p) < 2 then Inl ErrJournalRequiresTwoEntries
     else rbind (validateJournalMetadata (pp_metadata p)) (\<lambda>_.
          rbind (canonicalOptionalUUID E (pp_booking p)) (\<lambda>booking.
          rbind (canonicalOptionalUUID E (pp_owner p)) (\<lambda>owner.
          rbind (canonicalOptionalUUID E (pp_venue p)) (\<lambda>venue.
          rbind (canonicalOptionalUUID E (pp_created_by p)) (\<lambda>creator.
          rbind (normalize_entries E (pp_entries p) (0, 0)) (\<lambda>(es, debitTotal, creditTotal).
          if debitTotal \<noteq> creditTotal then Inl ErrJournalUnbalanced
          else Inr (p\<lparr>pp_booking := booking, pp_owner := owner, pp_venue := venue, pp_created_by := creator,
              pp_effective_at := truncate_us (pp_effective_at p), pp_entries := es\<rparr>, account_codes es))))))))"

definition validateAndNormalizeJournal :: "'d environment \<Rightarrow> post_params \<Rightarrow> journal_error + post_params \<times> string list"
  where "validateAndNormalizeJournal E p = validateAndNormalizeJournalInternal E p False"

definition validateAndNormalizeReversalJournal ::
  "'d environment \<Rightarrow> post_params \<Rightarrow> journal_error + post_params \<times> string list"
  where "validateAndNormalizeReversalJournal E p = validateAndNormalizeJournalInternal E p True"

text \<open>The chart of accounts the migration seeds; a trigger keeps the table as it is. Each account requires an
  owner on its entries or forbids one.\<close>

definition platform_accounts :: "(string \<times> string) list" where
  "platform_accounts =
    map (\<lambda>c. (c, ''FORBIDDEN'')) [''BANK_CASH'', ''PSP_CLEARING'', ''FUNDING_CLEARING'', ''ACCOUNTS_PAYABLE'']
    @ [(''OWNER_RECEIVABLE'', ''REQUIRED''), (''OWNER_PAYABLE'', ''REQUIRED'')]
    @ map (\<lambda>c. (c, ''FORBIDDEN''))
       [''CUSTOMER_REFUND_PAYABLE'', ''REFUND_CLEARING'', ''PAYOUT_CLEARING'', ''UNEARNED_COMMISSION'',
        ''UNEARNED_SERVICE_FEE'', ''COMMISSION_REVENUE'', ''SERVICE_FEE_REVENUE'', ''COMMISSION_REFUND'',
        ''PAYMENT_PROCESSING_EXPENSE'', ''REFUND_FEE_EXPENSE'', ''PAYOUT_FEE_EXPENSE'', ''CHARGEBACK_LOSS'',
        ''OPEX_INFRASTRUCTURE'', ''OPEX_MARKETING'', ''OPEX_CUSTOMER_SUPPORT'', ''OPEX_SALARY_CONTRACTOR'',
        ''OPEX_LEGAL_COMPLIANCE'', ''OPEX_PAYMENT_OPERATIONS'', ''OPEX_OFFICE_ADMIN'', ''OPEX_OTHER'']"

type_synonym definitions = "string \<Rightarrow> string option"

fun check_dimensions :: "string option \<Rightarrow> definitions \<Rightarrow> post_entry list \<Rightarrow> journal_error + unit" where
  "check_dimensions owner defs [] = Inr ()"
| "check_dimensions owner defs (e # es) =
    (case defs (pe_account e) of None \<Rightarrow> Inl ErrUnknownJournalAccount
     | Some dim \<Rightarrow>
       if dim = ''REQUIRED'' then
         (if pe_owner e = None \<or> owner = None \<or> pe_owner e \<noteq> owner then Inl ErrInvalidJournalOwnerDimension
          else check_dimensions owner defs es)
       else if dim = ''FORBIDDEN'' then
         (if pe_owner e \<noteq> None then Inl ErrInvalidJournalOwnerDimension else check_dimensions owner defs es)
       else Inl ErrInvalidJournalOwnerDimension)"

definition validateJournalAccountDimensions :: "post_params \<Rightarrow> definitions \<Rightarrow> journal_error + unit" where
  "validateJournalAccountDimensions p defs = check_dimensions (pp_owner p) defs (pp_entries p)"

end
