(* ===== verification/JournalHash.thy ===== *)
theory JournalHash
  imports Journal
begin

text \<open>
  \<^verbatim>\<open>journal_hash.go\<close>: the canonical JSON of a journal and its SHA-256. The pieces of the standard library it
  uses are written out: \<open>json.Marshal\<close> of strings, \<open>Format\<close> of a time, the stable sorts. The last part shows that
  the hash does not depend on the order of the entries and of the metadata.
\<close>

subsection \<open>JSON strings\<close>

text \<open>The length of the UTF-8 sequence at the front, 0 when there is none.\<close>

definition utf8_len :: "nat list \<Rightarrow> nat" where
  "utf8_len bs =
    (if length bs \<ge> 1 \<and> utf8_decode (take 1 bs) \<noteq> None then 1
     else if length bs \<ge> 2 \<and> utf8_decode (take 2 bs) \<noteq> None then 2
     else if length bs \<ge> 3 \<and> utf8_decode (take 3 bs) \<noteq> None then 3
     else if length bs \<ge> 4 \<and> utf8_decode (take 4 bs) \<noteq> None then 4 else 0)"

definition backslash :: char where "backslash = char_of (92 :: nat)"
definition quote :: char where "quote = char_of (34 :: nat)"

definition escape_byte :: "nat \<Rightarrow> string" where
  "escape_byte b =
    (if b = 34 \<or> b = 92 then [backslash, char_of b]
     else if b = 8 then [backslash, CHR ''b''] else if b = 12 then [backslash, CHR ''f'']
     else if b = 10 then [backslash, CHR ''n''] else if b = 13 then [backslash, CHR ''r'']
     else if b = 9 then [backslash, CHR ''t'']
     else if b < 32 \<or> b = 38 \<or> b = 60 \<or> b = 62
       then backslash # ''u00'' @ [hex_digit (b div 16), hex_digit (b mod 16)]
     else [char_of b])"

function escape_bytes :: "nat list \<Rightarrow> string" where
  "escape_bytes [] = []"
| "escape_bytes (b # bs) =
    (if b < 128 then escape_byte b @ escape_bytes bs
     else if utf8_len (b # bs) = 0 then backslash # ''ufffd'' @ escape_bytes bs
     else if take 3 (b # bs) = [226, 128, 168] \<or> take 3 (b # bs) = [226, 128, 169]
       then backslash # ''u202'' @ [hex_digit (take 3 (b # bs) ! 2 - 160)] @ escape_bytes (drop 2 bs)
     else map char_of (take (utf8_len (b # bs)) (b # bs)) @ escape_bytes (drop (utf8_len (b # bs) - 1) bs))"
  by pat_completeness auto

termination
  by (relation "measure length") auto

definition json_string :: "string \<Rightarrow> string" where
  "json_string s = quote # escape_bytes (map of_char s) @ [quote]"

definition json_optional :: "string option \<Rightarrow> string" where
  "json_optional v = (case v of None \<Rightarrow> ''null'' | Some s \<Rightarrow> json_string s)"

fun comma_separated :: "string list \<Rightarrow> string" where
  "comma_separated [] = []"
| "comma_separated [x] = x"
| "comma_separated (x # y # xs) = x @ '','' @ comma_separated (y # xs)"

definition json_object :: "(string \<times> string) list \<Rightarrow> string" where
  "json_object kvs = ''{'' @ comma_separated (map (\<lambda>(k, v). json_string k @ '':'' @ v) kvs) @ ''}''"

definition json_array :: "string list \<Rightarrow> string" where
  "json_array xs = ''['' @ comma_separated xs @ '']''"

subsection \<open>Times\<close>

text \<open>The civil date of a day number, by cycles of 400, 100, 4 and single years.\<close>

fun month_of :: "int list \<Rightarrow> int \<Rightarrow> int \<Rightarrow> int \<times> int" where
  "month_of [] m d = (m, d)"
| "month_of (l # ls) m d = (if d < l \<or> ls = [] then (m, d) else month_of ls (m + 1) (d - l))"

definition civil_date :: "int \<Rightarrow> int \<times> int \<times> int" where
  "civil_date n =
    (let n400 = n div 146097; r = n mod 146097;
         n100 = min (r div 36524) 3; r = r - 36524 * n100;
         n4 = r div 1461; r = r mod 1461;
         n1 = min (r div 365) 3; r = r - 365 * n1;
         y = 400 * n400 + 100 * n100 + 4 * n4 + n1 + 1
     in case month_of (month_lengths y) 1 r of (m, d) \<Rightarrow> (y, m, d + 1))"

definition digits :: "nat \<Rightarrow> int \<Rightarrow> string" where
  "digits w n = (let s = format_nat (nat (abs n)) in
     (if n < 0 then ''-'' else []) @ replicate (w - length s) CHR ''0'' @ s)"

text \<open>\<open>Format("2006-01-02T15:04:05.000000Z")\<close>.\<close>

definition format_instant :: "time \<Rightarrow> string" where
  "format_instant t =
    (case civil_date (t div day) of (y, m, d) \<Rightarrow>
     digits 4 y @ ''-'' @ digits 2 m @ ''-'' @ digits 2 d @ ''T''
     @ digits 2 (t mod day div hour) @ '':'' @ digits 2 (t mod hour div minute) @ '':''
     @ digits 2 (t mod minute div second) @ ''.'' @ digits 6 (t mod second div microsecond) @ ''Z'')"

subsection \<open>The hash\<close>

definition JournalPayloadHashVersionV1 :: string where
  "JournalPayloadHashVersionV1 = ''JOURNAL_PAYLOAD_V1''"

definition JournalCurrencyIDR :: string where
  "JournalCurrencyIDR = ''IDR''"

definition optionalCanonicalValue :: "string option \<Rightarrow> string" where
  "optionalCanonicalValue v = (case v of None \<Rightarrow> [] | Some s \<Rightarrow> s)"

definition entry_order :: "post_entry \<Rightarrow> string \<times> string \<times> string \<times> string" where
  "entry_order e = (pe_account e, optionalCanonicalValue (pe_owner e), pe_side e, format_int (sint (pe_amount e)))"

definition entry_json :: "post_entry \<Rightarrow> string" where
  "entry_json e = json_object
    [(''account_code'', json_string (pe_account e)), (''owner_profile_id'', json_optional (pe_owner e)),
     (''side'', json_string (pe_side e)), (''amount_rupiah'', json_string (format_int (sint (pe_amount e))))]"

definition payload_json :: "post_params \<Rightarrow> string option \<Rightarrow> string option \<Rightarrow> string" where
  "payload_json p reversesJournalID reversalReason = json_object
    [(''version'', json_string JournalPayloadHashVersionV1), (''event_key'', json_string (pp_event_key p)),
     (''event_type'', json_string (pp_event_type p)), (''booking_id'', json_optional (pp_booking p)),
     (''owner_profile_id'', json_optional (pp_owner p)), (''venue_id'', json_optional (pp_venue p)),
     (''currency'', json_string JournalCurrencyIDR),
     (''effective_at'', json_string (format_instant (pp_effective_at p))),
     (''created_by_user_id'', json_optional (pp_created_by p)), (''description'', json_optional (pp_description p)),
     (''metadata'', json_array (map (\<lambda>(k, v). json_object [(''key'', json_string k), (''value'', json_string v)])
        (sort_key fst (pp_metadata p)))),
     (''entries'', json_array (map entry_json (sort_key entry_order (pp_entries p)))),
     (''reverses_journal_id'', json_optional reversesJournalID),
     (''reversal_reason'', json_optional reversalReason)]"

definition hashJournalPayloadV1WithReversal :: "post_params \<Rightarrow> string option \<Rightarrow> string option \<Rightarrow> string" where
  "hashJournalPayloadV1WithReversal p reversesJournalID reversalReason =
     sha256_hex (payload_json p reversesJournalID reversalReason)"

definition hashJournalPayloadV1 :: "post_params \<Rightarrow> string" where
  "hashJournalPayloadV1 p = hashJournalPayloadV1WithReversal p None None"

subsection \<open>The hash does not depend on the order of entries and metadata\<close>

lemma sort_key_perm:
  assumes "mset xs = mset ys" and "inj_on f (set xs)"
  shows "sort_key f xs = sort_key f ys"
proof (rule properties_for_sort_key)
  show "mset (sort_key f ys) = mset xs" using assms(1) by simp
  show "sorted (map f (sort_key f ys))" by simp
  fix k assume "k \<in> set (sort_key f ys)"
  then have k: "k \<in> set xs" using assms(1) by (metis set_mset_mset set_sort)
  have "filter (\<lambda>x. f k = f x) zs = replicate (count (mset zs) k) k" if "mset zs = mset xs" for zs
  proof -
    have "filter (\<lambda>x. f k = f x) zs = filter (\<lambda>x. x = k) zs"
    proof (rule filter_cong [OF refl])
      fix x assume "x \<in> set zs"
      then have "x \<in> set xs" using that by (metis set_mset_mset)
      then show "(f k = f x) = (x = k)" using assms(2) k by (auto simp: inj_on_def)
    qed
    also have "\<dots> = replicate (count (mset zs) k) k"
      by (induction zs) auto
    finally show ?thesis .
  qed
  then show "filter (\<lambda>x. f k = f x) (sort_key f ys) = filter (\<lambda>x. f k = f x) xs"
    using assms(1) by simp
qed

lemma number_snoc: "number (s @ [c]) = 10 * number s + (of_char c - 48)"
  by (simp add: number_def)

lemma number_format_nat: "number (format_nat n) = int n"
proof (induction n rule: format_nat.induct)
  case (1 n)
  have d: "of_char (char_of (48 + k) :: char) = (48 + int k :: int)" if "k < 10" for k
  proof -
    have "\<forall>k \<in> set [0..<10]. of_char (char_of (48 + k) :: char) = (48 + int k :: int)" by code_simp
    then show ?thesis using that by simp
  qed
  show ?case
  proof (cases "n < 10")
    case True
    then show ?thesis using d [of n] by (subst format_nat.simps) (simp add: number_def)
  next
    case False
    moreover have "int n = 10 * int (n div 10) + int (n mod 10)" by presburger
    ultimately show ?thesis
      using d [of "n mod 10"] 1 by (subst format_nat.simps) (simp add: number_snoc)
  qed
qed

lemma format_nat_inj: "format_nat m = format_nat n \<Longrightarrow> m = n"
  using number_format_nat by (metis of_nat_eq_iff)

text \<open>Entries whose owner is absent or not the empty text, and whose amount is positive.\<close>

definition orderly :: "post_entry \<Rightarrow> bool" where
  "orderly e \<longleftrightarrow> pe_owner e \<noteq> Some [] \<and> 0 < sint (pe_amount e)"

lemma entry_order_inj: "orderly a \<Longrightarrow> orderly b \<Longrightarrow> entry_order a = entry_order b \<Longrightarrow> a = b"
proof -
  assume ab: "orderly a" "orderly b" "entry_order a = entry_order b"
  then have "format_nat (nat (sint (pe_amount a))) = format_nat (nat (sint (pe_amount b)))"
    by (simp add: orderly_def entry_order_def format_int_def)
  then have "sint (pe_amount a) = sint (pe_amount b)"
    using ab(1,2) format_nat_inj by (fastforce simp: orderly_def)
  moreover have "pe_owner a = pe_owner b"
    using ab by (auto simp: orderly_def entry_order_def optionalCanonicalValue_def split: option.splits)
  ultimately show ?thesis
    using ab(3) by (intro post_entry.equality) (simp_all add: entry_order_def sint_eq_iff64)
qed

lemma hash_perm:
  assumes "mset (pp_entries p) = mset (pp_entries q)" "\<forall>e \<in> set (pp_entries p). orderly e"
    and "mset (pp_metadata p) = mset (pp_metadata q)" "distinct (map fst (pp_metadata p))"
    and "pp_event_key p = pp_event_key q" "pp_event_type p = pp_event_type q" "pp_booking p = pp_booking q"
      "pp_owner p = pp_owner q" "pp_venue p = pp_venue q" "pp_effective_at p = pp_effective_at q"
      "pp_created_by p = pp_created_by q" "pp_description p = pp_description q"
  shows "hashJournalPayloadV1WithReversal p i r = hashJournalPayloadV1WithReversal q i r"
proof -
  have "sort_key entry_order (pp_entries p) = sort_key entry_order (pp_entries q)"
    by (rule sort_key_perm [OF assms(1)]) (use assms(2) entry_order_inj in \<open>auto simp: inj_on_def\<close>)
  moreover have "sort_key fst (pp_metadata p) = sort_key fst (pp_metadata q)"
    by (rule sort_key_perm [OF assms(3)]) (use assms(4) in \<open>simp add: distinct_map\<close>)
  ultimately show ?thesis
    using assms(5-) by (simp add: hashJournalPayloadV1WithReversal_def payload_json_def)
qed

end
