(* ===== verification/JournalStore.thy ===== *)
theory JournalStore
  imports JournalHash
begin

text \<open>
  The tables of \<^verbatim>\<open>022_platform_double_entry_ledger\<close> with their constraints and triggers, the deferred guard as
  \<^verbatim>\<open>023_platform_ledger_balance_reschedule\<close> has it, and \<^verbatim>\<open>journal_repository.go\<close>. The number \<open>x\<close> is the
  caller's transaction id, \<^verbatim>\<open>txid_current()\<close>. A journal's \<^verbatim>\<open>created_at\<close> is its \<^verbatim>\<open>posted_at\<close>. Of the tables the
  journal refers to, the state has the ids. Texts are ordered bytewise; no result depends on the order.
\<close>

record journal_row =
  jr_id :: string
  jr_event_key :: string
  jr_event_type :: string
  jr_payload_hash :: string
  jr_hash_version :: string
  jr_booking :: "string option"
  jr_owner :: "string option"
  jr_venue :: "string option"
  jr_currency :: string
  jr_effective_at :: time
  jr_posted_at :: time
  jr_reverses :: "string option"
  jr_reason :: "string option"
  jr_created_by :: "string option"
  jr_description :: "string option"
  jr_metadata :: metadata
  jr_txid :: nat

record journal_entry =
  je_id :: string
  je_journal :: string
  je_account :: string
  je_owner :: "string option"
  je_side :: string
  je_amount :: i64
  je_created_at :: time

record finance_db =
  journals :: "journal_row list"
  journal_entries :: "journal_entry list"
  booking_ids :: "string list"
  owner_ids :: "string list"
  venue_ids :: "string list"
  user_ids :: "string list"

type_synonym finance_env = "finance_db environment"
type_synonym 'a fin = "(journal_error, finance_db, 'a) tx"
type_synonym posted_journal = "journal_row \<times> journal_entry list"

datatype pg_error = PgUnique string | PgForeignKey | PgCheck string

text \<open>Errors by SQLSTATE: 23505, 23503 and 23514. A failure of another kind, like a lost connection, is
  \<open>ErrJournalPersistence\<close>.\<close>

definition mapJournalRepositoryError :: "pg_error \<Rightarrow> journal_error" where
  "mapJournalRepositoryError e = (case e of
     PgUnique c \<Rightarrow> if c = ''platform_journals_event_key_key'' \<or> c = ''platform_journals_reverses_journal_id_key''
       then ErrJournalEventKeyConflict else ErrJournalPersistence
   | PgForeignKey \<Rightarrow> ErrInvalidJournalReference
   | PgCheck c \<Rightarrow> if c = ''platform_journal_balance_guard'' then ErrJournalUnbalanced else ErrInvalidJournalRequest)"

definition pg_call :: "finance_env \<Rightarrow> (time \<Rightarrow> finance_db \<Rightarrow> (pg_error + 'a) \<times> finance_db) \<Rightarrow> 'a fin" where
  "pg_call E f = db_call E ErrJournalPersistence (\<lambda>now d. case f now d of
     (Inl e, d') \<Rightarrow> (Inl (mapJournalRepositoryError e), d') | (Inr x, d') \<Rightarrow> (Inr x, d'))"

subsection \<open>Constraints and triggers\<close>

definition entries_of :: "finance_db \<Rightarrow> string \<Rightarrow> journal_entry list" where
  "entries_of d i = filter (\<lambda>e. je_journal e = i) (journal_entries d)"

definition find_journal :: "finance_db \<Rightarrow> string \<Rightarrow> journal_row option" where
  "find_journal d i = query_row (\<lambda>j. jr_id j = i) (journals d)"

text \<open>\<open>BTRIM(s) = s\<close> looks at spaces only.\<close>

definition btrimmed :: "string \<Rightarrow> bool" where
  "btrimmed s \<longleftrightarrow> s = [] \<or> hd s \<noteq> CHR '' '' \<and> last s \<noteq> CHR '' ''"

definition validate_platform_journal_metadata :: "metadata \<Rightarrow> bool" where
  "validate_platform_journal_metadata m \<longleftrightarrow> list_all (\<lambda>(k, v). k \<in> set journalMetadataAllowlist
     \<and> btrimmed v \<and> v \<noteq> [] \<and> length v \<le> 191 \<and> \<not> list_ex (\<lambda>p. finds ascii_cases p v) sensitive_words) m"

text \<open>The \<^verbatim>\<open>CHECK\<close> constraints of a journal, in the order they are tested.\<close>

definition journal_checks :: "journal_row \<Rightarrow> (string \<times> bool) list" where
  "journal_checks r =
    [(''chk_platform_journal_currency'', jr_currency r = JournalCurrencyIDR),
     (''chk_platform_journal_effective_time'', jr_effective_at r \<le> jr_posted_at r),
     (''chk_platform_journal_event_key'', 1 \<le> length (jr_event_key r) \<and> length (jr_event_key r) \<le> 191
        \<and> matches_event_key (jr_event_key r)),
     (''chk_platform_journal_event_type'', matches_event_type (jr_event_type r)),
     (''chk_platform_journal_metadata'', validate_platform_journal_metadata (jr_metadata r)),
     (''chk_platform_journal_payload_hash'', length (jr_payload_hash r) = 64 \<and> list_all is_lower_hex (jr_payload_hash r)),
     (''chk_platform_journal_payload_hash_version'', jr_hash_version r = JournalPayloadHashVersionV1),
     (''chk_platform_journal_reversal_event_key'',
        case jr_reverses r of None \<Rightarrow> strip_prefix reversal_prefix (jr_event_key r) = None
        | Some s \<Rightarrow> jr_event_key r = reversal_prefix @ s),
     (''chk_platform_journal_reversal_pair'',
        case (jr_reverses r, jr_reason r) of (None, None) \<Rightarrow> True
        | (Some s, Some q) \<Rightarrow> btrimmed q \<and> q \<noteq> [] \<and> length q \<le> 500 | _ \<Rightarrow> False)]"

definition failed_check :: "(string \<times> bool) list \<Rightarrow> string option" where
  "failed_check cs = map_option fst (List.find (\<lambda>(n, ok). \<not> ok) cs)"

text \<open>The trigger \<open>validate_platform_journal_reversal_source\<close>.\<close>

definition reversal_source_error :: "nat \<Rightarrow> finance_db \<Rightarrow> journal_row \<Rightarrow> pg_error option" where
  "reversal_source_error x d r =
    (case jr_reverses r of None \<Rightarrow> None
     | Some s \<Rightarrow> (case find_journal d s of None \<Rightarrow> Some PgForeignKey
       | Some src \<Rightarrow> if jr_reverses src \<noteq> None then Some (PgCheck [])
           else if jr_txid src = x then Some (PgCheck []) else None))"

definition refers :: "string option \<Rightarrow> string list \<Rightarrow> bool" where
  "refers v ids \<longleftrightarrow> (case v of None \<Rightarrow> True | Some i \<Rightarrow> i \<in> set ids)"

text \<open>\<^verbatim>\<open>INSERT .. ON CONFLICT (event_key) DO NOTHING\<close>, stamped by \<open>stamp_platform_journal_creation\<close>:
  triggers, checks, the conflict, the other keys and the references. \<open>None\<close> is the conflict.\<close>

definition insert_journal :: "nat \<Rightarrow> time \<Rightarrow> journal_row \<Rightarrow> finance_db \<Rightarrow> (pg_error + journal_row option) \<times> finance_db"
  where
  "insert_journal x posted j d =
    (let r = j\<lparr>jr_posted_at := posted, jr_txid := x\<rparr> in
     case reversal_source_error x d r of Some e \<Rightarrow> (Inl e, d)
     | None \<Rightarrow> (case failed_check (journal_checks r) of Some n \<Rightarrow> (Inl (PgCheck n), d)
     | None \<Rightarrow>
       if sql_exists (\<lambda>k. jr_event_key k = jr_event_key r) (journals d) then (Inr None, d)
       else if sql_exists (\<lambda>k. jr_id k = jr_id r) (journals d) then (Inl (PgUnique ''platform_journals_pkey''), d)
       else if jr_reverses r \<noteq> None \<and> sql_exists (\<lambda>k. jr_reverses k = jr_reverses r) (journals d)
         then (Inl (PgUnique ''platform_journals_reverses_journal_id_key''), d)
       else if \<not> (refers (jr_booking r) (booking_ids d) \<and> refers (jr_owner r) (owner_ids d)
           \<and> refers (jr_venue r) (venue_ids d) \<and> refers (jr_created_by r) (user_ids d)) then (Inl PgForeignKey, d)
       else (Inr (Some r), d\<lparr>journals := journals d @ [r]\<rparr>)))"

text \<open>The trigger \<open>validate_platform_ledger_entry_insert\<close>, the checks, the key and the reference.\<close>

definition entry_error :: "nat \<Rightarrow> finance_db \<Rightarrow> journal_entry \<Rightarrow> pg_error option" where
  "entry_error x d e =
    (case find_journal d (je_journal e) of None \<Rightarrow> Some PgForeignKey
     | Some j \<Rightarrow>
       if jr_txid j \<noteq> x then Some (PgCheck [])
       else (case map_of platform_accounts (je_account e) of None \<Rightarrow> Some PgForeignKey
       | Some dim \<Rightarrow>
         if dim = ''REQUIRED'' \<and> (je_owner e = None \<or> jr_owner j = None \<or> je_owner e \<noteq> jr_owner j)
           then Some (PgCheck [])
         else if dim \<noteq> ''REQUIRED'' \<and> je_owner e \<noteq> None then Some (PgCheck [])
         else if sint (je_amount e) \<le> 0 then Some (PgCheck ''platform_ledger_entries_amount_rupiah_check'')
         else if je_side e \<noteq> DEBIT \<and> je_side e \<noteq> CREDIT then Some (PgCheck ''platform_ledger_entries_side_check'')
         else if sql_exists (\<lambda>k. je_id k = je_id e) (journal_entries d)
           then Some (PgUnique ''platform_ledger_entries_pkey'')
         else if \<not> refers (je_owner e) (owner_ids d) then Some PgForeignKey
         else None))"

definition insert_entry :: "nat \<Rightarrow> journal_entry \<Rightarrow> finance_db \<Rightarrow> (pg_error + journal_entry) \<times> finance_db" where
  "insert_entry x e d = (case entry_error x d e of Some err \<Rightarrow> (Inl err, d)
     | None \<Rightarrow> (Inr e, d\<lparr>journal_entries := journal_entries d @ [e]\<rparr>))"

text \<open>The deferred constraint trigger \<open>validate_platform_journal_balance\<close>: at commit, for every journal the
  transaction has inserted.\<close>

definition side_total :: "string \<Rightarrow> journal_entry list \<Rightarrow> int" where
  "side_total s es = sum_list (map (\<lambda>e. sint (je_amount e)) (filter (\<lambda>e. je_side e = s) es))"

definition entry_facts :: "journal_entry \<Rightarrow> string \<times> string option \<times> string \<times> i64" where
  "entry_facts e = (je_account e, je_owner e, je_side e, je_amount e)"

definition invertJournalSide :: "string \<Rightarrow> string" where
  "invertJournalSide s = (if s = DEBIT then CREDIT else DEBIT)"

definition inverse_facts :: "journal_entry \<Rightarrow> string \<times> string option \<times> string \<times> i64" where
  "inverse_facts e = (je_account e, je_owner e, invertJournalSide (je_side e), je_amount e)"

definition balance_guard :: "finance_db \<Rightarrow> journal_row \<Rightarrow> string option" where
  "balance_guard d j =
    (let es = entries_of d (jr_id j) in
     if length es < 2 then Some ''platform_journal_balance_guard''
     else if side_total DEBIT es \<noteq> side_total CREDIT es then Some ''platform_journal_balance_guard''
     else (case jr_reverses j of None \<Rightarrow> None
       | Some s \<Rightarrow> let a = mset (map entry_facts es); b = mset (map inverse_facts (entries_of d s)) in
           if a - b + (b - a) \<noteq> {#} then Some ''platform_journal_reversal_guard'' else None))"

fun first_refusal :: "finance_db \<Rightarrow> journal_row list \<Rightarrow> string option" where
  "first_refusal d [] = None"
| "first_refusal d (j # js) = (case balance_guard d j of None \<Rightarrow> first_refusal d js | Some n \<Rightarrow> Some n)"

definition commit_guards :: "finance_env \<Rightarrow> nat \<Rightarrow> unit fin" where
  "commit_guards E x = db_call E ErrJournalPersistence (\<lambda>now d.
     case first_refusal d (filter (\<lambda>j. jr_txid j = x) (journals d)) of
       None \<Rightarrow> (Inr (), d) | Some n \<Rightarrow> (Inl (ECommitRefused n), d))"

text \<open>A transaction with the deferred triggers at its end.\<close>

definition finance_tx :: "finance_env \<Rightarrow> nat \<Rightarrow> 'a fin \<Rightarrow> 'a fin" where
  "finance_tx E x m = in_tx E ErrJournalPersistence (andthen m (\<lambda>r. andthen (commit_guards E x) (\<lambda>_. ret r)))"

subsection \<open>Repository\<close>

definition GetAccountDefinitions :: "finance_env \<Rightarrow> string list \<Rightarrow> definitions fin" where
  "GetAccountDefinitions E codes = query E ErrJournalPersistence
     (\<lambda>now d c. if c \<in> set codes then map_of platform_accounts c else None)"

text \<open>The insert may wait for a session that is inserting the same event key.\<close>

definition TryInsertJournal :: "finance_env \<Rightarrow> nat \<Rightarrow> journal_row \<Rightarrow> journal_row option fin" where
  "TryInsertJournal E x j =
    andthen (lock_wait E ErrJournalPersistence) (\<lambda>_.
    andthen (read_clock E) (\<lambda>t. pg_call E (\<lambda>now. insert_journal x (truncate_us t) j)))"

definition entry_row :: "string \<Rightarrow> time \<Rightarrow> string \<times> post_entry \<Rightarrow> journal_entry" where
  "entry_row journalID now q = (case q of (i, e) \<Rightarrow>
    \<lparr>je_id = i, je_journal = journalID, je_account = pe_account e, je_owner = pe_owner e, je_side = pe_side e,
     je_amount = pe_amount e, je_created_at = now\<rparr>)"

fun InsertEntries :: "finance_env \<Rightarrow> nat \<Rightarrow> string \<Rightarrow> (string \<times> post_entry) list \<Rightarrow> journal_entry list fin" where
  "InsertEntries E x journalID [] = ret []"
| "InsertEntries E x journalID (q # qs) =
    andthen (pg_call E (\<lambda>now. insert_entry x (entry_row journalID now q))) (\<lambda>r.
    andthen (InsertEntries E x journalID qs) (\<lambda>rs. ret (r # rs)))"

text \<open>\<^verbatim>\<open>ORDER BY account_code, owner_profile_id NULLS FIRST, side, amount_rupiah, id\<close>.\<close>

definition load_order :: "journal_entry \<Rightarrow> string \<times> string list \<times> string \<times> int \<times> string" where
  "load_order e = (je_account e, (case je_owner e of None \<Rightarrow> [] | Some s \<Rightarrow> [s]), je_side e, sint (je_amount e), je_id e)"

definition loadJournalOptional :: "finance_env \<Rightarrow> (journal_row \<Rightarrow> bool) \<Rightarrow> posted_journal option fin" where
  "loadJournalOptional E p =
    andthen (query E ErrJournalPersistence (\<lambda>now d. query_row p (journals d))) (\<lambda>found.
    case found of None \<Rightarrow> ret None
    | Some j \<Rightarrow> andthen (query E ErrJournalPersistence (\<lambda>now d. sort_key load_order (entries_of d (jr_id j)))) (\<lambda>es.
        ret (Some (j, es))))"

definition GetJournalByEventKey :: "finance_env \<Rightarrow> string \<Rightarrow> posted_journal fin" where
  "GetJournalByEventKey E k =
    andthen (loadJournalOptional E (\<lambda>j. jr_event_key j = k)) (deref ErrJournalIntegrity)"

definition GetJournalByIDForReversal :: "finance_env \<Rightarrow> string \<Rightarrow> posted_journal fin" where
  "GetJournalByIDForReversal E i =
    andthen (lock_wait E ErrJournalPersistence) (\<lambda>_.
    andthen (loadJournalOptional E (\<lambda>j. jr_id j = i)) (deref ErrInvalidJournalReference))"

definition GetReversalBySourceID :: "finance_env \<Rightarrow> string \<Rightarrow> posted_journal option fin" where
  "GetReversalBySourceID E i = loadJournalOptional E (\<lambda>j. jr_reverses j = Some i)"

end
