(* ===== verification/JournalService.thy ===== *)
theory JournalService
  imports JournalStore
begin

text \<open>
  Posting a journal and reversing one: \<^verbatim>\<open>journal_service.go\<close>, \<^verbatim>\<open>journal_replay.go\<close> and \<^verbatim>\<open>journal_reversal.go\<close>.
  Both run in the caller's transaction. A request whose event key is already posted is answered with the
  stored journal when its payload hash is the same and the stored rows still carry that hash.
\<close>

definition normalizeJournalServiceError :: "journal_error \<Rightarrow> journal_error" where
  "normalizeJournalServiceError e =
    (if e \<in> {ErrInvalidJournalRequest, ErrJournalRequiresTwoEntries, ErrInvalidJournalAmount,
          ErrJournalAmountOverflow, ErrJournalUnbalanced, ErrUnknownJournalAccount,
          ErrInvalidJournalOwnerDimension, ErrInvalidJournalMetadata, ErrInvalidJournalReference,
          ErrJournalEventKeyConflict, ErrJournalIntegrity, ErrJournalPayloadHash, ErrJournalPersistence}
       then e else ErrJournalPersistence)"

definition entry_params :: "journal_entry \<Rightarrow> post_entry" where
  "entry_params e = \<lparr>pe_account = je_account e, pe_owner = je_owner e, pe_side = je_side e, pe_amount = je_amount e\<rparr>"

definition postJournalParamsFromPostedJournal :: "posted_journal \<Rightarrow> post_params" where
  "postJournalParamsFromPostedJournal p = (case p of (j, es) \<Rightarrow>
    \<lparr>pp_event_key = jr_event_key j, pp_event_type = jr_event_type j, pp_booking = jr_booking j,
     pp_owner = jr_owner j, pp_venue = jr_venue j, pp_effective_at = jr_effective_at j,
     pp_created_by = jr_created_by j, pp_description = jr_description j, pp_metadata = jr_metadata j,
     pp_entries = map entry_params es\<rparr>)"

definition posted_order :: "journal_entry \<Rightarrow> string \<times> string \<times> string \<times> int \<times> string" where
  "posted_order e = (je_account e, optionalCanonicalValue (je_owner e), je_side e, sint (je_amount e), je_id e)"

definition sortPostedJournalEntries :: "journal_entry list \<Rightarrow> journal_entry list" where
  "sortPostedJournalEntries es = sort_key posted_order es"

text \<open>Within a replay every failed check of the stored rows is the integrity error.\<close>

definition or_integrity :: "'e + 'a \<Rightarrow> (('a \<Rightarrow> journal_error + 'b) \<Rightarrow> journal_error + 'b)" where
  "or_integrity r k = (case r of Inl _ \<Rightarrow> Inl ErrJournalIntegrity | Inr x \<Rightarrow> k x)"

definition replayExistingJournal :: "finance_env \<Rightarrow> posted_journal \<Rightarrow> post_params \<Rightarrow> string \<Rightarrow> definitions
    \<Rightarrow> journal_error + posted_journal" where
  "replayExistingJournal E existing requested requestedHash defs = (case existing of (j, es) \<Rightarrow>
     if jr_payload_hash j \<noteq> requestedHash then Inl ErrJournalEventKeyConflict
     else if jr_hash_version j \<noteq> JournalPayloadHashVersionV1 \<or> jr_reverses j \<noteq> None \<or> jr_reason j \<noteq> None
         \<or> jr_currency j \<noteq> JournalCurrencyIDR then Inl ErrJournalIntegrity
     else if uuid_parse E (jr_id j) = None then Inl ErrJournalIntegrity
     else if list_ex (\<lambda>e. je_journal e \<noteq> jr_id j \<or> uuid_parse E (je_id e) = None) es then Inl ErrJournalIntegrity
     else or_integrity (validateAndNormalizeJournal E (postJournalParamsFromPostedJournal existing)) (\<lambda>(n, codes).
       if pp_event_key n \<noteq> pp_event_key requested \<or> pp_event_type n \<noteq> pp_event_type requested
         then Inl ErrJournalIntegrity
       else or_integrity (validateJournalAccountDimensions n defs) (\<lambda>_.
       if hashJournalPayloadV1 n \<noteq> jr_payload_hash j then Inl ErrJournalIntegrity
       else Inr (j, sortPostedJournalEntries es))))"

subsection \<open>Posting\<close>

text \<open>Ids are drawn for the journal and then for its entries.\<close>

fun prepare_entries :: "finance_env \<Rightarrow> post_entry list \<Rightarrow> (string \<times> post_entry) list fin" where
  "prepare_entries E [] = ret []"
| "prepare_entries E (e # es) =
    andthen (fresh_uuid E) (\<lambda>i. andthen (prepare_entries E es) (\<lambda>qs. ret ((i, e) # qs)))"

definition prepared_row :: "string \<Rightarrow> post_params \<Rightarrow> string \<Rightarrow> string option \<Rightarrow> string option \<Rightarrow> journal_row" where
  "prepared_row i n h reverses reason =
    \<lparr>jr_id = i, jr_event_key = pp_event_key n, jr_event_type = pp_event_type n, jr_payload_hash = h,
     jr_hash_version = JournalPayloadHashVersionV1, jr_booking = pp_booking n, jr_owner = pp_owner n,
     jr_venue = pp_venue n, jr_currency = JournalCurrencyIDR, jr_effective_at = pp_effective_at n, jr_posted_at = 0,
     jr_reverses = reverses, jr_reason = reason, jr_created_by = pp_created_by n,
     jr_description = pp_description n, jr_metadata = pp_metadata n, jr_txid = 0\<rparr>"

text \<open>What posting and reversing do once the request is complete: a fresh journal with its entries, or
  the answer to a replay.\<close>

definition write_journal :: "finance_env \<Rightarrow> nat \<Rightarrow> post_params \<Rightarrow> string \<Rightarrow> string option \<Rightarrow> string option
    \<Rightarrow> posted_journal fin \<Rightarrow> posted_journal fin" where
  "write_journal E x n h reverses reason replay =
    andthen (fresh_uuid E) (\<lambda>i.
    andthen (prepare_entries E (pp_entries n)) (\<lambda>prepared.
    andthen (map_err normalizeJournalServiceError
        (TryInsertJournal E x (prepared_row i n h reverses reason))) (\<lambda>posted.
    case posted of None \<Rightarrow> replay
    | Some r \<Rightarrow> andthen (map_err normalizeJournalServiceError (InsertEntries E x i prepared)) (\<lambda>es.
        ret (r, sortPostedJournalEntries es)))))"

definition PostJournal :: "finance_env \<Rightarrow> nat \<Rightarrow> post_params \<Rightarrow> posted_journal fin" where
  "PostJournal E x params =
    andthen (lift_res (validateAndNormalizeJournal E params)) (\<lambda>(n, codes).
    andthen (map_err normalizeJournalServiceError (GetAccountDefinitions E codes)) (\<lambda>defs.
    andthen (lift_res (validateJournalAccountDimensions n defs)) (\<lambda>_.
    write_journal E x n (hashJournalPayloadV1 n) None None
      (andthen (map_err normalizeJournalServiceError (GetJournalByEventKey E (pp_event_key n))) (\<lambda>existing.
       lift_res (replayExistingJournal E existing n (hashJournalPayloadV1 n) defs))))))"

subsection \<open>Reversing\<close>

record reverse_params =
  rp_journal_id :: string
  rp_reason :: string
  rp_effective_at :: time
  rp_created_by :: "string option"
  rp_metadata :: metadata

definition normalizeReverseJournalParams :: "finance_env \<Rightarrow> reverse_params \<Rightarrow> journal_error + reverse_params" where
  "normalizeReverseJournalParams E p =
    (case uuid_parse E (rp_journal_id p) of None \<Rightarrow> Inl ErrInvalidJournalReference
     | Some i \<Rightarrow>
       if is_zero (rp_effective_at p) then Inl ErrInvalidJournalRequest
       else if rp_reason p = [] \<or> trim_space (rp_reason p) \<noteq> rp_reason p \<or> 500 < length (rp_reason p)
         then Inl ErrInvalidJournalRequest
       else rbind (validateJournalMetadata (rp_metadata p)) (\<lambda>_.
            rbind (canonicalOptionalUUID E (rp_created_by p)) (\<lambda>creator.
            Inr (p\<lparr>rp_journal_id := i, rp_effective_at := truncate_us (rp_effective_at p), rp_created_by := creator\<rparr>))))"

definition invertPostedJournalEntries :: "journal_entry list \<Rightarrow> post_entry list" where
  "invertPostedJournalEntries es = map (\<lambda>e. (entry_params e)\<lparr>pe_side := invertJournalSide (je_side e)\<rparr>) es"

definition JournalReversalEventType :: string where
  "JournalReversalEventType = ''JOURNAL_REVERSED''"

text \<open>The map of counts: up for every source entry inverted, down for every entry of the reversal.\<close>

definition exactReversalEntryMultisetMatches :: "journal_entry list \<Rightarrow> journal_entry list \<Rightarrow> bool" where
  "exactReversalEntryMultisetMatches source reversal =
    (let up = fold (\<lambda>k m. m(k := m k + 1)) (map inverse_facts source) (\<lambda>_. 0 :: int);
         expected = fold (\<lambda>k m. m(k := m k - 1)) (map entry_facts reversal) up
     in list_all (\<lambda>k. expected k = 0) (map inverse_facts source @ map entry_facts reversal))"

definition replayExistingReversal :: "finance_env \<Rightarrow> posted_journal \<Rightarrow> posted_journal \<Rightarrow> post_params \<Rightarrow> string
    \<Rightarrow> definitions \<Rightarrow> journal_error + posted_journal" where
  "replayExistingReversal E existing source requested requestedHash defs =
    (case existing of (j, es) \<Rightarrow> case source of (s, ss) \<Rightarrow>
     if jr_payload_hash j \<noteq> requestedHash then Inl ErrJournalEventKeyConflict
     else if jr_hash_version j \<noteq> JournalPayloadHashVersionV1 \<or> jr_currency j \<noteq> JournalCurrencyIDR
         \<or> is_zero (jr_posted_at j) \<or> jr_posted_at j < jr_effective_at j then Inl ErrJournalIntegrity
     else if jr_reverses j \<noteq> Some (jr_id s) \<or> jr_event_key j \<noteq> reversal_prefix @ jr_id s
         \<or> jr_event_type j \<noteq> JournalReversalEventType \<or> jr_description j \<noteq> None then Inl ErrJournalIntegrity
     else if jr_booking j \<noteq> jr_booking s \<or> jr_owner j \<noteq> jr_owner s \<or> jr_venue j \<noteq> jr_venue s
       then Inl ErrJournalIntegrity
     else (case jr_reason j of None \<Rightarrow> Inl ErrJournalIntegrity
     | Some q \<Rightarrow>
       if trim_space q \<noteq> q \<or> 500 < length q then Inl ErrJournalIntegrity
       else or_integrity (validateAndNormalizeReversalJournal E (postJournalParamsFromPostedJournal existing))
        (\<lambda>(n, codes).
         or_integrity (validateJournalAccountDimensions n defs) (\<lambda>_.
         if hashJournalPayloadV1WithReversal n (Some (jr_id s)) (jr_reason j) \<noteq> jr_payload_hash j
           then Inl ErrJournalIntegrity
         else if \<not> exactReversalEntryMultisetMatches ss es then Inl ErrJournalIntegrity
         else if pp_event_key n \<noteq> pp_event_key requested \<or> pp_event_type n \<noteq> pp_event_type requested
           then Inl ErrJournalIntegrity
         else Inr (j, sortPostedJournalEntries es)))))"

definition reversal_params :: "posted_journal \<Rightarrow> reverse_params \<Rightarrow> post_params" where
  "reversal_params source r = (case source of (s, ss) \<Rightarrow>
    \<lparr>pp_event_key = reversal_prefix @ jr_id s, pp_event_type = JournalReversalEventType,
     pp_booking = jr_booking s, pp_owner = jr_owner s, pp_venue = jr_venue s,
     pp_effective_at = rp_effective_at r, pp_created_by = rp_created_by r, pp_description = None,
     pp_metadata = rp_metadata r, pp_entries = invertPostedJournalEntries ss\<rparr>)"

text \<open>With the source row locked: the source must replay, its inverse must be a valid journal.\<close>

definition reverse_source :: "finance_env \<Rightarrow> nat \<Rightarrow> reverse_params \<Rightarrow> posted_journal \<Rightarrow> posted_journal fin" where
  "reverse_source E x r source = (case source of (s, ss) \<Rightarrow>
    if jr_txid s = x \<or> jr_reverses s \<noteq> None then fail ErrInvalidJournalRequest
    else andthen (map_err normalizeJournalServiceError
        (GetAccountDefinitions E (account_codes (map entry_params ss)))) (\<lambda>defs.
    andthen (map_err normalizeJournalServiceError (lift_res
        (replayExistingJournal E source (postJournalParamsFromPostedJournal source) (jr_payload_hash s) defs))) (\<lambda>_.
    andthen (lift_res (validateAndNormalizeReversalJournal E (reversal_params source r))) (\<lambda>(n, codes).
    andthen (lift_res (validateJournalAccountDimensions n defs)) (\<lambda>_.
    let h = hashJournalPayloadV1WithReversal n (Some (jr_id s)) (Some (rp_reason r)) in
    andthen (map_err normalizeJournalServiceError (GetReversalBySourceID E (jr_id s))) (\<lambda>existing.
    case existing of Some old \<Rightarrow> lift_res (replayExistingReversal E old source n h defs)
    | None \<Rightarrow> write_journal E x n h (Some (jr_id s)) (Some (rp_reason r))
        (andthen (map_err normalizeJournalServiceError (GetReversalBySourceID E (jr_id s))) (\<lambda>raced.
         andthen (deref ErrJournalIntegrity raced) (\<lambda>old.
         lift_res (replayExistingReversal E old source n h defs))))))))))"

definition ReverseJournal :: "finance_env \<Rightarrow> nat \<Rightarrow> reverse_params \<Rightarrow> posted_journal fin" where
  "ReverseJournal E x params =
    andthen (lift_res (normalizeReverseJournalParams E params)) (\<lambda>r.
    andthen (map_err normalizeJournalServiceError (GetJournalByIDForReversal E (rp_journal_id r)))
      (reverse_source E x r))"

end
