(* ===== verification/JournalFacts.thy ===== *)
theory JournalFacts
  imports JournalService
begin

text \<open>
  What validation accepts, over the unbounded integers: the running totals of the code never wrap, and
  a request is accepted exactly when each entry is well formed and the two sides have the same
  total below \<open>2\<^sup>63\<close>. The normal form does not depend on the order of the entries and is its own normal form.
\<close>

definition canonical :: "'d environment \<Rightarrow> string option \<Rightarrow> string option" where
  "canonical E v = (case v of None \<Rightarrow> None | Some s \<Rightarrow> uuid_parse E s)"

definition readable :: "'d environment \<Rightarrow> string option \<Rightarrow> bool" where
  "readable E v \<longleftrightarrow> (v = None \<longleftrightarrow> canonical E v = None)"

lemma canonicalOptionalUUID_iff:
  "canonicalOptionalUUID E v = Inr c \<longleftrightarrow> readable E v \<and> c = canonical E v"
  by (auto simp: canonicalOptionalUUID_def readable_def canonical_def split: option.splits)

text \<open>\<open>String\<close> of a parsed UUID is a text that parses to itself.\<close>

definition uuid_texts :: "'d environment \<Rightarrow> bool" where
  "uuid_texts E \<longleftrightarrow> (\<forall>s c. uuid_parse E s = Some c \<longrightarrow> uuid_parse E c = Some c \<and> c \<noteq> [])"

lemma canonical_twice:
  assumes "uuid_texts E" "readable E v"
  shows "readable E (canonical E v) \<and> canonical E (canonical E v) = canonical E v \<and> canonical E v \<noteq> Some []"
proof (cases v)
  case None
  then show ?thesis by (simp add: readable_def canonical_def)
next
  case (Some s)
  then obtain c where c: "uuid_parse E s = Some c" using assms(2) by (auto simp: readable_def canonical_def)
  then have "uuid_parse E c = Some c \<and> c \<noteq> []" using assms(1) by (simp add: uuid_texts_def)
  then show ?thesis using Some c by (simp add: readable_def canonical_def)
qed

definition valid_entry :: "'d environment \<Rightarrow> post_entry \<Rightarrow> bool" where
  "valid_entry E e \<longleftrightarrow> pe_account e \<noteq> [] \<and> length (pe_account e) \<le> 80
     \<and> (pe_side e = DEBIT \<or> pe_side e = CREDIT) \<and> 0 < sint (pe_amount e) \<and> readable E (pe_owner e)"

definition canonical_entry :: "'d environment \<Rightarrow> post_entry \<Rightarrow> post_entry" where
  "canonical_entry E e = e\<lparr>pe_owner := canonical E (pe_owner e)\<rparr>"

definition side_sum :: "string \<Rightarrow> post_entry list \<Rightarrow> int" where
  "side_sum s es = sum_list (map (\<lambda>e. sint (pe_amount e)) (filter (\<lambda>e. pe_side e = s) es))"

lemma sides [simp]: "DEBIT \<noteq> CREDIT" "CREDIT \<noteq> DEBIT"
  by (simp_all add: DEBIT_def CREDIT_def)

lemma side_sum_simps [simp]:
  "side_sum s [] = 0"
  "side_sum s (e # es) = (if pe_side e = s then sint (pe_amount e) else 0) + side_sum s es"
  by (simp_all add: side_sum_def)

lemma side_sum_nonneg: "\<forall>e \<in> set es. 0 < sint (pe_amount e) \<Longrightarrow> 0 \<le> side_sum s es"
  by (induction es) auto

lemma checkedJournalAdd_iff:
  assumes "0 \<le> sint a"
  shows "checkedJournalAdd a b = Inr c \<longleftrightarrow>
    0 < sint b \<and> sint a + sint b \<le> 9223372036854775807 \<and> sint c = sint a + sint b"
proof (cases "0 < sint b")
  case True
  have "in64 (sint b)" by simp
  then have "sint (max_int64 - b) = 9223372036854775807 - sint b"
    using sint_sub64 [of max_int64 b] True by (simp add: in64_def)
  moreover have "sint (a + b) = sint a + sint b" if "sint a + sint b \<le> 9223372036854775807"
    by (rule sint_add64) (use that True assms in \<open>simp add: in64_def\<close>)
  ultimately show ?thesis using True by (auto simp: checkedJournalAdd_def sint_eq_iff64)
qed (simp add: checkedJournalAdd_def)

lemma normalize_entries_iff:
  assumes "0 \<le> sint D" "0 \<le> sint C"
  shows "normalize_entries E es (D, C) = Inr (es', D', C') \<longleftrightarrow>
    list_all (valid_entry E) es \<and> es' = map (canonical_entry E) es
    \<and> sint D' = sint D + side_sum DEBIT es \<and> sint C' = sint C + side_sum CREDIT es
    \<and> sint D + side_sum DEBIT es \<le> 9223372036854775807 \<and> sint C + side_sum CREDIT es \<le> 9223372036854775807"
  using assms
proof (induction es arbitrary: D C es')
  case Nil
  have "sint D \<le> 9223372036854775807" "sint C \<le> 9223372036854775807"
    using in64_sint [of D] in64_sint [of C] by (simp_all add: in64_def del: in64_sint)
  then show ?case by (auto simp: sint_eq_iff64)
next
  case (Cons e es)
  show ?case
  proof (cases "valid_entry E e")
    case False
    then have "normalize_entries E (e # es) (D, C) \<noteq> Inr (es', D', C')"
      by (auto simp: valid_entry_def rbind_Inr_iff canonicalOptionalUUID_iff)
    with False show ?thesis by simp
  next
    case True
    have nonneg: "0 \<le> side_sum s es" if "list_all (valid_entry E) es" for s
      by (rule side_sum_nonneg) (use that in \<open>auto simp: list_all_iff valid_entry_def\<close>)
    have step: "normalize_entries E (e # es) (D, C) = Inr (es', D', C') \<longleftrightarrow>
      (\<exists>t' es''. add_entry e (D, C) = Inr t' \<and> normalize_entries E es t' = Inr (es'', D', C')
         \<and> es' = canonical_entry E e # es'')"
      using True by (auto simp: valid_entry_def rbind_Inr_iff canonicalOptionalUUID_iff canonical_entry_def)
    have a: "0 < sint (pe_amount e)" using True by (simp add: valid_entry_def)
    consider (debit) "pe_side e = DEBIT" | (credit) "pe_side e = CREDIT" using True by (auto simp: valid_entry_def)
    then show ?thesis
    proof cases
      case debit
      have add: "add_entry e (D, C) = Inr t' \<longleftrightarrow> sint D + sint (pe_amount e) \<le> 9223372036854775807
          \<and> (\<exists>d. t' = (d, C) \<and> sint d = sint D + sint (pe_amount e))" for t'
        using a debit by (auto simp: add_entry_def rbind_Inr_iff checkedJournalAdd_iff [OF Cons.prems(1)])
      have IH: "normalize_entries E es (d, C) = Inr (es'', D', C') \<longleftrightarrow> list_all (valid_entry E) es
          \<and> es'' = map (canonical_entry E) es \<and> sint D' = sint d + side_sum DEBIT es
          \<and> sint C' = sint C + side_sum CREDIT es \<and> sint d + side_sum DEBIT es \<le> 9223372036854775807
          \<and> sint C + side_sum CREDIT es \<le> 9223372036854775807"
        if "sint d = sint D + sint (pe_amount e)" for d es''
        by (rule Cons.IH) (use that a Cons.prems in simp_all)
      show ?thesis
      proof (cases "sint D + sint (pe_amount e) \<le> 9223372036854775807")
        case True
        then obtain d :: i64 where d: "sint d = sint D + sint (pe_amount e)"
          using a Cons.prems(1) sint_of_int64 [of "sint D + sint (pe_amount e)"] by (auto simp: in64_def)
        then have "(\<exists>d. t' = (d, C) \<and> sint d = sint D + sint (pe_amount e)) \<longleftrightarrow> t' = (d, C)" for t'
          by (auto simp: sint_eq_iff64)
        then show ?thesis unfolding step add using True IH [OF d] d debit \<open>valid_entry E e\<close> by auto
      next
        case False
        then show ?thesis unfolding step add using nonneg [of DEBIT] debit by auto
      qed
    next
      case credit
      have add: "add_entry e (D, C) = Inr t' \<longleftrightarrow> sint C + sint (pe_amount e) \<le> 9223372036854775807
          \<and> (\<exists>c. t' = (D, c) \<and> sint c = sint C + sint (pe_amount e))" for t'
        using a credit by (auto simp: add_entry_def rbind_Inr_iff checkedJournalAdd_iff [OF Cons.prems(2)])
      have IH: "normalize_entries E es (D, c) = Inr (es'', D', C') \<longleftrightarrow> list_all (valid_entry E) es
          \<and> es'' = map (canonical_entry E) es \<and> sint D' = sint D + side_sum DEBIT es
          \<and> sint C' = sint c + side_sum CREDIT es \<and> sint D + side_sum DEBIT es \<le> 9223372036854775807
          \<and> sint c + side_sum CREDIT es \<le> 9223372036854775807"
        if "sint c = sint C + sint (pe_amount e)" for c es''
        by (rule Cons.IH) (use that a Cons.prems in simp_all)
      show ?thesis
      proof (cases "sint C + sint (pe_amount e) \<le> 9223372036854775807")
        case True
        then obtain c :: i64 where c: "sint c = sint C + sint (pe_amount e)"
          using a Cons.prems(2) sint_of_int64 [of "sint C + sint (pe_amount e)"] by (auto simp: in64_def)
        then have "(\<exists>c. t' = (D, c) \<and> sint c = sint C + sint (pe_amount e)) \<longleftrightarrow> t' = (D, c)" for t'
          by (auto simp: sint_eq_iff64)
        then show ?thesis unfolding step add using True IH [OF c] c credit \<open>valid_entry E e\<close> by auto
      next
        case False
        then show ?thesis unfolding step add using nonneg [of CREDIT] credit by auto
      qed
    qed
  qed
qed

text \<open>The whole request.\<close>

definition key_accepted :: "bool \<Rightarrow> post_params \<Rightarrow> bool" where
  "key_accepted isrev p \<longleftrightarrow> pp_event_key p \<noteq> [] \<and> length (pp_event_key p) \<le> 191 \<and> matches_event_key (pp_event_key p)
     \<and> (isrev \<or> strip_prefix reversal_prefix (pp_event_key p) = None)
     \<and> matches_event_type (pp_event_type p) \<and> \<not> is_zero (pp_effective_at p)"

definition acceptable :: "'d environment \<Rightarrow> bool \<Rightarrow> post_params \<Rightarrow> bool" where
  "acceptable E isrev p \<longleftrightarrow> key_accepted isrev p \<and> validateJournalMetadata (pp_metadata p) = Inr ()
     \<and> readable E (pp_booking p) \<and> readable E (pp_owner p) \<and> readable E (pp_venue p) \<and> readable E (pp_created_by p)
     \<and> 2 \<le> length (pp_entries p) \<and> list_all (valid_entry E) (pp_entries p)
     \<and> side_sum DEBIT (pp_entries p) = side_sum CREDIT (pp_entries p)
     \<and> side_sum DEBIT (pp_entries p) \<le> 9223372036854775807"

definition canonical_params :: "'d environment \<Rightarrow> post_params \<Rightarrow> post_params" where
  "canonical_params E p = p\<lparr>pp_booking := canonical E (pp_booking p), pp_owner := canonical E (pp_owner p),
     pp_venue := canonical E (pp_venue p), pp_created_by := canonical E (pp_created_by p),
     pp_effective_at := truncate_us (pp_effective_at p), pp_entries := map (canonical_entry E) (pp_entries p)\<rparr>"

lemma validate_iff:
  "validateAndNormalizeJournalInternal E p isrev = Inr (n, codes) \<longleftrightarrow>
     acceptable E isrev p \<and> n = canonical_params E p \<and> codes = account_codes (pp_entries n)"
proof -
  have sums: "normalize_entries E (pp_entries p) (0, 0) = Inr (es, D, C) \<and> D = C \<longleftrightarrow>
      list_all (valid_entry E) (pp_entries p) \<and> es = map (canonical_entry E) (pp_entries p)
      \<and> side_sum DEBIT (pp_entries p) = side_sum CREDIT (pp_entries p)
      \<and> side_sum DEBIT (pp_entries p) \<le> 9223372036854775807
      \<and> sint D = side_sum DEBIT (pp_entries p) \<and> C = D" for es D C
    using normalize_entries_iff [of 0 0 E "pp_entries p" es D C] by (auto simp: sint_eq_iff64)
  have ex: "\<exists>D :: i64. sint D = side_sum DEBIT (pp_entries p)"
    if "list_all (valid_entry E) (pp_entries p)" "side_sum DEBIT (pp_entries p) \<le> 9223372036854775807"
  proof -
    have "0 \<le> side_sum DEBIT (pp_entries p)"
      by (rule side_sum_nonneg) (use that in \<open>auto simp: list_all_iff valid_entry_def\<close>)
    then show ?thesis using that sint_of_int64 [of "side_sum DEBIT (pp_entries p)"] by (auto simp: in64_def)
  qed
  let ?rest = "key_accepted isrev p \<and> 2 \<le> length (pp_entries p) \<and> validateJournalMetadata (pp_metadata p) = Inr ()
     \<and> readable E (pp_booking p) \<and> readable E (pp_owner p) \<and> readable E (pp_venue p) \<and> readable E (pp_created_by p)"
  have "validateAndNormalizeJournalInternal E p isrev = Inr (n, codes) \<longleftrightarrow>
      ?rest \<and> (\<exists>es D C. (normalize_entries E (pp_entries p) (0, 0) = Inr (es, D, C) \<and> D = C)
        \<and> n = (canonical_params E p)\<lparr>pp_entries := es\<rparr> \<and> codes = account_codes es)"
    unfolding validateAndNormalizeJournalInternal_def key_accepted_def canonical_params_def
    by (auto simp: rbind_Inr_iff canonicalOptionalUUID_iff not_less split: if_splits)
  also have "\<dots> \<longleftrightarrow> acceptable E isrev p \<and> n = canonical_params E p \<and> codes = account_codes (pp_entries n)"
    unfolding sums acceptable_def using ex by (auto simp: canonical_params_def)
  finally show ?thesis .
qed

subsection \<open>Normal forms\<close>

lemma side_sum_mset:
  assumes "mset xs = mset ys"
  shows "side_sum s xs = side_sum s ys"
proof -
  have "side_sum s zs = sum_mset (image_mset (\<lambda>e. sint (pe_amount e)) (filter_mset (\<lambda>e. pe_side e = s) (mset zs)))" for zs
    by (simp add: side_sum_def sum_mset_sum_list flip: mset_filter mset_map)
  then show ?thesis using assms by simp
qed

lemma side_sum_map: "(\<And>e. pe_side (f e) = pe_side e \<and> pe_amount (f e) = pe_amount e) \<Longrightarrow> side_sum s (map f es) = side_sum s es"
  by (induction es) auto

lemma acceptable_perm:
  assumes "acceptable E isrev p" "mset es = mset (pp_entries p)"
  shows "acceptable E isrev (p\<lparr>pp_entries := es\<rparr>)"
proof -
  have "set es = set (pp_entries p)" "length es = length (pp_entries p)"
    using assms(2) by (auto dest: mset_eq_setD mset_eq_length)
  then show ?thesis
    using assms side_sum_mset [OF assms(2)] by (simp add: acceptable_def key_accepted_def list_all_iff)
qed

lemma canonical_acceptable:
  assumes "uuid_texts E" "acceptable E isrev p" "truncate_us (pp_effective_at p) \<noteq> 0"
  shows "acceptable E isrev (canonical_params E p)"
    and "canonical_params E (canonical_params E p) = canonical_params E p"
    and "\<forall>e \<in> set (pp_entries (canonical_params E p)). orderly e"
proof -
  note c = canonical_twice [OF assms(1)]
  have e: "valid_entry E (canonical_entry E e) \<and> canonical_entry E (canonical_entry E e) = canonical_entry E e
      \<and> orderly (canonical_entry E e)"
    if "valid_entry E e" for e
    using that c [of "pe_owner e"] by (simp add: valid_entry_def canonical_entry_def orderly_def)
  have sums: "side_sum s (map (canonical_entry E) (pp_entries p)) = side_sum s (pp_entries p)" for s
    by (rule side_sum_map) (simp add: canonical_entry_def)
  show "acceptable E isrev (canonical_params E p)"
    using assms(2,3) e c by (simp add: acceptable_def key_accepted_def canonical_params_def list_all_iff sums is_zero_def)
  show "canonical_params E (canonical_params E p) = canonical_params E p"
    using assms(2) e c by (simp add: acceptable_def canonical_params_def list_all_iff)
  show "\<forall>e \<in> set (pp_entries (canonical_params E p)). orderly e"
    using assms(2) e by (simp add: acceptable_def canonical_params_def list_all_iff)
qed

lemma canonical_params_entries:
  "canonical_params E (p\<lparr>pp_entries := es\<rparr>) = (canonical_params E p)\<lparr>pp_entries := map (canonical_entry E) es\<rparr>"
  by (simp add: canonical_params_def)

subsection \<open>The dimensions\<close>

definition dimension_ok :: "string option \<Rightarrow> definitions \<Rightarrow> post_entry \<Rightarrow> bool" where
  "dimension_ok owner defs e \<longleftrightarrow>
     (defs (pe_account e) = Some ''REQUIRED'' \<and> pe_owner e \<noteq> None \<and> pe_owner e = owner)
     \<or> (defs (pe_account e) = Some ''FORBIDDEN'' \<and> pe_owner e = None)"

lemma check_dimensions_iff: "check_dimensions owner defs es = Inr () \<longleftrightarrow> list_all (dimension_ok owner defs) es"
  by (induction es) (auto simp: dimension_ok_def split: option.splits)

lemma account_dimension: "map_of platform_accounts a = Some dim \<Longrightarrow> dim = ''REQUIRED'' \<or> dim = ''FORBIDDEN''"
  by (auto simp: platform_accounts_def split: if_splits)

subsection \<open>Metadata passes the check of the table\<close>

lemma drop_first_match_append:
  "drop_first_match ps s = Some r \<Longrightarrow> drop_first_match (ps @ qs) s = Some r"
  by (induction ps) (auto split: option.splits)

lemma match_cases_go: "match_cases ascii_cases p s \<Longrightarrow> match_cases go_cases p s"
proof (induction p arbitrary: s)
  case (Cons c p)
  then obtain r where "drop_first_match (ascii_cases c) s = Some r" "match_cases go_cases p r"
    by (auto split: option.splits)
  moreover from this(1) have "drop_first_match (go_cases c) s = Some r"
    by (simp add: go_cases_def drop_first_match_append)
  ultimately show ?case by simp
qed simp

lemma finds_go: "finds ascii_cases p s \<Longrightarrow> finds go_cases p s"
  by (induction s) (auto dest: match_cases_go)

lemma trim_left_shrinks:
  assumes "[] \<notin> set ps" "drop_first_match ps s = Some r"
  shows "length (trim_left ps s) < length s"
proof -
  obtain p where "p \<in> set ps" "s = p @ r" using drop_first_match_Some [OF assms(2)] by blast
  then have "length r < length s" using assms(1) by (cases p) auto
  moreover have "trim_left ps s = trim_left_fuel (length s - 1) ps r"
    using assms(2) \<open>length r < length s\<close> by (cases "length s") (auto simp: trim_left_def)
  moreover have "length (trim_left_fuel n ps r) \<le> length r" for n
    by (metis length_append le_add2 trim_left_fuel_suffix)
  ultimately show ?thesis by (metis le_less_trans)
qed

lemma drop_first_match_single: "[c] \<in> set ps \<Longrightarrow> drop_first_match ps (c # r) \<noteq> None"
  by (induction ps) (auto split: option.splits)

lemma space_white: "[CHR '' ''] \<in> set white_space \<and> [CHR '' ''] \<in> set (map rev white_space)"
proof -
  have "char_of (32 :: nat) = CHR '' ''" by code_simp
  moreover have w: "[char_of (32 :: nat)] \<in> set white_space"
    unfolding white_space_def set_append by (intro UnI1) (simp only: set_map list.set image_insert insertI1 insertI2)
  ultimately have "[CHR '' ''] \<in> set white_space" by metis
  then have "rev [CHR '' ''] \<in> rev ` set white_space" by (rule imageI)
  with \<open>[CHR '' ''] \<in> set white_space\<close> show ?thesis by simp
qed

lemma trimmed_ends:
  assumes "trim_space s = s"
  shows "btrimmed s"
proof -
  have ps: "[] \<notin> set white_space" "[] \<notin> set (map rev white_space)"
    using white_space_not_empty by auto
  have len: "length (trim_left ps t) \<le> length t" for ps t
    by (metis length_append le_add2 trim_left_fuel_suffix trim_left_def)
  define t where "t = trim_left white_space s"
  have s: "rev (trim_left (map rev white_space) (rev t)) = s" using assms by (simp add: trim_space_def t_def)
  then have "length s = length (trim_left (map rev white_space) (rev t))" by (metis length_rev)
  then have lt: "length s \<le> length t" "length t = length s"
    using len [of "map rev white_space" "rev t"] len [of white_space s] by (simp_all add: t_def)
  have left: "drop_first_match white_space s = None"
    using trim_left_shrinks [OF ps(1), of s] lt(2) by (cases "drop_first_match white_space s") (auto simp: t_def)
  then have "t = s" by (simp add: t_def trim_left_id)
  then have right: "drop_first_match (map rev white_space) (rev s) = None"
    using trim_left_shrinks [OF ps(2), of "rev s"] s
    by (cases "drop_first_match (map rev white_space) (rev s)") (auto dest: arg_cong [of _ _ length])
  have space: "drop_first_match white_space (CHR '' '' # r) \<noteq> None"
    "drop_first_match (map rev white_space) (CHR '' '' # r) \<noteq> None" for r
    using space_white by (simp_all only: drop_first_match_single not_False_eq_True)
  have "hd s \<noteq> CHR '' '' \<and> last s \<noteq> CHR '' ''" if ne: "s \<noteq> []"
  proof -
    obtain c r where c: "s = c # r" using ne by (cases s) auto
    have "c \<noteq> CHR '' ''" using left [unfolded c] space(1) [of r] by metis
    moreover obtain q l where l: "s = q @ [l]" using ne rev_exhaust by blast
    have "rev s = l # rev q" unfolding l by simp
    then have "l \<noteq> CHR '' ''" using right space(2) [of "rev q"] by metis
    ultimately have "hd s \<noteq> CHR '' ''" "last s \<noteq> CHR '' ''" using c l by (metis list.sel(1), metis last_snoc)
    then show ?thesis ..
  qed
  then show ?thesis by (auto simp: btrimmed_def)
qed

lemma metadata_passes: "validateJournalMetadata m = Inr () \<Longrightarrow> validate_platform_journal_metadata m"
proof (induction m rule: validateJournalMetadata.induct)
  case (2 k v m)
  then have "btrimmed v" using trimmed_ends [of v] by (auto split: if_splits)
  moreover have "\<not> list_ex (\<lambda>p. finds ascii_cases p v) sensitive_words"
    using 2(2) finds_go by (auto simp: list_ex_iff split: if_splits)
  ultimately show ?case using 2 by (auto simp: validate_platform_journal_metadata_def split: if_splits)
qed (simp add: validate_platform_journal_metadata_def)

end
