(* ===== verification/JournalSafety.thy ===== *)
theory JournalSafety
  imports JournalFacts
begin

text \<open>
  The invariant of the ledger: every stored journal is balanced over known accounts, is its own normal form,
  carries the hash of its rows, and a reversal is the exact inverse of a journal that is not a
  reversal, at most one per source. Posting and reversing keep it and only append; the deferred
  trigger accepts what they write.
\<close>

definition stored_params :: "finance_db \<Rightarrow> journal_row \<Rightarrow> post_params" where
  "stored_params d j = postJournalParamsFromPostedJournal (j, entries_of d (jr_id j))"

definition replayable :: "finance_env \<Rightarrow> finance_db \<Rightarrow> journal_row \<Rightarrow> bool" where
  "replayable E d j \<longleftrightarrow> (let p = stored_params d j in
     acceptable E (jr_reverses j \<noteq> None) p \<and> canonical_params E p = p \<and> distinct (map fst (pp_metadata p))
     \<and> (\<forall>e \<in> set (pp_entries p). orderly e \<and> dimension_ok (jr_owner j) (map_of platform_accounts) e)
     \<and> jr_payload_hash j = hashJournalPayloadV1WithReversal p (jr_reverses j) (jr_reason j)
     \<and> jr_hash_version j = JournalPayloadHashVersionV1 \<and> jr_currency j = JournalCurrencyIDR
     \<and> uuid_parse E (jr_id j) = Some (jr_id j) \<and> jr_effective_at j \<le> jr_posted_at j
     \<and> (\<forall>e \<in> set (entries_of d (jr_id j)). uuid_parse E (je_id e) = Some (je_id e)))"

definition inverts :: "finance_db \<Rightarrow> journal_row \<Rightarrow> journal_row \<Rightarrow> bool" where
  "inverts d j s \<longleftrightarrow> jr_reverses j = Some (jr_id s) \<and> jr_reverses s = None
     \<and> mset (map entry_facts (entries_of d (jr_id j))) = mset (map inverse_facts (entries_of d (jr_id s)))
     \<and> jr_booking j = jr_booking s \<and> jr_owner j = jr_owner s \<and> jr_venue j = jr_venue s
     \<and> jr_event_key j = reversal_prefix @ jr_id s \<and> jr_event_type j = JournalReversalEventType
     \<and> jr_description j = None \<and> (\<exists>q. jr_reason j = Some q \<and> trim_space q = q \<and> length q \<le> 500)"

definition journal_sound :: "finance_env \<Rightarrow> finance_db \<Rightarrow> journal_row \<Rightarrow> bool" where
  "journal_sound E d j \<longleftrightarrow> replayable E d j
     \<and> (if jr_reverses j = None then jr_reason j = None else (\<exists>s \<in> set (journals d). inverts d j s))"

definition ledger_sound :: "finance_env \<Rightarrow> finance_db \<Rightarrow> bool" where
  "ledger_sound E d \<longleftrightarrow> distinct (map jr_id (journals d)) \<and> distinct (map jr_event_key (journals d))
     \<and> distinct (map je_id (journal_entries d))
     \<and> (\<forall>e \<in> set (journal_entries d). je_journal e \<in> jr_id ` set (journals d))
     \<and> (\<forall>j \<in> set (journals d). journal_sound E d j)
     \<and> (\<forall>j \<in> set (journals d). \<forall>k \<in> set (journals d). jr_reverses j \<noteq> None \<longrightarrow> jr_reverses j = jr_reverses k \<longrightarrow> j = k)"

text \<open>Rows are only appended, and never to an older journal.\<close>

definition appended :: "finance_db \<Rightarrow> finance_db \<Rightarrow> bool" where
  "appended d d' \<longleftrightarrow> (\<exists>js es. journals d' = journals d @ js \<and> journal_entries d' = journal_entries d @ es
     \<and> (\<forall>e \<in> set es. je_journal e \<notin> jr_id ` set (journals d)))"

definition ledger_kept :: "finance_env \<Rightarrow> finance_db \<Rightarrow> finance_db \<Rightarrow> bool" where
  "ledger_kept E d d' \<longleftrightarrow> appended d d' \<and> (ledger_sound E d \<longrightarrow> ledger_sound E d')"

lemma appended_refl: "appended d d"
  by (auto simp: appended_def)

lemma appended_trans: "appended d1 d2 \<Longrightarrow> appended d2 d3 \<Longrightarrow> appended d1 d3"
  by (fastforce simp: appended_def)

lemma appended_entries:
  assumes "appended d d'" "i \<in> jr_id ` set (journals d)"
  shows "entries_of d' i = entries_of d i"
proof -
  obtain es where es: "journal_entries d' = journal_entries d @ es" "\<forall>e \<in> set es. je_journal e \<notin> jr_id ` set (journals d)"
    using assms(1) by (auto simp: appended_def)
  have "filter (\<lambda>e. je_journal e = i) es = []" using es(2) assms(2) by (auto simp: filter_empty_conv)
  then show ?thesis using es(1) by (simp add: entries_of_def)
qed

lemma appended_stored:
  assumes "appended d d'" "j \<in> set (journals d)"
  shows "stored_params d' j = stored_params d j" "replayable E d' j = replayable E d j"
proof -
  have "entries_of d' (jr_id j) = entries_of d (jr_id j)" using assms(2) by (intro appended_entries [OF assms(1)]) simp
  then show "stored_params d' j = stored_params d j" "replayable E d' j = replayable E d j"
    by (simp_all add: stored_params_def replayable_def)
qed

lemma appended_sound:
  assumes "appended d d'" "j \<in> set (journals d)" "journal_sound E d j"
  shows "journal_sound E d' j"
proof -
  have js: "set (journals d) \<subseteq> set (journals d')" using assms(1) by (auto simp: appended_def)
  have "inverts d' j s" if "s \<in> set (journals d)" "inverts d j s" for s
    using that assms(1,2) appended_entries [OF assms(1)] by (simp add: inverts_def)
  then show ?thesis
    using assms js appended_stored [OF assms(1,2)] by (auto simp: journal_sound_def split: if_splits)
qed

text \<open>Adding one journal with its entries.\<close>

definition with_journal :: "journal_row \<Rightarrow> journal_entry list \<Rightarrow> finance_db \<Rightarrow> finance_db" where
  "with_journal j es d = d\<lparr>journals := journals d @ [j], journal_entries := journal_entries d @ es\<rparr>"

definition fresh_rows :: "journal_row \<Rightarrow> journal_entry list \<Rightarrow> finance_db \<Rightarrow> bool" where
  "fresh_rows j es d \<longleftrightarrow> jr_id j \<notin> jr_id ` set (journals d) \<and> jr_event_key j \<notin> jr_event_key ` set (journals d)
     \<and> (jr_reverses j \<noteq> None \<longrightarrow> jr_reverses j \<notin> jr_reverses ` set (journals d))
     \<and> distinct (map je_id es) \<and> je_id ` set es \<inter> je_id ` set (journal_entries d) = {}
     \<and> (\<forall>e \<in> set es. je_journal e = jr_id j)"

lemma with_journal_appended: "fresh_rows j es d \<Longrightarrow> appended d (with_journal j es d)"
  by (auto simp: appended_def with_journal_def fresh_rows_def)

lemma with_journal_entries:
  assumes "fresh_rows j es d" "\<forall>e \<in> set (journal_entries d). je_journal e \<in> jr_id ` set (journals d)"
  shows "entries_of (with_journal j es d) (jr_id j) = es"
proof -
  have "je_journal e \<noteq> jr_id j" if "e \<in> set (journal_entries d)" for e
    using assms that unfolding fresh_rows_def by metis
  then have "filter (\<lambda>e. je_journal e = jr_id j) (journal_entries d) = []" by (simp add: filter_empty_conv)
  moreover have "filter (\<lambda>e. je_journal e = jr_id j) es = es" using assms(1) by (simp add: fresh_rows_def)
  ultimately show ?thesis by (simp add: entries_of_def with_journal_def)
qed

lemma with_journal_sound:
  assumes inv: "ledger_sound E d" and fresh: "fresh_rows j es d"
    and sound: "journal_sound E (with_journal j es d) j"
  shows "ledger_sound E (with_journal j es d)"
proof -
  let ?d = "with_journal j es d"
  note app = with_journal_appended [OF fresh]
  have rows: "journals ?d = journals d @ [j]" "journal_entries ?d = journal_entries d @ es"
    by (simp_all add: with_journal_def)
  have "\<forall>k \<in> set (journals ?d). journal_sound E ?d k"
    using inv sound appended_sound [OF app] by (auto simp: rows ledger_sound_def)
  moreover have "\<forall>e \<in> set (journal_entries ?d). je_journal e \<in> jr_id ` set (journals ?d)"
    using inv fresh by (auto simp: rows ledger_sound_def fresh_rows_def)
  moreover have "k = l" if k: "k \<in> set (journals ?d)" and l: "l \<in> set (journals ?d)"
    and "jr_reverses k \<noteq> None" "jr_reverses k = jr_reverses l" for k l
  proof -
    have new: "jr_reverses m \<noteq> jr_reverses j" if "m \<in> set (journals ?d)" "m \<noteq> j" "jr_reverses j \<noteq> None" for m
    proof -
      have "jr_reverses m \<in> jr_reverses ` set (journals d)" using that(1,2) by (simp add: rows)
      moreover have "jr_reverses j \<notin> jr_reverses ` set (journals d)" using fresh that(3) by (simp add: fresh_rows_def)
      ultimately show ?thesis by metis
    qed
    have old: "\<forall>m \<in> set (journals d). \<forall>n \<in> set (journals d). jr_reverses m \<noteq> None \<longrightarrow> jr_reverses m = jr_reverses n \<longrightarrow> m = n"
      using inv unfolding ledger_sound_def by blast
    show ?thesis
    proof (cases "k = j")
      case True
      then show ?thesis using new [OF l] that(3,4) by metis
    next
      case False
      then have "l \<noteq> j" using new [OF k] that(3,4) by metis
      then have "k \<in> set (journals d)" "l \<in> set (journals d)" using False k l by (simp_all add: rows)
      then show ?thesis using old that(3,4) by blast
    qed
  qed
  moreover have "distinct (map jr_id (journals ?d))" "distinct (map jr_event_key (journals ?d))"
    using inv fresh unfolding rows by (simp_all add: ledger_sound_def fresh_rows_def)
  moreover have "distinct (map je_id (journal_entries ?d))"
    using inv fresh unfolding rows map_append distinct_append set_map
    by (simp add: ledger_sound_def fresh_rows_def Int_commute)
  ultimately show ?thesis unfolding ledger_sound_def by blast
qed

subsection \<open>What the statements write\<close>

lemma prepare_entries_Inr:
  assumes "prepare_entries E es w = (Inr qs, w')"
  shows "map snd qs = es \<and> (\<forall>q \<in> set qs. fst q \<in> range (new_uuid E))
    \<and> db w' = db w \<and> base w' = base w \<and> tx_now w' = tx_now w"
  using assms
proof (induction es arbitrary: qs w)
  case (Cons e es)
  then obtain qs' where "prepare_entries E es (w\<lparr>steps := Suc (steps w)\<rparr>) = (Inr qs', w')"
    "qs = (new_uuid E (steps w), e) # qs'" by (auto simp: andthen_Inr)
  with Cons.IH [OF this(1)] show ?case by simp
qed (simp add: ret_def)

lemma pg_call_Inr: "pg_call E f w = (Inr v, w') \<longleftrightarrow> \<not> db_fault E (steps w)
    \<and> (\<exists>d. f (tx_now w) (db w) = (Inr v, d) \<and> w' = w\<lparr>steps := Suc (steps w), db := d\<rparr>)"
  by (auto simp: pg_call_def db_call_Inr split: prod.splits sum.splits)

lemma insert_entry_Inr: "insert_entry x e d = (Inr r, d') \<longleftrightarrow>
    entry_error x d e = None \<and> r = e \<and> d' = d\<lparr>journal_entries := journal_entries d @ [e]\<rparr>"
  by (auto simp: insert_entry_def split: option.splits)

lemma entry_error_id: "entry_error x d e = None \<Longrightarrow> je_id e \<notin> je_id ` set (journal_entries d)"
  by (auto simp: entry_error_def sql_exists_iff split: option.splits if_splits)

lemma InsertEntries_Inr:
  assumes "InsertEntries E x i qs w = (Inr rs, w')"
  shows "rs = map (entry_row i (tx_now w)) qs \<and> distinct (map je_id rs)
    \<and> je_id ` set rs \<inter> je_id ` set (journal_entries (db w)) = {}
    \<and> db w' = (db w)\<lparr>journal_entries := journal_entries (db w) @ rs\<rparr> \<and> base w' = base w \<and> tx_now w' = tx_now w"
  using assms
proof (induction qs arbitrary: rs w)
  case (Cons q qs)
  let ?e = "entry_row i (tx_now w) q"
  let ?w = "w\<lparr>steps := Suc (steps w), db := (db w)\<lparr>journal_entries := journal_entries (db w) @ [?e]\<rparr>\<rparr>"
  obtain rs' where rest: "InsertEntries E x i qs ?w = (Inr rs', w')" and rs: "rs = ?e # rs'"
    and err: "entry_error x (db w) ?e = None"
    using Cons.prems by (auto simp: andthen_Inr pg_call_Inr insert_entry_Inr)
  have old: "je_id ?e \<notin> je_id ` set (journal_entries (db w))" by (rule entry_error_id [OF err])
  note IH = Cons.IH [OF rest]
  have rs': "rs' = map (entry_row i (tx_now w)) qs" using IH by simp
  have new: "distinct (map je_id rs')" "je_id ` set rs' \<inter> je_id ` set (journal_entries (db ?w)) = {}" using IH by blast+
  have "distinct (map je_id rs)" "je_id ` set rs \<inter> je_id ` set (journal_entries (db w)) = {}"
    unfolding rs using old new by auto
  moreover have "rs = map (entry_row i (tx_now w)) (q # qs)" by (simp add: rs rs')
  moreover have "db w' = (db w)\<lparr>journal_entries := journal_entries (db w) @ rs\<rparr> \<and> base w' = base w \<and> tx_now w' = tx_now w"
    using IH by (simp add: rs)
  ultimately show ?case by blast
qed (simp add: ret_def)

lemma insert_journal_Inr:
  assumes "insert_journal x t j d = (Inr v, d')"
  shows "(v = None \<and> d' = d \<and> jr_event_key j \<in> jr_event_key ` set (journals d))
    \<or> (v = Some (j\<lparr>jr_posted_at := t, jr_txid := x\<rparr>) \<and> d' = d\<lparr>journals := journals d @ [j\<lparr>jr_posted_at := t, jr_txid := x\<rparr>]\<rparr>
       \<and> jr_event_key j \<notin> jr_event_key ` set (journals d) \<and> jr_id j \<notin> jr_id ` set (journals d)
       \<and> (jr_reverses j \<noteq> None \<longrightarrow> jr_reverses j \<notin> jr_reverses ` set (journals d))
       \<and> jr_effective_at j \<le> t)"
proof -
  let ?r = "j\<lparr>jr_posted_at := t, jr_txid := x\<rparr>"
  have checks: "failed_check (journal_checks ?r) = None"
    using assms by (auto simp: insert_journal_def Let_def split: option.splits)
  have time: "jr_effective_at j \<le> t"
  proof -
    have "(''chk_platform_journal_effective_time'', jr_effective_at ?r \<le> jr_posted_at ?r) \<in> set (journal_checks ?r)"
      by (simp add: journal_checks_def)
    then show ?thesis using checks by (fastforce simp: failed_check_def find_None_iff)
  qed
  show ?thesis
    using assms checks time
    by (auto simp: insert_journal_def Let_def sql_exists_iff image_iff split: option.splits if_splits) metis+
qed

lemma loadJournalOptional_db: "loadJournalOptional E p w = (Inr v, w') \<Longrightarrow> db w' = db w"
  by (auto simp: loadJournalOptional_def andthen_Inr query_Inr split: option.splits)

lemma loadJournal_found:
  assumes "loadJournalOptional E p w = (Inr (Some (j, es)), w')"
  shows "db w' = db w" "j \<in> set (journals (db w))" "p j" "es = sort_key load_order (entries_of (db w) (jr_id j))"
proof -
  have row: "query_row p (journals (db w)) = Some j" and "db w' = db w"
    and "es = sort_key load_order (entries_of (db w) (jr_id j))"
    using assms by (auto simp: loadJournalOptional_def andthen_Inr query_Inr split: option.splits)
  then show "db w' = db w" "j \<in> set (journals (db w))" "p j" "es = sort_key load_order (entries_of (db w) (jr_id j))"
    using query_row_Some [OF row] by simp_all
qed

text \<open>A successful write: other sessions may have committed while the insert waited; then either
  the event key was there, or one journal with its entries is new.\<close>

definition posted_new :: "finance_env \<Rightarrow> nat \<Rightarrow> post_params \<Rightarrow> string \<Rightarrow> string option \<Rightarrow> string option
    \<Rightarrow> finance_db \<Rightarrow> finance_db \<Rightarrow> posted_journal \<Rightarrow> bool" where
  "posted_new E x n h reverses reason d d' p \<longleftrightarrow> (\<exists>i t now qs.
     let j = (prepared_row i n h reverses reason)\<lparr>jr_posted_at := t, jr_txid := x\<rparr>; es = map (entry_row i now) qs in
     p = (j, sortPostedJournalEntries es) \<and> d' = with_journal j es d \<and> fresh_rows j es d \<and> map snd qs = pp_entries n
     \<and> i \<in> range (new_uuid E) \<and> (\<forall>q \<in> set qs. fst q \<in> range (new_uuid E)) \<and> pp_effective_at n \<le> t)"

lemma TryInsertJournal_Inr:
  assumes "TryInsertJournal E x j w = (Inr v, w')"
  shows "\<exists>d t. d = interfere E (steps w) (db w) \<and> tx_now w' = tx_now w
    \<and> ((v = None \<and> db w' = d \<and> jr_event_key j \<in> jr_event_key ` set (journals d))
     \<or> (v = Some (j\<lparr>jr_posted_at := t, jr_txid := x\<rparr>) \<and> db w' = d\<lparr>journals := journals d @ [j\<lparr>jr_posted_at := t, jr_txid := x\<rparr>]\<rparr>
       \<and> jr_event_key j \<notin> jr_event_key ` set (journals d) \<and> jr_id j \<notin> jr_id ` set (journals d)
       \<and> (jr_reverses j \<noteq> None \<longrightarrow> jr_reverses j \<notin> jr_reverses ` set (journals d)) \<and> jr_effective_at j \<le> t))"
proof -
  define d where "d = interfere E (steps w) (db w)"
  obtain t d' where "insert_journal x t j d = (Inr v, d')" "db w' = d'" "tx_now w' = tx_now w"
    using assms by (auto simp: TryInsertJournal_def andthen_Inr lock_wait_Inr pg_call_Inr d_def)
  then show ?thesis using insert_journal_Inr [of x t j d v d'] unfolding d_def by blast
qed

lemma write_journal_Inr:
  assumes "write_journal E x n h reverses reason replay w = (Inr p, w')"
  shows "\<exists>k d. d = interfere E k (db w)
    \<and> (posted_new E x n h reverses reason d (db w') p
       \<or> (\<exists>v. replay v = (Inr p, w') \<and> db v = d \<and> pp_event_key n \<in> jr_event_key ` set (journals d)))"
proof -
  define i where "i = new_uuid E (steps w)"
  define row where "row = prepared_row i n h reverses reason"
  obtain qs w1 r w2 where prep: "prepare_entries E (pp_entries n) (w\<lparr>steps := Suc (steps w)\<rparr>) = (Inr qs, w1)"
    and ins: "TryInsertJournal E x row w1 = (Inr r, w2)"
    and rest: "(case r of None \<Rightarrow> replay
      | Some r \<Rightarrow> andthen (map_err normalizeJournalServiceError (InsertEntries E x i qs)) (\<lambda>es.
          ret (r, sortPostedJournalEntries es))) w2 = (Inr p, w')"
    unfolding i_def row_def using assms by (auto simp: write_journal_def andthen_Inr map_err_Inr)
  note q = prepare_entries_Inr [OF prep]
  define d where "d = interfere E (steps w1) (db w1)"
  have d: "d = interfere E (steps w1) (db w)" using q by (simp add: d_def)
  have row_fields: "jr_event_key row = pp_event_key n" "jr_id row = i" "jr_reverses row = reverses"
    "jr_effective_at row = pp_effective_at n" by (simp_all add: row_def prepared_row_def)
  obtain t where t: "(r = None \<and> db w2 = d \<and> pp_event_key n \<in> jr_event_key ` set (journals d))
     \<or> (r = Some (row\<lparr>jr_posted_at := t, jr_txid := x\<rparr>) \<and> db w2 = d\<lparr>journals := journals d @ [row\<lparr>jr_posted_at := t, jr_txid := x\<rparr>]\<rparr>
       \<and> pp_event_key n \<notin> jr_event_key ` set (journals d) \<and> i \<notin> jr_id ` set (journals d)
       \<and> (reverses \<noteq> None \<longrightarrow> reverses \<notin> jr_reverses ` set (journals d)) \<and> pp_effective_at n \<le> t)"
    using TryInsertJournal_Inr [OF ins] unfolding row_fields d_def by blast
  then show ?thesis
  proof
    assume "r = None \<and> db w2 = d \<and> pp_event_key n \<in> jr_event_key ` set (journals d)"
    then show ?thesis using rest d by auto
  next
    let ?j = "row\<lparr>jr_posted_at := t, jr_txid := x\<rparr>"
    assume new: "r = Some ?j \<and> db w2 = d\<lparr>journals := journals d @ [?j]\<rparr>
       \<and> pp_event_key n \<notin> jr_event_key ` set (journals d) \<and> i \<notin> jr_id ` set (journals d)
       \<and> (reverses \<noteq> None \<longrightarrow> reverses \<notin> jr_reverses ` set (journals d)) \<and> pp_effective_at n \<le> t"
    then obtain es where es: "InsertEntries E x i qs w2 = (Inr es, w')" and p: "p = (?j, sortPostedJournalEntries es)"
      using rest by (auto simp: andthen_Inr map_err_Inr)
    note e = InsertEntries_Inr [OF es]
    have "journal_entries (db w2) = journal_entries d" using new by simp
    then have "distinct (map je_id es)" "je_id ` set es \<inter> je_id ` set (journal_entries d) = {}"
      using e by metis+
    moreover have rows: "es = map (entry_row i (tx_now w2)) qs" using e by blast
    then have "\<forall>e \<in> set es. je_journal e = i" by (auto simp: entry_row_def)
    ultimately have "fresh_rows ?j es d" using new by (simp add: fresh_rows_def row_fields)
    moreover have "db w' = with_journal ?j es d" using e new by (simp add: with_journal_def)
    ultimately have "posted_new E x n h reverses reason d (db w') p"
      unfolding posted_new_def Let_def row_def using q p new i_def rows
      by - (rule exI [of _ i], rule exI [of _ t], rule exI [of _ "tx_now w2"], rule exI [of _ qs], simp add: row_def)
    then show ?thesis using d by blast
  qed
qed

subsection \<open>The deferred trigger accepts the ledger\<close>

lemma side_total_params: "side_total s es = side_sum s (map entry_params es)"
  by (induction es) (simp_all add: side_total_def entry_params_def)

lemma sound_balanced:
  assumes "journal_sound E d j"
  shows "2 \<le> length (entries_of d (jr_id j))"
    and "side_total DEBIT (entries_of d (jr_id j)) = side_total CREDIT (entries_of d (jr_id j))"
proof -
  have "acceptable E (jr_reverses j \<noteq> None) (stored_params d j)"
    using assms by (simp add: journal_sound_def replayable_def Let_def)
  then show "2 \<le> length (entries_of d (jr_id j))"
    and "side_total DEBIT (entries_of d (jr_id j)) = side_total CREDIT (entries_of d (jr_id j))"
    by (simp_all add: acceptable_def stored_params_def postJournalParamsFromPostedJournal_def side_total_params)
qed

lemma sound_passes_guard:
  assumes "ledger_sound E d" "j \<in> set (journals d)"
  shows "balance_guard d j = None"
proof -
  have j: "journal_sound E d j" using assms by (simp add: ledger_sound_def)
  show ?thesis
  proof (cases "jr_reverses j")
    case None
    then show ?thesis using sound_balanced [OF j] by (simp add: balance_guard_def Let_def)
  next
    case (Some i)
    then obtain s where "inverts d j s" using j by (auto simp: journal_sound_def)
    then show ?thesis using sound_balanced [OF j] by (simp add: balance_guard_def Let_def inverts_def)
  qed
qed

lemma sound_no_refusal: "ledger_sound E d \<Longrightarrow> set js \<subseteq> set (journals d) \<Longrightarrow> first_refusal d js = None"
  by (induction js) (simp_all add: sound_passes_guard)

end
