(* ===== verification/JournalRuns.thy ===== *)
theory JournalRuns
  imports JournalSafety
begin

text \<open>
  What a successful posting or reversal has done, and that both keep the ledger sound. The assumptions on the
  environment are those of the \<^verbatim>\<open>uuid\<close> package (a parsed UUID prints as a text that parses to itself, a fresh
  one is such a text); those on the request are that its metadata is a map and that its time is not in the first
  microsecond of the year 1, which \<open>Truncate\<close> turns into the zero time.
\<close>

definition uuid_package :: "'d environment \<Rightarrow> bool" where
  "uuid_package E \<longleftrightarrow> uuid_texts E \<and> (\<forall>i \<in> range (new_uuid E). uuid_parse E i = Some i)"

definition well_posed :: "metadata \<Rightarrow> time \<Rightarrow> bool" where
  "well_posed m t \<longleftrightarrow> distinct (map fst m) \<and> truncate_us t \<noteq> 0"

lemma well_posed_trunc: "well_posed m t \<Longrightarrow> well_posed m (truncate_us t)"
  by (simp add: well_posed_def)

subsection \<open>A new journal is replayable\<close>

lemma entry_row_params: "map entry_params (map (entry_row i now) qs) = map snd qs"
  by (auto simp: entry_params_def entry_row_def)

lemma new_stored_params:
  assumes new: "posted_new E x n h reverses reason d d' (j, es)"
    and d: "\<forall>e \<in> set (journal_entries d). je_journal e \<in> jr_id ` set (journals d)"
  shows "stored_params d' j = n \<and> jr_reverses j = reverses \<and> jr_reason j = reason \<and> jr_payload_hash j = h
    \<and> jr_txid j = x \<and> jr_id j \<in> range (new_uuid E) \<and> pp_effective_at n \<le> jr_posted_at j
    \<and> jr_hash_version j = JournalPayloadHashVersionV1 \<and> jr_currency j = JournalCurrencyIDR
    \<and> (\<forall>e \<in> set (entries_of d' (jr_id j)). je_id e \<in> range (new_uuid E)) \<and> mset es = mset (entries_of d' (jr_id j))
    \<and> (\<exists>rows. d' = with_journal j rows d \<and> fresh_rows j rows d)"
proof -
  obtain i t now qs where
    j: "j = (prepared_row i n h reverses reason)\<lparr>jr_posted_at := t, jr_txid := x\<rparr>" and
    es: "es = sortPostedJournalEntries (map (entry_row i now) qs)" and
    d': "d' = with_journal j (map (entry_row i now) qs) d" and fresh: "fresh_rows j (map (entry_row i now) qs) d" and
    qs: "map snd qs = pp_entries n" "\<forall>q \<in> set qs. fst q \<in> range (new_uuid E)" and
    ids: "i \<in> range (new_uuid E)" "pp_effective_at n \<le> t"
    using new by (auto simp: posted_new_def Let_def)
  have rows: "entries_of d' (jr_id j) = map (entry_row i now) qs"
    unfolding d' by (rule with_journal_entries [OF fresh d])
  have "stored_params d' j = n"
    by (simp add: stored_params_def postJournalParamsFromPostedJournal_def rows entry_row_params qs(1) del: map_map)
       (simp add: j prepared_row_def)
  moreover have "\<forall>e \<in> set (entries_of d' (jr_id j)). je_id e \<in> range (new_uuid E)"
    unfolding rows using qs(2) by (auto simp: entry_row_def)
  moreover have "mset es = mset (entries_of d' (jr_id j))" by (simp add: rows es sortPostedJournalEntries_def)
  ultimately show ?thesis using d' fresh ids by (auto simp: j prepared_row_def)
qed

definition dimensioned :: "post_params \<Rightarrow> bool" where
  "dimensioned n \<longleftrightarrow> (\<forall>e \<in> set (pp_entries n). dimension_ok (pp_owner n) (map_of platform_accounts) e)"

lemma dimensioned_of:
  assumes "validateJournalAccountDimensions n (\<lambda>c. if c \<in> cs then map_of platform_accounts c else None) = Inr ()"
  shows "dimensioned n"
  using assms by (auto simp: validateJournalAccountDimensions_def check_dimensions_iff list_all_iff dimensioned_def
      dimension_ok_def split: if_splits)

lemma new_replayable:
  assumes E: "uuid_package E" and new: "posted_new E x n h reverses reason d d' (j, es)"
    and d: "\<forall>e \<in> set (journal_entries d). je_journal e \<in> jr_id ` set (journals d)"
    and n: "acceptable E (reverses \<noteq> None) p" "n = canonical_params E p" "well_posed (pp_metadata p) (pp_effective_at p)"
      "dimensioned n" "h = hashJournalPayloadV1WithReversal n reverses reason"
  shows "replayable E d' j"
proof -
  note f = new_stored_params [OF new d]
  have uuids: "uuid_texts E" "\<And>i. i \<in> range (new_uuid E) \<Longrightarrow> uuid_parse E i = Some i"
    using E unfolding uuid_package_def by blast+
  have t: "truncate_us (pp_effective_at p) \<noteq> 0" using n(3) by (simp add: well_posed_def)
  note c = canonical_acceptable [OF uuids(1) n(1) t, folded n(2)]
  have "pp_metadata n = pp_metadata p" by (simp add: n(2) canonical_params_def)
  moreover have "pp_owner n = jr_owner j" "pp_effective_at n = jr_effective_at j"
    using f by (auto simp: stored_params_def postJournalParamsFromPostedJournal_def)
  ultimately show ?thesis
    unfolding replayable_def Let_def using f c n(3,4,5) uuids(2)
    by (auto simp: well_posed_def dimensioned_def)
qed

subsection \<open>Posting\<close>

definition replayed :: "finance_db \<Rightarrow> string \<Rightarrow> string \<Rightarrow> posted_journal \<Rightarrow> bool" where
  "replayed d k h p \<longleftrightarrow> (case p of (j, es) \<Rightarrow> j \<in> set (journals d) \<and> jr_event_key j = k \<and> jr_payload_hash j = h
     \<and> mset es = mset (entries_of d (jr_id j)))"

text \<open>The accounts the service has looked up for \<open>n\<close>, and the answer of a replay.\<close>

definition looked_up :: "post_entry list \<Rightarrow> definitions" where
  "looked_up es c = (if c \<in> set (account_codes es) then map_of platform_accounts c else None)"

definition replay_answer :: "finance_env \<Rightarrow> finance_db \<Rightarrow> post_params \<Rightarrow> posted_journal \<Rightarrow> bool" where
  "replay_answer E d n q \<longleftrightarrow> (\<exists>j \<in> set (journals d). jr_event_key j = pp_event_key n
     \<and> replayExistingJournal E (j, sort_key load_order (entries_of d (jr_id j))) n (hashJournalPayloadV1 n)
         (looked_up (pp_entries n)) = Inr q)"

lemma replayExistingJournal_Inr:
  "replayExistingJournal E (j, es) n h defs = Inr p \<Longrightarrow> p = (j, sortPostedJournalEntries es) \<and> jr_payload_hash j = h"
  by (auto simp: replayExistingJournal_def or_integrity_def split: if_splits sum.splits)

lemma replayExistingReversal_Inr:
  "replayExistingReversal E (j, es) (s, ss) n h defs = Inr p \<Longrightarrow> p = (j, sortPostedJournalEntries es) \<and> jr_payload_hash j = h
     \<and> jr_reverses j = Some (jr_id s) \<and> jr_event_key j = reversal_prefix @ jr_id s"
  by (auto simp: replayExistingReversal_def or_integrity_def split: if_splits sum.splits option.splits)

lemma PostJournal_Inr:
  assumes "PostJournal E x p w = (Inr q, w')"
  shows "\<exists>k d n. d = interfere E k (db w) \<and> acceptable E False p \<and> n = canonical_params E p \<and> dimensioned n
    \<and> (posted_new E x n (hashJournalPayloadV1 n) None None d (db w') q
       \<or> db w' = d \<and> replay_answer E d n q)"
proof -
  obtain n codes where v: "validateAndNormalizeJournal E p = Inr (n, codes)"
    using assms by (auto simp: PostJournal_def andthen_Inr lift_res_Inr)
  then have n: "acceptable E False p" "n = canonical_params E p" "codes = account_codes (pp_entries n)"
    by (simp_all add: validateAndNormalizeJournal_def validate_iff)
  let ?h = "hashJournalPayloadV1 n"
  let ?defs = "\<lambda>c. if c \<in> set codes then map_of platform_accounts c else None"
  have defs: "?defs = looked_up (pp_entries n)" by (simp add: looked_up_def n(3) fun_eq_iff)
  let ?replay = "andthen (map_err normalizeJournalServiceError (GetJournalByEventKey E (pp_event_key n)))
    (\<lambda>existing. lift_res (replayExistingJournal E existing n ?h ?defs))"
  have dims: "validateJournalAccountDimensions n ?defs = Inr ()"
    and wr: "write_journal E x n ?h None None ?replay (w\<lparr>steps := Suc (steps w)\<rparr>) = (Inr q, w')"
    using assms v by (auto simp: PostJournal_def andthen_Inr lift_res_Inr map_err_Inr GetAccountDefinitions_def query_Inr)
  obtain k d where dk: "d = interfere E k (db w)"
    and result: "posted_new E x n ?h None None d (db w') q \<or> (\<exists>v. ?replay v = (Inr q, w') \<and> db v = d)"
    using write_journal_Inr [OF wr] by auto
  have "db w' = d \<and> replay_answer E d n q" if replay: "?replay v = (Inr q, w')" "db v = d" for v
  proof -
    obtain j es v' where load: "GetJournalByEventKey E (pp_event_key n) v = (Inr (j, es), v')"
      and r: "replayExistingJournal E (j, es) n ?h ?defs = Inr q" and w': "w' = v'"
      using replay(1) by (auto simp: andthen_Inr lift_res_Inr map_err_Inr)
    have found: "loadJournalOptional E (\<lambda>j. jr_event_key j = pp_event_key n) v = (Inr (Some (j, es)), v')"
      using load by (auto simp: GetJournalByEventKey_def andthen_Inr deref_Inr)
    then show ?thesis
      using r loadJournal_found [OF found] w' replay(2) unfolding replay_answer_def defs by auto
  qed
  then show ?thesis using dk n(1,2) dimensioned_of [OF dims] result by blast
qed

subsection \<open>Reversing\<close>

text \<open>A reversal request \<open>r\<close> accepted for the source \<open>s\<close> of the tables \<open>d\<close>: the journal \<open>n\<close> to be posted.\<close>

definition reversal_request :: "finance_env \<Rightarrow> nat \<Rightarrow> finance_db \<Rightarrow> journal_row \<Rightarrow> reverse_params \<Rightarrow> post_params \<Rightarrow> bool"
  where
  "reversal_request E x d s r n \<longleftrightarrow> s \<in> set (journals d) \<and> jr_id s = rp_journal_id r \<and> jr_reverses s = None \<and> jr_txid s \<noteq> x
     \<and> (let p = reversal_params (s, sort_key load_order (entries_of d (jr_id s))) r in
        acceptable E True p \<and> n = canonical_params E p \<and> dimensioned n)"

definition reversal_hash :: "journal_row \<Rightarrow> reverse_params \<Rightarrow> post_params \<Rightarrow> string" where
  "reversal_hash s r n = hashJournalPayloadV1WithReversal n (Some (jr_id s)) (Some (rp_reason r))"

lemma ReverseJournal_Inr:
  assumes "ReverseJournal E x p w = (Inr q, w')"
  shows "\<exists>k d s r n. d = interfere E k (db w) \<and> normalizeReverseJournalParams E p = Inr r \<and> reversal_request E x d s r n
    \<and> (db w' = d \<and> replayed d (reversal_prefix @ jr_id s) (reversal_hash s r n) q
       \<or> (\<exists>l d'. d' = interfere E l d \<and> (db w' = d' \<and> replayed d' (reversal_prefix @ jr_id s) (reversal_hash s r n) q
            \<or> posted_new E x n (reversal_hash s r n) (Some (jr_id s)) (Some (rp_reason r)) d' (db w') q)))"
proof -
  obtain r s ss w1 where r: "normalizeReverseJournalParams E p = Inr r"
    and load: "GetJournalByIDForReversal E (rp_journal_id r) w = (Inr (s, ss), w1)"
    and rest: "reverse_source E x r (s, ss) w1 = (Inr q, w')"
    using assms by (auto simp: ReverseJournal_def andthen_Inr lift_res_Inr map_err_Inr)
  define d where "d = interfere E (steps w) (db w)"
  have found: "loadJournalOptional E (\<lambda>j. jr_id j = rp_journal_id r)
      (w\<lparr>steps := Suc (steps w), db := d, base := interfere E (steps w) (base w)\<rparr>) = (Inr (Some (s, ss)), w1)"
    using load by (auto simp: GetJournalByIDForReversal_def andthen_Inr deref_Inr lock_wait_Inr d_def)
  have s: "s \<in> set (journals d)" "jr_id s = rp_journal_id r" "ss = sort_key load_order (entries_of d (jr_id s))" "db w1 = d"
    using loadJournal_found [OF found] by simp_all
  define codes where "codes = account_codes (map entry_params ss)"
  let ?defs = "\<lambda>c. if c \<in> set codes then map_of platform_accounts c else None"
  have src: "jr_txid s \<noteq> x" "jr_reverses s = None"
    using rest by (auto simp: reverse_source_def split: if_splits)
  let ?w2 = "w1\<lparr>steps := Suc (steps w1)\<rparr>"
  obtain n c2 where n: "validateAndNormalizeReversalJournal E (reversal_params (s, ss) r) = Inr (n, c2)"
    and dims: "validateJournalAccountDimensions n ?defs = Inr ()"
    and more: "(let h = hashJournalPayloadV1WithReversal n (Some (jr_id s)) (Some (rp_reason r)) in
      andthen (map_err normalizeJournalServiceError (GetReversalBySourceID E (jr_id s))) (\<lambda>existing.
      case existing of Some old \<Rightarrow> lift_res (replayExistingReversal E old (s, ss) n h ?defs)
      | None \<Rightarrow> write_journal E x n h (Some (jr_id s)) (Some (rp_reason r))
        (andthen (map_err normalizeJournalServiceError (GetReversalBySourceID E (jr_id s))) (\<lambda>raced.
         andthen (deref ErrJournalIntegrity raced) (\<lambda>old.
         lift_res (replayExistingReversal E old (s, ss) n h ?defs)))))) ?w2 = (Inr q, w')"
    using rest src by (auto simp: reverse_source_def andthen_Inr lift_res_Inr map_err_Inr GetAccountDefinitions_def
        query_Inr codes_def [symmetric] split: if_splits)
  define h where "h = hashJournalPayloadV1WithReversal n (Some (jr_id s)) (Some (rp_reason r))"
  let ?get = "map_err normalizeJournalServiceError (GetReversalBySourceID E (jr_id s))"
  let ?replay = "andthen ?get (\<lambda>raced. andthen (deref ErrJournalIntegrity raced) (\<lambda>old.
         lift_res (replayExistingReversal E old (s, ss) n h ?defs)))"
  have replay: "replayed (db v) (reversal_prefix @ jr_id s) h q \<and> db w' = db v"
    if "GetReversalBySourceID E (jr_id s) v = (Inr (Some old), v')" "replayExistingReversal E old (s, ss) n h ?defs = Inr q"
      "w' = v'" for old v v'
  proof -
    obtain j es where old: "old = (j, es)" by (cases old)
    have f: "loadJournalOptional E (\<lambda>j. jr_reverses j = Some (jr_id s)) v = (Inr (Some (j, es)), v')"
      using that(1) by (simp add: GetReversalBySourceID_def old)
    show ?thesis
      using replayExistingReversal_Inr [OF that(2) [unfolded old]] loadJournal_found [OF f] that(3)
      by (simp add: replayed_def sortPostedJournalEntries_def)
  qed
  obtain existing w3 where get: "GetReversalBySourceID E (jr_id s) ?w2 = (Inr existing, w3)"
    and go: "(case existing of Some old \<Rightarrow> lift_res (replayExistingReversal E old (s, ss) n h ?defs)
      | None \<Rightarrow> write_journal E x n h (Some (jr_id s)) (Some (rp_reason r)) ?replay) w3 = (Inr q, w')"
    using more unfolding Let_def h_def [symmetric] by (auto simp: andthen_Inr map_err_Inr)
  have w3: "db w3 = d" using loadJournalOptional_db [OF get [unfolded GetReversalBySourceID_def]] s(4) by simp
  have result: "db w' = d \<and> replayed d (reversal_prefix @ jr_id s) h q
       \<or> (\<exists>l d'. d' = interfere E l d \<and> (db w' = d' \<and> replayed d' (reversal_prefix @ jr_id s) h q
            \<or> posted_new E x n h (Some (jr_id s)) (Some (rp_reason r)) d' (db w') q))"
  proof (cases existing)
    case (Some old)
    then show ?thesis
      using replay [OF get [unfolded Some]] go s(4) by (auto simp: lift_res_Inr)
  next
    case None
    then have wr: "write_journal E x n h (Some (jr_id s)) (Some (rp_reason r)) ?replay w3 = (Inr q, w')" using go by simp
    have "db w' = db v \<and> replayed (db v) (reversal_prefix @ jr_id s) h q" if "?replay v = (Inr q, w')" for v
      using that replay by (auto simp: andthen_Inr deref_Inr lift_res_Inr map_err_Inr)
    then show ?thesis using write_journal_Inr [OF wr] unfolding w3 by blast
  qed
  have "acceptable E True (reversal_params (s, ss) r) \<and> n = canonical_params E (reversal_params (s, ss) r)"
    using n by (simp add: validateAndNormalizeReversalJournal_def validate_iff)
  then have "reversal_request E x d s r n"
    using s src dimensioned_of [OF dims] unfolding reversal_request_def Let_def s(3) [symmetric] by blast
  moreover have "h = reversal_hash s r n" by (simp add: h_def reversal_hash_def)
  ultimately show ?thesis using r result unfolding d_def by blast
qed

subsection \<open>The ledger stays sound\<close>

lemma posted_new_appended:
  assumes "posted_new E x n h reverses reason d d' q"
  shows "appended d d'"
  using assms with_journal_appended by (auto simp: posted_new_def Let_def)

lemma new_sound:
  assumes d: "ledger_sound E d" and new: "posted_new E x n h reverses reason d d' (j, es)"
    and sound: "journal_sound E d' j"
  shows "ledger_sound E d'"
proof -
  have "\<forall>e \<in> set (journal_entries d). je_journal e \<in> jr_id ` set (journals d)" using d by (simp add: ledger_sound_def)
  then obtain rows where "d' = with_journal j rows d" "fresh_rows j rows d" using new_stored_params [OF new] by blast
  then show ?thesis using with_journal_sound [OF d] sound by simp
qed

lemma post_sound:
  assumes E: "uuid_package E" and d: "ledger_sound E d" and p: "acceptable E False p" "well_posed (pp_metadata p) (pp_effective_at p)"
    and n: "n = canonical_params E p" "dimensioned n"
    and new: "posted_new E x n (hashJournalPayloadV1 n) None None d d' q"
  shows "ledger_sound E d'"
proof -
  obtain j es where q: "q = (j, es)" by (cases q)
  note new = new [unfolded q]
  have rows: "\<forall>e \<in> set (journal_entries d). je_journal e \<in> jr_id ` set (journals d)" using d by (simp add: ledger_sound_def)
  have "replayable E d' j"
    by (rule new_replayable [OF E new rows _ n(1) p(2) n(2)]) (simp_all add: p(1) hashJournalPayloadV1_def)
  then show ?thesis
    using new_sound [OF d new] new_stored_params [OF new rows] by (simp add: journal_sound_def)
qed

lemma replayable_canonical:
  assumes "replayable E d s"
  shows "canonical E (jr_booking s) = jr_booking s" "canonical E (jr_owner s) = jr_owner s"
    "canonical E (jr_venue s) = jr_venue s" "e \<in> set (entries_of d (jr_id s)) \<Longrightarrow> canonical E (je_owner e) = je_owner e"
proof -
  have p: "canonical_params E (stored_params d s) = stored_params d s" using assms by (simp add: replayable_def Let_def)
  have "pp_booking (canonical_params E (stored_params d s)) = jr_booking s"
    "pp_owner (canonical_params E (stored_params d s)) = jr_owner s"
    "pp_venue (canonical_params E (stored_params d s)) = jr_venue s"
    "pp_entries (canonical_params E (stored_params d s)) = map entry_params (entries_of d (jr_id s))"
    unfolding p by (simp_all add: stored_params_def postJournalParamsFromPostedJournal_def)
  then show "canonical E (jr_booking s) = jr_booking s" "canonical E (jr_owner s) = jr_owner s"
    "canonical E (jr_venue s) = jr_venue s" "e \<in> set (entries_of d (jr_id s)) \<Longrightarrow> canonical E (je_owner e) = je_owner e"
    by (auto simp: canonical_params_def stored_params_def postJournalParamsFromPostedJournal_def entry_params_def
        canonical_entry_def)
qed

definition param_facts :: "post_entry \<Rightarrow> string \<times> string option \<times> string \<times> i64" where
  "param_facts e = (pe_account e, pe_owner e, pe_side e, pe_amount e)"

lemma param_facts_entry: "map entry_facts es = map param_facts (map entry_params es)"
  by (simp add: param_facts_def entry_facts_def entry_params_def)

lemma inverse_request_facts:
  assumes "\<forall>e \<in> set es. canonical E (je_owner e) = je_owner e"
  shows "map param_facts (map (canonical_entry E) (invertPostedJournalEntries es)) = map inverse_facts es"
  using assms by (auto simp: param_facts_def canonical_entry_def invertPostedJournalEntries_def entry_params_def
      inverse_facts_def)

lemma new_inverts:
  assumes d: "ledger_sound E d" and app: "appended d d1" and r: "normalizeReverseJournalParams E p = Inr r"
    and n: "reversal_request E x d s r n"
    and new: "posted_new E x n h (Some (jr_id s)) (Some (rp_reason r)) d1 d' (j, es)"
    and rows: "\<forall>e \<in> set (journal_entries d1). je_journal e \<in> jr_id ` set (journals d1)"
  shows "inverts d' j s \<and> s \<in> set (journals d')"
proof -
  have s: "s \<in> set (journals d)" "jr_reverses s = None"
    and n_def: "n = canonical_params E (reversal_params (s, sort_key load_order (entries_of d (jr_id s))) r)"
    using n by (simp_all add: reversal_request_def Let_def)
  have "replayable E d s" using d s(1) by (simp add: ledger_sound_def journal_sound_def)
  note c = replayable_canonical [OF this]
  note f = new_stored_params [OF new rows]
  have app': "appended d d'" by (rule appended_trans [OF app posted_new_appended [OF new]])
  have ss: "entries_of d' (jr_id s) = entries_of d (jr_id s)" by (rule appended_entries [OF app']) (use s(1) in simp)
  have entries: "map entry_params (entries_of d' (jr_id j))
      = map (canonical_entry E) (invertPostedJournalEntries (sort_key load_order (entries_of d (jr_id s))))"
  proof -
    have "pp_entries (stored_params d' j) = pp_entries n" using f by simp
    then show ?thesis
      by (simp add: stored_params_def postJournalParamsFromPostedJournal_def n_def canonical_params_def reversal_params_def)
  qed
  have "map entry_facts (entries_of d' (jr_id j)) = map inverse_facts (sort_key load_order (entries_of d (jr_id s)))"
    unfolding param_facts_entry entries by (rule inverse_request_facts) (use c(4) in simp)
  then have "mset (map entry_facts (entries_of d' (jr_id j))) = mset (map inverse_facts (entries_of d' (jr_id s)))"
    by (simp add: ss)
  moreover have "jr_booking j = jr_booking s" "jr_owner j = jr_owner s" "jr_venue j = jr_venue s"
    "jr_event_key j = reversal_prefix @ jr_id s" "jr_event_type j = JournalReversalEventType" "jr_description j = None"
  proof -
    have "stored_params d' j = n" using f by simp
    then show "jr_booking j = jr_booking s" "jr_owner j = jr_owner s" "jr_venue j = jr_venue s"
      "jr_event_key j = reversal_prefix @ jr_id s" "jr_event_type j = JournalReversalEventType" "jr_description j = None"
      using c(1-3) unfolding n_def
      by (auto simp: stored_params_def postJournalParamsFromPostedJournal_def canonical_params_def reversal_params_def
          dest!: arg_cong [of _ _ "\<lambda>p. (pp_booking p, pp_owner p, pp_venue p, pp_event_key p, pp_event_type p, pp_description p)"])
  qed
  moreover have "trim_space (rp_reason r) = rp_reason r" "length (rp_reason r) \<le> 500"
    using r by (auto simp: normalizeReverseJournalParams_def rbind_Inr_iff split: option.splits if_splits)
  moreover have "s \<in> set (journals d')" using s(1) app' by (auto simp: appended_def)
  ultimately show ?thesis using f s(2) by (simp add: inverts_def)
qed

lemma reversal_sound:
  assumes E: "uuid_package E" and d: "ledger_sound E d" "ledger_sound E d1" "appended d d1"
    and r: "normalizeReverseJournalParams E p = Inr r" "well_posed (rp_metadata p) (rp_effective_at p)"
    and n: "reversal_request E x d s r n"
    and new: "posted_new E x n (reversal_hash s r n) (Some (jr_id s)) (Some (rp_reason r)) d1 d' q"
  shows "ledger_sound E d'"
proof -
  obtain j es where q: "q = (j, es)" by (cases q)
  note new = new [unfolded q]
  have rows: "\<forall>e \<in> set (journal_entries d1). je_journal e \<in> jr_id ` set (journals d1)" using d(2) by (simp add: ledger_sound_def)
  let ?p = "reversal_params (s, sort_key load_order (entries_of d (jr_id s))) r"
  have req: "acceptable E True ?p" "n = canonical_params E ?p" "dimensioned n"
    using n unfolding reversal_request_def Let_def by blast+
  have "rp_metadata r = rp_metadata p" "rp_effective_at r = truncate_us (rp_effective_at p)"
    using r(1) by (auto simp: normalizeReverseJournalParams_def rbind_Inr_iff split: option.splits if_splits)
  then have wp: "well_posed (pp_metadata ?p) (pp_effective_at ?p)"
    using well_posed_trunc [OF r(2)] by (simp add: reversal_params_def)
  have "replayable E d' j"
    by (rule new_replayable [OF E new rows _ req(2) wp req(3)]) (simp_all add: req(1) reversal_hash_def)
  moreover have "inverts d' j s \<and> s \<in> set (journals d')" by (rule new_inverts [OF d(1,3) r(1) n new rows])
  ultimately have "journal_sound E d' j" by (auto simp: journal_sound_def inverts_def)
  then show ?thesis by (rule new_sound [OF d(2) new])
qed

subsection \<open>As transactions\<close>

text \<open>What a rollback would restore follows \<open>R\<close>, whatever the outcome.\<close>

definition base_guar :: "('d \<Rightarrow> 'd \<Rightarrow> bool) \<Rightarrow> ('e, 'd, 'a) tx \<Rightarrow> bool" where
  "base_guar R m \<longleftrightarrow> (\<forall>w. R (base w) (base (snd (m w))))"

context table_order begin

lemma base_guar_keeps: "keeps_base m \<Longrightarrow> base_guar R m"
  by (simp add: base_guar_def keeps_base_def R_refl)

lemmas base_guar_stmt = keeps_base_stmt [THEN base_guar_keeps]

lemma base_guar_lock_wait: "env_guar R E \<Longrightarrow> base_guar R (lock_wait E flt)"
  by (simp add: base_guar_def env_guar_def lock_wait_def Let_def R_refl)

lemma base_guar_attempt:
  assumes m: "base_guar R m" and h: "\<And>e. base_guar R (h e)" and k: "\<And>x. base_guar R (k x)"
  shows "base_guar R (attempt m h k)"
  unfolding base_guar_def
proof
  fix w
  obtain r v where mw: "m w = (r, v)" by (cases "m w")
  then have "R (base w) (base v)" using m by (auto simp: base_guar_def dest: spec [of _ w])
  moreover have "R (base v) (base (snd (attempt m h k w)))"
    using h k mw by (cases r) (simp_all add: base_guar_def attempt_def)
  ultimately show "R (base w) (base (snd (attempt m h k w)))" by (rule R_trans)
qed

lemma base_guar_andthen: "base_guar R m \<Longrightarrow> (\<And>x. base_guar R (k x)) \<Longrightarrow> base_guar R (andthen m k)"
  unfolding andthen_def by (intro base_guar_attempt base_guar_stmt)

lemma base_guar_map_err: "base_guar R m \<Longrightarrow> base_guar R (map_err g m)"
  unfolding map_err_def by (intro base_guar_attempt base_guar_stmt)

lemma base_guar_if: "base_guar R m \<Longrightarrow> base_guar R m' \<Longrightarrow> base_guar R (if b then m else m')"
  by simp

lemma commits_base_guar:
  assumes "base_guar R m" and "\<And>w x w'. m w = (Inr x, w') \<Longrightarrow> R (db w) (db w')"
  shows "commits R m"
proof (rule commitsI)
  show "R (base w) (base w')" if "m w = (r, w')" for w r w'
    using assms(1) that unfolding base_guar_def by (metis snd_conv)
qed (rule assms(2))

end

interpretation ledger: table_order "ledger_kept E" for E
  by unfold_locales (auto simp: ledger_kept_def appended_refl intro: appended_trans)

lemma keeps_base_store:
  "keeps_base (prepare_entries E es)" "keeps_base (InsertEntries E x i qs)" "keeps_base (pg_call E f)"
  "keeps_base (loadJournalOptional E p)" "keeps_base (GetReversalBySourceID E i)"
proof -
  show pg: "keeps_base (pg_call E f)" for f :: "time \<Rightarrow> finance_db \<Rightarrow> (pg_error + 'a) \<times> finance_db"
    unfolding pg_call_def by (rule keeps_base_stmt)
  show "keeps_base (prepare_entries E es)" by (induction es) (auto intro!: keeps_base_intros)
  show "keeps_base (InsertEntries E x i qs)"
    by (induction qs) (auto intro!: keeps_base_intros simp: pg_call_def)
  show load: "keeps_base (loadJournalOptional E p)" for p
    unfolding loadJournalOptional_def option.case_eq_if by (intro keeps_base_intros)
  show "keeps_base (GetReversalBySourceID E i)" unfolding GetReversalBySourceID_def by (rule load)
qed

lemmas ledger_base = ledger.base_guar_andthen ledger.base_guar_map_err ledger.base_guar_if
  ledger.base_guar_stmt ledger.base_guar_lock_wait keeps_base_store [THEN ledger.base_guar_keeps]

lemma base_write_journal:
  assumes "env_guar (ledger_kept E) E" "base_guar (ledger_kept E) replay"
  shows "base_guar (ledger_kept E) (write_journal E x n h reverses reason replay)"
  unfolding write_journal_def TryInsertJournal_def option.case_eq_if using assms by (intro ledger_base)

lemma commits_PostJournal:
  assumes E: "uuid_package E" "env_guar (ledger_kept E) E" and p: "well_posed (pp_metadata p) (pp_effective_at p)"
  shows "commits (ledger_kept E) (PostJournal E x p)"
proof (rule ledger.commits_base_guar)
  show "base_guar (ledger_kept E) (PostJournal E x p)"
    unfolding PostJournal_def GetAccountDefinitions_def GetJournalByEventKey_def prod.case_eq_if
    using E(2) by (intro ledger_base base_write_journal)
  fix w q w' assume "PostJournal E x p w = (Inr q, w')"
  from PostJournal_Inr [OF this] obtain k d n where d: "d = interfere E k (db w)" and n: "acceptable E False p" "n = canonical_params E p" "dimensioned n"
    and result: "posted_new E x n (hashJournalPayloadV1 n) None None d (db w') q
       \<or> db w' = d \<and> replay_answer E d n q"
    by blast
  have kept: "ledger_kept E (db w) d" using E(2) d by (simp add: env_guar_def)
  have "ledger_kept E d (db w')"
    using result
  proof
    assume new: "posted_new E x n (hashJournalPayloadV1 n) None None d (db w') q"
    have "ledger_sound E d \<longrightarrow> ledger_sound E (db w')" using post_sound [OF E(1) _ n(1) p n(2,3) new] by blast
    then show ?thesis using posted_new_appended [OF new] by (simp add: ledger_kept_def)
  qed (simp add: ledger.R_refl)
  with kept show "ledger_kept E (db w) (db w')" by (rule ledger.R_trans)
qed

lemma base_reverse_source:
  assumes "env_guar (ledger_kept E) E"
  shows "base_guar (ledger_kept E) (reverse_source E x r source)"
  unfolding reverse_source_def GetAccountDefinitions_def prod.case_eq_if option.case_eq_if Let_def
  using assms by (intro ledger_base base_write_journal)

lemma commits_ReverseJournal:
  assumes E: "uuid_package E" "env_guar (ledger_kept E) E" and p: "well_posed (rp_metadata p) (rp_effective_at p)"
  shows "commits (ledger_kept E) (ReverseJournal E x p)"
proof (rule ledger.commits_base_guar)
  show "base_guar (ledger_kept E) (ReverseJournal E x p)"
    unfolding ReverseJournal_def GetJournalByIDForReversal_def
    using E(2) by (intro ledger_base base_reverse_source)
  fix w q w' assume "ReverseJournal E x p w = (Inr q, w')"
  from ReverseJournal_Inr [OF this] obtain k d s r n where d: "d = interfere E k (db w)"
    and r: "normalizeReverseJournalParams E p = Inr r" and n: "reversal_request E x d s r n"
    and result: "db w' = d \<and> replayed d (reversal_prefix @ jr_id s) (reversal_hash s r n) q
       \<or> (\<exists>l d'. d' = interfere E l d \<and> (db w' = d' \<and> replayed d' (reversal_prefix @ jr_id s) (reversal_hash s r n) q
            \<or> posted_new E x n (reversal_hash s r n) (Some (jr_id s)) (Some (rp_reason r)) d' (db w') q))"
    by blast
  have kept: "ledger_kept E (db w) d" using E(2) d by (simp add: env_guar_def)
  have "ledger_kept E d (db w')" using result
  proof (elim disjE exE conjE)
    show "db w' = d \<Longrightarrow> ledger_kept E d (db w')" by (simp add: ledger.R_refl)
    fix l d' assume d': "d' = interfere E l d"
    then have kept': "ledger_kept E d d'" using E(2) by (simp add: env_guar_def)
    then show "db w' = d' \<Longrightarrow> ledger_kept E d (db w')" by simp
    assume new: "posted_new E x n (reversal_hash s r n) (Some (jr_id s)) (Some (rp_reason r)) d' (db w') q"
    have "ledger_sound E (db w')" if "ledger_sound E d"
      by (rule reversal_sound [OF E(1) that _ _ r p n new]) (use kept' that in \<open>auto simp: ledger_kept_def\<close>)
    then show "ledger_kept E d (db w')"
      using kept' appended_trans [OF _ posted_new_appended [OF new]] by (auto simp: ledger_kept_def)
  qed
  with kept show "ledger_kept E (db w) (db w')" by (rule ledger.R_trans)
qed

lemma commits_guards: "commits (ledger_kept E) (commit_guards E x)"
  unfolding commit_guards_def
  by (intro guar_commits ledger.guar_db_call) (auto simp: ledger.R_refl split: option.split)

lemma top_finance_tx:
  "env_guar (ledger_kept E) E \<Longrightarrow> commits (ledger_kept E) m \<Longrightarrow> top_guar (ledger_kept E) (finance_tx E x m)"
  unfolding finance_tx_def
  by (intro ledger.top_in_tx_commits ledger.commits_andthen ledger.commits_ret commits_guards)

end
