(* ===== verification/JournalAgain.thy ===== *)
theory JournalAgain
  imports JournalReplay
begin

text \<open>
  A request whose event key is taken, from the validation to the answer: the insert passes every check up
  to the conflict, and the stored journal decides.
\<close>

lemma no_failed_check: "failed_check cs = None \<longleftrightarrow> (\<forall>(n, ok) \<in> set cs. ok)"
  by (fastforce simp: failed_check_def find_None_iff)

lemma accepted_row_checks:
  assumes p: "acceptable E False p" and n: "n = canonical_params E p"
    and t: "pp_effective_at n \<le> t"
  shows "failed_check (journal_checks ((prepared_row i n (hashJournalPayloadV1 n) None None)\<lparr>jr_posted_at := t, jr_txid := x\<rparr>)) = None"
proof -
  have key: "pp_event_key n = pp_event_key p" "pp_event_type n = pp_event_type p" "pp_metadata n = pp_metadata p"
    by (simp_all add: n canonical_params_def)
  have "length (pp_event_key p) \<noteq> 0" using p by (simp add: acceptable_def key_accepted_def)
  then show ?thesis
    using p t metadata_passes [of "pp_metadata p"] sha256_hex_shape
    by (simp add: no_failed_check journal_checks_def prepared_row_def key acceptable_def key_accepted_def
        hashJournalPayloadV1_def hashJournalPayloadV1WithReversal_def list_all_iff Suc_le_eq)
qed

lemma still_query: "query (still E) flt f w = (Inr (f (tx_now w) (db w)), w\<lparr>steps := Suc (steps w)\<rparr>)"
  by (simp add: query_def db_call_def Let_def)

lemma still_pg_call: "f (tx_now w) (db w) = (Inr v, db w) \<Longrightarrow>
    pg_call (still E) f w = (Inr v, w\<lparr>steps := Suc (steps w)\<rparr>)"
  by (simp add: pg_call_def db_call_def Let_def)

lemma still_load:
  assumes "query_row q (journals (db w)) = Some j"
  shows "loadJournalOptional (still E) q w
    = (Inr (Some (j, sort_key load_order (entries_of (db w) (jr_id j)))), w\<lparr>steps := Suc (Suc (steps w))\<rparr>)"
  using assms by (simp add: loadJournalOptional_def andthen_def attempt_def still_query ret_def fail_def)

lemma still_prepare: "\<exists>qs k. prepare_entries (still E) es w = (Inr qs, w\<lparr>steps := k\<rparr>)"
proof (induction es arbitrary: w)
  case Nil
  show ?case by (intro exI [of _ "[]"] exI [of _ "steps w"]) (simp add: ret_def)
next
  case (Cons e es)
  obtain qs k where "prepare_entries (still E) es (w\<lparr>steps := Suc (steps w)\<rparr>) = (Inr qs, w\<lparr>steps := k\<rparr>)"
    using Cons [of "w\<lparr>steps := Suc (steps w)\<rparr>"] by auto
  then show ?case by (auto simp: andthen_def attempt_def ret_def fail_def)
qed

text \<open>Running a computation whose first step is known.\<close>

lemmas run_simps = andthen_def attempt_def map_err_def ret_def fail_def

lemma taken_key_insert:
  assumes p: "acceptable E False p" and n: "n = canonical_params E p"
    and j: "j \<in> set (journals (db w))" "jr_event_key j = pp_event_key n"
    and t: "\<forall>k. pp_effective_at p \<le> clock E k"
  shows "\<exists>k. TryInsertJournal (still E) x (prepared_row i n (hashJournalPayloadV1 n) None None) w
     = (Inr None, w\<lparr>steps := k\<rparr>)"
proof -
  let ?row = "prepared_row i n (hashJournalPayloadV1 n) None None"
  let ?t = "truncate_us (clock E (Suc (steps w)))"
  have "pp_effective_at n \<le> ?t"
    using t by (simp add: n canonical_params_def truncate_us_mono)
  note checks = accepted_row_checks [OF p n this]
  have "sql_exists (\<lambda>k. jr_event_key k = pp_event_key n) (journals (db w))"
    using j by (auto simp: sql_exists_iff)
  then have ins: "insert_journal x ?t ?row (db w) = (Inr None, db w)"
    using checks by (simp add: insert_journal_def Let_def reversal_source_error_def prepared_row_def)
  show ?thesis
    unfolding TryInsertJournal_def lock_wait_def still_simps andthen_def attempt_def Let_def read_clock_def
    using still_pg_call [of "\<lambda>now. insert_journal x ?t ?row" "w\<lparr>steps := Suc (Suc (steps w))\<rparr>" None E] ins
    by auto
qed

text \<open>The whole request in the environment without failures and other sessions.\<close>

lemma taken_key_run:
  assumes p: "acceptable E False p" and n: "n = canonical_params E p" "dimensioned n"
    and inv: "distinct (map jr_event_key (journals (db w)))"
    and j: "j \<in> set (journals (db w))" "jr_event_key j = pp_event_key n"
    and t: "\<forall>k. pp_effective_at p \<le> clock E k"
  shows "\<exists>k. PostJournal (still E) x p w =
    (replayExistingJournal E (j, sort_key load_order (entries_of (db w) (jr_id j))) n (hashJournalPayloadV1 n)
       (looked_up (pp_entries n)), w\<lparr>steps := k\<rparr>)"
proof -
  let ?h = "hashJournalPayloadV1 n"
  let ?codes = "account_codes (pp_entries n)"
  let ?defs = "looked_up (pp_entries n)"
  let ?replay = "andthen (map_err normalizeJournalServiceError (GetJournalByEventKey (still E) (pp_event_key n)))
    (\<lambda>existing. lift_res (replayExistingJournal (still E) existing n ?h ?defs))"
  let ?w = "w\<lparr>steps := Suc (steps w)\<rparr>"
  have v: "validateAndNormalizeJournal (still E) p = Inr (n, ?codes)"
    using p n by (simp add: validateAndNormalizeJournal_def still_validate validate_iff)
  have defs: "GetAccountDefinitions (still E) ?codes w = (Inr ?defs, ?w)"
    by (simp add: GetAccountDefinitions_def still_query looked_up_def fun_eq_iff)
  have "?defs (pe_account e) = map_of platform_accounts (pe_account e)" if "e \<in> set (pp_entries n)" for e
    using that by (intro looked_up_eq) simp
  then have dims: "validateJournalAccountDimensions n ?defs = Inr ()"
    using n(2) by (simp add: validateJournalAccountDimensions_def check_dimensions_iff list_all_iff dimensioned_def
        dimension_ok_def)
  have "PostJournal (still E) x p w = write_journal (still E) x n ?h None None ?replay ?w"
    unfolding PostJournal_def v lift_res_def by (simp add: run_simps defs dims)
  also have "\<exists>k. write_journal (still E) x n ?h None None ?replay ?w = ?replay (w\<lparr>steps := k\<rparr>)"
  proof -
    obtain qs k1 where q: "prepare_entries (still E) (pp_entries n) (w\<lparr>steps := Suc (Suc (steps w))\<rparr>) = (Inr qs, w\<lparr>steps := k1\<rparr>)"
      using still_prepare [of E "pp_entries n" "w\<lparr>steps := Suc (Suc (steps w))\<rparr>"] by auto
    obtain k where ins: "TryInsertJournal (still E) x (prepared_row (new_uuid E (Suc (steps w))) n ?h None None)
        (w\<lparr>steps := k1\<rparr>) = (Inr None, w\<lparr>steps := k\<rparr>)"
      using taken_key_insert [OF p n(1) _ j(2) t, of "w\<lparr>steps := k1\<rparr>" x] j(1) by auto
    show ?thesis
      unfolding write_journal_def
      by (intro exI [of _ k]) (simp add: run_simps q ins)
  qed
  then obtain k where "write_journal (still E) x n ?h None None ?replay ?w = ?replay (w\<lparr>steps := k\<rparr>)" ..
  also have "?replay (w\<lparr>steps := k\<rparr>) = (replayExistingJournal E (j, sort_key load_order (entries_of (db w) (jr_id j))) n ?h ?defs,
      w\<lparr>steps := Suc (Suc k)\<rparr>)"
  proof -
    have row: "query_row (\<lambda>j. jr_event_key j = pp_event_key n) (journals (db w)) = Some j"
      by (rule query_row_unique [OF inv j])
    have "GetJournalByEventKey (still E) (pp_event_key n) (w\<lparr>steps := k\<rparr>)
        = (Inr (j, sort_key load_order (entries_of (db w) (jr_id j))), w\<lparr>steps := Suc (Suc k)\<rparr>)"
      unfolding GetJournalByEventKey_def
      using still_load [of "\<lambda>j. jr_event_key j = pp_event_key n" "w\<lparr>steps := k\<rparr>" j E] row
      by (simp add: andthen_def attempt_def deref_def ret_def)
    then show ?thesis
      by (simp add: run_simps still_replay lift_res_def split: sum.split)
  qed
  finally show ?thesis by blast
qed

end
