(* ===== verification/JournalScenario.thy ===== *)
theory JournalScenario
  imports JournalAgain Scenario
begin

text \<open>
  A concrete ledger: a service fee is posted and then reversed, in an environment without failures and
  without other sessions. The payload hashes stay symbolic.
\<close>

definition fin_env :: finance_env where
  "fin_env = \<lparr>clock = clock quiet_env, db_fault = (\<lambda>n. False), interfere = (\<lambda>n d. d), ctx_done = (\<lambda>n. False),
     new_uuid = new_uuid quiet_env, uuid_parse = uuid_parse quiet_env, go_unicode = go_unicode quiet_env,
     upper_case = (\<lambda>s. s), sql_upper = (\<lambda>s. s)\<rparr>"

definition fin_db :: finance_db where
  "fin_db = \<lparr>journals = [], journal_entries = [], booking_ids = [uid CHR ''1''], owner_ids = [],
     venue_ids = [], user_ids = []\<rparr>"

definition fin_world :: "finance_db \<Rightarrow> finance_db world" where
  "fin_world d = \<lparr>db = d, base = d, steps = 0, tx_now = 1000 * second\<rparr>"

definition fee_request :: post_params where
  "fee_request = \<lparr>pp_event_key = ''booking.fee_collected:b1'', pp_event_type = ''FEE_COLLECTED'',
     pp_booking = Some (uid CHR ''1''), pp_owner = None, pp_venue = None, pp_effective_at = 900 * second,
     pp_created_by = None, pp_description = None, pp_metadata = [],
     pp_entries = [\<lparr>pe_account = ''BANK_CASH'', pe_owner = None, pe_side = DEBIT, pe_amount = 5000\<rparr>,
       \<lparr>pe_account = ''UNEARNED_SERVICE_FEE'', pe_owner = None, pe_side = CREDIT, pe_amount = 5000\<rparr>]\<rparr>"

definition undo_request :: reverse_params where
  "undo_request = \<lparr>rp_journal_id = uid CHR ''b'', rp_reason = ''refunded'', rp_effective_at = 950 * second,
     rp_created_by = None, rp_metadata = []\<rparr>"

lemma fin_env_simps [simp]:
  "db_fault fin_env n = False" "interfere fin_env n d = d" "clock fin_env n = (1000 + int n) * second"
  "new_uuid fin_env n = uid (''abcdef'' ! (n mod 6))"
  "uuid_parse fin_env s = (if is_canonical_uuid s then Some s else None)"
  by (simp_all add: fin_env_def quiet_env_def)

lemma fin_uuid_package: "uuid_package fin_env"
proof -
  have "\<forall>k \<in> set [0..<6]. is_canonical_uuid (uid (''abcdef'' ! k))" by code_simp
  then have "is_canonical_uuid (uid (''abcdef'' ! (n mod 6)))" for n :: nat by simp
  moreover have "\<not> is_canonical_uuid []" by code_simp
  ultimately show ?thesis by (auto simp: uuid_package_def uuid_texts_def)
qed

lemma fin_env_guar: "env_guar (ledger_kept fin_env) fin_env"
  by (simp add: env_guar_def ledger.R_refl)

lemma fin_db_sound: "ledger_sound fin_env fin_db"
  by (simp add: ledger_sound_def fin_db_def)

lemma fee_request_valid:
  "validateAndNormalizeJournal fin_env fee_request = Inr (fee_request, [''BANK_CASH'', ''UNEARNED_SERVICE_FEE''])"
  by code_simp

lemma fee_request_dims:
  "validateJournalAccountDimensions fee_request (\<lambda>c. if c \<in> set [''BANK_CASH'', ''UNEARNED_SERVICE_FEE'']
     then map_of platform_accounts c else None) = Inr ()"
  by code_simp

lemma fee_request_posed: "well_posed (pp_metadata fee_request) (pp_effective_at fee_request)"
  by code_simp

text \<open>Posting on the empty ledger.\<close>

definition fee_row :: journal_row where
  "fee_row = (prepared_row (uid CHR ''b'') fee_request (hashJournalPayloadV1 fee_request) None None)
     \<lparr>jr_posted_at := 1005 * second, jr_txid := 7\<rparr>"

definition fee_prepared :: "(string \<times> post_entry) list" where
  "fee_prepared = zip [uid CHR ''c'', uid CHR ''d''] (pp_entries fee_request)"

definition fee_entries :: "journal_entry list" where
  "fee_entries = map (entry_row (uid CHR ''b'') (1000 * second)) fee_prepared"

definition fee_db :: finance_db where
  "fee_db = with_journal fee_row fee_entries fin_db"

lemma fee_sorted: "sortPostedJournalEntries fee_entries = fee_entries" "sort_key load_order fee_entries = fee_entries"
  by code_simp+

lemma fee_insert:
  "insert_journal 7 (1005 * second) (prepared_row (uid CHR ''b'') fee_request (hashJournalPayloadV1 fee_request) None None) fin_db
     = (Inr (Some fee_row), fin_db\<lparr>journals := [fee_row]\<rparr>)"
proof -
  have v: "acceptable fin_env False fee_request" "fee_request = canonical_params fin_env fee_request"
    using fee_request_valid by (simp_all add: validateAndNormalizeJournal_def validate_iff)
  have "failed_check (journal_checks fee_row) = None"
    unfolding fee_row_def by (rule accepted_row_checks [OF v]) (simp add: fee_request_def)
  moreover have "jr_booking fee_row = Some (uid CHR ''1'')" "jr_owner fee_row = None" "jr_venue fee_row = None"
    "jr_created_by fee_row = None" "jr_reverses fee_row = None"
    by (simp_all add: fee_row_def prepared_row_def fee_request_def)
  ultimately show ?thesis
    unfolding insert_journal_def Let_def fee_row_def [symmetric]
    by (simp add: reversal_source_error_def fin_db_def refers_def sql_exists_def)
qed

lemma still_fin [simp]: "still fin_env = fin_env"
  by (simp add: still_def fin_env_def)

text \<open>Entries on accounts without an owner dimension.\<close>

definition ownerless :: "post_entry \<Rightarrow> bool" where
  "ownerless e \<longleftrightarrow> map_of platform_accounts (pe_account e) = Some ''FORBIDDEN'' \<and> pe_owner e = None
     \<and> 0 < sint (pe_amount e) \<and> (pe_side e = DEBIT \<or> pe_side e = CREDIT)"

lemma insert_ownerless:
  assumes "find_journal (db w) i = Some j" "jr_txid j = x" "\<forall>q \<in> set qs. ownerless (snd q)" "distinct (map fst qs)"
    and "fst ` set qs \<inter> je_id ` set (journal_entries (db w)) = {}"
  shows "\<exists>k. InsertEntries fin_env x i qs w = (Inr (map (entry_row i (tx_now w)) qs),
    w\<lparr>steps := k, db := (db w)\<lparr>journal_entries := journal_entries (db w) @ map (entry_row i (tx_now w)) qs\<rparr>\<rparr>)"
  using assms
proof (induction qs arbitrary: w)
  case Nil
  show ?case by (intro exI [of _ "steps w"]) (simp add: ret_def)
next
  case (Cons q qs)
  let ?e = "entry_row i (tx_now w) q"
  let ?w = "w\<lparr>steps := Suc (steps w), db := (db w)\<lparr>journal_entries := journal_entries (db w) @ [?e]\<rparr>\<rparr>"
  have e: "je_journal ?e = i" "je_id ?e = fst q" "je_account ?e = pe_account (snd q)" "je_owner ?e = pe_owner (snd q)"
    "je_side ?e = pe_side (snd q)" "je_amount ?e = pe_amount (snd q)"
    by (simp_all add: entry_row_def split: prod.split)
  have "entry_error x (db w) ?e = None"
    using Cons.prems by (auto simp: entry_error_def e ownerless_def sql_exists_iff refers_def image_iff)
  then have step: "pg_call fin_env (\<lambda>now. insert_entry x (entry_row i now q)) w = (Inr ?e, ?w)"
    by (simp add: pg_call_def db_call_def Let_def insert_entry_def)
  have "\<exists>k. InsertEntries fin_env x i qs ?w = (Inr (map (entry_row i (tx_now ?w)) qs),
      ?w\<lparr>steps := k, db := (db ?w)\<lparr>journal_entries := journal_entries (db ?w) @ map (entry_row i (tx_now ?w)) qs\<rparr>\<rparr>)"
    by (rule Cons.IH) (use Cons.prems in \<open>auto simp: e find_journal_def\<close>)
  then show ?case by (auto simp: run_simps step)
qed

lemma write_fresh:
  assumes prep: "prepare_entries fin_env (pp_entries n) (w\<lparr>steps := Suc (steps w)\<rparr>) = (Inr qs, w\<lparr>steps := k\<rparr>)"
    and ins: "insert_journal x ((1000 + int (Suc k)) * second) (prepared_row (new_uuid fin_env (steps w)) n h rv rs) (db w)
      = (Inr (Some r), d)"
    and r: "find_journal d (new_uuid fin_env (steps w)) = Some r" "jr_txid r = x"
    and qs: "\<forall>q \<in> set qs. ownerless (snd q)" "distinct (map fst qs)"
      "fst ` set qs \<inter> je_id ` set (journal_entries d) = {}"
    and es: "es = map (entry_row (new_uuid fin_env (steps w)) (tx_now w)) qs"
  shows "\<exists>k. write_journal fin_env x n h rv rs replay w
    = (Inr (r, sortPostedJournalEntries es), w\<lparr>steps := k, db := d\<lparr>journal_entries := journal_entries d @ es\<rparr>\<rparr>)"
proof -
  let ?i = "new_uuid fin_env (steps w)"
  have "truncate_us ((1000 + int (Suc k)) * second) = (1000 + int (Suc k)) * second"
    by (simp add: truncate_us_def)
  then have t: "TryInsertJournal fin_env x (prepared_row ?i n h rv rs) (w\<lparr>steps := k\<rparr>)
      = (Inr (Some r), w\<lparr>steps := Suc (Suc (Suc k)), db := d\<rparr>)"
    using ins by (simp add: TryInsertJournal_def run_simps lock_wait_def Let_def pg_call_def db_call_def)
  obtain l where e: "InsertEntries fin_env x ?i qs (w\<lparr>steps := Suc (Suc (Suc k)), db := d\<rparr>)
      = (Inr es, w\<lparr>steps := l, db := d\<lparr>journal_entries := journal_entries d @ es\<rparr>\<rparr>)"
    using insert_ownerless [of "w\<lparr>steps := Suc (Suc (Suc k)), db := d\<rparr>" ?i r x qs] r qs es by auto
  show ?thesis
    unfolding write_journal_def
    by (intro exI [of _ l]) (use prep t e in \<open>simp add: run_simps del: fin_env_simps(4)\<close>)
qed

lemma fee_posted:
  "\<exists>k. PostJournal fin_env 7 fee_request (fin_world fin_db) = (Inr (fee_row, fee_entries), (fin_world fin_db)\<lparr>steps := k, db := fee_db\<rparr>)"
proof -
  let ?w = "(fin_world fin_db)\<lparr>steps := Suc 0\<rparr>"
  let ?c = "[''BANK_CASH'', ''UNEARNED_SERVICE_FEE'']"
  have acc: "GetAccountDefinitions fin_env ?c (fin_world fin_db) = (Inr (\<lambda>c. if c \<in> set ?c then map_of platform_accounts c else None), ?w)"
    by (simp add: GetAccountDefinitions_def query_def db_call_def Let_def fin_world_def)
  have "\<exists>k. write_journal fin_env 7 fee_request (hashJournalPayloadV1 fee_request) None None replay ?w
      = (Inr (fee_row, sortPostedJournalEntries fee_entries), ?w\<lparr>steps := k,
          db := (fin_db\<lparr>journals := [fee_row]\<rparr>)\<lparr>journal_entries := journal_entries (fin_db\<lparr>journals := [fee_row]\<rparr>) @ fee_entries\<rparr>\<rparr>)"
      for replay
  proof (rule write_fresh)
    show "prepare_entries fin_env (pp_entries fee_request) (?w\<lparr>steps := Suc (steps ?w)\<rparr>) = (Inr fee_prepared, ?w\<lparr>steps := Suc (Suc (Suc (Suc 0)))\<rparr>)"
      by (simp add: fee_request_def fee_prepared_def run_simps)
    show "insert_journal 7 ((1000 + int (Suc (Suc (Suc (Suc (Suc 0)))))) * second)
        (prepared_row (new_uuid fin_env (steps ?w)) fee_request (hashJournalPayloadV1 fee_request) None None) (db ?w)
        = (Inr (Some fee_row), fin_db\<lparr>journals := [fee_row]\<rparr>)"
      using fee_insert by (simp add: fin_world_def)
  qed (simp_all add: find_journal_def query_row_def fee_row_def prepared_row_def fee_prepared_def fee_request_def
      ownerless_def platform_accounts_def uid_def fin_db_def fee_entries_def fin_world_def)
  note run = this [unfolded fee_sorted(1)]
  have "fee_db = (fin_db\<lparr>journals := [fee_row]\<rparr>)\<lparr>journal_entries := journal_entries (fin_db\<lparr>journals := [fee_row]\<rparr>) @ fee_entries\<rparr>"
    by (simp add: fee_db_def with_journal_def fin_db_def)
  then show ?thesis
    using run
    by (simp add: PostJournal_def run_simps lift_res_def fee_request_valid acc fee_request_dims del: set_simps)
qed

text \<open>Reversing it in a later transaction.\<close>

definition undo_params :: post_params where
  "undo_params = \<lparr>pp_event_key = reversal_prefix @ uid CHR ''b'', pp_event_type = JournalReversalEventType,
     pp_booking = Some (uid CHR ''1''), pp_owner = None, pp_venue = None, pp_effective_at = 950 * second,
     pp_created_by = None, pp_description = None, pp_metadata = [],
     pp_entries = [\<lparr>pe_account = ''BANK_CASH'', pe_owner = None, pe_side = CREDIT, pe_amount = 5000\<rparr>,
       \<lparr>pe_account = ''UNEARNED_SERVICE_FEE'', pe_owner = None, pe_side = DEBIT, pe_amount = 5000\<rparr>]\<rparr>"

definition undo_hash :: string where
  "undo_hash = hashJournalPayloadV1WithReversal undo_params (Some (uid CHR ''b'')) (Some (rp_reason undo_request))"

definition undo_row :: journal_row where
  "undo_row = (prepared_row (uid CHR ''f'') undo_params undo_hash (Some (uid CHR ''b'')) (Some (rp_reason undo_request)))
     \<lparr>jr_posted_at := 1009 * second, jr_txid := 8\<rparr>"

definition undo_prepared :: "(string \<times> post_entry) list" where
  "undo_prepared = zip [uid CHR ''a'', uid CHR ''b''] (pp_entries undo_params)"

definition undo_entries :: "journal_entry list" where
  "undo_entries = map (entry_row (uid CHR ''f'') (1000 * second)) undo_prepared"

definition undo_db :: finance_db where
  "undo_db = with_journal undo_row undo_entries fee_db"

lemma undo_request_normal: "normalizeReverseJournalParams fin_env undo_request = Inr undo_request"
proof -
  have "is_canonical_uuid (uid CHR ''b'')" "truncate_us (950 * second) = 950 * second" "\<not> is_zero (950 * second)" by code_simp+
  moreover have "trim_space ''refunded'' = ''refunded''" by (rule trim_space_graphic) (simp_all add: graphic_def)
  ultimately show ?thesis
    by (simp add: normalizeReverseJournalParams_def undo_request_def canonicalOptionalUUID_def rbind_def)
qed

lemma undo_request_valid:
  "validateAndNormalizeReversalJournal fin_env undo_params = Inr (undo_params, [''BANK_CASH'', ''UNEARNED_SERVICE_FEE''])"
  "validateJournalAccountDimensions undo_params (\<lambda>c. if c \<in> set [''BANK_CASH'', ''UNEARNED_SERVICE_FEE'']
     then map_of platform_accounts c else None) = Inr ()"
  "sortPostedJournalEntries undo_entries = undo_entries"
  "account_codes (map entry_params fee_entries) = [''BANK_CASH'', ''UNEARNED_SERVICE_FEE'']"
  by code_simp+

lemma undo_request_posed: "well_posed (rp_metadata undo_request) (rp_effective_at undo_request)"
  by code_simp

lemma fee_db_fields:
  "journals fee_db = [fee_row]" "journal_entries fee_db = fee_entries" "booking_ids fee_db = [uid CHR ''1'']"
  "owner_ids fee_db = []" "venue_ids fee_db = []" "user_ids fee_db = []"
  "entries_of fee_db (uid CHR ''b'') = fee_entries" "map je_id fee_entries = [uid CHR ''c'', uid CHR ''d'']"
  by (simp_all add: fee_db_def with_journal_def fin_db_def entries_of_def fee_entries_def fee_prepared_def fee_request_def
      entry_row_def)

lemma fee_row_fields:
  "jr_id fee_row = uid CHR ''b''" "jr_reverses fee_row = None" "jr_txid fee_row = 7" "jr_event_key fee_row = pp_event_key fee_request"
  "jr_payload_hash fee_row = hashJournalPayloadV1 fee_request" "jr_reason fee_row = None"
  "jr_hash_version fee_row = JournalPayloadHashVersionV1" "jr_currency fee_row = JournalCurrencyIDR"
  by (simp_all add: fee_row_def prepared_row_def)

lemma fee_stored: "postJournalParamsFromPostedJournal (fee_row, fee_entries) = fee_request"
  by (simp add: postJournalParamsFromPostedJournal_def fee_row_def prepared_row_def fee_entries_def fee_prepared_def
      fee_request_def entry_params_def entry_row_def)

lemma undo_of_fee: "reversal_params (fee_row, fee_entries) undo_request = undo_params"
  by (simp add: reversal_params_def fee_row_def prepared_row_def fee_request_def undo_params_def undo_request_def
      invertPostedJournalEntries_def fee_entries_def fee_prepared_def entry_params_def entry_row_def invertJournalSide_def)

lemma fee_replays:
  "replayExistingJournal fin_env (fee_row, fee_entries) fee_request (hashJournalPayloadV1 fee_request)
     (\<lambda>c. if c \<in> set [''BANK_CASH'', ''UNEARNED_SERVICE_FEE''] then map_of platform_accounts c else None)
     = Inr (fee_row, fee_entries)"
proof -
  have "\<not> list_ex (\<lambda>e. je_journal e \<noteq> uid CHR ''b'' \<or> uuid_parse fin_env (je_id e) = None) fee_entries" by code_simp
  moreover have "uuid_parse fin_env (uid CHR ''b'') = Some (uid CHR ''b'')" by code_simp
  ultimately show ?thesis
    by (simp add: replayExistingJournal_def fee_row_fields fee_stored or_integrity_def fee_request_valid fee_request_dims
        fee_sorted del: set_simps fin_env_simps)
qed

lemma undo_checks: "failed_check (journal_checks undo_row) = None"
proof -
  have "length (reversal_prefix @ uid CHR ''b'') \<noteq> 0 \<and> length (reversal_prefix @ uid CHR ''b'') \<le> 191
      \<and> matches_event_key (reversal_prefix @ uid CHR ''b'')
      \<and> matches_event_type (pp_event_type undo_params) \<and> validate_platform_journal_metadata (pp_metadata undo_params)
      \<and> pp_event_key undo_params = reversal_prefix @ uid CHR ''b'' \<and> btrimmed (rp_reason undo_request)
      \<and> rp_reason undo_request \<noteq> [] \<and> length (rp_reason undo_request) \<le> 500 \<and> pp_effective_at undo_params \<le> 1009 * second"
    by code_simp
  then show ?thesis
    using sha256_hex_shape
    by (simp add: no_failed_check journal_checks_def undo_row_def prepared_row_def undo_hash_def
        hashJournalPayloadV1WithReversal_def list_all_iff Suc_le_eq)
qed

lemma undo_insert:
  "insert_journal 8 (1009 * second) (prepared_row (uid CHR ''f'') undo_params undo_hash (Some (uid CHR ''b''))
     (Some (rp_reason undo_request))) fee_db = (Inr (Some undo_row), fee_db\<lparr>journals := [fee_row, undo_row]\<rparr>)"
proof -
  have fields: "jr_booking undo_row = Some (uid CHR ''1'')" "jr_owner undo_row = None" "jr_venue undo_row = None"
    "jr_created_by undo_row = None" "jr_reverses undo_row = Some (uid CHR ''b'')" "jr_id undo_row = uid CHR ''f''"
    "jr_event_key undo_row = pp_event_key undo_params"
    by (simp_all add: undo_row_def prepared_row_def undo_params_def)
  have keys: "pp_event_key fee_request \<noteq> pp_event_key undo_params" "uid CHR ''b'' \<noteq> uid CHR ''f''" by code_simp+
  have "find_journal fee_db (uid CHR ''b'') = Some fee_row"
    by (simp add: find_journal_def query_row_def fee_db_fields fee_row_fields)
  then have "reversal_source_error 8 fee_db undo_row = None"
    by (simp add: reversal_source_error_def fields fee_row_fields)
  then show ?thesis
    unfolding insert_journal_def Let_def undo_row_def [symmetric]
    using undo_checks keys by (simp add: fields fee_db_fields fee_row_fields refers_def sql_exists_def)
qed

lemma fee_undone:
  "\<exists>k. ReverseJournal fin_env 8 undo_request (fin_world fee_db)
    = (Inr (undo_row, undo_entries), (fin_world fee_db)\<lparr>steps := k, db := undo_db\<rparr>)"
proof -
  let ?c = "[''BANK_CASH'', ''UNEARNED_SERVICE_FEE'']"
  let ?defs = "\<lambda>c. if c \<in> set ?c then map_of platform_accounts c else None"
  let ?w = "\<lambda>n. (fin_world fee_db)\<lparr>steps := n\<rparr>"
  let ?d = "fee_db\<lparr>journals := [fee_row, undo_row]\<rparr>"
  have load: "GetJournalByIDForReversal fin_env (rp_journal_id undo_request) (fin_world fee_db)
      = (Inr (fee_row, fee_entries), ?w (Suc (Suc (Suc 0))))"
    by (simp add: GetJournalByIDForReversal_def loadJournalOptional_def query_def db_call_def lock_wait_def run_simps Let_def
        query_row_def undo_request_def fin_world_def fee_db_fields fee_row_fields deref_def fee_sorted)
  have acc: "GetAccountDefinitions fin_env ?c (?w (Suc (Suc (Suc 0)))) = (Inr ?defs, ?w (Suc (Suc (Suc (Suc 0)))))"
    by (simp add: GetAccountDefinitions_def query_def db_call_def Let_def)
  have no: "GetReversalBySourceID fin_env (uid CHR ''b'') (?w (Suc (Suc (Suc (Suc 0))))) = (Inr None, ?w (Suc (Suc (Suc (Suc (Suc 0))))))"
    by (simp add: GetReversalBySourceID_def loadJournalOptional_def query_def db_call_def run_simps Let_def query_row_def
        fin_world_def fee_db_fields fee_row_fields)
  have "\<exists>k. write_journal fin_env 8 undo_params undo_hash (Some (uid CHR ''b'')) (Some (rp_reason undo_request)) replay
      (?w (Suc (Suc (Suc (Suc (Suc 0)))))) = (Inr (undo_row, sortPostedJournalEntries undo_entries), (?w (Suc (Suc (Suc (Suc (Suc 0))))))\<lparr>steps := k,
          db := ?d\<lparr>journal_entries := journal_entries ?d @ undo_entries\<rparr>\<rparr>)" for replay
  proof (rule write_fresh)
    show "prepare_entries fin_env (pp_entries undo_params) ((?w (Suc (Suc (Suc (Suc (Suc 0))))))\<lparr>steps := Suc (steps (?w (Suc (Suc (Suc (Suc (Suc 0)))))))\<rparr>)
        = (Inr undo_prepared, (?w (Suc (Suc (Suc (Suc (Suc 0))))))\<lparr>steps := Suc (Suc (Suc (Suc (Suc (Suc (Suc (Suc 0)))))))\<rparr>)"
      by (simp add: undo_params_def undo_prepared_def run_simps)
    show "insert_journal 8 ((1000 + int (Suc (Suc (Suc (Suc (Suc (Suc (Suc (Suc (Suc 0)))))))))) * second)
        (prepared_row (new_uuid fin_env (steps (?w (Suc (Suc (Suc (Suc (Suc 0)))))))) undo_params undo_hash (Some (uid CHR ''b'')) (Some (rp_reason undo_request)))
        (db (?w (Suc (Suc (Suc (Suc (Suc 0))))))) = (Inr (Some undo_row), ?d)"
      using undo_insert by (simp add: fin_world_def)
    show "find_journal ?d (new_uuid fin_env (steps (?w (Suc (Suc (Suc (Suc (Suc 0)))))))) = Some undo_row"
      by (simp add: find_journal_def query_row_def fee_row_fields undo_row_def prepared_row_def uid_def)
    show "fst ` set undo_prepared \<inter> je_id ` set (journal_entries ?d) = {}"
      using fee_db_fields(8) by (simp add: fee_db_fields undo_prepared_def undo_params_def uid_def flip: set_map)
  qed (simp_all add: undo_row_def undo_prepared_def undo_params_def ownerless_def platform_accounts_def uid_def
      undo_entries_def fin_world_def)
  note run = this [unfolded undo_request_valid(3)]
  have "undo_db = ?d\<lparr>journal_entries := journal_entries ?d @ undo_entries\<rparr>"
    by (simp add: undo_db_def with_journal_def fee_db_fields)
  then show ?thesis
    using run
    by (simp add: ReverseJournal_def reverse_source_def run_simps lift_res_def undo_request_normal undo_request_valid load acc no fee_row_fields fee_stored
        fee_replays undo_of_fee undo_hash_def Let_def del: set_simps)
qed

end
