(* ===== verification/JournalProperties.thy ===== *)
theory JournalProperties
  imports JournalScenario
begin

text \<open>The properties of the platform finance journal.\<close>

subsection \<open>Sums over the ledger\<close>

lemma sum_none: "a \<notin> set is \<Longrightarrow> (\<Sum>i\<leftarrow>is. if i = a then c else 0) = (0 :: int)"
  by (induction "is") auto

lemma sum_single: "distinct is \<Longrightarrow> a \<in> set is \<Longrightarrow> (\<Sum>i\<leftarrow>is. if i = a then c else 0) = (c :: int)"
  by (induction "is") (auto simp: sum_none)

lemma side_total_grouped:
  assumes "distinct is" "\<forall>e \<in> set es. je_journal e \<in> set is"
  shows "side_total s es = (\<Sum>i\<leftarrow>is. side_total s (filter (\<lambda>e. je_journal e = i) es))"
  using assms(2)
proof (induction es)
  case Nil
  show ?case by (simp add: side_total_def)
next
  case (Cons e es)
  let ?c = "side_total s [e]"
  have "side_total s (filter (\<lambda>e. je_journal e = i) (e # es))
      = (if i = je_journal e then ?c else 0) + side_total s (filter (\<lambda>e. je_journal e = i) es)" for i
    by (simp add: side_total_def)
  then have "(\<Sum>i\<leftarrow>is. side_total s (filter (\<lambda>e. je_journal e = i) (e # es)))
      = (\<Sum>i\<leftarrow>is. if i = je_journal e then ?c else 0) + (\<Sum>i\<leftarrow>is. side_total s (filter (\<lambda>e. je_journal e = i) es))"
    by (simp only: sum_list_addf)
  also have "(\<Sum>i\<leftarrow>is. if i = je_journal e then ?c else 0) = ?c"
    by (rule sum_single [OF assms(1)]) (use Cons.prems in simp)
  also have "(\<Sum>i\<leftarrow>is. side_total s (filter (\<lambda>e. je_journal e = i) es)) = side_total s es"
    using Cons by simp
  also have "?c + side_total s es = side_total s (e # es)" by (simp add: side_total_def)
  finally show ?case by (rule sym)
qed

lemma trial_balance:
  assumes "ledger_sound E d"
  shows "side_total DEBIT (journal_entries d) = side_total CREDIT (journal_entries d)"
proof -
  let ?is = "map jr_id (journals d)"
  have "side_total s (journal_entries d) = (\<Sum>j\<leftarrow>journals d. side_total s (entries_of d (jr_id j)))" for s
    using side_total_grouped [of ?is "journal_entries d" s] assms
    by (simp add: ledger_sound_def entries_of_def comp_def)
  moreover have "side_total DEBIT (entries_of d (jr_id j)) = side_total CREDIT (entries_of d (jr_id j))" if "j \<in> set (journals d)" for j
    using assms that by (intro sound_balanced [of E]) (simp add: ledger_sound_def)
  ultimately show ?thesis by (simp cong: map_cong)
qed

text \<open>The balance of an account and owner over some entries.\<close>

definition fact_value :: "string \<Rightarrow> string option \<Rightarrow> string \<times> string option \<times> string \<times> i64 \<Rightarrow> int" where
  "fact_value a u f = (case f of (b, v, s, m) \<Rightarrow> if b = a \<and> v = u then (if s = DEBIT then sint m else - sint m) else 0)"

definition net :: "string \<Rightarrow> string option \<Rightarrow> journal_entry list \<Rightarrow> int" where
  "net a u es = (\<Sum>e\<leftarrow>es. fact_value a u (entry_facts e))"

lemma net_inverse:
  assumes "mset (map entry_facts es) = mset (map inverse_facts ss)"
  shows "net a u es = - net a u ss"
proof -
  have flip: "fact_value a u (inverse_facts e) = - fact_value a u (entry_facts e)" for e
    by (simp add: fact_value_def inverse_facts_def entry_facts_def invertJournalSide_def)
  have "net a u es = sum_mset (image_mset (fact_value a u) (mset (map entry_facts es)))"
    by (simp add: net_def sum_mset_sum_list comp_def flip: mset_map)
  also have "\<dots> = (\<Sum>e\<leftarrow>ss. fact_value a u (inverse_facts e))"
    unfolding assms by (simp add: sum_mset_sum_list comp_def flip: mset_map)
  also have "\<dots> = - net a u ss" unfolding flip net_def by (induction ss) simp_all
  finally show ?thesis .
qed

subsection \<open>Requests\<close>

text \<open>
  C37. Validation over 64-bit running totals accepts exactly the requests that are balanced, within
  range and well formed when their amounts are added as unbounded integers: no sum wraps. What it returns is the
  normal form of the request, which it accepts again unchanged.\<close>

theorem journal_validation_exact:
  "(validateAndNormalizeJournalInternal E p r = Inr (n, codes) \<longleftrightarrow>
      acceptable E r p \<and> n = canonical_params E p \<and> codes = account_codes (pp_entries n))
   \<and> (uuid_texts E \<and> truncate_us (pp_effective_at p) \<noteq> 0 \<and> validateAndNormalizeJournalInternal E p r = Inr (n, codes)
      \<longrightarrow> validateAndNormalizeJournalInternal E n r = Inr (n, codes))"
  using validate_iff [of E p r n codes] validate_iff [of E n r n codes] canonical_acceptable [of E r p] by metis

lemma journal_validation_exact_witness:
  "validateAndNormalizeJournalInternal fin_env fee_request False = Inr (fee_request, [''BANK_CASH'', ''UNEARNED_SERVICE_FEE''])
   \<and> acceptable fin_env False fee_request"
proof -
  have run: "validateAndNormalizeJournalInternal fin_env fee_request False = Inr (fee_request, [''BANK_CASH'', ''UNEARNED_SERVICE_FEE''])"
    using fee_request_valid by (simp only: validateAndNormalizeJournal_def)
  show ?thesis
    using journal_validation_exact [of fin_env fee_request False fee_request "[''BANK_CASH'', ''UNEARNED_SERVICE_FEE'']"] run by blast
qed

subsection \<open>The ledger\<close>

lemma posting_commits:
  assumes "uuid_package E" "env_guar (ledger_kept E) E"
    and "m = PostJournal E x p \<and> well_posed (pp_metadata p) (pp_effective_at p)
       \<or> m = ReverseJournal E x r \<and> well_posed (rp_metadata r) (rp_effective_at r)"
  shows "commits (ledger_kept E) m"
  using assms(3) commits_PostJournal [OF assms(1,2)] commits_ReverseJournal [OF assms(1,2)] by auto

lemma accepted_at_commit:
  assumes "commits (ledger_kept E) m" "m w = (Inr q, w')" "ledger_sound E (db w)"
  shows "first_refusal (db w') (filter (\<lambda>j. jr_txid j = x) (journals (db w'))) = None"
  using commits_Inr [OF assms(1,2)] assms(3) by (intro sound_no_refusal [of E]) (auto simp: ledger_kept_def)

text \<open>
  C38. Posting and reversing, each in a transaction with the deferred triggers at its commit, keep the ledger:
  every journal stays balanced over known accounts, hashed, in normal form, and a reversal the exact inverse of
  one journal; rows are only appended, never to an older journal; all debits equal all credits; and
  whenever the operation returns, the deferred triggers accept what it wrote. This holds whatever fails and whatever other
  sessions commit, as long as they keep the ledger too.\<close>

theorem ledger_stays_balanced:
  assumes "uuid_package E" "env_guar (ledger_kept E) E" "ledger_sound E (db w)" "db w = base w"
    and "m = PostJournal E x p \<and> well_posed (pp_metadata p) (pp_effective_at p)
       \<or> m = ReverseJournal E x r \<and> well_posed (rp_metadata r) (rp_effective_at r)"
    and "finance_tx E x m w = (result, w')"
  shows "appended (db w) (db w') \<and> ledger_sound E (db w')
    \<and> side_total DEBIT (journal_entries (db w')) = side_total CREDIT (journal_entries (db w'))
    \<and> (\<forall>v q v'. ledger_sound E (db v) \<and> m v = (Inr q, v')
        \<longrightarrow> first_refusal (db v') (filter (\<lambda>j. jr_txid j = x) (journals (db v'))) = None)"
proof -
  note m = posting_commits [OF assms(1,2,5)]
  have "ledger_kept E (db w) (db (snd (finance_tx E x m w)))"
    using top_finance_tx [OF assms(2) m, of x] assms(4) unfolding top_guar_def by blast
  then have "ledger_kept E (db w) (db w')" using assms(6) by simp
  then have "appended (db w) (db w')" "ledger_sound E (db w')" using assms(3) by (simp_all add: ledger_kept_def)
  then show ?thesis using trial_balance accepted_at_commit [OF m] by blast
qed

lemma ledger_stays_balanced_witness:
  "\<exists>result w'. finance_tx fin_env 7 (PostJournal fin_env 7 fee_request) (fin_world fin_db) = (result, w')
     \<and> side_total DEBIT (journal_entries (db w')) = side_total CREDIT (journal_entries (db w'))
     \<and> first_refusal fee_db (filter (\<lambda>j. jr_txid j = 7) (journals fee_db)) = None"
proof -
  let ?m = "PostJournal fin_env 7 fee_request"
  obtain result w' where run: "finance_tx fin_env 7 ?m (fin_world fin_db) = (result, w')" by (cases "finance_tx fin_env 7 ?m (fin_world fin_db)")
  obtain k where post: "?m (fin_world fin_db) = (Inr (fee_row, fee_entries), (fin_world fin_db)\<lparr>steps := k, db := fee_db\<rparr>)"
    using fee_posted by blast
  have start: "ledger_sound fin_env (db (fin_world fin_db))" "db (fin_world fin_db) = base (fin_world fin_db)"
    using fin_db_sound by (simp_all add: fin_world_def)
  have "?m = PostJournal fin_env 7 fee_request \<and> well_posed (pp_metadata fee_request) (pp_effective_at fee_request)
    \<or> ?m = ReverseJournal fin_env 7 undo_request \<and> well_posed (rp_metadata undo_request) (rp_effective_at undo_request)"
    using fee_request_posed by blast
  note all = ledger_stays_balanced [OF fin_uuid_package fin_env_guar start this run]
  have "first_refusal (db ((fin_world fin_db)\<lparr>steps := k, db := fee_db\<rparr>))
     (filter (\<lambda>j. jr_txid j = 7) (journals (db ((fin_world fin_db)\<lparr>steps := k, db := fee_db\<rparr>)))) = None"
    using all post start(1) by blast
  then show ?thesis using run all by auto
qed

subsection \<open>Posting again\<close>

lemma sorted_again:
  assumes "ledger_sound E d" "mset es = mset (entries_of d i)"
  shows "sortPostedJournalEntries es = sortPostedJournalEntries (entries_of d i)"
  unfolding sortPostedJournalEntries_def
proof (rule sort_key_perm [OF assms(2)])
  have "inj_on je_id (set (journal_entries d))" using assms(1) by (simp add: ledger_sound_def distinct_map)
  moreover have "set es \<subseteq> set (journal_entries d)" using mset_eq_setD [OF assms(2)] by (auto simp: entries_of_def)
  ultimately show "inj_on posted_order (set es)" by (auto simp: inj_on_def posted_order_def)
qed

text \<open>What a successful posting leaves: the journal it returns is stored, and the tables answer a replay with it.\<close>

lemma posted_answers:
  assumes E: "uuid_package E" "env_guar (ledger_kept E) E" and d: "ledger_sound E (db w)"
    and p: "well_posed (pp_metadata p) (pp_effective_at p)"
    and run: "PostJournal E x p w = (Inr (j, es), w')" and n: "n = canonical_params E p"
  shows "acceptable E False p" "dimensioned n" "ledger_sound E (db w')" "j \<in> set (journals (db w'))" "jr_event_key j = pp_event_key n"
    "replayExistingJournal E (j, sort_key load_order (entries_of (db w') (jr_id j))) n (hashJournalPayloadV1 n)
       (looked_up (pp_entries n)) = Inr (j, es)"
proof -
  show inv: "ledger_sound E (db w')"
    using commits_Inr [OF commits_PostJournal [OF E p] run] d by (simp add: ledger_kept_def)
  obtain k d1 where d1: "d1 = interfere E k (db w)" and acc: "acceptable E False p" "dimensioned n"
    and result: "posted_new E x n (hashJournalPayloadV1 n) None None d1 (db w') (j, es)
       \<or> db w' = d1 \<and> replay_answer E d1 n (j, es)"
    using PostJournal_Inr [OF run] unfolding n by blast
  show "acceptable E False p" "dimensioned n" by (fact acc)+
  have "j \<in> set (journals (db w')) \<and> jr_event_key j = pp_event_key n \<and>
    replayExistingJournal E (j, sort_key load_order (entries_of (db w') (jr_id j))) n (hashJournalPayloadV1 n)
       (looked_up (pp_entries n)) = Inr (j, es)"
    using result
  proof
    assume "db w' = d1 \<and> replay_answer E d1 n (j, es)"
    then show ?thesis by (auto simp: replay_answer_def dest: replayExistingJournal_Inr)
  next
    assume new: "posted_new E x n (hashJournalPayloadV1 n) None None d1 (db w') (j, es)"
    have "ledger_sound E d1" using E(2) d by (auto simp: env_guar_def d1 ledger_kept_def)
    then have rows: "\<forall>e \<in> set (journal_entries d1). je_journal e \<in> jr_id ` set (journals d1)" by (simp add: ledger_sound_def)
    note f = new_stored_params [OF new rows]
    have j: "j \<in> set (journals (db w'))" using f by (auto simp: with_journal_def)
    then have "replayable E (db w') j" using inv by (simp add: ledger_sound_def journal_sound_def)
    then have "replayExistingJournal E (j, sort_key load_order (entries_of (db w') (jr_id j))) n (hashJournalPayloadV1 n)
        (looked_up (pp_entries n)) = Inr (j, sortPostedJournalEntries (sort_key load_order (entries_of (db w') (jr_id j))))"
      using f E(1) by (intro stored_replays) (auto simp: uuid_package_def)
    moreover have "sortPostedJournalEntries (sort_key load_order (entries_of (db w') (jr_id j))) = es"
    proof -
      obtain rs where "es = sortPostedJournalEntries rs" "db w' = with_journal j rs d1" "fresh_rows j rs d1"
        using new by (auto simp: posted_new_def Let_def)
      then have "es = sortPostedJournalEntries (entries_of (db w') (jr_id j))"
        using with_journal_entries rows by simp
      then show ?thesis using sorted_again [OF inv, of "sort_key load_order (entries_of (db w') (jr_id j))" "jr_id j"] by simp
    qed
    moreover have "jr_event_key j = pp_event_key n"
      using f by (auto simp: stored_params_def postJournalParamsFromPostedJournal_def)
    ultimately show ?thesis using j by simp
  qed
  then show "j \<in> set (journals (db w'))" "jr_event_key j = pp_event_key n"
    "replayExistingJournal E (j, sort_key load_order (entries_of (db w') (jr_id j))) n (hashJournalPayloadV1 n)
       (looked_up (pp_entries n)) = Inr (j, es)" by blast+
qed

lemma later_replay:
  assumes "ledger_kept E d d'" "j \<in> set (journals d)"
  shows "j \<in> set (journals d')" "entries_of d' (jr_id j) = entries_of d (jr_id j)"
  using assms appended_entries [of d d' "jr_id j"] by (auto simp: ledger_kept_def appended_def)



subsection \<open>Reversals\<close>

lemma reversal_found:
  assumes d: "ledger_sound E d" and j: "j \<in> set (journals d)" "jr_event_key j = reversal_prefix @ jr_id s" "s \<in> set (journals d)"
  shows "inverts d j s"
proof -
  have sound: "journal_sound E d j" using d j(1) by (simp add: ledger_sound_def)
  have "acceptable E (jr_reverses j \<noteq> None) (stored_params d j)" using sound by (simp add: journal_sound_def replayable_def Let_def)
  moreover have "pp_event_key (stored_params d j) = reversal_prefix @ jr_id s"
    using j(2) by (simp add: stored_params_def postJournalParamsFromPostedJournal_def)
  ultimately have "jr_reverses j \<noteq> None" by (auto simp: acceptable_def key_accepted_def)
  then obtain t where t: "t \<in> set (journals d)" "inverts d j t" using sound by (auto simp: journal_sound_def)
  then have "jr_id t = jr_id s" using j(2) by (simp add: inverts_def)
  then have "t = s" using d j(3) t(1) by (auto simp: ledger_sound_def distinct_map inj_on_def)
  then show ?thesis using t by simp
qed

text \<open>A journal returned by a reversal is in the tables and inverts the source of the request.\<close>

lemma reversal_returns:
  assumes E: "uuid_package E" "env_guar (ledger_kept E) E" and d: "ledger_sound E (db w)"
    and p: "well_posed (rp_metadata p) (rp_effective_at p)"
    and run: "ReverseJournal E x p w = (Inr (j, es), w')"
  shows "ledger_sound E (db w') \<and> j \<in> set (journals (db w')) \<and> mset es = mset (entries_of (db w') (jr_id j))
    \<and> (\<exists>s \<in> set (journals (db w')). uuid_parse E (rp_journal_id p) = Some (jr_id s) \<and> jr_txid s \<noteq> x \<and> inverts (db w') j s)"
proof -
  have inv: "ledger_sound E (db w')"
    using commits_Inr [OF commits_ReverseJournal [OF E p] run] d by (simp add: ledger_kept_def)
  from ReverseJournal_Inr [OF run] obtain k d1 s r n where d1: "d1 = interfere E k (db w)"
    and r: "normalizeReverseJournalParams E p = Inr r" and n: "reversal_request E x d1 s r n"
    and result: "db w' = d1 \<and> replayed d1 (reversal_prefix @ jr_id s) (reversal_hash s r n) (j, es)
       \<or> (\<exists>l d2. d2 = interfere E l d1 \<and> (db w' = d2 \<and> replayed d2 (reversal_prefix @ jr_id s) (reversal_hash s r n) (j, es)
            \<or> posted_new E x n (reversal_hash s r n) (Some (jr_id s)) (Some (rp_reason r)) d2 (db w') (j, es)))"
    by blast
  have s: "s \<in> set (journals d1)" "jr_id s = rp_journal_id r" "jr_txid s \<noteq> x" using n by (simp_all add: reversal_request_def)
  have source: "uuid_parse E (rp_journal_id p) = Some (jr_id s)"
    using r s(2) by (auto simp: normalizeReverseJournalParams_def rbind_Inr_iff split: option.splits if_splits)
  have sound1: "ledger_sound E d1" using E(2) d by (auto simp: env_guar_def d1 ledger_kept_def)
  have old: ?thesis if d2: "db w' = d2" "ledger_kept E d1 d2" "replayed d2 (reversal_prefix @ jr_id s) (reversal_hash s r n) (j, es)" for d2
  proof -
    have j: "j \<in> set (journals d2)" "jr_event_key j = reversal_prefix @ jr_id s" "mset es = mset (entries_of d2 (jr_id j))"
      using d2(3) by (simp_all add: replayed_def)
    moreover have "s \<in> set (journals d2)" by (rule later_replay(1) [OF d2(2) s(1)])
    moreover from this have "inverts d2 j s" using reversal_found inv j(1,2) by (simp add: d2(1))
    ultimately show ?thesis using inv source s(3) d2(1) by blast
  qed
  from result show ?thesis
  proof (elim disjE exE conjE)
    show "db w' = d1 \<Longrightarrow> replayed d1 (reversal_prefix @ jr_id s) (reversal_hash s r n) (j, es) \<Longrightarrow> ?thesis"
      using old [of d1] by (simp add: ledger.R_refl)
    fix l d2 assume d2: "d2 = interfere E l d1"
    then have kept: "ledger_kept E d1 d2" using E(2) by (simp add: env_guar_def)
    show "db w' = d2 \<Longrightarrow> replayed d2 (reversal_prefix @ jr_id s) (reversal_hash s r n) (j, es) \<Longrightarrow> ?thesis"
      using old [OF _ kept] by blast
    assume new: "posted_new E x n (reversal_hash s r n) (Some (jr_id s)) (Some (rp_reason r)) d2 (db w') (j, es)"
    have "ledger_sound E d2" "appended d1 d2" using kept sound1 by (simp_all add: ledger_kept_def)
    then have rows: "\<forall>e \<in> set (journal_entries d2). je_journal e \<in> jr_id ` set (journals d2)" by (simp add: ledger_sound_def)
    have "inverts (db w') j s \<and> s \<in> set (journals (db w'))"
      by (rule new_inverts [OF sound1 \<open>appended d1 d2\<close> r n new rows])
    moreover have "j \<in> set (journals (db w'))" "mset es = mset (entries_of (db w') (jr_id j))"
      using new_stored_params [OF new rows] by (auto simp: with_journal_def)
    ultimately show ?thesis using inv source s(3) by blast
  qed
qed

text \<open>
  C40. A reversal that returns, fresh or replayed, is the one exact inverse of the journal it names: the named
  journal was posted in another transaction and is no reversal itself, the two have the same references, no
  other journal reverses it, and for every account and owner the entries of the two add up to zero.\<close>

theorem reversal_exact_inverse:
  assumes "uuid_package E" "env_guar (ledger_kept E) E" "ledger_sound E (db w)"
    and "well_posed (rp_metadata p) (rp_effective_at p)" "ReverseJournal E x p w = (Inr (j, es), w')"
  shows "j \<in> set (journals (db w')) \<and> mset es = mset (entries_of (db w') (jr_id j))
    \<and> (\<exists>s \<in> set (journals (db w')). uuid_parse E (rp_journal_id p) = Some (jr_id s) \<and> jr_txid s \<noteq> x \<and> inverts (db w') j s
      \<and> (\<forall>k \<in> set (journals (db w')). jr_reverses k = Some (jr_id s) \<longrightarrow> k = j)
      \<and> (\<forall>a u. net a u (entries_of (db w') (jr_id j)) + net a u (entries_of (db w') (jr_id s)) = 0))"
proof -
  note r = reversal_returns [OF assms]
  then obtain s where s: "s \<in> set (journals (db w'))" "uuid_parse E (rp_journal_id p) = Some (jr_id s)" "jr_txid s \<noteq> x"
    "inverts (db w') j s" by blast
  then have "jr_reverses j = Some (jr_id s)" by (simp add: inverts_def)
  then have "k = j" if "k \<in> set (journals (db w'))" "jr_reverses k = Some (jr_id s)" for k
    using r that unfolding ledger_sound_def by (metis option.distinct(1))
  moreover have "net a u (entries_of (db w') (jr_id j)) + net a u (entries_of (db w') (jr_id s)) = 0" for a u
    using net_inverse s(4) by (simp add: inverts_def)
  ultimately show ?thesis using r s by blast
qed

lemma fee_db_sound: "ledger_sound fin_env fee_db"
proof -
  obtain k where "PostJournal fin_env 7 fee_request (fin_world fin_db) = (Inr (fee_row, fee_entries), (fin_world fin_db)\<lparr>steps := k, db := fee_db\<rparr>)"
    using fee_posted by blast
  from commits_Inr [OF commits_PostJournal [OF fin_uuid_package fin_env_guar fee_request_posed] this] show ?thesis
    using fin_db_sound by (simp add: ledger_kept_def fin_world_def)
qed

lemma reversal_exact_inverse_witness:
  "\<exists>s \<in> set (journals undo_db). inverts undo_db undo_row s
     \<and> (\<forall>a u. net a u (entries_of undo_db (jr_id undo_row)) + net a u (entries_of undo_db (jr_id s)) = 0)"
proof -
  obtain k where undo: "ReverseJournal fin_env 8 undo_request (fin_world fee_db)
      = (Inr (undo_row, undo_entries), (fin_world fee_db)\<lparr>steps := k, db := undo_db\<rparr>)"
    using fee_undone by blast
  have start: "ledger_sound fin_env (db (fin_world fee_db))" using fee_db_sound by (simp add: fin_world_def)
  from reversal_exact_inverse [OF fin_uuid_package fin_env_guar start undo_request_posed undo] show ?thesis by auto
qed

end
