(* ===== verification/Spec2Isabelle.thy ===== *)
theory Spec2Isabelle
  imports OutboxProperties CaptureProperties Worker WebhookDelivery BookingProperties JournalProperties
begin

text \<open>
  \<^bold>\<open>Verification of the booking and payment core of LapanganGo\<close>

  LapanganGo lets customers book sports courts. The Go API under apps/api/internal keeps its
  state in PostgreSQL; this development models the packages that sell slots and move money,
  with the SQL they send and the triggers and constraints of db/migrations that guard the same
  tables. A slot is booked online or at the counter (bookings, with promos and the fee terms of
  platformfinance); it is paid either in the legacy flow, where the owner checks a proof of
  payment, or through a payment gateway: an attempt (payments) with a command in a transactional
  outbox (paymentoutbox), a worker that talks to the provider (paymentworker), and an inbox for
  the provider's webhooks (paymentwebhooks, paymentwebhookprocessor). A paid booking can be refunded on request
  (refunds). The platform's own double-entry journal (platformfinance) is kept beside these tables.

  \<^bold>\<open>How programs are modelled\<close>

  \<^item> Tx: a statement is a function of the world (tables, state a rollback restores,
    number of steps taken, time of the transaction) that returns an error or a value. The
    environment decides which statements fail, what the clock says, which ids are drawn, and what other
    sessions commit when a transaction begins, waits for a lock or reads outside a transaction. Between the
    statements of a transaction the model lets no other session in: the code takes its row or advisory locks
    first. Handlers compose statements as the Go functions do; an error rolls back. \<open>guar R\<close>, \<open>top_guar R\<close> and, in
    Commits, \<open>commits R\<close> say that a computation respects a preorder \<open>R\<close> of table states
    whatever fails and whatever other sessions that respect \<open>R\<close> do; the locale \<open>table_order\<close>
    has the rule for every combinator.
  \<^item> Prelude, Int64, Float64, Calendar, Sha256: the parts of Go and PostgreSQL the code leans on: string
    functions, 64-bit wrap-around, IEEE doubles as rationals with their rounding, dates and times of day, the hash.
  \<^item> Database: rows and errors. A Go struct is a record, a status column with a CHECK list a datatype, a
    table a list of rows; NUMERIC is \<open>rat\<close>, BIGINT \<open>int\<close>, time is nanoseconds since year 1.

  \<^bold>\<open>Theories and the code they follow\<close>

  \<^item> FeeCalculator: platformfinance/calculator.go. C1, C2: the 64-bit calculator refines exact
    arithmetic with commission rounded half up, and conserves money.
  \<^item> PlatformAudit, ProviderIdentity, PaymentDto: audit/platform_dto.go (payment actions),
    provideridentity/policy.go, payments/dto.go. C9: the strict amount parser inverts printing.
  \<^item> Outbox, OutboxLifecycle, OutboxProperties: paymentoutbox. A command goes from pending through leases to an end; lease
    tokens fence stale workers; enqueueing is idempotent; the updates pass the trigger of migration 026.
  \<^item> FlowGuards, PaymentAttempts, AttemptLifecycle, CaptureRuns, CaptureProperties:
    payments/repository.go and the triggers of migrations 025, 028 and 030. The attempt's state machine is an inductive
    relation; attempts, capture facts, audit rows and paid bookings stay consistent.
  \<^item> RetryPolicy, WorkerDecision, Processor, ProcessorSafety, ProcessorProperties, Worker: paymentworker. Decisions
    are pure functions; the provider is a parameter (any function of the request); \<open>Process\<close> never leaves a lease
    behind when it succeeds.
  \<^item> WebhookInbox, JsonTokens, WebhookService, WebhookProcessor, WebhookSafety, WebhookProperties,
    WebhookDelivery: paymentwebhooks and paymentwebhookprocessor. The verifier and the parser of the provider are parameters.
  \<^item> BookingPricing, Promos, BookingSnapshots, Bookings, BookingFlow, BookingService: bookings/service.go,
    bookings/repository.go, bookings/snapshot_orchestrator.go, bookings/finance_helpers.go, promos/service.go,
    platformfinance/commercial_term_resolver.go and booking_fee_snapshot_repository.go. BookingCreation inverts a successful
    creation; BookingSafety states the two invariants, the books and the slots; BookingGuarantees has the locale
    \<open>booking_relation\<close>, whose laws the single steps satisfy and whose lemmas cover every
    operation of the service, with an interpretation for each invariant; BookingProperties has the claims.
  \<^item> Refunds: refunds/service.go and refunds/repository.go. Its operations join the locale \<open>booking_relation\<close>, so
    both booking invariants cover them.
  \<^item> Journal, JournalHash, JournalStore, JournalService: platformfinance/journal_service.go, journal_hash.go,
    journal_repository.go, journal_replay.go and journal_reversal.go over a state of their own, \<open>finance_db\<close>, with the checks and
    triggers of migrations 022 and 023. JournalFacts specifies the accepted requests over unbounded integers;
    JournalSafety has the invariant \<open>ledger_sound\<close>; JournalRuns inverts successful runs and shows that both operations
    keep it; JournalReplay and JournalAgain run a request whose key is taken; JournalProperties has C37 to C40.
  \<^item> Scenario, CaptureScenario, WorkerScenario, BookingScenario, JournalScenario: concrete deployments on which the
    witnesses run.

  \<^bold>\<open>Bounds and fuel\<close>

  Loops over rows and bytes are structural or have a measure. The polling loops of the two payment
  workers (\<open>StartInbox\<close>, the worker of Worker) run for a given number of rounds; C29 shows how many rounds drain the
  inbox. \<open>trim_left\<close> uses the length of the string as fuel, which is enough because every round
  removes a byte. \<open>ilog2\<close> of Float64 counts down a bound computed from the numerator and the denominator.

  \<^bold>\<open>Not modelled\<close>

  \<^item> Notifications: best effort in the code, their errors are dropped or logged.
  \<^item> List, detail and metrics queries, and the copies of rows into JSON responses: they change nothing.
  \<^item> The HTTP handlers, middleware, authentication, mail and file storage: glue to libraries.
  \<^item> The audited wrapper and the paginated reads of the journal, expenses, reconciliation and projections of
    platformfinance, and the CRUD services (venues, courts, schedules, staff, open matches, commercial terms, promos beyond their use).
  \<^item> The web front end under apps/web.

  \<^bold>\<open>What modelling showed\<close>

  \<^item> C13: a replay of a late capture pays the expired booking that the capture itself left unpaid.
  \<^item> C14: provider status codes the code accepts are refused by the CHECK constraint of the column.
  \<^item> C20: terminal adapter errors cannot be recorded, so the command is sent again after every lease.
  \<^item> C27: a conflicting replay of a verified webhook can never be recorded.
  \<^item> \<open>expired_booking_revived\<close> in BookingProperties: proof and confirmation ignore the expiry that
    \<open>CheckExistingBookings\<close> honours, which double books the slot until the sweep runs.
\<close>

end
